(* ===== verification/Prelude.thy ===== *)
theory Prelude
  imports Main "HOL-Library.Sublist" "HOL-Library.Char_ord" "HOL-Library.List_Lexorder"
begin

text \<open>
  Shared ground of the development: the part of Go's \<^verbatim>\<open>strings\<close>, \<^verbatim>\<open>sort\<close> and
  map library that the modelled sources call, as executable HOL functions, with the
  generic lemmas the component theories use.

  A Go string is a \<^typ>\<open>string\<close>, the list of its bytes. \<open>trimSpace\<close>, \<open>strFields\<close> and
  \<open>toLower\<close> are the library functions on ASCII bytes: a byte above 127 is neither white
  space nor an upper-case letter for them. A Go \<^verbatim>\<open>map\<close> is a partial function, and
  \<open>m k\<close> with the zero value for a missing key is \<open>mapGet\<close>.
\<close>

named_theorems go_string \<open>characteristic equations of the string library\<close>

type_synonym strmap = "string \<Rightarrow> string option"

section \<open>Characters\<close>

definition isSpace :: "char \<Rightarrow> bool" where
  "isSpace c \<longleftrightarrow> (let n = (of_char c :: nat) in n = 32 \<or> (9 \<le> n \<and> n \<le> 13))"

definition toLowerC :: "char \<Rightarrow> char" where
  "toLowerC c = (let n = (of_char c :: nat) in if 65 \<le> n \<and> n \<le> 90 then char_of (n + 32) else c)"

definition isAsciiLetter :: "char \<Rightarrow> bool" where
  "isAsciiLetter c \<longleftrightarrow> (let n = (of_char c :: nat) in (97 \<le> n \<and> n \<le> 122) \<or> (65 \<le> n \<and> n \<le> 90))"

definition isDigitC :: "char \<Rightarrow> bool" where
  "isDigitC c \<longleftrightarrow> (let n = (of_char c :: nat) in 48 \<le> n \<and> n \<le> 57)"

definition tabC :: char where "tabC = CHR 0x09"
definition newlineC :: char where "newlineC = CHR 0x0A"
definition returnC :: char where "returnC = CHR 0x0D"
definition squoteC :: char where "squoteC = CHR 0x27"
definition dquoteC :: char where "dquoteC = CHR 0x22"
definition backslashC :: char where "backslashC = CHR 0x5C"
definition backtickC :: char where "backtickC = CHR 0x60"

lemmas special_char_defs = tabC_def newlineC_def returnC_def squoteC_def dquoteC_def
  backslashC_def backtickC_def

text \<open>
  Text beyond ASCII, given by its Unicode code points in the basic multilingual plane and
  encoded as the UTF-8 bytes the Go source file holds.
\<close>

definition utf8_rune :: "int \<Rightarrow> string" where
  "utf8_rune n =
     (if n < 128 then [char_of n]
      else if n < 2048 then [char_of (192 + n div 64), char_of (128 + n mod 64)]
      else [char_of (224 + n div 4096), char_of (128 + n div 64 mod 64), char_of (128 + n mod 64)])"

definition utf8 :: "int list \<Rightarrow> string" where
  "utf8 ns = concat (map utf8_rune ns)"

text \<open>Bit-level code equations, so that kernel evaluation of the string functions is fast.\<close>

definition isUpperBits :: "char \<Rightarrow> bool" where
  "isUpperBits c \<longleftrightarrow> \<not> digit7 c \<and> digit6 c \<and> \<not> digit5 c \<and>
     (digit4 c \<or> digit3 c \<or> digit2 c \<or> digit1 c \<or> digit0 c) \<and>
     (\<not> (digit4 c \<and> digit3 c) \<or> (\<not> digit2 c \<and> (\<not> digit1 c \<or> \<not> digit0 c)))"

lemma toLowerC_bits:
  "\<forall>c. toLowerC c =
     (if isUpperBits c then Char (digit0 c) (digit1 c) (digit2 c) (digit3 c) (digit4 c) True True False else c)"
  by code_simp

lemma isSpace_chars:
  "\<forall>c. isSpace c = (c = CHR '' '' \<or> c = CHR 0x09 \<or> c = CHR 0x0A \<or> c = CHR 0x0B \<or> c = CHR 0x0C \<or> c = CHR 0x0D)"
proof
  fix c
  have char: "of_char c = n \<longleftrightarrow> c = char_of n" if "n < 256" for n :: nat
    using that by auto
  have "isSpace c \<longleftrightarrow> of_char c \<in> {32, 9, 10, 11, 12, 13 :: nat}" unfolding isSpace_def Let_def by auto
  then show "isSpace c = (c = CHR '' '' \<or> c = CHR 0x09 \<or> c = CHR 0x0A \<or> c = CHR 0x0B \<or> c = CHR 0x0C \<or> c = CHR 0x0D)"
    by (simp add: char char_of_def bit_numeral_rec bit_0)
qed

lemmas toLowerC_code [code] = toLowerC_bits [rule_format]
lemmas isSpace_code [code] = isSpace_chars [rule_format]

section \<open>Strings\<close>

definition trimSpace :: "string \<Rightarrow> string" where
  "trimSpace s = rev (dropWhile isSpace (rev (dropWhile isSpace s)))"

definition toLower :: "string \<Rightarrow> string" where
  "toLower s = map toLowerC s"

definition hasPrefix :: "string \<Rightarrow> string \<Rightarrow> bool" where
  "hasPrefix s p \<longleftrightarrow> prefix p s"

definition hasSuffix :: "string \<Rightarrow> string \<Rightarrow> bool" where
  "hasSuffix s p \<longleftrightarrow> suffix p s"

definition contains :: "string \<Rightarrow> string \<Rightarrow> bool" where
  "contains s sub \<longleftrightarrow> sublist sub s"

definition equalFold :: "string \<Rightarrow> string \<Rightarrow> bool" where
  "equalFold a b \<longleftrightarrow> toLower a = toLower b"

text \<open>\<open>index s sub\<close> is \<^verbatim>\<open>strings.Index\<close>: \<open>None\<close> stands for the result -1.\<close>

fun index :: "string \<Rightarrow> string \<Rightarrow> nat option" where
  "index [] sub = (if sub = [] then Some 0 else None)"
| "index (c # cs) sub = (if prefix sub (c # cs) then Some 0 else map_option Suc (index cs sub))"

text \<open>What follows the last occurrence of a byte, the whole string when there is none:
  the idiom \<^verbatim>\<open>if i := strings.LastIndex(s, "/"); i >= 0 { s = s[i+1:] }\<close>.\<close>

definition afterLast :: "char \<Rightarrow> string \<Rightarrow> string" where
  "afterLast c s = rev (takeWhile (\<lambda>x. x \<noteq> c) (rev s))"

text \<open>\<^verbatim>\<open>strings.Split\<close> on a single byte and \<^verbatim>\<open>strings.Fields\<close>.\<close>

fun splitOn :: "char \<Rightarrow> string \<Rightarrow> string list" where
  "splitOn sep [] = [[]]"
| "splitOn sep (c # cs) =
     (if c = sep then [] # splitOn sep cs
      else (case splitOn sep cs of [] \<Rightarrow> [[c]] | w # ws \<Rightarrow> (c # w) # ws))"

fun fieldsFrom :: "string \<Rightarrow> string \<Rightarrow> string list" where
  "fieldsFrom cur [] = (if cur = [] then [] else [cur])"
| "fieldsFrom cur (c # cs) =
     (if isSpace c then (if cur = [] then fieldsFrom [] cs else cur # fieldsFrom [] cs)
      else fieldsFrom (cur @ [c]) cs)"

definition strFields :: "string \<Rightarrow> string list" where
  "strFields s = fieldsFrom [] s"

fun joinWith :: "string \<Rightarrow> string list \<Rightarrow> string" where
  "joinWith sep [] = []"
| "joinWith sep [w] = w"
| "joinWith sep (w # v # ws) = w @ sep @ joinWith sep (v # ws)"

text \<open>\<^verbatim>\<open>strings.Trim(s, cutset)\<close>.\<close>

definition trimSet :: "string \<Rightarrow> string \<Rightarrow> string" where
  "trimSet s cs = rev (dropWhile (\<lambda>c. c \<in> set cs) (rev (dropWhile (\<lambda>c. c \<in> set cs) s)))"

definition firstNonEmpty :: "string list \<Rightarrow> string" where
  "firstNonEmpty vs = (case filter (\<lambda>v. v \<noteq> []) vs of [] \<Rightarrow> [] | v # _ \<Rightarrow> v)"

definition mapGet :: "strmap \<Rightarrow> string \<Rightarrow> string" where
  "mapGet m k = (case m k of None \<Rightarrow> [] | Some v \<Rightarrow> v)"

section \<open>Decimal rendering\<close>

text \<open>\<^verbatim>\<open>strconv.Itoa\<close> and the verb \<^verbatim>\<open>%d\<close>.\<close>

fun natDigits :: "nat \<Rightarrow> string" where
  "natDigits n = (if n < 10 then [char_of (48 + n)] else natDigits (n div 10) @ [char_of (48 + n mod 10)])"

declare natDigits.simps [simp del]

definition itoa :: "int \<Rightarrow> string" where
  "itoa i = (if i < 0 then ''-'' @ natDigits (nat (- i)) else natDigits (nat i))"

section \<open>Lemmas\<close>

lemma hasPrefix_iff [go_string]: "hasPrefix s p \<longleftrightarrow> (\<exists>t. s = p @ t)"
  by (simp add: hasPrefix_def prefix_def)

lemma hasSuffix_iff [go_string]: "hasSuffix s p \<longleftrightarrow> (\<exists>t. s = t @ p)"
  by (simp add: hasSuffix_def suffix_def)

lemma contains_iff [go_string]: "contains s sub \<longleftrightarrow> (\<exists>a b. s = a @ sub @ b)"
  by (simp add: contains_def sublist_def)

lemma hasPrefix_refl [simp]: "hasPrefix s s"
  by (simp add: hasPrefix_def)

lemma hasPrefix_Nil [simp]: "hasPrefix s []"
  by (simp add: hasPrefix_def)

lemma contains_singleton: "contains s [c] \<longleftrightarrow> c \<in> set s"
  by (auto simp: contains_iff dest: split_list)

lemma toLowerC_idem [simp]: "toLowerC (toLowerC c) = toLowerC c"
  by (auto simp: toLowerC_def Let_def)

lemma toLower_idem [simp]: "toLower (toLower s) = toLower s"
  by (simp add: toLower_def)

lemma toLower_append [simp]: "toLower (a @ b) = toLower a @ toLower b"
  by (simp add: toLower_def)

lemma toLower_eq_Nil [simp]: "toLower s = [] \<longleftrightarrow> s = []"
  by (simp add: toLower_def)

lemma length_toLower [simp]: "length (toLower s) = length s"
  by (simp add: toLower_def)

lemma toLowerC_isSpace [simp]: "isSpace (toLowerC c) = isSpace c"
  by (auto simp: toLowerC_def isSpace_def Let_def)

lemma index_Some_iff:
  "index s sub = Some i \<Longrightarrow> \<exists>rest. s = take i s @ sub @ rest \<and> i + length sub \<le> length s"
proof (induction s sub arbitrary: i rule: index.induct)
  case (1 sub)
  then show ?case by (simp split: if_splits)
next
  case (2 c cs sub)
  show ?case
  proof (cases "prefix sub (c # cs)")
    case True
    with "2.prems" have "i = 0" by simp
    moreover obtain rest where rest: "c # cs = sub @ rest"
      using True by (auto simp: prefix_def)
    moreover have "length sub \<le> length (c # cs)"
      unfolding rest by simp
    ultimately show ?thesis by auto
  next
    case False
    with "2.prems" obtain j where "index cs sub = Some j" and i: "i = Suc j"
      by (auto split: if_splits)
    from "2.IH" [OF False this(1)] i show ?thesis by auto
  qed
qed

lemma index_None_iff: "index s sub = None \<longleftrightarrow> \<not> contains s sub"
  by (induction s sub rule: index.induct) (auto simp: contains_def sublist_Cons_right)

lemma index_first:
  "index s sub = Some i \<Longrightarrow> s = a @ sub @ b \<Longrightarrow> i \<le> length a"
proof (induction s sub arbitrary: i a rule: index.induct)
  case (1 sub)
  then show ?case by (simp split: if_splits)
next
  case (2 c cs sub)
  show ?case
  proof (cases a)
    case Nil
    with "2.prems" have "prefix sub (c # cs)" by simp
    with "2.prems"(1) show ?thesis by simp
  next
    case (Cons x xs)
    with "2" show ?thesis by (auto split: if_splits)
  qed
qed

lemma afterLast_no_sep: "c \<notin> set (afterLast c s)"
  by (auto simp: afterLast_def dest: set_takeWhileD)

lemma afterLast_id: "c \<notin> set s \<Longrightarrow> afterLast c s = s"
  by (subst rev_is_rev_conv [symmetric]) (auto simp: afterLast_def takeWhile_eq_all_conv)

lemma afterLast_path: "c \<notin> set b \<Longrightarrow> afterLast c (a @ c # b) = b"
  by (simp add: afterLast_def takeWhile_append takeWhile_eq_all_conv [THEN iffD2])

lemma splitOn_not_Nil [simp]: "splitOn sep s \<noteq> []"
  by (cases s) (auto split: list.splits)

lemma splitOn_no_sep: "w \<in> set (splitOn sep s) \<Longrightarrow> sep \<notin> set w"
  by (induction s arbitrary: w) (auto split: if_splits list.splits)

lemma joinWith_splitOn: "joinWith [sep] (splitOn sep s) = s"
proof (induction s)
  case Nil
  then show ?case by simp
next
  case (Cons c cs)
  obtain w ws where ws: "splitOn sep cs = w # ws"
    by (cases "splitOn sep cs") auto
  with Cons show ?case by (cases ws) auto
qed

lemma fieldsFrom_nonempty: "w \<in> set (fieldsFrom cur s) \<Longrightarrow> w \<noteq> []"
  by (induction cur s rule: fieldsFrom.induct) (auto split: if_splits)

lemma fieldsFrom_no_space:
  "\<forall>c \<in> set cur. \<not> isSpace c \<Longrightarrow> w \<in> set (fieldsFrom cur s) \<Longrightarrow> c \<in> set w \<Longrightarrow> \<not> isSpace c"
  by (induction cur s rule: fieldsFrom.induct) (auto split: if_splits)

lemma strFields_word:
  assumes "w \<in> set (strFields s)"
  shows "w \<noteq> []" and "c \<in> set w \<Longrightarrow> \<not> isSpace c"
  using assms fieldsFrom_nonempty fieldsFrom_no_space [of "[]"] by (auto simp: strFields_def)

lemma dropWhile_Nil_or_hd: "dropWhile P s = [] \<or> \<not> P (hd (dropWhile P s))"
  by (metis hd_dropWhile)

lemma trimSpace_idem [simp]: "trimSpace (trimSpace s) = trimSpace s"
proof -
  define t where "t = dropWhile isSpace s"
  define u where "u = dropWhile isSpace (rev t)"
  have u_id: "dropWhile isSpace u = u"
    by (simp add: u_def dropWhile_idem)
  have "dropWhile isSpace (rev u) = rev u"
  proof (cases "rev u")
    case Nil
    then show ?thesis by simp
  next
    case (Cons x xs)
    obtain pre where pre: "rev t = pre @ u"
      using takeWhile_dropWhile_id [of isSpace "rev t"] by (metis u_def)
    then have "t = rev u @ rev pre"
      by (metis rev_append rev_rev_ident)
    with Cons have "t \<noteq> []" and "hd t = x" by auto
    then have "\<not> isSpace x"
      using dropWhile_Nil_or_hd [of isSpace s] by (auto simp flip: t_def)
    with Cons show ?thesis by simp
  qed
  then show ?thesis
    by (simp add: trimSpace_def flip: t_def u_def) (simp add: u_id)
qed

lemma dropWhile_toLower: "dropWhile isSpace (toLower s) = toLower (dropWhile isSpace s)"
  by (induction s) (auto simp: toLower_def)

lemma rev_toLower: "rev (toLower s) = toLower (rev s)"
  by (simp add: toLower_def rev_map)

lemma trimSpace_toLower: "trimSpace (toLower s) = toLower (trimSpace s)"
  by (simp add: trimSpace_def dropWhile_toLower rev_toLower)

end
