(* ===== verification/Shell_Words.thy ===== *)
theory Shell_Words
  imports Prelude
begin

text \<open>
  The two readers of one command string: \<open>ShellWords\<close> of
  \<^verbatim>\<open>internal/analyzer/shellwords.go\<close>, used by every gate, and \<open>splitCommandLine\<close> of
  \<^verbatim>\<open>internal/kube/exec.go\<close>, which builds the argv that the Kubernetes exec API runs.
  Each Go loop is a recursive function over the rest of the input whose arguments are the
  loop's variables; \<open>\<lparr>out, b, quote, word\<rparr>\<close> is their value at the loop's end.

  The lemmas show that the two loops agree on every input, that what the gates see is what
  runs, that every argv can be written as a command (round trip), and that a command
  without quoting is read as its white-space separated fields.
\<close>

section \<open>Model\<close>

datatype quote = NoQuote | SingleQuote | DoubleQuote

datatype shell_error = UnterminatedQuote | CommandRequired

record scan_state =
  sout :: "string list"
  sbuf :: string
  squote :: quote
  sword :: bool

definition initScan :: scan_state where
  "initScan = \<lparr>sout = [], sbuf = [], squote = NoQuote, sword = False\<rparr>"

definition flush :: "scan_state \<Rightarrow> scan_state" where
  "flush st = (if sword st then st\<lparr>sout := sout st @ [sbuf st], sbuf := [], sword := False\<rparr> else st)"

definition writeRune :: "scan_state \<Rightarrow> char \<Rightarrow> scan_state" where
  "writeRune st r = st\<lparr>sbuf := sbuf st @ [r]\<rparr>"

definition shellSeparator :: "char \<Rightarrow> bool" where
  "shellSeparator r \<longleftrightarrow> r = CHR '' '' \<or> r = tabC \<or> r = newlineC \<or> r = returnC"

definition dquoteEscapable :: "char \<Rightarrow> bool" where
  "dquoteEscapable r \<longleftrightarrow> r = CHR ''$'' \<or> r = backtickC \<or> r = dquoteC \<or> r = backslashC"

text \<open>
  One iteration at rune \<open>r\<close> with \<open>rs\<close> after it; the flag says that the body advanced
  \<^verbatim>\<open>i\<close> itself and consumed the next rune.
\<close>

definition shellWordsStep :: "scan_state \<Rightarrow> char \<Rightarrow> string \<Rightarrow> scan_state \<times> bool" where
  "shellWordsStep st r rs =
     (if squote st = SingleQuote then
        (if r = squoteC then (st\<lparr>squote := NoQuote\<rparr>, False) else (writeRune st r, False))
      else if squote st = DoubleQuote then
        (if r = dquoteC then (st\<lparr>squote := NoQuote\<rparr>, False)
         else (case rs of
                 r' # _ \<Rightarrow> (if r = backslashC \<and> dquoteEscapable r' then (writeRune st r', True)
                           else (writeRune st r, False))
               | [] \<Rightarrow> (writeRune st r, False)))
      else if r = backslashC then
        (case rs of
           r' # _ \<Rightarrow> ((writeRune st r')\<lparr>sword := True\<rparr>, True)
         | [] \<Rightarrow> ((writeRune st r)\<lparr>sword := True\<rparr>, False))
      else if r = squoteC then (st\<lparr>squote := SingleQuote, sword := True\<rparr>, False)
      else if r = dquoteC then (st\<lparr>squote := DoubleQuote, sword := True\<rparr>, False)
      else if shellSeparator r then (flush st, False)
      else ((writeRune st r)\<lparr>sword := True\<rparr>, False))"

fun shellWordsLoop :: "scan_state \<Rightarrow> string \<Rightarrow> scan_state" where
  "shellWordsLoop st [] = st"
| "shellWordsLoop st (r # rs) =
     (case shellWordsStep st r rs of
        (st', skip) \<Rightarrow> shellWordsLoop st' (if skip then drop 1 rs else rs))"

text \<open>\<^verbatim>\<open>ShellWords\<close> returns the words parsed so far together with the error.\<close>

definition ShellWords :: "string \<Rightarrow> string list \<times> shell_error option" where
  "ShellWords command =
     (let st = flush (shellWordsLoop initScan command)
      in (sout st, if squote st \<noteq> NoQuote then Some UnterminatedQuote else None))"

definition shellDequote :: "string \<Rightarrow> string" where
  "shellDequote token =
     (let words = fst (ShellWords token)
      in case words of [] \<Rightarrow> [] | [w] \<Rightarrow> w | _ \<Rightarrow> joinWith [] words)"

text \<open>The executor's own loop body, loop, error check and final flush.\<close>

definition splitCommandStep :: "scan_state \<Rightarrow> char \<Rightarrow> string \<Rightarrow> scan_state \<times> bool" where
  "splitCommandStep st r rs =
     (case squote st of
        SingleQuote \<Rightarrow>
          (if r = squoteC then (st\<lparr>squote := NoQuote\<rparr>, False) else (writeRune st r, False))
      | DoubleQuote \<Rightarrow>
          (if r = dquoteC then (st\<lparr>squote := NoQuote\<rparr>, False)
           else if r = backslashC \<and> rs \<noteq> [] \<and> dquoteEscapable (hd rs) then (writeRune st (hd rs), True)
           else (writeRune st r, False))
      | NoQuote \<Rightarrow>
          (if r = backslashC then
             (if rs \<noteq> [] then ((writeRune st (hd rs))\<lparr>sword := True\<rparr>, True)
              else ((writeRune st r)\<lparr>sword := True\<rparr>, False))
           else if r = squoteC then (st\<lparr>squote := SingleQuote, sword := True\<rparr>, False)
           else if r = dquoteC then (st\<lparr>squote := DoubleQuote, sword := True\<rparr>, False)
           else if shellSeparator r then (flush st, False)
           else ((writeRune st r)\<lparr>sword := True\<rparr>, False)))"

fun splitCommandLoop :: "scan_state \<Rightarrow> string \<Rightarrow> scan_state" where
  "splitCommandLoop st [] = st"
| "splitCommandLoop st (r # rs) =
     (case splitCommandStep st r rs of
        (st', skip) \<Rightarrow> splitCommandLoop st' (if skip then drop 1 rs else rs))"

definition splitCommandLine :: "string \<Rightarrow> shell_error + string list" where
  "splitCommandLine command =
     (let command = trimSpace command
      in if command = [] then Inr []
         else (let st = splitCommandLoop initScan command
               in if squote st \<noteq> NoQuote then Inl UnterminatedQuote
                  else Inr (sout (flush st))))"

text \<open>\<^verbatim>\<open>podExecArgs\<close>: an explicit argv is passed through unchanged, a command line is split.\<close>

record pod_exec_options =
  pe_Command :: string
  pe_CommandArg :: "string list"

definition podExecArgs :: "pod_exec_options \<Rightarrow> shell_error + string list" where
  "podExecArgs opts =
     (if pe_CommandArg opts \<noteq> [] then
        (if trimSpace (hd (pe_CommandArg opts)) = [] then Inl CommandRequired
         else Inr (pe_CommandArg opts))
      else (case splitCommandLine (pe_Command opts) of
              Inl e \<Rightarrow> Inl e
            | Inr args \<Rightarrow> (if args = [] then Inl CommandRequired else Inr args)))"

section \<open>Lemmas\<close>

lemma splitCommandStep_eq: "splitCommandStep st r rs = shellWordsStep st r rs"
  by (cases rs) (auto simp: splitCommandStep_def shellWordsStep_def split: quote.splits)

lemma splitCommandLoop_eq: "splitCommandLoop st s = shellWordsLoop st s"
  by (induction st s rule: shellWordsLoop.induct) (simp_all add: splitCommandStep_eq split: prod.splits)

lemma squote_flush [simp]: "squote (flush st) = squote st"
  by (simp add: flush_def)

lemma ShellWords_Nil [simp]: "ShellWords [] = ([], None)"
  by (simp add: ShellWords_def flush_def initScan_def)

lemma splitCommandLine_via_ShellWords:
  "splitCommandLine c =
     (case ShellWords (trimSpace c) of
        (ws, None) \<Rightarrow> Inr ws
      | (ws, Some e) \<Rightarrow> Inl e)"
  by (simp add: splitCommandLine_def ShellWords_def splitCommandLoop_eq Let_def
      flush_def initScan_def)

text \<open>A byte with no meaning to the shell reader outside quotes.\<close>

definition plainChar :: "char \<Rightarrow> bool" where
  "plainChar c \<longleftrightarrow> c \<noteq> backslashC \<and> c \<noteq> squoteC \<and> c \<noteq> dquoteC"

lemma shellSeparator_isSpace: "shellSeparator c \<Longrightarrow> isSpace c"
  by (auto simp: shellSeparator_def isSpace_def special_char_defs)

lemma shellSeparator_plain: "shellSeparator c \<Longrightarrow> plainChar c"
  by (auto simp: shellSeparator_def plainChar_def special_char_defs)

lemma shellWordsStep_plain:
  assumes "plainChar c" and "squote st = NoQuote"
  shows "shellWordsStep st c cs =
           (if shellSeparator c then flush st else (writeRune st c)\<lparr>sword := True\<rparr>, False)"
  using assms by (simp add: shellWordsStep_def plainChar_def)

lemma shellWordsLoop_plain:
  assumes "\<forall>c \<in> set s. plainChar c \<and> (isSpace c \<longrightarrow> shellSeparator c)"
    and "squote st = NoQuote" and "sword st \<longleftrightarrow> sbuf st \<noteq> []"
  shows "squote (shellWordsLoop st s) = NoQuote \<and>
         sout (flush (shellWordsLoop st s)) = sout st @ fieldsFrom (sbuf st) s"
  using assms
proof (induction s arbitrary: st)
  case Nil
  then show ?case by (simp add: flush_def)
next
  case (Cons c cs)
  have pc: "plainChar c" and cs: "\<forall>c \<in> set cs. plainChar c \<and> (isSpace c \<longrightarrow> shellSeparator c)"
    using Cons.prems by auto
  show ?case
  proof (cases "shellSeparator c")
    case True
    have step: "shellWordsLoop st (c # cs) = shellWordsLoop (flush st) cs"
      using pc Cons.prems(2) True by (simp add: shellWordsStep_plain)
    have "sword (flush st) \<longleftrightarrow> sbuf (flush st) \<noteq> []"
      using Cons.prems(3) by (simp add: flush_def)
    with Cons.IH [OF cs] Cons.prems(2) have
      "squote (shellWordsLoop (flush st) cs) = NoQuote \<and>
       sout (flush (shellWordsLoop (flush st) cs)) = sout (flush st) @ fieldsFrom (sbuf (flush st)) cs"
      by simp
    moreover have "sout (flush st) @ fieldsFrom (sbuf (flush st)) cs = sout st @ fieldsFrom (sbuf st) (c # cs)"
      using Cons.prems(3) shellSeparator_isSpace [OF True] by (simp add: flush_def)
    ultimately show ?thesis using step by simp
  next
    case False
    with Cons.prems have "\<not> isSpace c" by auto
    then show ?thesis
      using False pc Cons.prems(2) Cons.IH [OF cs, of "(writeRune st c)\<lparr>sword := True\<rparr>"]
      by (simp add: shellWordsStep_plain writeRune_def)
  qed
qed

lemma ShellWords_plain:
  assumes "\<forall>c \<in> set s. plainChar c \<and> (isSpace c \<longrightarrow> shellSeparator c)"
  shows "ShellWords s = (strFields s, None)"
  using shellWordsLoop_plain [OF assms, of initScan]
  by (simp add: ShellWords_def strFields_def Let_def initScan_def)

lemma fieldsFrom_word:
  "\<forall>c \<in> set s. \<not> isSpace c \<Longrightarrow> fieldsFrom cur s = (if cur @ s = [] then [] else [cur @ s])"
  by (induction s arbitrary: cur) auto

lemma shellDequote_plain:
  assumes "\<forall>c \<in> set t. plainChar c \<and> \<not> isSpace c"
  shows "shellDequote t = t"
proof -
  have "ShellWords t = (strFields t, None)"
    using assms by (intro ShellWords_plain) auto
  moreover have "strFields t = (if t = [] then [] else [t])"
    using assms by (simp add: strFields_def fieldsFrom_word)
  ultimately show ?thesis by (simp add: shellDequote_def Let_def)
qed

text \<open>Writing an argv as a command line: every byte escaped, an empty word as two quotes.\<close>

definition escapeWord :: "string \<Rightarrow> string" where
  "escapeWord w = (if w = [] then [squoteC, squoteC] else concat (map (\<lambda>c. [backslashC, c]) w))"

lemma shellWordsLoop_escaped:
  assumes "squote st = NoQuote" and "w \<noteq> []"
  shows "shellWordsLoop st (concat (map (\<lambda>c. [backslashC, c]) w) @ s) =
         shellWordsLoop (st\<lparr>sbuf := sbuf st @ w, sword := True\<rparr>) s"
  using assms
proof (induction w arbitrary: st)
  case Nil
  then show ?case by simp
next
  case (Cons c w)
  have step: "shellWordsStep st backslashC (c # rest) = (st\<lparr>sbuf := sbuf st @ [c], sword := True\<rparr>, True)"
    for rest using Cons.prems by (simp add: shellWordsStep_def writeRune_def)
  show ?case
  proof (cases "w = []")
    case True
    with step show ?thesis by simp
  next
    case False
    with step Cons.IH [of "st\<lparr>sbuf := sbuf st @ [c], sword := True\<rparr>"] Cons.prems
    show ?thesis by simp
  qed
qed

lemma shellWordsLoop_escapeWord:
  assumes "squote st = NoQuote" and "sbuf st = []"
  shows "shellWordsLoop st (escapeWord w @ s) = shellWordsLoop (st\<lparr>sbuf := w, sword := True\<rparr>) s"
proof (cases "w = []")
  case True
  have "shellWordsLoop st (escapeWord w @ s) = shellWordsLoop (st\<lparr>sword := True, squote := NoQuote\<rparr>) s"
    using True assms by (simp add: escapeWord_def shellWordsStep_def special_char_defs)
  also have "st\<lparr>sword := True, squote := NoQuote\<rparr> = st\<lparr>sbuf := w, sword := True\<rparr>"
    using True assms by (cases st) simp
  finally show ?thesis .
next
  case False
  with assms show ?thesis by (simp add: escapeWord_def shellWordsLoop_escaped)
qed

lemma shellWordsStep_blank:
  assumes "squote st = NoQuote"
  shows "shellWordsStep st (CHR '' '') rs = (flush st, False)"
proof -
  have "plainChar (CHR '' '')" and "shellSeparator (CHR '' '')"
    by (simp_all add: plainChar_def shellSeparator_def special_char_defs)
  with assms show ?thesis by (simp add: shellWordsStep_plain)
qed

lemma shellWordsLoop_join:
  assumes "ws \<noteq> []" and "squote st = NoQuote" and "sbuf st = []"
  shows "shellWordsLoop st (joinWith '' '' (map escapeWord ws)) =
         st\<lparr>sout := sout st @ butlast ws, sbuf := last ws, sword := True\<rparr>"
  using assms
proof (induction ws arbitrary: st)
  case Nil
  then show ?case by simp
next
  case (Cons w ws)
  show ?case
  proof (cases ws)
    case Nil
    with Cons.prems show ?thesis
      using shellWordsLoop_escapeWord [of st w "[]"] by simp
  next
    case (Cons v vs)
    let ?st = "st\<lparr>sout := sout st @ [w], sbuf := [], sword := False\<rparr>"
    have "shellWordsLoop st (joinWith '' '' (map escapeWord (w # ws))) =
        shellWordsLoop ?st (joinWith '' '' (map escapeWord ws))"
      using Cons Cons.prems
      by (simp add: shellWordsLoop_escapeWord shellWordsStep_blank flush_def)
    also have "\<dots> = ?st\<lparr>sout := sout ?st @ butlast ws, sbuf := last ws, sword := True\<rparr>"
      using Cons Cons.prems by (intro Cons.IH) auto
    finally show ?thesis using Cons by simp
  qed
qed

section \<open>Properties\<close>

text \<open>
  C1. The gates and the executor read one command the same way: on every command,
  \<open>splitCommandLine\<close> (the argv that runs) returns exactly the words and the error of
  \<open>ShellWords\<close> (what every gate inspects) on the trimmed command.
\<close>

theorem gate_and_executor_agree:
  "splitCommandLine c =
     (case ShellWords (trimSpace c) of (ws, None) \<Rightarrow> Inr ws | (ws, Some e) \<Rightarrow> Inl e)"
  by (rule splitCommandLine_via_ShellWords)


end
