(* ===== verification/Risk_Scale.thy ===== *)
theory Risk_Scale
  imports Prelude
begin

text \<open>
  The interface behind every risk accumulator of the code base: a severity scale given by
  a rank, and an operation that keeps the higher of two levels. The command risk parser, the
  terminal policy evaluator and the manifest diff implement it with rank tables of their own
  and prove the laws by an interpretation; what a fold of such an operation computes is proved
  here once.

  \<open>valid\<close> marks the levels an accumulator can hold: some implementations treat the empty
  string specially.
\<close>

locale risk_scale =
  fixes rank :: "string \<Rightarrow> nat"
    and join :: "string \<Rightarrow> string \<Rightarrow> string"
    and valid :: "string \<Rightarrow> bool"
  assumes join_cases: "valid a \<Longrightarrow> join a b = a \<or> (join a b = b \<and> rank a < rank b)"
    and rank_join: "valid a \<Longrightarrow> rank (join a b) = max (rank a) (rank b)"
    and valid_join: "valid a \<Longrightarrow> valid (join a b)"
begin

lemma valid_foldl: "valid a \<Longrightarrow> valid (foldl join a bs)"
  by (induction bs arbitrary: a) (auto intro: valid_join)

lemma rank_foldl: "valid a \<Longrightarrow> rank (foldl join a bs) = foldl max (rank a) (map rank bs)"
  by (induction bs arbitrary: a) (auto simp: rank_join valid_join)

lemma foldl_upper: "valid a \<Longrightarrow> b \<in> set bs \<Longrightarrow> rank b \<le> rank (foldl join a bs)"
proof (induction bs arbitrary: a)
  case Nil
  then show ?case by simp
next
  case (Cons c bs)
  have start: "rank a \<le> rank (foldl join a cs)" if "valid a" for a cs
    using that
  proof (induction cs arbitrary: a)
    case (Cons c cs)
    from Cons.IH [OF valid_join [OF Cons.prems], of c] rank_join [OF Cons.prems, of c]
    show ?case by simp
  qed simp
  show ?case
  proof (cases "b = c")
    case True
    with start [OF valid_join [OF Cons.prems(1)], of c bs] rank_join [OF Cons.prems(1), of c]
    show ?thesis by simp
  next
    case False
    with Cons show ?thesis by (auto intro: valid_join)
  qed
qed

lemma foldl_mem: "valid a \<Longrightarrow> foldl join a bs = a \<or> foldl join a bs \<in> set bs"
proof (induction bs arbitrary: a)
  case Nil
  then show ?case by simp
next
  case (Cons b bs)
  from Cons.IH [OF valid_join [OF Cons.prems], of b] join_cases [OF Cons.prems, of b]
  show ?case by auto
qed

lemma foldl_top:
  assumes "valid a" and "b \<in> set bs" and "\<And>x. rank x \<le> rank b"
    and "\<And>x. rank x = rank b \<Longrightarrow> x = b"
  shows "foldl join a bs = b"
  using foldl_upper [OF assms(1,2)] assms(3) [of "foldl join a bs"] assms(4) by simp

end

end
