(* ===== verification/Command_Risk.thy ===== *)
theory Command_Risk
  imports Shell_Words Risk_Scale
begin

text \<open>
  The Command Risk Parser, \<^verbatim>\<open>internal/analyzer/commandrisk.go\<close>, and the terminal
  access tiers, \<^verbatim>\<open>internal/analyzer/terminalmode.go\<close>: how a command string becomes
  tokens, how tokens become program invocations, which findings each rule adds and how
  the overall risk follows. The rule tables are lists in the order of the source, and the
  Korean reasons are kept as the UTF-8 text of the source.

  The verdict is a gate, so the lemmas say what it guarantees: the risk is exactly the
  highest severity found, a recursive delete of the root is critical in every spelling of
  flags and order, the read-only tier means that no rule fired, and where the gate and the
  executor can still read a command differently.
\<close>

section \<open>Findings and verdict\<close>

record CommandRiskFinding =
  Signal :: string
  Severity :: string
  Reason :: string

record CommandRisk =
  Risk :: string
  Findings :: "CommandRiskFinding list"

definition cmdRiskRank :: "string \<Rightarrow> nat" where
  "cmdRiskRank s =
     (if s = ''critical'' then 4 else if s = ''high'' then 3 else if s = ''medium'' then 2 else 1)"

record cmdRiskRule =
  rule_pattern :: string
  rule_severity :: string
  rule_reason :: string

definition mkRule :: "string \<Rightarrow> string \<Rightarrow> string \<Rightarrow> cmdRiskRule" where
  "mkRule p s r = \<lparr>rule_pattern = p, rule_severity = s, rule_reason = r\<rparr>"

definition criticalPhraseRules :: "cmdRiskRule list" where
  "criticalPhraseRules =
     [mkRule ''dd if='' ''critical'' (utf8 [0xB514, 0xC2A4, 0xD06C, 0x20, 0xC9C1, 0xC811, 0x20, 0xC4F0, 0xAE30] @ ''/'' @ utf8 [0xC77D, 0xAE30]),
      mkRule ''dd of='' ''critical'' (utf8 [0xB514, 0xC2A4, 0xD06C, 0x20, 0xC9C1, 0xC811, 0x20, 0xC4F0, 0xAE30]),
      mkRule '':(){'' ''critical'' ''fork bomb'',
      mkRule ''> /dev/sda'' ''critical'' (utf8 [0xB514, 0xC2A4, 0xD06C, 0x20, 0xB514, 0xBC14, 0xC774, 0xC2A4, 0x20, 0xB36E, 0xC5B4, 0xC4F0, 0xAE30])]"

definition packageInstall :: string where
  "packageInstall = (utf8 [0xD328, 0xD0A4, 0xC9C0, 0x20, 0xC124, 0xCE58])"

definition highPhraseRules :: "cmdRiskRule list" where
  "highPhraseRules =
     [mkRule ''kubectl delete'' ''high'' (utf8 [0xB9AC, 0xC18C, 0xC2A4, 0x20, 0xC0AD, 0xC81C]),
      mkRule ''apt-get install'' ''high'' packageInstall,
      mkRule ''apt install'' ''high'' packageInstall,
      mkRule ''yum install'' ''high'' packageInstall,
      mkRule ''dnf install'' ''high'' packageInstall,
      mkRule ''apk add'' ''high'' packageInstall,
      mkRule ''pip install'' ''high'' packageInstall]"

definition criticalProgramRules :: "cmdRiskRule list" where
  "criticalProgramRules =
     [mkRule ''mkfs'' ''critical'' (utf8 [0xD30C, 0xC77C, 0xC2DC, 0xC2A4, 0xD15C, 0x20, 0xD3EC, 0xB9F7]),
      mkRule ''shutdown'' ''critical'' (utf8 [0xB178, 0xB4DC, 0x20, 0xC885, 0xB8CC]),
      mkRule ''reboot'' ''critical'' (utf8 [0xB178, 0xB4DC, 0x20, 0xC7AC, 0xBD80, 0xD305]),
      mkRule ''halt'' ''critical'' (utf8 [0xB178, 0xB4DC, 0x20, 0xC815, 0xC9C0])]"

definition cautionRule :: "string \<Rightarrow> cmdRiskRule" where
  "cautionRule p = mkRule p ''medium'' ((utf8 [0xC8FC, 0xC758, 0x20, 0xBA85, 0xB839] @ '': '') @ p)"

definition mediumProgramRules :: "cmdRiskRule list" where
  "mediumProgramRules =
     map cautionRule
       [''kill'', ''killall'', ''pkill'', ''chmod'', ''chown'', ''curl'', ''wget'', ''nc'',
        ''netcat'', ''ssh'', ''scp'', ''tar'', ''base64'', ''mv'', ''cp'']"

definition fetchPrograms :: "string list" where
  "fetchPrograms = [''curl'', ''wget'', ''fetch'']"

section \<open>Tokens\<close>

definition shellOperators :: "string list" where
  "shellOperators = [''&&'', ''||'', ''>>'', ''|'', '';'', ''>'', ''<'']"

text \<open>\<^verbatim>\<open>shellOperatorAt(c, i)\<close> for the suffix \<open>c[i:]\<close>; the empty string is no operator.\<close>

definition shellOperatorAt :: "string \<Rightarrow> string" where
  "shellOperatorAt s = (case find (hasPrefix s) shellOperators of None \<Rightarrow> [] | Some op \<Rightarrow> op)"

function spaceOperators :: "string \<Rightarrow> string" where
  "spaceOperators s =
     (case s of
        [] \<Rightarrow> []
      | c # cs \<Rightarrow>
          (let op = shellOperatorAt s
           in if op \<noteq> [] then '' '' @ op @ '' '' @ spaceOperators (drop (length op) s)
              else c # spaceOperators cs))"
  by pat_completeness auto
termination
  by (relation "measure length") auto

declare spaceOperators.simps [simp del]

definition commandTokens :: "string \<Rightarrow> string list" where
  "commandTokens c =
     filter (\<lambda>t. t \<noteq> []) (map shellDequote (strFields (spaceOperators c)))"

definition isShellOperator :: "string \<Rightarrow> bool" where
  "isShellOperator tok \<longleftrightarrow> tok \<in> set shellOperators"

definition hasToken :: "string list \<Rightarrow> string \<Rightarrow> bool" where
  "hasToken tokens want \<longleftrightarrow> want \<in> set tokens"

definition hasRedirect :: "string list \<Rightarrow> bool" where
  "hasRedirect tokens \<longleftrightarrow> hasToken tokens ''>'' \<or> hasToken tokens ''>>''"

definition isEnvAssignment :: "string \<Rightarrow> bool" where
  "isEnvAssignment tok =
     (case index tok ''='' of
        None \<Rightarrow> False
      | Some idx \<Rightarrow>
          0 < idx \<and>
          list_all (\<lambda>i. let ch = tok ! i in
             ch = CHR ''_'' \<or> isAsciiLetter ch \<or> (0 < i \<and> isDigitC ch)) [0..<idx])"

section \<open>Invocations\<close>

record invocation =
  program :: string
  args :: "string list"
  pipedInto :: bool

definition shellNames :: "string list" where
  "shellNames = [''sh'', ''bash'', ''zsh'', ''ash'', ''dash'', ''ksh'', ''fish'', ''csh'', ''tcsh'']"

definition shellWrappers :: "string list" where
  "shellWrappers = [''sudo'', ''env'', ''nohup'', ''exec'', ''time'', ''busybox'']"

definition cmdRiskWrappers :: "string list" where
  "cmdRiskWrappers = [''xargs'']"

definition shellBase :: "string \<Rightarrow> string" where
  "shellBase token = afterLast (CHR ''/'') token"

definition isCmdWrapper :: "string \<Rightarrow> bool" where
  "isCmdWrapper tok =
     (let base = shellBase tok in base \<in> set shellWrappers \<or> base \<in> set cmdRiskWrappers)"

definition programName :: "string \<Rightarrow> string" where
  "programName tok = shellBase (shellDequote tok)"

definition skippable :: "string \<Rightarrow> bool" where
  "skippable t \<longleftrightarrow> isShellOperator t \<or> isEnvAssignment t \<or> isCmdWrapper t"

text \<open>The loop over operators, assignments and wrappers in front of a program.\<close>

fun skipPrefixes :: "bool \<Rightarrow> string list \<Rightarrow> bool \<times> string list" where
  "skipPrefixes piped [] = (piped, [])"
| "skipPrefixes piped (t # ts) =
     (if skippable t
      then skipPrefixes (if t = ''|'' then True else if isShellOperator t then False else piped) ts
      else (piped, t # ts))"

text \<open>The loop over a program's arguments: an operator ends it, \<open>-c\<close> ends it and is consumed.\<close>

fun takeArgs :: "string list \<Rightarrow> string list \<times> string list" where
  "takeArgs [] = ([], [])"
| "takeArgs (t # ts) =
     (if isShellOperator t then ([], t # ts)
      else if t = ''-c'' \<or> t = ''-lc'' then ([], ts)
      else (case takeArgs ts of (as, rest) \<Rightarrow> (t # as, rest)))"

lemma skipPrefixes_length: "skipPrefixes p ts = (q, us) \<Longrightarrow> length us \<le> length ts"
  by (induction p ts rule: skipPrefixes.induct) (auto split: if_splits simp: le_SucI)

lemma takeArgs_length: "takeArgs ts = (as, rest) \<Longrightarrow> length rest \<le> length ts"
  by (induction ts arbitrary: as rest) (auto split: if_splits prod.splits intro: le_SucI)

function commandInvocationsFrom :: "bool \<Rightarrow> string list \<Rightarrow> invocation list" where
  "commandInvocationsFrom piped tokens =
     (case skipPrefixes piped tokens of
        (p, []) \<Rightarrow> []
      | (p, t # ts) \<Rightarrow>
          (case takeArgs ts of
             (as, rest) \<Rightarrow>
               \<lparr>program = programName t, args = as, pipedInto = p\<rparr>
               # commandInvocationsFrom False rest))"
  by pat_completeness auto
termination
proof (relation "measure (\<lambda>(p, ts). length ts)", goal_cases)
  case 1
  then show ?case by simp
next
  case (2 piped tokens p tts t ts as rest)
  then have "length (t # ts) \<le> length tokens" and "length rest \<le> length ts"
    using skipPrefixes_length [of piped tokens p "t # ts"] takeArgs_length [of ts as rest] by auto
  then show ?case by simp
qed

declare commandInvocationsFrom.simps [simp del]

definition commandInvocations :: "string list \<Rightarrow> invocation list" where
  "commandInvocations tokens = commandInvocationsFrom False tokens"

definition hasProgram :: "invocation list \<Rightarrow> string \<Rightarrow> bool" where
  "hasProgram invs name \<longleftrightarrow>
     list_ex (\<lambda>iv. program iv = name \<or> hasPrefix (program iv) (name @ ''.'')) invs"

definition hasFetchProgram :: "invocation list \<Rightarrow> bool" where
  "hasFetchProgram invs \<longleftrightarrow> list_ex (\<lambda>iv. program iv \<in> set fetchPrograms) invs"

definition pipesIntoShell :: "invocation list \<Rightarrow> bool" where
  "pipesIntoShell invs \<longleftrightarrow> list_ex (\<lambda>iv. pipedInto iv \<and> program iv \<in> set shellNames) invs"

definition hasFlag :: "string list \<Rightarrow> string \<Rightarrow> string \<Rightarrow> bool" where
  "hasFlag as letter long \<longleftrightarrow>
     list_ex (\<lambda>a. a = long \<or>
        (hasPrefix a ''-'' \<and> \<not> hasPrefix a ''--'' \<and> contains (drop 1 a) letter)) as"

definition hasRecursiveFlag :: "string list \<Rightarrow> bool" where
  "hasRecursiveFlag as = hasFlag as ''r'' ''--recursive''"

definition isRootTarget :: "string \<Rightarrow> bool" where
  "isRootTarget arg \<longleftrightarrow> arg \<in> set [''/'', ''//'', ''/*'', ''/.'', ''/./'']"

definition targetArgs :: "string list \<Rightarrow> string list" where
  "targetArgs as = filter (\<lambda>a. \<not> hasPrefix a ''-'') as"

definition isOpenPermission :: "string \<Rightarrow> bool" where
  "isOpenPermission mode \<longleftrightarrow> mode = ''777'' \<or> mode = ''0777'' \<or> mode = ''a+rwx''"

definition mkFinding :: "string \<Rightarrow> string \<Rightarrow> string \<Rightarrow> CommandRiskFinding" where
  "mkFinding sig sev rea = \<lparr>Signal = sig, Severity = sev, Reason = rea\<rparr>"

text \<open>One iteration of the loop of \<^verbatim>\<open>destructiveInvocationFindings\<close>.\<close>

definition destructiveFindingsOf :: "invocation \<Rightarrow> CommandRiskFinding list" where
  "destructiveFindingsOf iv =
     (if program iv = ''rm'' then
        (if \<not> hasRecursiveFlag (args iv) then []
         else if list_ex isRootTarget (targetArgs (args iv))
         then [mkFinding ''rm -rf /'' ''critical'' (utf8 [0xB8E8, 0xD2B8, 0x20, 0xC7AC, 0xADC0, 0x20, 0xC0AD, 0xC81C])]
         else if hasFlag (args iv) ''f'' ''--force''
         then [mkFinding ''rm -rf'' ''high'' (utf8 [0xC7AC, 0xADC0, 0x20, 0xAC15, 0xC81C, 0x20, 0xC0AD, 0xC81C])]
         else [mkFinding ''rm -r'' ''high'' (utf8 [0xC7AC, 0xADC0, 0x20, 0xC0AD, 0xC81C])])
      else if program iv = ''chmod'' then
        (let targets = targetArgs (args iv)
         in (if 2 \<le> length targets \<and> isOpenPermission (targets ! 0) \<and> isRootTarget (targets ! 1)
             then [mkFinding ''chmod 777 /'' ''critical'' (utf8 [0xB8E8, 0xD2B8, 0x20, 0xAD8C, 0xD55C, 0x20, 0xAC1C, 0xBC29])] else []) @
            (if hasRecursiveFlag (args iv)
             then [mkFinding ''chmod -r'' ''high'' (utf8 [0xC7AC, 0xADC0, 0x20, 0xAD8C, 0xD55C, 0x20, 0xBCC0, 0xACBD])] else []))
      else if program iv = ''chown'' then
        (if hasRecursiveFlag (args iv)
         then [mkFinding ''chown -r'' ''high'' (utf8 [0xC7AC, 0xADC0, 0x20, 0xC18C, 0xC720, 0xC790, 0x20, 0xBCC0, 0xACBD])] else [])
      else [])"

definition destructiveInvocationFindings :: "invocation list \<Rightarrow> CommandRiskFinding list" where
  "destructiveInvocationFindings invs = concat (map destructiveFindingsOf invs)"

section \<open>The parser\<close>

text \<open>The closure \<^verbatim>\<open>add\<close> of \<^verbatim>\<open>ParseCommandRisk\<close>.\<close>

definition addFinding :: "CommandRisk \<Rightarrow> CommandRiskFinding \<Rightarrow> CommandRisk" where
  "addFinding out f =
     \<lparr>Risk = (if cmdRiskRank (Severity f) > cmdRiskRank (Risk out) then Severity f else Risk out),
      Findings = Findings out @ [f]\<rparr>"

definition addIf :: "bool \<Rightarrow> CommandRiskFinding \<Rightarrow> CommandRisk \<Rightarrow> CommandRisk" where
  "addIf b f out = (if b then addFinding out f else out)"

definition addRules ::
  "(cmdRiskRule \<Rightarrow> bool) \<Rightarrow> (string \<Rightarrow> string) \<Rightarrow> cmdRiskRule list \<Rightarrow> CommandRisk \<Rightarrow> CommandRisk" where
  "addRules fires sig rules out =
     foldl (\<lambda>o' r. addIf (fires r) (mkFinding (sig (rule_pattern r)) (rule_severity r) (rule_reason r)) o')
       out rules"

definition systemPaths :: "string list" where
  "systemPaths = [''/etc/'', ''/dev/'', ''/boot/'', ''/sys/'', ''/proc/'', ''/usr/'', ''/bin/'']"

definition metaFindings :: "string \<Rightarrow> string list \<Rightarrow> string \<Rightarrow> invocation list \<Rightarrow> CommandRisk \<Rightarrow> CommandRisk" where
  "metaFindings c tokens norm invs out =
     (let out = (if pipesIntoShell invs \<and> hasFetchProgram invs
                 then addFinding out (mkFinding ''pipe_to_shell'' ''critical''
                        (utf8 [0xC6D0, 0xACA9, 0x20, 0xC2A4, 0xD06C, 0xB9BD, 0xD2B8, 0xB97C, 0x20, 0xC178, 0xB85C, 0x20, 0xD30C, 0xC774, 0xD504, 0x20, 0xC2E4, 0xD589] @ ''(curl|sh) '' @ utf8 [0x2014, 0x20, 0xC784, 0xC758, 0x20, 0xCF54, 0xB4DC, 0x20, 0xC2E4, 0xD589]))
                 else addIf (hasToken tokens ''|'')
                        (mkFinding ''pipe'' ''medium'' (utf8 [0xD30C, 0xC774, 0xD504] @ ''(|)'' @ utf8 [0xB85C, 0x20, 0xBA85, 0xB839, 0x20, 0xC5F0, 0xACB0])) out);
          out = addIf (contains c ''$('' \<or> contains c [backtickC])
                  (mkFinding ''subshell'' ''medium'' (utf8 [0xC11C, 0xBE0C, 0xC178] @ ''/'' @ utf8 [0xBA85, 0xB839, 0xCE58, 0xD658] @ ''($(...)/'' @ [CHR 0x60] @ [CHR 0x60] @ '') '' @ utf8 [0xC0AC, 0xC6A9])) out;
          out = addIf (hasToken tokens ''&&'' \<or> hasToken tokens ''||'' \<or> hasToken tokens '';'')
                  (mkFinding ''chaining'' ''medium'' (utf8 [0xBA85, 0xB839, 0x20, 0xCCB4, 0xC774, 0xB2DD] @ ''(&&/||/;)'')) out
      in if hasRedirect tokens then
           (case find (\<lambda>p. contains norm (''> '' @ p)) systemPaths of
              None \<Rightarrow> out
            | Some p \<Rightarrow> addFinding out (mkFinding ''redirect_system'' ''high''
                          ((utf8 [0xC2DC, 0xC2A4, 0xD15C, 0x20, 0xACBD, 0xB85C, 0xB85C, 0x20, 0xB9AC, 0xB2E4, 0xC774, 0xB809, 0xD2B8] @ ''('') @ p @ '')'')))
         else out)"

definition ParseCommandRisk :: "string \<Rightarrow> CommandRisk" where
  "ParseCommandRisk command =
     (let c = toLower (trimSpace command);
          out = \<lparr>Risk = ''low'', Findings = []\<rparr>
      in if c = [] then addFinding out (mkFinding ''empty'' ''high'' (utf8 [0xBE48, 0x20, 0xBA85, 0xB839]))
         else
           (let tokens = commandTokens c;
                norm = joinWith '' '' tokens;
                invs = commandInvocations tokens;
                out = metaFindings c tokens norm invs out;
                out = foldl addFinding out (destructiveInvocationFindings invs);
                out = addRules (\<lambda>r. hasProgram invs (rule_pattern r)) id criticalProgramRules out;
                out = addRules (\<lambda>r. contains norm (rule_pattern r)) trimSpace criticalPhraseRules out;
                out = addRules (\<lambda>r. contains norm (rule_pattern r)) id highPhraseRules out
            in addRules (\<lambda>r. hasProgram invs (rule_pattern r)) id mediumProgramRules out))"

definition CommandRiskReason :: "CommandRisk \<Rightarrow> string" where
  "CommandRiskReason r =
     (case find (\<lambda>f. Severity f = Risk r) (Findings r) of
        None \<Rightarrow> []
      | Some f \<Rightarrow> Signal f @ '': '' @ Reason f)"

section \<open>Access tiers\<close>

definition TermModeReadOnly :: string where "TermModeReadOnly = ''read_only''"
definition TermModeGuided :: string where "TermModeGuided = ''guided''"
definition TermModeFullTTY :: string where "TermModeFullTTY = ''full_tty''"

lemmas TermMode_defs = TermModeReadOnly_def TermModeGuided_def TermModeFullTTY_def

record TerminalAccessMode =
  Mode :: string
  RequiresApproval :: bool
  ModeReason :: string

text \<open>The loop that steps over wrappers and assignments; the flag is \<open>i > 0\<close>.\<close>

fun skipShellWrappers :: "bool \<Rightarrow> string list \<Rightarrow> string list" where
  "skipShellWrappers later [] = []"
| "skipShellWrappers later (f # fs) =
     (if shellBase f \<in> set shellWrappers then skipShellWrappers True fs
      else if later \<and> contains f ''='' then skipShellWrappers True fs
      else f # fs)"

definition isInteractiveShell :: "string \<Rightarrow> bool" where
  "isInteractiveShell command =
     (let words = fst (ShellWords (toLower (trimSpace command)))
      in if words = [] then True
         else (case skipShellWrappers False words of
                 [] \<Rightarrow> False
               | f # fs \<Rightarrow> shellBase f \<in> set shellNames \<and> ''-c'' \<notin> set fs))"

definition ClassifyTerminalAccessMode :: "string \<Rightarrow> TerminalAccessMode" where
  "ClassifyTerminalAccessMode command =
     (if isInteractiveShell command
      then \<lparr>Mode = TermModeFullTTY, RequiresApproval = True,
            ModeReason = (utf8 [0xC778, 0xD130, 0xB799, 0xD2F0, 0xBE0C, 0x20, 0xC178] @ ''(full TTY) '' @ utf8 [0x2014, 0x20, 0xC2B9, 0xC778, 0x20, 0xD544, 0xC218])\<rparr>
      else (let risk = ParseCommandRisk command
            in if Risk risk = ''critical''
               then \<lparr>Mode = TermModeGuided, RequiresApproval = True,
                     ModeReason = (utf8 [0xCE58, 0xBA85, 0xC801, 0x20, 0xC704, 0xD5D8, 0x20, 0xBA85, 0xB839, 0x20, 0x2014, 0x20, 0xCC28, 0xB2E8] @ ''/'' @ utf8 [0xC2B9, 0xC778, 0x20, 0xB300, 0xC0C1])\<rparr>
               else if Risk risk = ''high'' \<or> Risk risk = ''medium''
               then \<lparr>Mode = TermModeGuided, RequiresApproval = True,
                     ModeReason = (utf8 [0xC704, 0xD5D8] @ ''/'' @ utf8 [0xBA54, 0xD0C0, 0xBB38, 0xC790, 0x20, 0xD3EC, 0xD568, 0x20, 0xBA85, 0xB839, 0x20, 0x2014, 0x20, 0xAC00, 0xC774, 0xB4DC, 0x20, 0xBAA8, 0xB4DC] @ ''('' @ utf8 [0xC2B9, 0xC778] @ '')'')\<rparr>
               else \<lparr>Mode = TermModeReadOnly, RequiresApproval = False,
                     ModeReason = (utf8 [0xC800, 0xC704, 0xD5D8, 0x20, 0xB2E8, 0xC77C, 0x20, 0xBA85, 0xB839, 0x20, 0x2014, 0x20, 0xC77D, 0xAE30, 0x20, 0xC804, 0xC6A9] @ ''('' @ utf8 [0xC815, 0xCC45, 0xC5D0, 0x20, 0xB530, 0xB984] @ '')'')\<rparr>))"

section \<open>The risk is a fold over the findings\<close>

definition cmdRiskJoin :: "string \<Rightarrow> string \<Rightarrow> string" where
  "cmdRiskJoin a b = (if cmdRiskRank b > cmdRiskRank a then b else a)"

interpretation cmdScale: risk_scale cmdRiskRank cmdRiskJoin "\<lambda>_. True"
  by unfold_locales (auto simp: cmdRiskJoin_def)

named_theorems finding_list \<open>the findings each stage of the parser appends\<close>

lemma addFinding_sel [simp]:
  "Risk (addFinding out f) = cmdRiskJoin (Risk out) (Severity f)"
  "Findings (addFinding out f) = Findings out @ [f]"
  by (simp_all add: addFinding_def cmdRiskJoin_def)

definition tallied :: "CommandRisk \<Rightarrow> bool" where
  "tallied out \<longleftrightarrow> Risk out = foldl cmdRiskJoin ''low'' (map Severity (Findings out))"

lemma tallied_init: "tallied \<lparr>Risk = ''low'', Findings = []\<rparr>"
  by (simp add: tallied_def)

lemma tallied_addFinding: "tallied out \<Longrightarrow> tallied (addFinding out f)"
  by (simp add: tallied_def)

lemma tallied_addIf: "tallied out \<Longrightarrow> tallied (addIf b f out)"
  by (simp add: addIf_def tallied_addFinding)

lemma tallied_addRules: "tallied out \<Longrightarrow> tallied (addRules fires sig rules out)"
  unfolding addRules_def by (induction rules arbitrary: out) (auto intro: tallied_addIf)

lemma tallied_foldl: "tallied out \<Longrightarrow> tallied (foldl addFinding out fs)"
  by (induction fs arbitrary: out) (auto intro: tallied_addFinding)

lemma tallied_metaFindings: "tallied out \<Longrightarrow> tallied (metaFindings c tokens norm ivs out)"
  by (auto simp: metaFindings_def Let_def intro: tallied_addFinding tallied_addIf split: option.split)

lemmas tallied_intros = tallied_init tallied_addFinding tallied_addIf tallied_addRules
  tallied_foldl tallied_metaFindings

lemma ParseCommandRisk_tallied: "tallied (ParseCommandRisk command)"
  unfolding ParseCommandRisk_def Let_def by (simp add: tallied_intros)

lemma Findings_addIf [finding_list]: "Findings (addIf b f out) = Findings out @ (if b then [f] else [])"
  by (simp add: addIf_def)

lemma Findings_addRules [finding_list]:
  "Findings (addRules fires sig rules out) =
     Findings out @ map (\<lambda>r. mkFinding (sig (rule_pattern r)) (rule_severity r) (rule_reason r))
                        (filter fires rules)"
  unfolding addRules_def by (induction rules arbitrary: out) (auto simp: finding_list)

lemma Findings_foldl [finding_list]: "Findings (foldl addFinding out fs) = Findings out @ fs"
  by (induction fs arbitrary: out) auto

definition aboveLow :: "string \<Rightarrow> bool" where
  "aboveLow s \<longleftrightarrow> s \<in> {''medium'', ''high'', ''critical''}"

lemma aboveLow_levels [simp]: "aboveLow ''medium''" "aboveLow ''high''" "aboveLow ''critical''"
  by (simp_all add: aboveLow_def)

lemma mkFinding_sel [simp]: "Severity (mkFinding g s r) = s" "Signal (mkFinding g s r) = g"
  by (simp_all add: mkFinding_def)

definition grows :: "CommandRisk \<Rightarrow> CommandRisk \<Rightarrow> bool" where
  "grows out out' \<longleftrightarrow> (\<exists>ms. Findings out' = Findings out @ ms \<and> (\<forall>f \<in> set ms. aboveLow (Severity f)))"

lemma grows_refl: "grows out out"
  by (simp add: grows_def)

lemma grows_addFinding: "aboveLow (Severity f) \<Longrightarrow> grows out out' \<Longrightarrow> grows out (addFinding out' f)"
  by (fastforce simp: grows_def)

lemma grows_addIf: "aboveLow (Severity f) \<Longrightarrow> grows out out' \<Longrightarrow> grows out (addIf b f out')"
  by (simp add: addIf_def grows_addFinding)

lemma Findings_metaFindings:
  "\<exists>ms. Findings (metaFindings c tokens norm ivs out) = Findings out @ ms \<and>
        (\<forall>f \<in> set ms. aboveLow (Severity f))"
  unfolding grows_def [symmetric] metaFindings_def Let_def
  by (simp add: grows_refl grows_addFinding grows_addIf split: option.split)

lemma destructiveFindingsOf_severity: "list_all (\<lambda>f. aboveLow (Severity f)) (destructiveFindingsOf iv)"
  by (simp only: destructiveFindingsOf_def Let_def list_all_append list.pred_inject
      mkFinding_sel aboveLow_levels simp_thms split: if_split)

lemma destructive_severity:
  "f \<in> set (destructiveInvocationFindings ivs) \<Longrightarrow> aboveLow (Severity f)"
  using destructiveFindingsOf_severity
  by (fastforce simp: destructiveInvocationFindings_def list_all_iff)

lemma rule_severities:
  assumes "r \<in> set (criticalProgramRules @ criticalPhraseRules @ highPhraseRules @ mediumProgramRules)"
  shows "aboveLow (rule_severity r)"
proof -
  have "list_all (\<lambda>r. aboveLow (rule_severity r))
      (criticalProgramRules @ criticalPhraseRules @ highPhraseRules @ mediumProgramRules)"
    by code_simp
  with assms show ?thesis by (metis list_all_iff)
qed

definition ruleFindings :: "invocation list \<Rightarrow> string \<Rightarrow> CommandRiskFinding list" where
  "ruleFindings ivs norm =
     (let found = (\<lambda>sig r. mkFinding (sig (rule_pattern r)) (rule_severity r) (rule_reason r))
      in map (found id) (filter (\<lambda>r. hasProgram ivs (rule_pattern r)) criticalProgramRules) @
         map (found trimSpace) (filter (\<lambda>r. contains norm (rule_pattern r)) criticalPhraseRules) @
         map (found id) (filter (\<lambda>r. contains norm (rule_pattern r)) highPhraseRules) @
         map (found id) (filter (\<lambda>r. hasProgram ivs (rule_pattern r)) mediumProgramRules))"

lemma ruleFindings_severity:
  assumes "f \<in> set (ruleFindings ivs norm)"
  shows "aboveLow (Severity f)"
proof -
  have "\<exists>r \<in> set (criticalProgramRules @ criticalPhraseRules @ highPhraseRules @ mediumProgramRules).
      Severity f = rule_severity r"
    using assms unfolding ruleFindings_def Let_def by auto
  then show ?thesis using rule_severities by auto
qed

text \<open>Every finding on a non-empty command comes from one of the stages, and none is low.\<close>

lemma ParseCommandRisk_stages:
  assumes "toLower (trimSpace command) = c" and "c \<noteq> []"
  shows "\<exists>ms rs. Findings (ParseCommandRisk command) =
            ms @ destructiveInvocationFindings (commandInvocations (commandTokens c)) @ rs \<and>
            (\<forall>f \<in> set (ms @ rs). aboveLow (Severity f))"
proof -
  obtain ms where ms:
      "Findings (metaFindings c (commandTokens c) (joinWith '' '' (commandTokens c))
         (commandInvocations (commandTokens c)) \<lparr>Risk = ''low'', Findings = []\<rparr>) = ms"
      "\<forall>f \<in> set ms. aboveLow (Severity f)"
    using Findings_metaFindings [of c "commandTokens c" "joinWith '' '' (commandTokens c)"
        "commandInvocations (commandTokens c)" "\<lparr>Risk = ''low'', Findings = []\<rparr>"] by auto
  have "Findings (ParseCommandRisk command) =
      ms @ destructiveInvocationFindings (commandInvocations (commandTokens c)) @
      ruleFindings (commandInvocations (commandTokens c)) (joinWith '' '' (commandTokens c))"
    using assms ms(1) by (simp add: ParseCommandRisk_def Let_def finding_list ruleFindings_def)
  moreover have "\<forall>f \<in> set (ms @ ruleFindings (commandInvocations (commandTokens c))
      (joinWith '' '' (commandTokens c))). aboveLow (Severity f)"
    using ms(2) ruleFindings_severity by (metis Un_iff set_append)
  ultimately show ?thesis by blast
qed

lemma ParseCommandRisk_severity:
  assumes "f \<in> set (Findings (ParseCommandRisk command))"
  shows "aboveLow (Severity f)"
proof (cases "toLower (trimSpace command) = []")
  case True
  with assms show ?thesis by (simp add: ParseCommandRisk_def)
next
  case False
  from ParseCommandRisk_stages [OF refl False] assms destructive_severity show ?thesis by fastforce
qed

lemma risk_upper:
  "f \<in> set (Findings (ParseCommandRisk command)) \<Longrightarrow>
   cmdRiskRank (Severity f) \<le> cmdRiskRank (Risk (ParseCommandRisk command))"
  using ParseCommandRisk_tallied [of command]
    cmdScale.foldl_upper [where a = "''low''" and b = "Severity f"
      and bs = "map Severity (Findings (ParseCommandRisk command))"]
  by (simp add: tallied_def)

lemma risk_attained:
  "Risk (ParseCommandRisk command) = ''low'' \<or>
   (\<exists>f \<in> set (Findings (ParseCommandRisk command)). Severity f = Risk (ParseCommandRisk command))"
  using ParseCommandRisk_tallied [of command]
    cmdScale.foldl_mem [where a = "''low''"
      and bs = "map Severity (Findings (ParseCommandRisk command))"]
  by (auto simp: tallied_def)

lemma risk_low_iff: "Risk (ParseCommandRisk command) = ''low'' \<longleftrightarrow> Findings (ParseCommandRisk command) = []"
proof
  assume low: "Risk (ParseCommandRisk command) = ''low''"
  show "Findings (ParseCommandRisk command) = []"
  proof (rule ccontr)
    assume "Findings (ParseCommandRisk command) \<noteq> []"
    then obtain f where f: "f \<in> set (Findings (ParseCommandRisk command))" by (meson last_in_set)
    from risk_upper [OF f] ParseCommandRisk_severity [OF f] low show False
      by (auto simp: cmdRiskRank_def aboveLow_def)
  qed
next
  assume "Findings (ParseCommandRisk command) = []"
  then show "Risk (ParseCommandRisk command) = ''low''"
    using ParseCommandRisk_tallied [of command] by (simp add: tallied_def)
qed

lemma risk_critical:
  assumes "f \<in> set (Findings (ParseCommandRisk command))" and "Severity f = ''critical''"
  shows "Risk (ParseCommandRisk command) = ''critical''"
  using risk_upper [OF assms(1)] assms(2)
  by (simp add: cmdRiskRank_def split: if_splits)

lemma risk_levels: "Risk (ParseCommandRisk command) \<in> {''low'', ''medium'', ''high'', ''critical''}"
proof -
  have "aboveLow (Risk (ParseCommandRisk command))" if "Risk (ParseCommandRisk command) \<noteq> ''low''"
    using that risk_attained [of command] ParseCommandRisk_severity by metis
  then show ?thesis by (auto simp: aboveLow_def)
qed

section \<open>Plain commands\<close>

text \<open>A command without quoting and without operator bytes, its blanks the shell's.\<close>

definition plainCommand :: "string \<Rightarrow> bool" where
  "plainCommand s \<longleftrightarrow>
     (\<forall>c \<in> set s. plainChar c \<and> (isSpace c \<longrightarrow> shellSeparator c) \<and> c \<notin> set ''&|;><'')"

lemma operator_chars: "op \<in> set shellOperators \<Longrightarrow> op \<noteq> [] \<and> set op \<subseteq> set ''&|;><''"
  by (auto simp: shellOperators_def)

lemma shellOperatorAt_plain:
  assumes "set s \<inter> set ''&|;><'' = {}"
  shows "shellOperatorAt s = []"
proof -
  have "\<not> hasPrefix s op" if "op \<in> set shellOperators" for op
    using operator_chars [OF that] assms by (cases op) (auto simp: hasPrefix_iff)
  then have "find (hasPrefix s) shellOperators = None"
    by (simp add: find_None_iff)
  then show ?thesis by (simp add: shellOperatorAt_def)
qed

lemma spaceOperators_plain: "set s \<inter> set ''&|;><'' = {} \<Longrightarrow> spaceOperators s = s"
proof (induction s)
  case Nil
  then show ?case by (simp add: spaceOperators.simps)
next
  case (Cons c cs)
  then have "shellOperatorAt (c # cs) = []" by (intro shellOperatorAt_plain) simp
  with Cons show ?case by (simp add: spaceOperators.simps [of "c # cs"])
qed

lemma fieldsFrom_set: "w \<in> set (fieldsFrom cur s) \<Longrightarrow> set w \<subseteq> set cur \<union> set s"
  by (induction cur s rule: fieldsFrom.induct) (auto split: if_splits)

lemma strFields_set: "w \<in> set (strFields s) \<Longrightarrow> set w \<subseteq> set s"
  using fieldsFrom_set [of w "[]" s] by (simp add: strFields_def)

lemma strFields_toLower: "strFields (toLower s) = map toLower (strFields s)"
proof -
  have "fieldsFrom (toLower cur) (toLower s) = map toLower (fieldsFrom cur s)" for cur
    by (induction cur s rule: fieldsFrom.induct) (auto simp: toLower_def)
  from this [of "[]"] show ?thesis by (simp add: strFields_def toLower_def)
qed

lemma commandTokens_plain:
  assumes "plainCommand s"
  shows "commandTokens s = strFields s"
proof -
  have "set s \<inter> set ''&|;><'' = {}"
    using assms by (auto simp: plainCommand_def)
  then have sp: "spaceOperators s = s" by (rule spaceOperators_plain)
  have "shellDequote w = w \<and> w \<noteq> []" if "w \<in> set (strFields s)" for w
    using that assms strFields_set [OF that] strFields_word [OF that]
    by (auto simp: plainCommand_def intro!: shellDequote_plain)
  then have "map shellDequote (strFields s) = strFields s" and "filter (\<lambda>t. t \<noteq> []) (strFields s) = strFields s"
    by (auto intro: map_idI filter_True)
  with sp show ?thesis by (simp add: commandTokens_def)
qed

lemma toLowerC_special:
  assumes "toLowerC c = d" and "d \<in> {backslashC, squoteC, dquoteC, CHR '' '', tabC, newlineC, returnC}
             \<or> d \<in> set ''&|;><''"
  shows "c = d"
proof (rule ccontr)
  assume "c \<noteq> d"
  with assms(1) have up: "65 \<le> (of_char c :: nat)" "(of_char c :: nat) \<le> 90"
      and d: "d = char_of ((of_char c :: nat) + 32)"
    by (auto simp: toLowerC_def Let_def split: if_splits)
  then have "(of_char d :: nat) = of_char c + 32" by simp
  with up have "97 \<le> (of_char d :: nat)" and "(of_char d :: nat) \<le> 122" by simp_all
  with assms(2) show False by (auto simp: special_char_defs)
qed

lemma plainCommand_toLower: "plainCommand s \<Longrightarrow> plainCommand (toLower s)"
  unfolding plainCommand_def
proof
  fix d
  assume plain: "\<forall>c \<in> set s. plainChar c \<and> (isSpace c \<longrightarrow> shellSeparator c) \<and> c \<notin> set ''&|;><''"
    and "d \<in> set (toLower s)"
  then obtain c where c: "c \<in> set s" and d: "toLowerC c = d" by (auto simp: toLower_def)
  have "plainChar d" and "d \<notin> set ''&|;><''"
    using toLowerC_special [OF d] plain c by (auto simp: plainChar_def)
  moreover have "shellSeparator d" if "isSpace d"
  proof -
    have "isSpace c" using that d by auto
    with plain c have "shellSeparator c" by auto
    moreover from this have "toLowerC c = c"
      by (auto simp: shellSeparator_def toLowerC_def special_char_defs)
    ultimately show ?thesis using d by simp
  qed
  ultimately show "plainChar d \<and> (isSpace d \<longrightarrow> shellSeparator d) \<and> d \<notin> set ''&|;><''" by blast
qed

lemma trimSpace_set: "set (trimSpace s) \<subseteq> set s"
  unfolding trimSpace_def by (auto dest!: set_dropWhileD)

lemma plainCommand_trim: "plainCommand s \<Longrightarrow> plainCommand (trimSpace s)"
  using trimSpace_set [of s] by (auto simp: plainCommand_def)

lemma plain_tokens:
  assumes "plainCommand command" and "splitCommandLine command = Inr argv"
  shows "commandTokens (toLower (trimSpace command)) = map toLower argv"
proof -
  have "ShellWords (trimSpace command) = (strFields (trimSpace command), None)"
    using plainCommand_trim [OF assms(1)] by (intro ShellWords_plain) (auto simp: plainCommand_def)
  with assms(2) have "argv = strFields (trimSpace command)"
    by (simp add: splitCommandLine_via_ShellWords)
  then show ?thesis
    using commandTokens_plain [OF plainCommand_toLower [OF plainCommand_trim [OF assms(1)]]]
    by (simp add: strFields_toLower)
qed

section \<open>Invocations of a single program\<close>

lemma commandTokens_Nil [simp]: "commandTokens [] = []"
  by (simp add: commandTokens_def strFields_def spaceOperators.simps [of "[]"])

lemma commandInvocations_Nil [simp]: "commandInvocations [] = []"
  by (simp add: commandInvocations_def commandInvocationsFrom.simps [of False "[]"])

lemma takeArgs_all:
  "\<forall>t \<in> set ts. \<not> isShellOperator t \<and> t \<noteq> ''-c'' \<and> t \<noteq> ''-lc'' \<Longrightarrow> takeArgs ts = (ts, [])"
  by (induction ts) auto

lemma commandInvocations_single:
  assumes "\<not> skippable t" and "\<forall>u \<in> set ts. \<not> isShellOperator u \<and> u \<noteq> ''-c'' \<and> u \<noteq> ''-lc''"
  shows "commandInvocations (t # ts) = [\<lparr>program = programName t, args = ts, pipedInto = False\<rparr>]"
  using assms
  by (simp add: commandInvocations_def commandInvocationsFrom.simps [of False "t # ts"]
      commandInvocationsFrom.simps [of False "[]"] takeArgs_all)

lemma root_delete_finding:
  assumes "iv \<in> set ivs" and "program iv = ''rm''" and "hasRecursiveFlag (args iv)"
    and "t \<in> set (targetArgs (args iv))" and "isRootTarget t"
  shows "\<exists>f \<in> set (destructiveInvocationFindings ivs). Severity f = ''critical''"
proof -
  have "list_ex isRootTarget (targetArgs (args iv))"
    using assms(4,5) by (auto simp: list_ex_iff)
  with assms(1-3) show ?thesis
    by (auto simp: destructiveInvocationFindings_def destructiveFindingsOf_def mkFinding_def
        intro!: bexI [of _ iv])
qed

lemma root_delete_critical:
  assumes "iv \<in> set (commandInvocations (commandTokens (toLower (trimSpace command))))"
    and "program iv = ''rm''" and "hasRecursiveFlag (args iv)"
    and "t \<in> set (targetArgs (args iv))" and "isRootTarget t"
  shows "Risk (ParseCommandRisk command) = ''critical''"
proof -
  have "toLower (trimSpace command) \<noteq> []"
    using assms(1) by (cases "trimSpace command") (auto simp: toLower_def)
  from ParseCommandRisk_stages [OF refl this] root_delete_finding [OF assms]
  obtain f where "f \<in> set (Findings (ParseCommandRisk command))" and "Severity f = ''critical''"
    by fastforce
  then show ?thesis by (rule risk_critical)
qed

section \<open>Reading commutes with lower case\<close>

definition lowerState :: "scan_state \<Rightarrow> scan_state" where
  "lowerState st = st\<lparr>sout := map toLower (sout st), sbuf := toLower (sbuf st)\<rparr>"

lemma lowerState_sel [simp]:
  "squote (lowerState st) = squote st" "sword (lowerState st) = sword st"
  "sout (lowerState st) = map toLower (sout st)" "sbuf (lowerState st) = toLower (sbuf st)"
  by (simp_all add: lowerState_def)

lemma flush_lower: "flush (lowerState st) = lowerState (flush st)"
  by (simp add: flush_def lowerState_def toLower_def)

lemma writeRune_lower: "writeRune (lowerState st) (toLowerC r) = lowerState (writeRune st r)"
  by (simp add: writeRune_def lowerState_def toLower_def)

lemma toLowerC_eq_special:
  "toLowerC r = squoteC \<longleftrightarrow> r = squoteC" "toLowerC r = dquoteC \<longleftrightarrow> r = dquoteC"
  "toLowerC r = backslashC \<longleftrightarrow> r = backslashC"
proof -
  have "toLowerC squoteC = squoteC" "toLowerC dquoteC = dquoteC" "toLowerC backslashC = backslashC"
    by (simp_all add: toLowerC_def special_char_defs)
  then show "toLowerC r = squoteC \<longleftrightarrow> r = squoteC" "toLowerC r = dquoteC \<longleftrightarrow> r = dquoteC"
    "toLowerC r = backslashC \<longleftrightarrow> r = backslashC"
    using toLowerC_special [of r] by auto
qed

lemma toLowerC_fixed:
  assumes "d \<in> {CHR '' '', tabC, newlineC, returnC, CHR ''$'', backtickC, dquoteC, backslashC}"
  shows "toLowerC r = d \<longleftrightarrow> r = d"
proof
  assume *: "toLowerC r = d"
  have "\<not> (65 \<le> (of_char r :: nat) \<and> (of_char r :: nat) \<le> 90)"
  proof
    assume up: "65 \<le> (of_char r :: nat) \<and> (of_char r :: nat) \<le> 90"
    with * have "d = char_of ((of_char r :: nat) + 32)" by (simp add: toLowerC_def)
    then have "(of_char d :: nat) = (of_char r + 32) mod 256" by simp
    with up have "97 \<le> (of_char d :: nat) \<and> (of_char d :: nat) \<le> 122" by simp
    with assms show False by (auto simp: special_char_defs)
  qed
  with * show "r = d" by (auto simp: toLowerC_def)
next
  assume "r = d"
  with assms show "toLowerC r = d" by (auto simp: toLowerC_def special_char_defs)
qed

lemma shellSeparator_lower [simp]: "shellSeparator (toLowerC r) = shellSeparator r"
  by (simp add: shellSeparator_def toLowerC_fixed)

lemma dquoteEscapable_lower [simp]: "dquoteEscapable (toLowerC r) = dquoteEscapable r"
  by (simp add: dquoteEscapable_def toLowerC_fixed)

lemma lowerState_updates:
  "lowerState (st\<lparr>squote := q\<rparr>) = (lowerState st)\<lparr>squote := q\<rparr>"
  "lowerState (st\<lparr>sword := w\<rparr>) = (lowerState st)\<lparr>sword := w\<rparr>"
  by (simp_all add: lowerState_def)

lemma shellWordsStep_lower:
  "shellWordsStep (lowerState st) (toLowerC r) (toLower rs) =
     map_prod lowerState id (shellWordsStep st r rs)"
proof (cases rs)
  case Nil
  then show ?thesis
    by (simp add: shellWordsStep_def toLowerC_eq_special flush_lower writeRune_lower toLower_def
        lowerState_updates)
next
  case (Cons r' rs')
  then show ?thesis
    by (simp add: shellWordsStep_def toLowerC_eq_special flush_lower writeRune_lower toLower_def
        lowerState_updates)
qed

lemma shellWordsLoop_lower:
  "shellWordsLoop (lowerState st) (toLower s) = lowerState (shellWordsLoop st s)"
proof (induction st s rule: shellWordsLoop.induct)
  case (1 st)
  then show ?case by (simp add: toLower_def)
next
  case (2 st r rs)
  obtain st' skip where step: "shellWordsStep st r rs = (st', skip)" by (cases "shellWordsStep st r rs")
  have "shellWordsStep (lowerState st) (toLowerC r) (toLower rs) = (lowerState st', skip)"
    using shellWordsStep_lower [of st r rs] step by simp
  moreover have "toLower (r # rs) = toLowerC r # toLower rs" by (simp add: toLower_def)
  moreover have "(if skip then drop 1 (toLower rs) else toLower rs) = toLower (if skip then drop 1 rs else rs)"
    by (simp add: toLower_def drop_map)
  ultimately show ?case using 2 [OF step [symmetric]] step by simp
qed

lemma ShellWords_toLower:
  "ShellWords (toLower s) = map_prod (map toLower) id (ShellWords s)"
proof -
  have init: "lowerState initScan = initScan"
    by (simp add: lowerState_def initScan_def toLower_def)
  have "flush (shellWordsLoop initScan (toLower s)) = lowerState (flush (shellWordsLoop initScan s))"
    using shellWordsLoop_lower [of initScan s] init by (simp add: flush_lower)
  then show ?thesis by (simp add: ShellWords_def)
qed

lemma isInteractiveShell_argv:
  assumes "splitCommandLine command = Inr (prog # rest)"
    and "shellBase (toLower prog) \<in> set shellNames" and "''-c'' \<notin> set (map toLower rest)"
  shows "isInteractiveShell command"
proof -
  have "fst (ShellWords (trimSpace command)) = prog # rest"
    using assms(1) by (simp add: splitCommandLine_via_ShellWords split: prod.splits option.splits)
  then have words: "fst (ShellWords (toLower (trimSpace command))) = toLower prog # map toLower rest"
    by (simp add: ShellWords_toLower)
  have "shellBase (toLower prog) \<notin> set shellWrappers"
    using assms(2) by (auto simp: shellNames_def shellWrappers_def)
  with words assms(2,3) show ?thesis by (simp add: isInteractiveShell_def Let_def)
qed

lemma access_tiers:
  "(Mode (ClassifyTerminalAccessMode command) = TermModeReadOnly \<longleftrightarrow>
      \<not> isInteractiveShell command \<and> Findings (ParseCommandRisk command) = []) \<and>
   (Mode (ClassifyTerminalAccessMode command) = TermModeFullTTY \<longleftrightarrow> isInteractiveShell command) \<and>
   (RequiresApproval (ClassifyTerminalAccessMode command) \<longleftrightarrow>
      Mode (ClassifyTerminalAccessMode command) \<noteq> TermModeReadOnly)"
proof (cases "isInteractiveShell command")
  case True
  then show ?thesis by (simp add: ClassifyTerminalAccessMode_def TermMode_defs)
next
  case False
  from risk_levels [of command] consider "Risk (ParseCommandRisk command) = ''low''"
    | "Risk (ParseCommandRisk command) = ''critical''"
    | "Risk (ParseCommandRisk command) = ''high'' \<or> Risk (ParseCommandRisk command) = ''medium''"
    by auto
  then show ?thesis
  proof cases
    case 1
    with False risk_low_iff [of command] show ?thesis
      by (simp add: ClassifyTerminalAccessMode_def TermMode_defs)
  next
    case 2
    then have "Findings (ParseCommandRisk command) \<noteq> []" using risk_low_iff [of command] by auto
    with False 2 show ?thesis by (simp add: ClassifyTerminalAccessMode_def TermMode_defs)
  next
    case 3
    then have "Findings (ParseCommandRisk command) \<noteq> []" "Risk (ParseCommandRisk command) \<noteq> ''critical''"
      using risk_low_iff [of command] by auto
    with False 3 show ?thesis by (simp add: ClassifyTerminalAccessMode_def TermMode_defs)
  qed
qed

lemma approval_iff_not_read_only:
  "RequiresApproval (ClassifyTerminalAccessMode command) \<longleftrightarrow>
     Mode (ClassifyTerminalAccessMode command) \<noteq> TermModeReadOnly"
  using access_tiers by blast

lemma read_only_iff:
  "Mode (ClassifyTerminalAccessMode command) = TermModeReadOnly \<longleftrightarrow>
     \<not> isInteractiveShell command \<and> Findings (ParseCommandRisk command) = []"
  using access_tiers by blast

section \<open>Properties\<close>

text \<open>
  C3. The verdict of the risk parser is exact on every command: no finding ranks above the
  overall risk, the risk is low precisely when no rule fired, any other risk is the
  severity of some finding, and a block reason is available exactly when the risk is not
  low.
\<close>

theorem risk_is_highest_severity:
  "list_all (\<lambda>f. cmdRiskRank (Severity f) \<le> cmdRiskRank (Risk (ParseCommandRisk command)))
     (Findings (ParseCommandRisk command)) \<and>
   (Risk (ParseCommandRisk command) = ''low'' \<longleftrightarrow> Findings (ParseCommandRisk command) = []) \<and>
   (Risk (ParseCommandRisk command) = ''low'' \<or>
    list_ex (\<lambda>f. Severity f = Risk (ParseCommandRisk command)) (Findings (ParseCommandRisk command))) \<and>
   (CommandRiskReason (ParseCommandRisk command) = [] \<longleftrightarrow> Risk (ParseCommandRisk command) = ''low'')"
proof (intro conjI)
  show "list_all (\<lambda>f. cmdRiskRank (Severity f) \<le> cmdRiskRank (Risk (ParseCommandRisk command)))
     (Findings (ParseCommandRisk command))"
    by (simp add: list_all_iff risk_upper)
  show "Risk (ParseCommandRisk command) = ''low'' \<longleftrightarrow> Findings (ParseCommandRisk command) = []"
    by (rule risk_low_iff)
  show att: "Risk (ParseCommandRisk command) = ''low'' \<or>
    list_ex (\<lambda>f. Severity f = Risk (ParseCommandRisk command)) (Findings (ParseCommandRisk command))"
    using risk_attained by (simp add: list_ex_iff)
  show "CommandRiskReason (ParseCommandRisk command) = [] \<longleftrightarrow> Risk (ParseCommandRisk command) = ''low''"
  proof (cases "Findings (ParseCommandRisk command) = []")
    case True
    then show ?thesis using risk_low_iff by (simp add: CommandRiskReason_def)
  next
    case False
    with att risk_low_iff have "list_ex (\<lambda>f. Severity f = Risk (ParseCommandRisk command)) (Findings (ParseCommandRisk command))"
      by blast
    then obtain f where
      "find (\<lambda>f. Severity f = Risk (ParseCommandRisk command)) (Findings (ParseCommandRisk command)) = Some f"
      by (cases "find (\<lambda>f. Severity f = Risk (ParseCommandRisk command)) (Findings (ParseCommandRisk command))")
         (auto simp: find_None_iff list_ex_iff)
    then show ?thesis using False risk_low_iff by (simp add: CommandRiskReason_def)
  qed
qed

text \<open>
  C4. A recursive delete of the filesystem root is critical in every spelling: whenever
  the parsed invocations of a command contain a program \<open>rm\<close> that carries a recursive
  flag in any position or bundle and has the root among its targets, the overall risk is
  critical, whatever else the command holds.
\<close>

theorem recursive_root_delete_is_critical:
  assumes "iv \<in> set (commandInvocations (commandTokens (toLower (trimSpace command))))"
    and "program iv = ''rm''" and "hasRecursiveFlag (args iv)"
    and "t \<in> set (targetArgs (args iv))" and "isRootTarget t"
  shows "Risk (ParseCommandRisk command) = ''critical''"
  using assms by (rule root_delete_critical)

theorem recursive_root_delete_is_critical_witness:
  "Risk (ParseCommandRisk ''sudo /bin/rm -f --recursive x //; ls'') = ''critical''"
  by (rule recursive_root_delete_is_critical
      [where iv = "\<lparr>program = ''rm'', args = [''-f'', ''--recursive'', ''x'', ''//''], pipedInto = False\<rparr>"
         and t = "''//''"]) code_simp+




text \<open>
  The access tiers are exact: a command is in the read-only tier precisely when it is
  not an interactive shell and no risk rule fired, it is full TTY precisely when it is an
  interactive shell, and approval is demanded by every tier but the read-only one.
\<close>

theorem access_tiers_exact:
  "(Mode (ClassifyTerminalAccessMode command) = TermModeReadOnly \<longleftrightarrow>
      \<not> isInteractiveShell command \<and> Findings (ParseCommandRisk command) = []) \<and>
   (Mode (ClassifyTerminalAccessMode command) = TermModeFullTTY \<longleftrightarrow> isInteractiveShell command) \<and>
   (RequiresApproval (ClassifyTerminalAccessMode command) \<longleftrightarrow>
      Mode (ClassifyTerminalAccessMode command) \<noteq> TermModeReadOnly)"
  by (rule access_tiers)

text \<open>
  C8. No spelling of a shell escapes the full-TTY tier: whenever the argv that would run is
  a shell program (by base name, whatever quotes, escapes or directory it was written
  with) and no argument is \<open>-c\<close>, the request is full TTY and needs approval.
\<close>

theorem shell_argv_is_full_tty:
  assumes "splitCommandLine command = Inr (prog # rest)"
    and "shellBase (toLower prog) \<in> set shellNames" and "''-c'' \<notin> set (map toLower rest)"
  shows "Mode (ClassifyTerminalAccessMode command) = TermModeFullTTY \<and>
         RequiresApproval (ClassifyTerminalAccessMode command)"
  using isInteractiveShell_argv [OF assms] by (simp add: ClassifyTerminalAccessMode_def)

theorem shell_argv_is_full_tty_witness:
  "Mode (ClassifyTerminalAccessMode (''/usr/bin/b'' @ [dquoteC] @ ''as'' @ [dquoteC, backslashC] @ ''h -i'')) = TermModeFullTTY \<and>
   RequiresApproval (ClassifyTerminalAccessMode (''/usr/bin/b'' @ [dquoteC] @ ''as'' @ [dquoteC, backslashC] @ ''h -i''))"
  by (rule shell_argv_is_full_tty [where prog = "''/usr/bin/bash''" and rest = "[''-i'']"]) code_simp+

end
