(* ===== verification/Admin_Http.thy ===== *)
theory Admin_Http
  imports Prelude
begin

text \<open>
  What the admin handlers of \<^verbatim>\<open>internal/proxy\<close> share: an error reply written by
  \<^verbatim>\<open>writeOpenAIError\<close> is a value of type \<open>http_error\<close> and a handler returns a sum whose
  left summand is that reply; every successful change leaves an entry in the admin audit
  log, written by \<^verbatim>\<open>auditAdmin\<close>. The JSON payload of an audit entry is not modelled.
  Whether the caller passed \<^verbatim>\<open>authorizeAdmin\<close> and what \<^verbatim>\<open>adminID\<close> resolved to are inputs
  of a handler, and so are the identifiers \<^verbatim>\<open>newID\<close> draws and the clock.
\<close>

record http_error =
  he_status :: nat
  he_message :: string
  he_code :: string

definition writeOpenAIError :: "nat \<Rightarrow> string \<Rightarrow> string \<Rightarrow> http_error" where
  "writeOpenAIError status message code = \<lparr>he_status = status, he_message = message, he_code = code\<rparr>"

record AdminAuditLog =
  au_AdminID :: string
  au_Action :: string
  au_BeforeValue :: string

definition auditAdmin :: "string \<Rightarrow> string \<Rightarrow> string \<Rightarrow> AdminAuditLog list \<Rightarrow> AdminAuditLog list" where
  "auditAdmin adminID action before log =
     log @ [\<lparr>au_AdminID = adminID, au_Action = action, au_BeforeValue = before\<rparr>]"

definition invalidAdminToken :: http_error where
  "invalidAdminToken = writeOpenAIError 401 ''invalid admin token'' ''invalid_api_key''"

definition methodNotAllowed :: http_error where
  "methodNotAllowed = writeOpenAIError 405 ''method not allowed'' ''method_not_allowed''"

definition invalidBody :: http_error where
  "invalidBody = writeOpenAIError 400 ''invalid JSON body'' ''invalid_body''"

text \<open>\<^verbatim>\<open>boundedLimit\<close> of the store and \<^verbatim>\<open>recentLimit\<close> of the handlers; the query parameter
  is given already parsed, \<open>None\<close> when it is absent or not a number.\<close>

definition boundedLimit :: "int \<Rightarrow> int \<Rightarrow> int \<Rightarrow> int" where
  "boundedLimit value fallback mx =
     (let v = (if value \<le> 0 then fallback else value) in if v > mx then mx else v)"

definition recentLimit :: "int option \<Rightarrow> int" where
  "recentLimit limit =
     (case limit of None \<Rightarrow> 50 | Some n \<Rightarrow> if n \<le> 0 then 50 else if n > 200 then 200 else n)"

lemma boundedLimit_range: "0 < fallback \<Longrightarrow> 0 < mx \<Longrightarrow> 0 < boundedLimit v fallback mx \<and> boundedLimit v fallback mx \<le> mx"
  by (simp add: boundedLimit_def Let_def)

lemma recentLimit_range: "0 < recentLimit l \<and> recentLimit l \<le> 200"
  by (simp add: recentLimit_def split: option.split)

end
