(* ===== verification/Terminal_Policy.thy ===== *)
theory Terminal_Policy
  imports Command_Risk Admin_Http "HOL-Library.Product_Lexorder"
begin

text \<open>
  The terminal policy gate: \<^verbatim>\<open>internal/proxy/admin_k8s_terminal.go\<close> (policy evaluation, the
  deny and allow matchers, the wildcard and label-selector matchers, the break-glass default
  of the highest administrator, the handlers that store, delete and evaluate policies) over
  the policy table of \<^verbatim>\<open>internal/store/k8s_terminal.go\<close>.

  A row of the table is a record, the table the list of its rows. The query's
  \<^verbatim>\<open>ORDER BY\<close> is a stable sort in byte order; the list columns are stored as the
  comma-joined text the store writes and are parsed back when they are read.
\<close>

section \<open>Policies and their table\<close>

record K8sTerminalPolicy =
  tp_ID :: string
  tp_Name :: string
  tp_Role :: string
  tp_ClusterID :: string
  tp_NamespacePattern :: string
  tp_PodSelector :: string
  tp_CommandAllowlist :: "string list"
  tp_CommandDenylist :: "string list"
  tp_RequireApproval :: bool
  tp_MaxSessionMinutes :: int
  tp_AuditEnabled :: bool
  tp_Enabled :: bool
  tp_CreatedAt :: string
  tp_UpdatedAt :: string

record K8sTerminalPolicyFilter =
  tf_Role :: string
  tf_ClusterID :: string
  tf_Enabled :: string
  tf_Limit :: int

definition joinTags :: "string list \<Rightarrow> string" where
  "joinTags tags = joinWith '','' (filter (\<lambda>t. t \<noteq> []) (map trimSpace tags))"

definition parseTags :: "string \<Rightarrow> string list" where
  "parseTags raw =
     (if trimSpace raw = [] then [] else filter (\<lambda>t. t \<noteq> []) (map trimSpace (splitOn (CHR '','') raw)))"

text \<open>A row as the table holds it: the list columns as text.\<close>

record policy_row =
  row_policy :: K8sTerminalPolicy
  row_allow :: string
  row_deny :: string

definition policyRow :: "K8sTerminalPolicy \<Rightarrow> policy_row" where
  "policyRow p = \<lparr>row_policy = p\<lparr>tp_CommandAllowlist := [], tp_CommandDenylist := []\<rparr>,
     row_allow = joinTags (tp_CommandAllowlist p), row_deny = joinTags (tp_CommandDenylist p)\<rparr>"

definition scanPolicy :: "policy_row \<Rightarrow> K8sTerminalPolicy" where
  "scanPolicy r = (row_policy r)\<lparr>tp_CommandAllowlist := parseTags (row_allow r),
     tp_CommandDenylist := parseTags (row_deny r)\<rparr>"

definition rowID :: "policy_row \<Rightarrow> string" where
  "rowID r = tp_ID (row_policy r)"

text \<open>The defaults the store fills in, then insert, or update on a conflict of the id: the
  update keeps the stored \<^verbatim>\<open>created_at\<close>.\<close>

definition policyDefaults :: "string \<Rightarrow> K8sTerminalPolicy \<Rightarrow> K8sTerminalPolicy" where
  "policyDefaults now p = p\<lparr>tp_CreatedAt := (if tp_CreatedAt p = [] then now else tp_CreatedAt p),
     tp_UpdatedAt := now,
     tp_NamespacePattern := (if tp_NamespacePattern p = [] then ''*'' else tp_NamespacePattern p),
     tp_MaxSessionMinutes := (if tp_MaxSessionMinutes p \<le> 0 then 10 else tp_MaxSessionMinutes p)\<rparr>"

fun upsertRow :: "policy_row \<Rightarrow> policy_row list \<Rightarrow> policy_row list" where
  "upsertRow r [] = [r]"
| "upsertRow r (x # xs) =
     (if rowID x = rowID r
      then r\<lparr>row_policy := (row_policy r)\<lparr>tp_CreatedAt := tp_CreatedAt (row_policy x)\<rparr>\<rparr> # xs
      else x # upsertRow r xs)"

definition UpsertK8sTerminalPolicy ::
  "string \<Rightarrow> K8sTerminalPolicy \<Rightarrow> policy_row list \<Rightarrow> policy_row list" where
  "UpsertK8sTerminalPolicy now p table = upsertRow (policyRow (policyDefaults now p)) table"

definition policySelected :: "K8sTerminalPolicyFilter \<Rightarrow> K8sTerminalPolicy \<Rightarrow> bool" where
  "policySelected f p \<longleftrightarrow>
     (tf_Role f = [] \<or> tp_Role p = tf_Role f \<or> tp_Role p = [] \<or> tp_Role p = ''*'') \<and>
     (tf_ClusterID f = [] \<or> tp_ClusterID p = tf_ClusterID f \<or> tp_ClusterID p = []) \<and>
     (tf_Enabled f = ''true'' \<longrightarrow> tp_Enabled p) \<and> (tf_Enabled f = ''false'' \<longrightarrow> \<not> tp_Enabled p)"

definition policyOrder :: "K8sTerminalPolicy \<Rightarrow> nat \<times> string \<times> string \<times> string \<times> string" where
  "policyOrder p = (if tp_Enabled p then 0 else 1, tp_Role p, tp_ClusterID p, tp_NamespacePattern p, tp_Name p)"

definition ListK8sTerminalPolicies ::
  "K8sTerminalPolicyFilter \<Rightarrow> policy_row list \<Rightarrow> K8sTerminalPolicy list" where
  "ListK8sTerminalPolicies f table =
     take (nat (boundedLimit (tf_Limit f) 200 2000))
       (sort_key policyOrder (filter (policySelected f) (map scanPolicy table)))"

definition DeleteK8sTerminalPolicy :: "string \<Rightarrow> policy_row list \<Rightarrow> policy_row list" where
  "DeleteK8sTerminalPolicy i table = filter (\<lambda>r. rowID r \<noteq> i) table"

section \<open>Matchers\<close>

fun wildcardLoop :: "bool \<Rightarrow> string list \<Rightarrow> string \<Rightarrow> bool" where
  "wildcardLoop anchored [] v = True"
| "wildcardLoop anchored (part # parts) v =
     (if part = [] then wildcardLoop False parts v
      else (case index v part of
              None \<Rightarrow> False
            | Some idx \<Rightarrow> if anchored \<and> idx \<noteq> 0 then False
                          else wildcardLoop False parts (drop (idx + length part) v)))"

definition terminalWildcardMatch :: "string \<Rightarrow> string \<Rightarrow> bool" where
  "terminalWildcardMatch pattern0 value0 =
     (let p = toLower (trimSpace pattern0); v = toLower (trimSpace value0); parts = splitOn (CHR ''*'') p in
      if p = ''*'' then True
      else if \<not> wildcardLoop (\<not> hasPrefix p ''*'') parts v then False
      else \<not> (last parts \<noteq> [] \<and> \<not> hasSuffix p ''*'' \<and> \<not> hasSuffix v (last parts)))"

definition terminalCommandMatches :: "string \<Rightarrow> string \<Rightarrow> bool" where
  "terminalCommandMatches pattern0 command =
     (let p = toLower (trimSpace pattern0); c = toLower (trimSpace command) in
      if p = [] \<or> c = [] then False
      else if contains p ''*'' then terminalWildcardMatch p c
      else if p = c \<or> hasPrefix c (p @ '' '') then True
      else if contains p '' '' then contains c p
      else False)"

definition terminalAllowlistMatches :: "string list \<Rightarrow> string \<Rightarrow> bool" where
  "terminalAllowlistMatches patterns command = list_ex (\<lambda>p. terminalCommandMatches p command) patterns"

definition normalizedCommandLine :: "string \<Rightarrow> string" where
  "normalizedCommandLine command = joinWith '' '' (fst (ShellWords (toLower (trimSpace command))))"

definition positionWords :: "string list" where
  "positionWords = [''-c'', ''-lc'', ''&&'', ''||'', ''|'', '';'', ''&'', ''('', ''{'', ''sudo'', ''env'', ''nohup'',
     ''exec'', ''time'', ''xargs'', ''then'', ''do'', ''else'']"

text \<open>The predecessor of a token, \<open>None\<close> for the first token of the line.\<close>

definition terminalCommandPosition :: "string option \<Rightarrow> bool" where
  "terminalCommandPosition before =
     (case before of None \<Rightarrow> True
      | Some t \<Rightarrow> let prev = trimSet t [dquoteC, squoteC] in
          prev \<in> set positionWords \<or> hasSuffix prev '';'' \<or> hasSuffix prev ''|'' \<or> hasSuffix prev ''&'')"

fun programTokenLoop :: "string \<Rightarrow> string option \<Rightarrow> string list \<Rightarrow> bool" where
  "programTokenLoop pat before [] = False"
| "programTokenLoop pat before (raw # rest) =
     ((terminalCommandPosition before \<and>
        (let tok = afterLast (CHR ''/'') raw in tok = pat \<or> hasPrefix tok (pat @ ''.''))) \<or>
      programTokenLoop pat (Some raw) rest)"

definition terminalProgramTokenMatches :: "string \<Rightarrow> string \<Rightarrow> bool" where
  "terminalProgramTokenMatches pat command = programTokenLoop pat None (strFields (normalizedCommandLine command))"

definition terminalDenyMatches :: "string \<Rightarrow> string \<Rightarrow> bool" where
  "terminalDenyMatches pattern0 command =
     (if terminalCommandMatches pattern0 command then True
      else let normalized = normalizedCommandLine command in
        if normalized \<noteq> [] \<and> terminalCommandMatches pattern0 normalized then True
        else let p = toLower (trimSpace pattern0) in
          if p = [] \<or> list_ex (\<lambda>c. c \<in> set '' *'') p then False
          else terminalProgramTokenMatches p (toLower command))"

definition labelPartMatches :: "strmap \<Rightarrow> string \<Rightarrow> bool" where
  "labelPartMatches labels part =
     (case index part ''!='' of
        Some i \<Rightarrow> mapGet labels (trimSpace (take i part)) \<noteq> trimSpace (drop (i + 2) part)
      | None \<Rightarrow> (case index part ''='' of
            Some i \<Rightarrow> mapGet labels (trimSpace (take i part)) = trimSpace (drop (i + 1) part)
          | None \<Rightarrow> labels part \<noteq> None))"

definition labelSelectorMatches :: "string \<Rightarrow> strmap \<Rightarrow> bool" where
  "labelSelectorMatches selector labels =
     (let sel = trimSpace selector in
      if sel = [] then True
      else list_all (\<lambda>raw. let part = trimSpace raw in part = [] \<or> labelPartMatches labels part)
             (splitOn (CHR '','') sel))"

section \<open>Lists, presets and templates\<close>

fun uniqueFrom :: "string list \<Rightarrow> string list \<Rightarrow> string list" where
  "uniqueFrom seen [] = []"
| "uniqueFrom seen (v # vs) =
     (if v = [] \<or> v \<in> set seen then uniqueFrom seen vs else v # uniqueFrom (v # seen) vs)"

definition uniqueStrings :: "string list \<Rightarrow> string list" where
  "uniqueStrings vs = uniqueFrom [] vs"

definition cleanTokens :: "string list \<Rightarrow> string list" where
  "cleanTokens vs =
     concat (map (\<lambda>v. concat (map (\<lambda>part. filter (\<lambda>t. t \<noteq> []) (map trimSpace (splitOn (CHR '','') part)))
       (splitOn newlineC v))) vs)"

definition cleanStringList :: "string list \<Rightarrow> string list" where
  "cleanStringList vs = uniqueStrings (sort (cleanTokens vs))"

definition builtinTerminalDenylist :: "string list" where
  "builtinTerminalDenylist = [''rm -rf /'', ''rm -rf'', ''dd if='', ''dd of='', ''mkfs'', ''shutdown'', ''reboot'',
     ''halt'', ''curl * | sh'', ''wget * | sh'', ''kubectl delete'', ''apt-get install'', ''apt install'',
     ''yum install'', ''dnf install'', ''apk add'']"

definition terminalCommandPresets :: "string \<Rightarrow> string list" where
  "terminalCommandPresets key =
     (if key = ''read_only'' then [''ls'', ''pwd'', ''cat'', ''head'', ''tail'', ''grep'', ''env'', ''printenv'', ''ps'', ''df'',
        ''du'', ''date'', ''id'', ''whoami'']
      else if key = ''network'' then [''curl'', ''wget'', ''nslookup'', ''dig'', ''nc'', ''netstat'', ''ss'']
      else if key = ''runtime'' then [''ps'', ''top'', ''free'', ''df'', ''du'', ''jcmd'', ''jstack'']
      else if key = ''interactive_shell'' then [''/bin/sh'', ''/bin/bash'', ''sh'', ''bash'']
      else [])"

record terminalPolicyTemplate =
  tt_Key :: string
  tt_Role :: string
  tt_NamespacePattern :: string
  tt_CommandAllowlist :: "string list"
  tt_RequireApproval :: bool
  tt_MaxSessionMinutes :: int

definition mergePresets :: "string list \<Rightarrow> string list" where
  "mergePresets keys = uniqueStrings (concat (map terminalCommandPresets keys))"

definition terminalPolicyTemplates :: "terminalPolicyTemplate list" where
  "terminalPolicyTemplates =
    [\<lparr>tt_Key = ''read_only_all'', tt_Role = ''*'', tt_NamespacePattern = ''*'',
       tt_CommandAllowlist = mergePresets [''read_only''], tt_RequireApproval = True, tt_MaxSessionMinutes = 10\<rparr>,
     \<lparr>tt_Key = ''network_diag'', tt_Role = ''*'', tt_NamespacePattern = ''*'',
       tt_CommandAllowlist = mergePresets [''read_only'', ''network''], tt_RequireApproval = True, tt_MaxSessionMinutes = 15\<rparr>,
     \<lparr>tt_Key = ''runtime_diag'', tt_Role = ''*'', tt_NamespacePattern = ''*'',
       tt_CommandAllowlist = mergePresets [''read_only'', ''runtime''], tt_RequireApproval = True, tt_MaxSessionMinutes = 15\<rparr>,
     \<lparr>tt_Key = ''admin_full_tty'', tt_Role = ''admin'', tt_NamespacePattern = ''*'',
       tt_CommandAllowlist = mergePresets [''interactive_shell''], tt_RequireApproval = True, tt_MaxSessionMinutes = 10\<rparr>,
     \<lparr>tt_Key = ''nonprod_relaxed'', tt_Role = ''*'', tt_NamespacePattern = ''dev-*'',
       tt_CommandAllowlist = mergePresets [''read_only'', ''network'', ''runtime''], tt_RequireApproval = False,
       tt_MaxSessionMinutes = 30\<rparr>]"

definition maxTerminalRisk :: "string \<Rightarrow> string \<Rightarrow> string" where
  "maxTerminalRisk a b =
     (let rank = (\<lambda>s. if s = ''low'' then 1 else if s = ''medium'' then 2 else if s = ''high'' then 3
                      else if s = ''critical'' then 4 else (0::nat)) in
      if rank b > rank a then b else if a = [] then b else a)"

section \<open>Evaluation\<close>

record terminalPolicyEvalRequest =
  rq_Role :: string
  rq_ClusterID :: string
  rq_Namespace :: string
  rq_Pod :: string
  rq_PodLabels :: strmap
  rq_Command :: string

record terminalPolicyEvalResult =
  rs_Allowed :: bool
  rs_RequireApproval :: bool
  rs_AuditEnabled :: bool
  rs_MaxSessionMinutes :: int
  rs_RiskLevel :: string
  rs_Reason :: string
  rs_MatchedPolicies :: "string list"
  rs_MatchedRules :: "string list"
  rs_CommandRisk :: "CommandRiskFinding list"
  rs_AccessMode :: string

definition terminalPolicyScopeMatches :: "terminalPolicyEvalRequest \<Rightarrow> K8sTerminalPolicy \<Rightarrow> bool" where
  "terminalPolicyScopeMatches req p =
     (let role = toLower (trimSpace (tp_Role p)) in
      if role \<noteq> [] \<and> role \<noteq> ''*'' \<and> role \<noteq> rq_Role req then False
      else if tp_ClusterID p \<noteq> [] \<and> tp_ClusterID p \<noteq> rq_ClusterID req then False
      else if \<not> terminalWildcardMatch (firstNonEmpty [tp_NamespacePattern p, ''*'']) (rq_Namespace req) then False
      else labelSelectorMatches (tp_PodSelector p) (rq_PodLabels req))"

definition noPolicyReason :: string where
  "noPolicyReason = (''no enabled terminal policy matched this role/cluster/namespace/selector '' @ utf8 [0x2014] @ '' register and enable a terminal policy covering this scope (Admin '' @ utf8 [0x2192, 0x20, 0xD130, 0xBBF8, 0xB110, 0x20, 0xC815, 0xCC45] @ '', or POST /admin/k8s/terminal-policies) whose command_allowlist includes this command'')"

text \<open>The loop over the matched policies. A deny pattern ends it with the early return's
  result in the left summand; otherwise the selected policies are collected in order.\<close>

definition denyResult :: "string \<Rightarrow> terminalPolicyEvalResult \<Rightarrow> terminalPolicyEvalResult" where
  "denyResult pat r = r\<lparr>rs_Allowed := False, rs_RequireApproval := True,
     rs_RiskLevel := maxTerminalRisk (rs_RiskLevel r) ''high'',
     rs_Reason := ''command denied by policy pattern: '' @ pat,
     rs_MatchedRules := rs_MatchedRules r @ [''deny:'' @ pat]\<rparr>"

definition allowRule :: "K8sTerminalPolicy \<Rightarrow> string \<Rightarrow> terminalPolicyEvalResult \<Rightarrow> terminalPolicyEvalResult" where
  "allowRule p command r =
     (case find (\<lambda>pat. terminalCommandMatches pat command) (tp_CommandAllowlist p) of
        None \<Rightarrow> r
      | Some pat \<Rightarrow> r\<lparr>rs_MatchedRules := rs_MatchedRules r @ [''allow:'' @ pat]\<rparr>)"

fun matchedLoop ::
  "string \<Rightarrow> K8sTerminalPolicy list \<Rightarrow> K8sTerminalPolicy list \<Rightarrow> terminalPolicyEvalResult \<Rightarrow>
     terminalPolicyEvalResult + (K8sTerminalPolicy list \<times> terminalPolicyEvalResult)" where
  "matchedLoop command [] selected r = Inr (selected, r)"
| "matchedLoop command (p # ps) selected r =
     (case find (\<lambda>pat. terminalDenyMatches pat command) (builtinTerminalDenylist @ tp_CommandDenylist p) of
        Some pat \<Rightarrow> Inl (denyResult pat r)
      | None \<Rightarrow>
          if terminalAllowlistMatches (tp_CommandAllowlist p) command
          then matchedLoop command ps (selected @ [p]) (allowRule p command r)
          else matchedLoop command ps selected r)"

definition grantStep :: "terminalPolicyEvalResult \<Rightarrow> K8sTerminalPolicy \<Rightarrow> terminalPolicyEvalResult" where
  "grantStep r p = r\<lparr>rs_RequireApproval := (rs_RequireApproval r \<or> tp_RequireApproval p),
     rs_AuditEnabled := (rs_AuditEnabled r \<or> tp_AuditEnabled p),
     rs_MaxSessionMinutes := (if rs_MaxSessionMinutes r = 0 \<or> tp_MaxSessionMinutes p < rs_MaxSessionMinutes r
       then tp_MaxSessionMinutes p else rs_MaxSessionMinutes r)\<rparr>"

definition grantReason :: "TerminalAccessMode \<Rightarrow> string \<Rightarrow> string" where
  "grantReason mode riskReason = ''command allowed by terminal policy'' @
     (if Mode mode = TermModeFullTTY then ('' '' @ utf8 [0xB7] @ '' full TTY '' @ utf8 [0x2192, 0x20, 0xC2B9, 0xC778, 0x20, 0xD544, 0xC218]) else []) @
     (if riskReason \<noteq> [] then ('' '' @ utf8 [0xB7] @ '' '') @ riskReason else [])"

definition grantResult ::
  "TerminalAccessMode \<Rightarrow> CommandRisk \<Rightarrow> K8sTerminalPolicy list \<Rightarrow> terminalPolicyEvalResult \<Rightarrow> terminalPolicyEvalResult" where
  "grantResult mode parsed selected r0 =
     (let r1 = foldl grantStep (r0\<lparr>rs_Allowed := True, rs_RequireApproval := False, rs_AuditEnabled := False,
                 rs_MaxSessionMinutes := 0\<rparr>) selected;
          r2 = (if RequiresApproval mode then r1\<lparr>rs_RequireApproval := True, rs_AuditEnabled := True\<rparr> else r1)
      in r2\<lparr>rs_RiskLevel := Risk parsed, rs_Reason := grantReason mode (CommandRiskReason parsed),
           rs_MatchedPolicies := uniqueStrings (rs_MatchedPolicies r2),
           rs_MatchedRules := uniqueStrings (rs_MatchedRules r2)\<rparr>)"

definition initialResult :: "string \<Rightarrow> terminalPolicyEvalResult" where
  "initialResult command =
     \<lparr>rs_Allowed = False, rs_RequireApproval = True, rs_AuditEnabled = True, rs_MaxSessionMinutes = 10,
      rs_RiskLevel = Risk (ParseCommandRisk command), rs_Reason = noPolicyReason,
      rs_MatchedPolicies = [], rs_MatchedRules = [],
      rs_CommandRisk = Findings (ParseCommandRisk command),
      rs_AccessMode = Mode (ClassifyTerminalAccessMode command)\<rparr>"

definition evaluateTerminalPolicy ::
  "terminalPolicyEvalRequest \<Rightarrow> K8sTerminalPolicy list \<Rightarrow> terminalPolicyEvalResult" where
  "evaluateTerminalPolicy req policies =
     (let command = rq_Command req; parsed = ParseCommandRisk command;
          mode = ClassifyTerminalAccessMode command; r0 = initialResult command in
      if Risk parsed = ''critical''
      then r0\<lparr>rs_Reason := CommandRiskReason parsed, rs_MatchedRules := [CommandRiskReason parsed]\<rparr>
      else
        let matched = filter (terminalPolicyScopeMatches req) policies;
            r1 = r0\<lparr>rs_MatchedPolicies := map tp_ID matched\<rparr> in
        if matched = [] then r1
        else (case matchedLoop command matched [] r1 of
          Inl r \<Rightarrow> r
        | Inr (selected, r) \<Rightarrow>
            if selected = []
            then r\<lparr>rs_Reason := ''matched policies did not allow this command'',
                   rs_RiskLevel := maxTerminalRisk (rs_RiskLevel r) ''medium''\<rparr>
            else grantResult mode parsed selected r))"

definition classifyTerminalCommandRisk :: "string \<Rightarrow> string \<times> string" where
  "classifyTerminalCommandRisk command =
     (let r = ParseCommandRisk command in (Risk r, CommandRiskReason r))"

text \<open>The four shells the break-glass default may start, the \<^verbatim>\<open>isInteractiveShell\<close> of
  \<^verbatim>\<open>admin_k8s_terminal_stream.go\<close>.\<close>

definition streamInteractiveShell :: "string \<Rightarrow> bool" where
  "streamInteractiveShell command \<longleftrightarrow> trimSpace command \<in> {''/bin/sh'', ''/bin/bash'', ''sh'', ''bash''}"

definition applySuperAdminTerminalDefault ::
  "terminalPolicyEvalRequest \<Rightarrow> terminalPolicyEvalResult \<Rightarrow> terminalPolicyEvalResult" where
  "applySuperAdminTerminalDefault req r =
     (if \<not> equalFold (rq_Role req) ''super_admin'' \<or> \<not> streamInteractiveShell (rq_Command req) then r
      else r\<lparr>rs_Allowed := True, rs_RequireApproval := False, rs_AuditEnabled := True, rs_MaxSessionMinutes := 15,
        rs_RiskLevel := ''high'',
        rs_Reason := (utf8 [0xCD5C, 0xACE0, 0x20, 0xAD00, 0xB9AC, 0xC790, 0x20, 0xAE30, 0xBCF8, 0x20, 0xC815, 0xCC45] @ '': '' @ utf8 [0xB300, 0xD654, 0xD615, 0x20, 0xC178, 0x20, 0xC989, 0xC2DC, 0x20, 0xC811, 0xC18D, 0x20, 0xB7] @ '' 15'' @ utf8 [0xBD84, 0x20, 0xC81C, 0xD55C, 0x20, 0xB7, 0x20, 0xC804, 0xCCB4, 0x20, 0xAC10, 0xC0AC]),
        rs_MatchedPolicies := uniqueStrings (rs_MatchedPolicies r @ [''builtin:super_admin_full_tty'']),
        rs_MatchedRules := uniqueStrings (rs_MatchedRules r @ [''allow:authenticated-super-admin-shell'']),
        rs_AccessMode := TermModeFullTTY\<rparr>)"

section \<open>Handlers\<close>

definition terminalPolicyFromInput ::
  "string \<Rightarrow> string \<Rightarrow> string \<Rightarrow> string \<Rightarrow> string \<Rightarrow> string \<Rightarrow> string \<Rightarrow> string list \<Rightarrow> string list \<Rightarrow> int \<Rightarrow> K8sTerminalPolicy" where
  "terminalPolicyFromInput freshID i name role clusterID namespacePattern podSelector allow deny maxSession =
     (let r = toLower (trimSpace role); ns = trimSpace namespacePattern; dl = cleanStringList deny in
      \<lparr>tp_ID = (if i = [] then freshID else i), tp_Name = trimSpace name,
       tp_Role = (if r = [] then ''*'' else r), tp_ClusterID = trimSpace clusterID,
       tp_NamespacePattern = (if ns = [] then ''*'' else ns), tp_PodSelector = trimSpace podSelector,
       tp_CommandAllowlist = cleanStringList allow,
       tp_CommandDenylist = (if dl = [] then builtinTerminalDenylist else dl),
       tp_RequireApproval = True, tp_MaxSessionMinutes = (if maxSession \<le> 0 then 10 else maxSession),
       tp_AuditEnabled = True, tp_Enabled = True, tp_CreatedAt = [], tp_UpdatedAt = []\<rparr>)"

record policyInput =
  in_ID :: string
  in_Name :: string
  in_Role :: string
  in_ClusterID :: string
  in_NamespacePattern :: string
  in_PodSelector :: string
  in_CommandAllowlist :: "string list"
  in_CommandDenylist :: "string list"
  in_RequireApproval :: "bool option"
  in_MaxSessionMinutes :: int
  in_AuditEnabled :: "bool option"
  in_Enabled :: "bool option"

record policy_db =
  db_policies :: "policy_row list"
  db_audit :: "AdminAuditLog list"

definition orDefault :: "bool option \<Rightarrow> bool \<Rightarrow> bool" where
  "orDefault v d = (case v of None \<Rightarrow> d | Some b \<Rightarrow> b)"

definition postK8sTerminalPolicy ::
  "bool \<Rightarrow> string \<Rightarrow> string \<Rightarrow> string \<Rightarrow> policyInput option \<Rightarrow> policy_db \<Rightarrow> (http_error + K8sTerminalPolicy) \<times> policy_db" where
  "postK8sTerminalPolicy authorized adminID freshID now body db =
     (if \<not> authorized then (Inl invalidAdminToken, db)
      else (case body of
        None \<Rightarrow> (Inl invalidBody, db)
      | Some inp \<Rightarrow>
          let p = terminalPolicyFromInput freshID (in_ID inp) (in_Name inp) (in_Role inp) (in_ClusterID inp)
                    (in_NamespacePattern inp) (in_PodSelector inp) (in_CommandAllowlist inp)
                    (in_CommandDenylist inp) (in_MaxSessionMinutes inp) in
          if tp_Name p = [] then (Inl (writeOpenAIError 400 ''name is required'' ''missing_name''), db)
          else if tp_CommandAllowlist p = []
          then (Inl (writeOpenAIError 400 ''command_allowlist must include at least one safe command pattern''
                  ''missing_allowlist''), db)
          else
            let q = p\<lparr>tp_RequireApproval := orDefault (in_RequireApproval inp) (tp_RequireApproval p),
                      tp_AuditEnabled := orDefault (in_AuditEnabled inp) (tp_AuditEnabled p),
                      tp_Enabled := orDefault (in_Enabled inp) (tp_Enabled p)\<rparr> in
            (Inr q, db\<lparr>db_policies := UpsertK8sTerminalPolicy now q (db_policies db),
                       db_audit := auditAdmin adminID ''k8s.terminal_policy.upsert'' (tp_ID q) (db_audit db)\<rparr>)))"

definition deleteK8sTerminalPolicy ::
  "bool \<Rightarrow> string \<Rightarrow> string \<Rightarrow> policy_db \<Rightarrow> (http_error + string) \<times> policy_db" where
  "deleteK8sTerminalPolicy authorized adminID i db =
     (if \<not> authorized then (Inl invalidAdminToken, db)
      else if i = [] then (Inl (writeOpenAIError 400 ''policy id is required'' ''missing_policy_id''), db)
      else (Inr i, db\<lparr>db_policies := DeleteK8sTerminalPolicy i (db_policies db),
                      db_audit := auditAdmin adminID ''k8s.terminal_policy.delete'' i (db_audit db)\<rparr>))"

definition handleK8sTerminalPolicyEvaluate ::
  "string \<Rightarrow> terminalPolicyEvalRequest option \<Rightarrow> policy_db \<Rightarrow> (http_error + terminalPolicyEvalResult) \<times> policy_db" where
  "handleK8sTerminalPolicyEvaluate adminID body db =
     (case body of
        None \<Rightarrow> (Inl invalidBody, db)
      | Some raw \<Rightarrow>
          let req = raw\<lparr>rq_Role := toLower (trimSpace (rq_Role raw)), rq_ClusterID := trimSpace (rq_ClusterID raw),
                        rq_Namespace := trimSpace (rq_Namespace raw), rq_Command := trimSpace (rq_Command raw)\<rparr> in
          if rq_Role req = [] \<or> rq_Namespace req = [] \<or> rq_Command req = []
          then (Inl (writeOpenAIError 400 ''role, namespace and command are required'' ''missing_fields''), db)
          else
            let policies = ListK8sTerminalPolicies
                  \<lparr>tf_Role = rq_Role req, tf_ClusterID = rq_ClusterID req, tf_Enabled = ''true'', tf_Limit = 500\<rparr>
                  (db_policies db) in
            (Inr (evaluateTerminalPolicy req policies),
             db\<lparr>db_audit := auditAdmin adminID ''k8s.terminal_policy.evaluate'' [] (db_audit db)\<rparr>))"


section \<open>The evaluation, exactly\<close>

definition terminalRank :: "string \<Rightarrow> nat" where
  "terminalRank s = (if s = ''low'' then 1 else if s = ''medium'' then 2 else if s = ''high'' then 3
     else if s = ''critical'' then 4 else 0)"

lemma maxTerminalRisk_rank: "maxTerminalRisk a b = (if terminalRank a < terminalRank b then b else if a = [] then b else a)"
  unfolding maxTerminalRisk_def terminalRank_def Let_def by (rule refl)

interpretation termScale: risk_scale terminalRank maxTerminalRisk "\<lambda>s. s \<noteq> []"
proof unfold_locales
  have "terminalRank [] = 0" by (simp add: terminalRank_def)
  then show "maxTerminalRisk a b \<noteq> []" if "a \<noteq> []" for a b using that by (auto simp: maxTerminalRisk_rank)
qed (auto simp: maxTerminalRisk_rank)

definition denies :: "string \<Rightarrow> K8sTerminalPolicy \<Rightarrow> bool" where
  "denies command p =
     list_ex (\<lambda>pat. terminalDenyMatches pat command) (builtinTerminalDenylist @ tp_CommandDenylist p)"

definition allows :: "string \<Rightarrow> K8sTerminalPolicy \<Rightarrow> bool" where
  "allows command p = terminalAllowlistMatches (tp_CommandAllowlist p) command"

text \<open>The policies in scope that allow the command, in order.\<close>

definition grantingPolicies :: "terminalPolicyEvalRequest \<Rightarrow> K8sTerminalPolicy list \<Rightarrow> K8sTerminalPolicy list" where
  "grantingPolicies req policies =
     filter (allows (rq_Command req)) (filter (terminalPolicyScopeMatches req) policies)"

lemma find_deny: "find (\<lambda>pat. terminalDenyMatches pat command) (builtinTerminalDenylist @ tp_CommandDenylist p) = None
    \<longleftrightarrow> \<not> denies command p"
  by (auto simp: find_None_iff denies_def list_ex_iff)

lemma matchedLoop_denied:
  "list_ex (denies command) ps \<Longrightarrow> \<exists>r'. matchedLoop command ps sel r = Inl r' \<and> \<not> rs_Allowed r' \<and> rs_RequireApproval r' \<and>
     rs_AuditEnabled r' = rs_AuditEnabled r"
proof (induction ps arbitrary: sel r)
  case Nil
  then show ?case by simp
next
  case (Cons p ps)
  show ?case
  proof (cases "denies command p")
    case True
    then obtain pat where "find (\<lambda>pat. terminalDenyMatches pat command) (builtinTerminalDenylist @ tp_CommandDenylist p) = Some pat"
      using find_deny by fastforce
    then show ?thesis by (simp add: denyResult_def)
  next
    case False
    then have nd: "find (\<lambda>pat. terminalDenyMatches pat command) (builtinTerminalDenylist @ tp_CommandDenylist p) = None"
      using find_deny by blast
    have audit: "rs_AuditEnabled (allowRule p command r) = rs_AuditEnabled r"
      by (simp add: allowRule_def split: option.split)
    from Cons.prems False have "list_ex (denies command) ps" by simp
    with Cons.IH [of sel r] Cons.IH [of "sel @ [p]" "allowRule p command r"] nd audit show ?thesis
      by simp
  qed
qed

lemma matchedLoop_undenied:
  "\<not> list_ex (denies command) ps \<Longrightarrow> \<exists>r'. matchedLoop command ps sel r = Inr (sel @ filter (allows command) ps, r') \<and>
     rs_Allowed r' = rs_Allowed r \<and> rs_RequireApproval r' = rs_RequireApproval r \<and> rs_AuditEnabled r' = rs_AuditEnabled r"
proof (induction ps arbitrary: sel r)
  case Nil
  then show ?case by simp
next
  case (Cons p ps)
  then have nd: "find (\<lambda>pat. terminalDenyMatches pat command) (builtinTerminalDenylist @ tp_CommandDenylist p) = None"
    and ps: "\<not> list_ex (denies command) ps"
    using find_deny by auto
  have keep: "rs_Allowed (allowRule p command r) = rs_Allowed r"
    "rs_RequireApproval (allowRule p command r) = rs_RequireApproval r"
    "rs_AuditEnabled (allowRule p command r) = rs_AuditEnabled r"
    by (simp_all add: allowRule_def split: option.split)
  show ?case
  proof (cases "allows command p")
    case True
    with nd have "matchedLoop command (p # ps) sel r = matchedLoop command ps (sel @ [p]) (allowRule p command r)"
      by (simp add: allows_def)
    with Cons.IH [OF ps, of "sel @ [p]" "allowRule p command r"] True keep show ?thesis by auto
  next
    case False
    with nd have "matchedLoop command (p # ps) sel r = matchedLoop command ps sel r"
      by (simp add: allows_def)
    with Cons.IH [OF ps, of sel r] False show ?thesis by auto
  qed
qed

lemma grantSteps:
  "rs_Allowed (foldl grantStep r ps) = rs_Allowed r"
  "rs_RequireApproval (foldl grantStep r ps) \<longleftrightarrow> rs_RequireApproval r \<or> list_ex tp_RequireApproval ps"
  "rs_AuditEnabled (foldl grantStep r ps) \<longleftrightarrow> rs_AuditEnabled r \<or> list_ex tp_AuditEnabled ps"
  by (induction ps arbitrary: r) (auto simp: grantStep_def)

lemma grantResult_flags:
  "rs_Allowed (grantResult mode parsed sel r)"
  "rs_RequireApproval (grantResult mode parsed sel r) \<longleftrightarrow> RequiresApproval mode \<or> list_ex tp_RequireApproval sel"
  "rs_AuditEnabled (grantResult mode parsed sel r) \<longleftrightarrow> RequiresApproval mode \<or> list_ex tp_AuditEnabled sel"
  "rs_MaxSessionMinutes (grantResult mode parsed sel r) =
     rs_MaxSessionMinutes (foldl grantStep (r\<lparr>rs_Allowed := True, rs_RequireApproval := False, rs_AuditEnabled := False,
                 rs_MaxSessionMinutes := 0\<rparr>) sel)"
  by (simp_all add: grantResult_def Let_def grantSteps)

text \<open>The evaluation as three outcomes: refused by risk, refused by policy, granted by
  the policies that allow the command.\<close>

definition granted :: "terminalPolicyEvalRequest \<Rightarrow> K8sTerminalPolicy list \<Rightarrow> bool" where
  "granted req policies \<longleftrightarrow> Risk (ParseCommandRisk (rq_Command req)) \<noteq> ''critical'' \<and>
     \<not> list_ex (denies (rq_Command req)) (filter (terminalPolicyScopeMatches req) policies) \<and>
     grantingPolicies req policies \<noteq> []"

lemma evaluate_refused:
  assumes "\<not> granted req policies"
  shows "\<not> rs_Allowed (evaluateTerminalPolicy req policies) \<and> rs_RequireApproval (evaluateTerminalPolicy req policies) \<and>
    rs_AuditEnabled (evaluateTerminalPolicy req policies)"
proof -
  let ?cmd = "rq_Command req" and ?m = "filter (terminalPolicyScopeMatches req) policies"
  let ?r = "(initialResult ?cmd)\<lparr>rs_MatchedPolicies := map tp_ID ?m\<rparr>"
  have init: "\<not> rs_Allowed ?r" "rs_RequireApproval ?r" "rs_AuditEnabled ?r"
    by (simp_all add: initialResult_def)
  consider "Risk (ParseCommandRisk ?cmd) = ''critical'' \<or> ?m = []"
    | "list_ex (denies ?cmd) ?m" | "\<not> list_ex (denies ?cmd) ?m" "grantingPolicies req policies = []"
    using assms by (auto simp: granted_def)
  then show ?thesis
  proof cases
    case 1
    then show ?thesis by (auto simp: evaluateTerminalPolicy_def Let_def initialResult_def)
  next
    case 2
    from matchedLoop_denied [OF this, of "[]" ?r] init obtain r' where
      "matchedLoop ?cmd ?m [] ?r = Inl r'" "\<not> rs_Allowed r'" "rs_RequireApproval r'" "rs_AuditEnabled r'" by auto
    then show ?thesis by (simp add: evaluateTerminalPolicy_def Let_def initialResult_def)
  next
    case 3
    from matchedLoop_undenied [OF 3(1), of "[]" ?r] 3(2) init obtain r' where
      "matchedLoop ?cmd ?m [] ?r = Inr ([], r')" "\<not> rs_Allowed r'" "rs_RequireApproval r'" "rs_AuditEnabled r'"
      by (auto simp: grantingPolicies_def)
    then show ?thesis by (simp add: evaluateTerminalPolicy_def Let_def initialResult_def)
  qed
qed

lemma evaluate_granted:
  assumes "granted req policies"
  shows "\<exists>r. evaluateTerminalPolicy req policies =
    grantResult (ClassifyTerminalAccessMode (rq_Command req)) (ParseCommandRisk (rq_Command req)) (grantingPolicies req policies) r"
proof -
  let ?cmd = "rq_Command req" and ?m = "filter (terminalPolicyScopeMatches req) policies"
  let ?r = "(initialResult ?cmd)\<lparr>rs_MatchedPolicies := map tp_ID ?m\<rparr>"
  from assms have g: "Risk (ParseCommandRisk ?cmd) \<noteq> ''critical''" "\<not> list_ex (denies ?cmd) ?m"
    "grantingPolicies req policies \<noteq> []"
    by (auto simp: granted_def)
  then have "?m \<noteq> []" by (auto simp only: grantingPolicies_def filter.simps)
  from matchedLoop_undenied [OF g(2), of "[]" ?r] obtain r' where
    "matchedLoop ?cmd ?m [] ?r = Inr (grantingPolicies req policies, r')"
    by (auto simp: grantingPolicies_def)
  with g \<open>?m \<noteq> []\<close> show ?thesis by (auto simp: evaluateTerminalPolicy_def Let_def)
qed

lemma allowed_iff_granted: "rs_Allowed (evaluateTerminalPolicy req policies) \<longleftrightarrow> granted req policies"
  using evaluate_refused evaluate_granted grantResult_flags(1) by metis

lemma approval_exact:
  "rs_RequireApproval (evaluateTerminalPolicy req policies) \<longleftrightarrow>
     \<not> (granted req policies \<and> \<not> RequiresApproval (ClassifyTerminalAccessMode (rq_Command req)) \<and>
        \<not> list_ex tp_RequireApproval (grantingPolicies req policies))"
  using evaluate_refused evaluate_granted grantResult_flags(2) by metis

lemma audit_exact:
  "rs_AuditEnabled (evaluateTerminalPolicy req policies) \<longleftrightarrow>
     \<not> (granted req policies \<and> \<not> RequiresApproval (ClassifyTerminalAccessMode (rq_Command req)) \<and>
        \<not> list_ex tp_AuditEnabled (grantingPolicies req policies))"
  using evaluate_refused evaluate_granted grantResult_flags(3) by metis

lemma grant_minutes:
  assumes "list_all (\<lambda>p. 0 < tp_MaxSessionMinutes p) ps" and "0 < rs_MaxSessionMinutes r"
  shows "rs_MaxSessionMinutes (foldl grantStep r ps) = Min (insert (rs_MaxSessionMinutes r) (tp_MaxSessionMinutes ` set ps))"
  using assms
proof (induction ps arbitrary: r)
  case Nil
  then show ?case by simp
next
  case (Cons p ps)
  have m: "rs_MaxSessionMinutes (grantStep r p) = min (rs_MaxSessionMinutes r) (tp_MaxSessionMinutes p)"
    using Cons.prems by (auto simp: grantStep_def)
  have "rs_MaxSessionMinutes (foldl grantStep r (p # ps)) =
      Min (insert (min (rs_MaxSessionMinutes r) (tp_MaxSessionMinutes p)) (tp_MaxSessionMinutes ` set ps))"
    using Cons.IH [of "grantStep r p"] Cons.prems by (simp add: m)
  also have "\<dots> = Min (insert (rs_MaxSessionMinutes r) (tp_MaxSessionMinutes ` set (p # ps)))"
    by (cases "set ps = {}") (simp_all add: min.assoc insert_commute)
  finally show ?case .
qed

lemma grant_minutes_first:
  assumes "list_all (\<lambda>p. 0 < tp_MaxSessionMinutes p) ps" and "ps \<noteq> []" and "rs_MaxSessionMinutes r = 0"
  shows "rs_MaxSessionMinutes (foldl grantStep r ps) = Min (tp_MaxSessionMinutes ` set ps)"
proof -
  obtain p qs where ps: "ps = p # qs" using assms(2) by (cases ps) auto
  have "rs_MaxSessionMinutes (grantStep r p) = tp_MaxSessionMinutes p"
    using assms(3) by (simp add: grantStep_def)
  with grant_minutes [of qs "grantStep r p"] assms(1) ps show ?thesis by simp
qed


section \<open>Wildcards\<close>

text \<open>What a pattern with stars means: a star stands for any run of bytes, every other byte
  for itself.\<close>

fun glob :: "string \<Rightarrow> string \<Rightarrow> bool" where
  "glob [] v \<longleftrightarrow> v = []"
| "glob (c # p) v \<longleftrightarrow>
     (if c = CHR ''*'' then list_ex (\<lambda>k. glob p (drop k v)) [0..<Suc (length v)]
      else (case v of [] \<Rightarrow> False | d # w \<Rightarrow> c = d \<and> glob p w))"

lemma glob_star: "glob (CHR ''*'' # p) v \<longleftrightarrow> (\<exists>a b. v = a @ b \<and> glob p b)"
proof -
  have "glob (CHR ''*'' # p) v \<longleftrightarrow> (\<exists>k \<le> length v. glob p (drop k v))"
    by (simp add: list_ex_iff Bex_def less_Suc_eq_le) (use order_le_less in blast)
  also have "\<dots> \<longleftrightarrow> (\<exists>a b. v = a @ b \<and> glob p b)"
    by (metis append_eq_conv_conj append_take_drop_id le_add1 length_append)
  finally show ?thesis .
qed

lemma glob_literal: "CHR ''*'' \<notin> set w \<Longrightarrow> glob (w @ p) v \<longleftrightarrow> (\<exists>b. v = w @ b \<and> glob p b)"
proof (induction w arbitrary: v)
  case Nil
  then show ?case by simp
next
  case (Cons c w)
  then show ?case by (cases v) auto
qed

declare glob.simps(2) [simp del]

text \<open>A list of literal parts found one after the other, the last one at the end.\<close>

definition partsMatch :: "string list \<Rightarrow> string \<Rightarrow> bool" where
  "partsMatch parts v \<longleftrightarrow> (\<exists>a b. v = a @ b \<and> glob (joinWith ''*'' parts) b)"

lemma partsMatch_prepend: "partsMatch parts b \<Longrightarrow> partsMatch parts (a @ b)"
  by (auto simp: partsMatch_def) (metis append.assoc)

lemma partsMatch_single: "CHR ''*'' \<notin> set p \<Longrightarrow> partsMatch [p] v \<longleftrightarrow> hasSuffix v p"
  using glob_literal [of p "[]"] by (simp add: partsMatch_def hasSuffix_iff)

lemma partsMatch_Cons:
  assumes "CHR ''*'' \<notin> set p" and "ps \<noteq> []"
  shows "partsMatch (p # ps) v \<longleftrightarrow> (\<exists>a b. v = a @ p @ b \<and> partsMatch ps b)"
proof -
  have "glob (joinWith ''*'' (p # ps)) b \<longleftrightarrow> (\<exists>c. b = p @ c \<and> partsMatch ps c)" for b
    using assms glob_literal [of p "CHR ''*'' # joinWith ''*'' ps" b]
    by (cases ps) (simp_all add: glob_star partsMatch_def)
  then have "partsMatch (p # ps) v \<longleftrightarrow> (\<exists>a b. v = a @ b \<and> (\<exists>c. b = p @ c \<and> partsMatch ps c))"
    by (simp add: partsMatch_def [of "p # ps"])
  then show ?thesis by blast
qed

lemma partsMatch_index:
  assumes "CHR ''*'' \<notin> set p" and "ps \<noteq> []"
  shows "partsMatch (p # ps) v \<longleftrightarrow> (\<exists>i. index v p = Some i \<and> partsMatch ps (drop (i + length p) v))"
proof
  assume "partsMatch (p # ps) v"
  then obtain a b where ab: "v = a @ p @ b" "partsMatch ps b"
    using partsMatch_Cons [OF assms] by blast
  then have "contains v p" by (auto simp: contains_iff)
  then obtain i where i: "index v p = Some i" using index_None_iff by fastforce
  then have "i \<le> length a" using index_first ab(1) by blast
  moreover have "drop (length a + length p) v = b" using ab(1) by simp
  ultimately have "suffix b (drop (i + length p) v)"
    by (metis add.commute add_le_cancel_left drop_drop le_Suc_ex suffix_drop)
  then have "partsMatch ps (drop (i + length p) v)"
    using ab(2) partsMatch_prepend by (auto simp: suffix_def)
  with i show "\<exists>i. index v p = Some i \<and> partsMatch ps (drop (i + length p) v)" by blast
next
  assume "\<exists>i. index v p = Some i \<and> partsMatch ps (drop (i + length p) v)"
  then obtain i where i: "index v p = Some i" "partsMatch ps (drop (i + length p) v)" by blast
  then obtain rest where rest: "v = take i v @ p @ rest" and le: "i + length p \<le> length v"
    using index_Some_iff by blast
  have "length (take i v @ p) = i + length p" using le by simp
  with rest have "drop (i + length p) v = rest"
    by (metis append.assoc append_eq_conv_conj)
  with i(2) rest show "partsMatch (p # ps) v"
    using partsMatch_Cons [OF assms] by metis
qed

lemma wildcardLoop_last: "wildcardLoop anch ps v \<Longrightarrow> ps \<noteq> [] \<Longrightarrow> length (last ps) \<le> length v"
proof (induction anch ps v rule: wildcardLoop.induct)
  case (1 anchored v)
  then show ?case by simp
next
  case (2 anchored part parts v)
  show ?case
  proof (cases "part = [] \<or> parts = []")
    case True
    with 2 show ?thesis using index_Some_iff by (fastforce split: option.splits if_splits)
  next
    case False
    with "2.prems" obtain i where i: "index v part = Some i" "wildcardLoop False parts (drop (i + length part) v)"
      by (auto split: option.splits if_splits)
    have "length (last parts) \<le> length (drop (i + length part) v)"
      using "2.IH"(2) [OF _ i(1)] "2.prems" i False by (auto split: if_splits)
    with False show ?thesis by simp
  qed
qed

lemma hasSuffix_drop: "length l \<le> length (drop k v) \<Longrightarrow> hasSuffix (drop k v) l \<longleftrightarrow> hasSuffix v l"
  unfolding hasSuffix_def
  by (metis suffix_drop suffix_length_suffix suffix_order.trans)

lemma index_Nil [simp]: "index v [] = Some 0"
  by (cases v) auto

lemma wildcardLoop_partsMatch:
  assumes "list_all (\<lambda>p. CHR ''*'' \<notin> set p) ps" and "ps \<noteq> []"
  shows "partsMatch ps v \<longleftrightarrow> wildcardLoop False ps v \<and> hasSuffix v (last ps)"
  using assms
proof (induction ps arbitrary: v)
  case Nil
  then show ?case by simp
next
  case (Cons p ps)
  show ?case
  proof (cases "ps = []")
    case True
    have "hasSuffix v p \<Longrightarrow> index v p \<noteq> None"
      by (auto simp: index_None_iff contains_iff hasSuffix_iff) (metis append_Nil2)
    with True Cons.prems show ?thesis
      by (auto simp: partsMatch_single split: option.splits)
  next
    case False
    have step: "wildcardLoop False (p # ps) v \<longleftrightarrow>
        (\<exists>i. index v p = Some i \<and> wildcardLoop False ps (drop (i + length p) v))"
      by (cases "p = []") (auto split: option.splits)
    have "partsMatch (p # ps) v \<longleftrightarrow>
        (\<exists>i. index v p = Some i \<and> wildcardLoop False ps (drop (i + length p) v) \<and> hasSuffix (drop (i + length p) v) (last ps))"
      using partsMatch_index [of p ps v] Cons False by simp
    also have "\<dots> \<longleftrightarrow> wildcardLoop False (p # ps) v \<and> hasSuffix v (last ps)"
      unfolding step using hasSuffix_drop wildcardLoop_last False by blast
    finally show ?thesis using False by simp
  qed
qed

lemma splitOn_hd_tl:
  "sep \<in> set s \<Longrightarrow> \<exists>p ps. splitOn sep s = p # ps \<and> ps \<noteq> [] \<and> (p = [] \<longleftrightarrow> hasPrefix s [sep])"
proof (induction s)
  case Nil
  then show ?case by simp
next
  case (Cons c cs)
  then show ?case by (auto simp: hasPrefix_iff split: list.splits)
qed

lemma last_splitOn: "last (splitOn sep s) \<noteq> [] \<Longrightarrow> \<not> hasSuffix s [sep]"
proof (induction s)
  case Nil
  then show ?case by simp
next
  case (Cons c cs)
  obtain w ws where ws: "splitOn sep cs = w # ws" by (cases "splitOn sep cs") auto
  have suf: "hasSuffix (c # cs) [sep] \<longleftrightarrow> (if cs = [] then c = sep else hasSuffix cs [sep])"
    by (auto simp: hasSuffix_def suffix_Cons)
  show ?case
  proof (cases "c = sep")
    case True
    with Cons ws suf show ?thesis by (auto split: if_splits)
  next
    case False
    have "ws = [] \<Longrightarrow> sep \<notin> set cs"
      using joinWith_splitOn [of sep cs] splitOn_no_sep [of w sep cs] ws by auto
    with False Cons ws suf show ?thesis
      by (cases "ws = []") (auto simp: hasSuffix_def suffix_def split: if_splits)
  qed
qed

lemma index_0_iff: "w \<noteq> [] \<Longrightarrow> index v w = Some 0 \<longleftrightarrow> hasPrefix v w"
  by (cases v) (auto simp: hasPrefix_def)

lemma wildcard_normal_form:
  assumes "CHR ''*'' \<in> set p"
  shows "(p = ''*'' \<or> wildcardLoop (\<not> hasPrefix p ''*'') (splitOn (CHR ''*'') p) v \<and>
           (last (splitOn (CHR ''*'') p) = [] \<or> hasSuffix v (last (splitOn (CHR ''*'') p)))) \<longleftrightarrow> glob p v"
proof -
  obtain w ws where ws: "splitOn (CHR ''*'') p = w # ws" "ws \<noteq> []" "w = [] \<longleftrightarrow> hasPrefix p ''*''"
    using splitOn_hd_tl [OF assms] by blast
  have lit: "list_all (\<lambda>p. CHR ''*'' \<notin> set p) (w # ws)"
    using splitOn_no_sep [of _ "CHR ''*''" p] ws(1) by (auto simp: list_all_iff)
  have p: "p = w @ CHR ''*'' # joinWith ''*'' ws"
    using joinWith_splitOn [of "CHR ''*''" p] ws by (cases ws) auto
  have "glob p v \<longleftrightarrow> (\<exists>b. v = w @ b \<and> partsMatch ws b)"
    using lit glob_literal [of w "CHR ''*'' # joinWith ''*'' ws" v] p
    by (auto simp: glob_star partsMatch_def)
  also have "\<dots> \<longleftrightarrow> hasPrefix v w \<and> wildcardLoop False ws (drop (length w) v) \<and> hasSuffix v (last ws)"
  proof -
    have "wildcardLoop False ws b \<Longrightarrow> hasSuffix (w @ b) (last ws) \<longleftrightarrow> hasSuffix b (last ws)" for b
      using hasSuffix_drop [of "last ws" "length w" "w @ b"] wildcardLoop_last [of False ws b] ws(2) by simp
    then show ?thesis
      using wildcardLoop_partsMatch [of ws] lit ws(2) by (auto simp: hasPrefix_iff)
  qed
  also have "\<dots> \<longleftrightarrow> wildcardLoop (\<not> hasPrefix p ''*'') (w # ws) v \<and> hasSuffix v (last ws)"
  proof (cases "w = []")
    case True
    then show ?thesis by simp
  next
    case False
    with index_0_iff [OF this, of v] ws(3) show ?thesis by (auto split: option.splits)
  qed
  finally have "glob p v \<longleftrightarrow> wildcardLoop (\<not> hasPrefix p ''*'') (w # ws) v \<and> hasSuffix v (last ws)" .
  moreover have "glob ''*'' v" by (simp add: glob_star)
  moreover have "hasSuffix v []" by (simp add: hasSuffix_def)
  ultimately show ?thesis unfolding ws(1) using ws(2) by (auto simp del: wildcardLoop.simps)
qed

lemma wildcard_is_glob:
  assumes "CHR ''*'' \<in> set pat"
  shows "terminalWildcardMatch pat v \<longleftrightarrow> glob (toLower (trimSpace pat)) (toLower (trimSpace v))"
proof -
  have notspace: "\<not> isSpace (CHR ''*'')" by code_simp
  have keepL: "CHR ''*'' \<in> set s \<Longrightarrow> CHR ''*'' \<in> set (dropWhile isSpace s)" for s
    using notspace by (induction s) auto
  have "CHR ''*'' \<in> set (trimSpace pat)"
    using keepL assms by (simp add: trimSpace_def)
  moreover have "toLowerC (CHR ''*'') = CHR ''*''" by code_simp
  ultimately have star: "CHR ''*'' \<in> set (toLower (trimSpace pat))"
    by (force simp: toLower_def)
  show ?thesis
    using wildcard_normal_form [OF star, of "toLower (trimSpace v)"] last_splitOn [of "CHR ''*''" "toLower (trimSpace pat)"]
    by (auto simp: terminalWildcardMatch_def Let_def)
qed


lemma wildcard_literal:
  assumes "CHR ''*'' \<notin> set (toLower (trimSpace pat))" and "trimSpace pat \<noteq> []"
  shows "terminalWildcardMatch pat v \<longleftrightarrow>
    hasPrefix (toLower (trimSpace v)) (toLower (trimSpace pat)) \<and> hasSuffix (toLower (trimSpace v)) (toLower (trimSpace pat))"
proof -
  let ?p = "toLower (trimSpace pat)" and ?v = "toLower (trimSpace v)"
  have split1: "CHR ''*'' \<notin> set s \<Longrightarrow> splitOn (CHR ''*'') s = [s]" for s
    by (induction s) auto
  have first: "index ?v ?p = Some 0 \<longleftrightarrow> hasPrefix ?v ?p"
    using assms(2) by (intro index_0_iff) simp
  have "?p \<noteq> []" "\<not> hasPrefix ?p ''*''" "\<not> hasSuffix ?p ''*''" "?p \<noteq> ''*''"
    using assms by (auto simp: hasPrefix_iff hasSuffix_iff)
  then show ?thesis
    using first by (auto simp: terminalWildcardMatch_def Let_def split1 [OF assms(1)] split: option.splits)
qed

section \<open>The deny side reads what runs\<close>

lemma strFields_first:
  assumes "w \<noteq> []" and "list_all (\<lambda>c. \<not> isSpace c) w"
  shows "\<exists>ts. strFields (joinWith '' '' (w # ws)) = w # ts"
proof -
  have step: "list_all (\<lambda>c. \<not> isSpace c) u \<Longrightarrow> fieldsFrom cur (u @ s) = fieldsFrom (cur @ u) s" for u cur s
    by (induction u arbitrary: cur) auto
  have blank: "isSpace (CHR '' '')" by code_simp
  show ?thesis
  proof (cases ws)
    case Nil
    with step [OF assms(2), of "[]" "[]"] assms(1) show ?thesis by (simp add: strFields_def)
  next
    case (Cons v vs)
    with step [OF assms(2), of "[]" "'' '' @ joinWith '' '' (v # vs)"] assms(1) blank show ?thesis
      by (simp add: strFields_def)
  qed
qed

lemma terminalDeny_program:
  assumes argv: "splitCommandLine command = Inr (prog # rest)"
    and word: "list_all (\<lambda>c. \<not> isSpace c) prog" "prog \<noteq> []"
    and pat: "toLower (trimSpace pat) = p" "p \<noteq> []" "list_all (\<lambda>c. c \<notin> set '' *'') p"
    and base: "shellBase (toLower prog) = p \<or> hasPrefix (shellBase (toLower prog)) (p @ ''.'')"
  shows "terminalDenyMatches pat command"
proof -
  have words: "fst (ShellWords (toLower (trimSpace (toLower command)))) = map toLower (prog # rest)"
    using argv splitCommandLine_via_ShellWords [of command]
    by (auto simp: trimSpace_toLower ShellWords_toLower split: prod.splits option.splits if_splits)
  have "list_all (\<lambda>c. \<not> isSpace c) (toLower prog)"
    using word(1) by (simp add: toLower_def list_all_iff)
  with strFields_first [of "toLower prog" "map toLower rest"] word(2) obtain ts where
    "strFields (normalizedCommandLine (toLower command)) = toLower prog # ts"
    by (auto simp: normalizedCommandLine_def words)
  with base have "terminalProgramTokenMatches p (toLower command)"
    by (auto simp: terminalProgramTokenMatches_def terminalCommandPosition_def shellBase_def)
  moreover have "\<not> (p = [] \<or> list_ex (\<lambda>c. c \<in> set '' *'') p)"
    using pat(2,3) by (auto simp: list_all_iff list_ex_iff)
  ultimately show ?thesis
    unfolding terminalDenyMatches_def Let_def pat(1) by simp
qed


section \<open>What is stored is what is read back\<close>

definition cleanTag :: "string \<Rightarrow> bool" where
  "cleanTag t \<longleftrightarrow> t \<noteq> [] \<and> trimSpace t = t \<and> CHR '','' \<notin> set t"

lemma splitOn_joinWith:
  "list_all (\<lambda>w. sep \<notin> set w) ws \<Longrightarrow> ws \<noteq> [] \<Longrightarrow> splitOn sep (joinWith [sep] ws) = ws"
proof (induction "[sep]" ws rule: joinWith.induct)
  case 1
  then show ?case by simp
next
  case (2 w)
  then have "sep \<notin> set w" by simp
  then show ?case by (induction w) auto
next
  case (3 w v ws)
  have "sep \<notin> set u \<Longrightarrow> splitOn sep (u @ sep # s) = u # splitOn sep s" for u s
    by (induction u) auto
  with 3 show ?case by simp
qed

lemma trimSpace_Nil_iff: "trimSpace s = [] \<longleftrightarrow> list_all isSpace s"
proof
  assume "trimSpace s = []"
  then have "\<forall>c \<in> set (dropWhile isSpace s). isSpace c"
    by (simp add: trimSpace_def)
  then have "dropWhile isSpace s = []"
    using dropWhile_Nil_or_hd [of isSpace s] hd_in_set by blast
  then show "list_all isSpace s" by (simp add: list_all_iff)
next
  assume "list_all isSpace s"
  then show "trimSpace s = []" by (auto simp: trimSpace_def list_all_iff dest: set_dropWhileD)
qed

lemma parseTags_joinTags:
  assumes "list_all cleanTag ts"
  shows "parseTags (joinTags ts) = ts"
proof (cases ts)
  case Nil
  then show ?thesis by (simp add: parseTags_def joinTags_def trimSpace_def)
next
  case (Cons t us)
  have ids: "map trimSpace ts = ts" "filter (\<lambda>t. t \<noteq> []) ts = ts"
    using assms by (auto simp: list_all_iff cleanTag_def intro: map_idI filter_True)
  have "list_all (\<lambda>w. CHR '','' \<notin> set w) ts"
    using assms by (auto simp: list_all_iff cleanTag_def)
  from splitOn_joinWith [OF this] Cons have split: "splitOn (CHR '','') (joinWith '','' ts) = ts" by simp
  have "\<not> list_all isSpace t"
    using assms Cons trimSpace_Nil_iff [of t] by (auto simp: cleanTag_def)
  moreover have "set t \<subseteq> set (joinWith '','' ts)"
    using Cons by (cases us) auto
  ultimately have "trimSpace (joinWith '','' ts) \<noteq> []"
    by (auto simp: trimSpace_Nil_iff list_all_iff)
  then show ?thesis by (simp add: parseTags_def joinTags_def ids split)
qed

lemma uniqueFrom_set: "set (uniqueFrom seen vs) \<subseteq> set vs"
  by (induction seen vs rule: uniqueFrom.induct) auto

lemma uniqueFrom_props:
  "distinct (uniqueFrom seen vs) \<and> set (uniqueFrom seen vs) = set vs - insert [] (set seen)"
  by (induction seen vs rule: uniqueFrom.induct) auto

lemma uniqueStrings_set [simp]: "set (uniqueStrings vs) = set vs - {[]}"
  using uniqueFrom_props [of "[]" vs] by (simp add: uniqueStrings_def)

lemma cleanTokens_clean: "list_all cleanTag (cleanTokens vs)"
proof -
  have "cleanTag (trimSpace t)" if "t \<in> set (splitOn (CHR '','') s)" "trimSpace t \<noteq> []" for t s
    using that splitOn_no_sep [OF that(1)] trimSpace_set [of t] by (auto simp: cleanTag_def)
  then show ?thesis by (auto simp: cleanTokens_def list_all_iff)
qed

lemma cleanStringList_clean: "list_all cleanTag (cleanStringList vs)"
  using cleanTokens_clean [of vs] by (auto simp: cleanStringList_def list_all_iff)

lemma builtin_clean: "list_all cleanTag builtinTerminalDenylist"
  by code_simp

lemma upsertRow_mem:
  "\<exists>c. r\<lparr>row_policy := (row_policy r)\<lparr>tp_CreatedAt := c\<rparr>\<rparr> \<in> set (upsertRow r table)"
proof (induction table)
  case Nil
  have "r\<lparr>row_policy := (row_policy r)\<lparr>tp_CreatedAt := tp_CreatedAt (row_policy r)\<rparr>\<rparr> = r" by simp
  then show ?case by (metis list.set_intros(1) upsertRow.simps(1))
next
  case (Cons x xs)
  then show ?case by auto
qed

lemma upsertRow_distinct:
  assumes "distinct (map rowID table)"
  shows "distinct (map rowID (upsertRow r table))"
proof -
  have ids: "set (map rowID (upsertRow r t)) \<subseteq> insert (rowID r) (set (map rowID t))" for t
    by (induction t) (auto simp: rowID_def)
  show ?thesis using assms
  proof (induction table)
    case Nil
    then show ?case by simp
  next
    case (Cons x xs)
    then show ?case using ids [of xs] by (auto simp: rowID_def)
  qed
qed

lemma scan_stored:
  assumes "list_all cleanTag (tp_CommandAllowlist p)" and "list_all cleanTag (tp_CommandDenylist p)"
  shows "scanPolicy ((policyRow p)\<lparr>row_policy := (row_policy (policyRow p))\<lparr>tp_CreatedAt := c\<rparr>\<rparr>) = p\<lparr>tp_CreatedAt := c\<rparr>"
  using assms by (simp add: scanPolicy_def policyRow_def parseTags_joinTags)

lemma stored_policy:
  assumes "list_all cleanTag (tp_CommandAllowlist p)" and "list_all cleanTag (tp_CommandDenylist p)"
  shows "\<exists>c. (policyDefaults now p)\<lparr>tp_CreatedAt := c\<rparr> \<in> set (map scanPolicy (UpsertK8sTerminalPolicy now p table))"
proof -
  let ?q = "policyDefaults now p"
  have clean: "list_all cleanTag (tp_CommandAllowlist ?q)" "list_all cleanTag (tp_CommandDenylist ?q)"
    using assms by (simp_all add: policyDefaults_def)
  obtain c where "(policyRow ?q)\<lparr>row_policy := (row_policy (policyRow ?q))\<lparr>tp_CreatedAt := c\<rparr>\<rparr> \<in>
      set (UpsertK8sTerminalPolicy now p table)"
    using upsertRow_mem [of "policyRow ?q"] by (auto simp: UpsertK8sTerminalPolicy_def)
  then show ?thesis using scan_stored [OF clean, of c] by (metis image_eqI set_map)
qed

section \<open>Running without approval\<close>

lemma unattended_cases:
  assumes "rs_Allowed (applySuperAdminTerminalDefault req (evaluateTerminalPolicy req policies))"
    and "\<not> rs_RequireApproval (applySuperAdminTerminalDefault req (evaluateTerminalPolicy req policies))"
  shows "(Findings (ParseCommandRisk (rq_Command req)) = [] \<and> \<not> isInteractiveShell (rq_Command req)) \<or>
    (equalFold (rq_Role req) ''super_admin'' \<and>
     trimSpace (rq_Command req) \<in> {''/bin/sh'', ''/bin/bash'', ''sh'', ''bash''} \<and>
     rs_AuditEnabled (applySuperAdminTerminalDefault req (evaluateTerminalPolicy req policies)) \<and>
     rs_MaxSessionMinutes (applySuperAdminTerminalDefault req (evaluateTerminalPolicy req policies)) = 15)"
proof (cases "equalFold (rq_Role req) ''super_admin'' \<and> streamInteractiveShell (rq_Command req)")
  case True
  then show ?thesis by (simp add: applySuperAdminTerminalDefault_def streamInteractiveShell_def)
next
  case False
  then have "applySuperAdminTerminalDefault req (evaluateTerminalPolicy req policies) = evaluateTerminalPolicy req policies"
    by (auto simp: applySuperAdminTerminalDefault_def)
  with assms have "\<not> RequiresApproval (ClassifyTerminalAccessMode (rq_Command req))"
    by (simp add: approval_exact)
  then show ?thesis by (simp add: approval_iff_not_read_only read_only_iff)
qed

lemma ParseCommandRisk_trim: "ParseCommandRisk (trimSpace c) = ParseCommandRisk c"
  by (simp add: ParseCommandRisk_def)

lemma shells_not_critical:
  "list_all (\<lambda>c. Risk (ParseCommandRisk c) \<noteq> ''critical'') [''/bin/sh'', ''/bin/bash'', ''sh'', ''bash'']"
  by code_simp

lemma allowed_not_critical:
  assumes "rs_Allowed (applySuperAdminTerminalDefault req (evaluateTerminalPolicy req policies))"
  shows "Risk (ParseCommandRisk (rq_Command req)) \<noteq> ''critical''"
proof (cases "equalFold (rq_Role req) ''super_admin'' \<and> streamInteractiveShell (rq_Command req)")
  case True
  then have "trimSpace (rq_Command req) \<in> set [''/bin/sh'', ''/bin/bash'', ''sh'', ''bash'']"
    by (simp add: streamInteractiveShell_def)
  with shells_not_critical have "Risk (ParseCommandRisk (trimSpace (rq_Command req))) \<noteq> ''critical''"
    unfolding list_all_iff by blast
  then show ?thesis by (simp add: ParseCommandRisk_trim)
next
  case False
  then have "applySuperAdminTerminalDefault req (evaluateTerminalPolicy req policies) = evaluateTerminalPolicy req policies"
    by (auto simp: applySuperAdminTerminalDefault_def)
  with assms show ?thesis by (simp add: allowed_iff_granted granted_def)
qed

section \<open>Properties\<close>

text \<open>
  C9. The terminal gate allows a command precisely when the command is not critical, at
  least one policy whose role, cluster, namespace and pod selector match the request has
  the command on its allowlist, and no deny pattern, built in or of any policy in scope,
  matches the command.
\<close>

theorem terminal_gate_allows_exactly:
  "rs_Allowed (evaluateTerminalPolicy req policies) \<longleftrightarrow>
     Risk (ParseCommandRisk (rq_Command req)) \<noteq> ''critical'' \<and>
     list_ex (\<lambda>p. terminalPolicyScopeMatches req p \<and>
        terminalAllowlistMatches (tp_CommandAllowlist p) (rq_Command req)) policies \<and>
     \<not> list_ex (\<lambda>p. terminalPolicyScopeMatches req p \<and>
        list_ex (\<lambda>pat. terminalDenyMatches pat (rq_Command req)) (builtinTerminalDenylist @ tp_CommandDenylist p)) policies"
  unfolding allowed_iff_granted granted_def grantingPolicies_def denies_def allows_def
  by (auto simp: list_ex_iff filter_empty_conv)

text \<open>
  Approval and auditing are waived only deliberately: a command runs without approval
  (without audit) precisely when it is allowed, its access tier is read-only, and not one of
  the policies that allow it demands approval (audit).
\<close>

theorem terminal_gate_waives_exactly:
  "(rs_RequireApproval (evaluateTerminalPolicy req policies) \<longleftrightarrow>
      \<not> (rs_Allowed (evaluateTerminalPolicy req policies) \<and>
         Mode (ClassifyTerminalAccessMode (rq_Command req)) = TermModeReadOnly \<and>
         \<not> list_ex tp_RequireApproval (grantingPolicies req policies))) \<and>
   (rs_AuditEnabled (evaluateTerminalPolicy req policies) \<longleftrightarrow>
      \<not> (rs_Allowed (evaluateTerminalPolicy req policies) \<and>
         Mode (ClassifyTerminalAccessMode (rq_Command req)) = TermModeReadOnly \<and>
         \<not> list_ex tp_AuditEnabled (grantingPolicies req policies)))"
  by (simp add: approval_exact audit_exact allowed_iff_granted approval_iff_not_read_only)

text \<open>
  C11. The granted session is as short as the strictest granting policy: when the command
  is allowed and the limits of the granting policies are positive, the session limit is the
  least of them.
\<close>

theorem terminal_session_limit_is_least:
  assumes "rs_Allowed (evaluateTerminalPolicy req policies)"
    and "list_all (\<lambda>p. 0 < tp_MaxSessionMinutes p) (grantingPolicies req policies)"
  shows "rs_MaxSessionMinutes (evaluateTerminalPolicy req policies) =
    Min (tp_MaxSessionMinutes ` set (grantingPolicies req policies))"
proof -
  from assms(1) have g: "granted req policies" by (simp add: allowed_iff_granted)
  from evaluate_granted [OF this] grant_minutes_first [OF assms(2)] g show ?thesis
    by (auto simp: grantResult_flags(4) granted_def)
qed

definition examplePolicy :: "string \<Rightarrow> int \<Rightarrow> bool \<Rightarrow> K8sTerminalPolicy" where
  "examplePolicy i minutes approval =
     \<lparr>tp_ID = i, tp_Name = i, tp_Role = ''*'', tp_ClusterID = [], tp_NamespacePattern = ''dev-*'', tp_PodSelector = [],
      tp_CommandAllowlist = [''ls''], tp_CommandDenylist = [''reboot''], tp_RequireApproval = approval,
      tp_MaxSessionMinutes = minutes, tp_AuditEnabled = True, tp_Enabled = True, tp_CreatedAt = [], tp_UpdatedAt = []\<rparr>"

definition exampleRequest :: "string \<Rightarrow> terminalPolicyEvalRequest" where
  "exampleRequest command = \<lparr>rq_Role = ''viewer'', rq_ClusterID = ''c1'', rq_Namespace = ''dev-a'', rq_Pod = ''p'',
     rq_PodLabels = (\<lambda>_. None), rq_Command = command\<rparr>"

theorem terminal_session_limit_is_least_witness:
  "rs_MaxSessionMinutes (evaluateTerminalPolicy (exampleRequest ''ls -la'') [examplePolicy ''a'' 30 False, examplePolicy ''b'' 5 True]) =
     Min (tp_MaxSessionMinutes ` set (grantingPolicies (exampleRequest ''ls -la'') [examplePolicy ''a'' 30 False, examplePolicy ''b'' 5 True]))"
  by (rule terminal_session_limit_is_least) (simp only: allowed_iff_granted, code_simp+)

text \<open>
  C12. Nothing risky runs unattended: when the gate, with the break-glass default of the
  highest administrator applied, allows a command without approval, then either no risk
  rule fired on it and it is not an interactive shell, or the caller is the highest
  administrator, the command is one of the four plain shells, and the session is audited
  and limited to fifteen minutes.
\<close>

theorem unattended_is_harmless_or_break_glass:
  fixes req policies
  defines "r \<equiv> applySuperAdminTerminalDefault req (evaluateTerminalPolicy req policies)"
  assumes "rs_Allowed r" and "\<not> rs_RequireApproval r"
  shows "(Findings (ParseCommandRisk (rq_Command req)) = [] \<and> \<not> isInteractiveShell (rq_Command req)) \<or>
    (equalFold (rq_Role req) ''super_admin'' \<and>
     trimSpace (rq_Command req) \<in> {''/bin/sh'', ''/bin/bash'', ''sh'', ''bash''} \<and>
     rs_AuditEnabled r \<and> rs_MaxSessionMinutes r = 15)"
  unfolding r_def using assms(2,3) unfolding r_def by (rule unattended_cases)

theorem unattended_is_harmless_or_break_glass_witness:
  "(Findings (ParseCommandRisk (rq_Command (exampleRequest ''ls -la''))) = [] \<and>
     \<not> isInteractiveShell (rq_Command (exampleRequest ''ls -la''))) \<or>
    (equalFold (rq_Role (exampleRequest ''ls -la'')) ''super_admin'' \<and>
     trimSpace (rq_Command (exampleRequest ''ls -la'')) \<in> {''/bin/sh'', ''/bin/bash'', ''sh'', ''bash''} \<and>
     rs_AuditEnabled (applySuperAdminTerminalDefault (exampleRequest ''ls -la'')
       (evaluateTerminalPolicy (exampleRequest ''ls -la'') [examplePolicy ''a'' 30 False])) \<and>
     rs_MaxSessionMinutes (applySuperAdminTerminalDefault (exampleRequest ''ls -la'')
       (evaluateTerminalPolicy (exampleRequest ''ls -la'') [examplePolicy ''a'' 30 False])) = 15)"
proof (rule unattended_is_harmless_or_break_glass)
  have plain: "applySuperAdminTerminalDefault (exampleRequest ''ls -la'') r = r" for r
    by (simp add: applySuperAdminTerminalDefault_def exampleRequest_def equalFold_def) code_simp
  show "rs_Allowed (applySuperAdminTerminalDefault (exampleRequest ''ls -la'')
       (evaluateTerminalPolicy (exampleRequest ''ls -la'') [examplePolicy ''a'' 30 False]))"
    unfolding plain allowed_iff_granted by code_simp
  show "\<not> rs_RequireApproval (applySuperAdminTerminalDefault (exampleRequest ''ls -la'')
       (evaluateTerminalPolicy (exampleRequest ''ls -la'') [examplePolicy ''a'' 30 False]))"
    unfolding plain approval_exact by code_simp
qed



text \<open>
  C14. The greedy wildcard matcher decides the declarative meaning of a pattern: for every
  pattern with a star it answers exactly whether the value is in the language of the
  pattern, both sides trimmed and lower-cased.
\<close>

theorem wildcard_match_is_glob:
  assumes "CHR ''*'' \<in> set pat"
  shows "terminalWildcardMatch pat v \<longleftrightarrow> glob (toLower (trimSpace pat)) (toLower (trimSpace v))"
  using assms by (rule wildcard_is_glob)

theorem wildcard_match_is_glob_witness:
  "terminalWildcardMatch ''Team-*-prod*x'' ''team-a-prod-prod-x'' \<longleftrightarrow>
     glob (toLower (trimSpace ''Team-*-prod*x'')) (toLower (trimSpace ''team-a-prod-prod-x''))"
  by (rule wildcard_match_is_glob) code_simp

text \<open>
  Without a star the matcher does not test equality: it accepts every value that
  begins and ends with the pattern. A policy scoped to the namespace \<open>prod\<close> therefore also
  covers \<open>prod-x-prod\<close>.
\<close>

theorem literal_pattern_overmatches:
  assumes "CHR ''*'' \<notin> set (toLower (trimSpace pat))" and "trimSpace pat \<noteq> []"
  shows "terminalWildcardMatch pat v \<longleftrightarrow>
    hasPrefix (toLower (trimSpace v)) (toLower (trimSpace pat)) \<and> hasSuffix (toLower (trimSpace v)) (toLower (trimSpace pat))"
  using assms by (rule wildcard_literal)

theorem literal_pattern_overmatches_witness:
  "terminalWildcardMatch ''prod'' ''prod-x-prod'' \<and> ''prod'' \<noteq> ''prod-x-prod''"
  by (subst literal_pattern_overmatches) code_simp+

text \<open>
  C16. A policy that the admin API accepts is what later evaluations read: after the
  handler returns it, the table holds exactly one row with its id, the row scans back to the
  returned policy with both command lists intact (their text encoding loses nothing), and
  one audit entry was added.
\<close>

theorem accepted_policy_is_read_back:
  assumes "postK8sTerminalPolicy authorized adminID freshID now body db = (Inr p, db')"
    and "distinct (map rowID (db_policies db))"
  shows "authorized \<and> tp_CommandAllowlist p \<noteq> [] \<and> distinct (map rowID (db_policies db')) \<and>
    (\<exists>c. (policyDefaults now p)\<lparr>tp_CreatedAt := c\<rparr> \<in> set (map scanPolicy (db_policies db'))) \<and>
    db_audit db' = db_audit db @ [\<lparr>au_AdminID = adminID, au_Action = ''k8s.terminal_policy.upsert'', au_BeforeValue = tp_ID p\<rparr>]"
proof -
  from assms(1) obtain inp where inp: "body = Some inp" and auth: "authorized"
    by (auto simp: postK8sTerminalPolicy_def split: if_splits option.splits)
  define p0 where "p0 = terminalPolicyFromInput freshID (in_ID inp) (in_Name inp) (in_Role inp) (in_ClusterID inp)
    (in_NamespacePattern inp) (in_PodSelector inp) (in_CommandAllowlist inp) (in_CommandDenylist inp) (in_MaxSessionMinutes inp)"
  have p: "p = p0\<lparr>tp_RequireApproval := orDefault (in_RequireApproval inp) (tp_RequireApproval p0),
      tp_AuditEnabled := orDefault (in_AuditEnabled inp) (tp_AuditEnabled p0), tp_Enabled := orDefault (in_Enabled inp) (tp_Enabled p0)\<rparr>"
    and allow: "tp_CommandAllowlist p0 \<noteq> []"
    and db': "db_policies db' = UpsertK8sTerminalPolicy now p (db_policies db)"
    "db_audit db' = auditAdmin adminID ''k8s.terminal_policy.upsert'' (tp_ID p) (db_audit db)"
    using assms(1) unfolding postK8sTerminalPolicy_def inp option.case Let_def p0_def [symmetric] by (auto simp: auth split: if_splits)
  have lists: "tp_CommandAllowlist p = cleanStringList (in_CommandAllowlist inp)"
    "tp_CommandDenylist p = (if cleanStringList (in_CommandDenylist inp) = [] then builtinTerminalDenylist
       else cleanStringList (in_CommandDenylist inp))" "tp_CommandAllowlist p \<noteq> []"
    using allow by (simp_all add: p) (simp_all add: p0_def terminalPolicyFromInput_def Let_def)
  have "list_all cleanTag (tp_CommandAllowlist p)" "list_all cleanTag (tp_CommandDenylist p)"
    using lists cleanStringList_clean builtin_clean by simp_all
  from stored_policy [OF this] upsertRow_distinct [OF assms(2)] lists(3) auth db' show ?thesis
    by (simp add: auditAdmin_def UpsertK8sTerminalPolicy_def)
qed

definition exampleInput :: policyInput where
  "exampleInput = \<lparr>in_ID = [], in_Name = ''diag'', in_Role = ''Viewer '', in_ClusterID = [], in_NamespacePattern = [],
     in_PodSelector = [], in_CommandAllowlist = [''ls, cat'', ''ls''], in_CommandDenylist = [], in_RequireApproval = Some False,
     in_MaxSessionMinutes = 0, in_AuditEnabled = None, in_Enabled = None\<rparr>"

theorem accepted_policy_is_read_back_witness:
  "\<exists>p db'. postK8sTerminalPolicy True ''root'' ''k8stp_1'' ''now'' (Some exampleInput) \<lparr>db_policies = [], db_audit = []\<rparr> = (Inr p, db') \<and>
     tp_CommandAllowlist p = [''cat'', ''ls''] \<and>
     (\<exists>c. (policyDefaults ''now'' p)\<lparr>tp_CreatedAt := c\<rparr> \<in> set (map scanPolicy (db_policies db')))"
proof -
  let ?x = "postK8sTerminalPolicy True ''root'' ''k8stp_1'' ''now'' (Some exampleInput) \<lparr>db_policies = [], db_audit = []\<rparr>"
  have ok: "(case fst ?x of Inl _ \<Rightarrow> False | Inr p \<Rightarrow> tp_CommandAllowlist p = [''cat'', ''ls''])" by code_simp
  then obtain p where p: "?x = (Inr p, snd ?x)" "tp_CommandAllowlist p = [''cat'', ''ls'']"
    by (cases ?x) (auto split: sum.splits)
  from accepted_policy_is_read_back [OF p(1)] p show ?thesis by (auto simp: distinct_map)
qed

end
