(* ===== verification/Row_Store.thy ===== *)
theory Row_Store
  imports Prelude
begin

text \<open>
  The part of the SQL store the state machines rest on. A table is the list of its rows under
  their primary key; \<open>updateWhere\<close> is \<^verbatim>\<open>UPDATE t SET f WHERE id = k AND guard\<close>, and
  \<open>guardedUpdate\<close> the idiom every transition of the store uses: run the guarded update and,
  when no row was affected, read the row to tell \<^verbatim>\<open>ErrInvalidTransition\<close> from
  \<^verbatim>\<open>ErrNotFound\<close>. A statement and a transaction are atomic; failures of the database driver
  are not modelled.

  The locale \<open>row_machine\<close> is the contract of a store whose rows move only along the edges of
  a state machine: its laws say what one operation does to one row, and its lemmas say what
  any interleaving of operations, by any number of servers, does.
\<close>

datatype store_error = ErrNotFound | ErrInvalidTransition | ErrDuplicateKey | ErrStore string

type_synonym 'r table = "(string \<times> 'r) list"

definition affected :: "string \<Rightarrow> ('r \<Rightarrow> bool) \<Rightarrow> 'r table \<Rightarrow> bool" where
  "affected k guard t \<longleftrightarrow> (case map_of t k of None \<Rightarrow> False | Some r \<Rightarrow> guard r)"

fun updateWhere :: "string \<Rightarrow> ('r \<Rightarrow> bool) \<Rightarrow> ('r \<Rightarrow> 'r) \<Rightarrow> 'r table \<Rightarrow> 'r table" where
  "updateWhere k guard f [] = []"
| "updateWhere k guard f ((i, r) # t) = (i, if i = k \<and> guard r then f r else r) # updateWhere k guard f t"

definition getRow :: "string \<Rightarrow> 'r table \<Rightarrow> store_error + 'r" where
  "getRow k t = (case map_of t k of None \<Rightarrow> Inl ErrNotFound | Some r \<Rightarrow> Inr r)"

definition guardedUpdate ::
  "string \<Rightarrow> ('r \<Rightarrow> bool) \<Rightarrow> ('r \<Rightarrow> 'r) \<Rightarrow> 'r table \<Rightarrow> (store_error + 'r) \<times> 'r table" where
  "guardedUpdate k guard f t =
     (if affected k guard t then (let t' = updateWhere k guard f t in (getRow k t', t'))
      else (case getRow k t of Inr _ \<Rightarrow> (Inl ErrInvalidTransition, t) | Inl _ \<Rightarrow> (Inl ErrNotFound, t)))"

definition insertRow :: "string \<Rightarrow> 'r \<Rightarrow> 'r table \<Rightarrow> (store_error + 'r) \<times> 'r table" where
  "insertRow k r t = (if map_of t k = None then (Inr r, t @ [(k, r)]) else (Inl ErrDuplicateKey, t))"

text \<open>A table with a unique index over one more column, the idempotency key: no two rows hold
  the same non-empty key. \<open>insertKeyed\<close> is an insert under such an index.\<close>

definition uniqueBy :: "('r \<Rightarrow> string) \<Rightarrow> 'r table \<Rightarrow> bool" where
  "uniqueBy key t \<longleftrightarrow> distinct (filter (\<lambda>k. k \<noteq> []) (map (\<lambda>(_, r). key r) t))"

definition insertKeyed :: "('r \<Rightarrow> string) \<Rightarrow> string \<Rightarrow> 'r \<Rightarrow> 'r table \<Rightarrow> (store_error + 'r) \<times> 'r table" where
  "insertKeyed key k r t =
     (if key r \<noteq> [] \<and> list_ex (\<lambda>(_, x). key x = key r) t then (Inl ErrDuplicateKey, t) else insertRow k r t)"

lemma map_of_updateWhere:
  "map_of (updateWhere k guard f t) i =
     (if i = k then map_option (\<lambda>r. if guard r then f r else r) (map_of t k) else map_of t i)"
  by (induction k guard f t rule: updateWhere.induct) auto

lemma map_of_insertRow [simp]:
  "map_of (snd (insertRow k r t)) i = (if i = k \<and> map_of t k = None then Some r else map_of t i)"
proof (cases "map_of t k")
  case None
  then show ?thesis by (cases "map_of t i") (auto simp: insertRow_def map_add_def)
next
  case (Some q)
  then show ?thesis by (simp add: insertRow_def)
qed

lemma guardedUpdate_table:
  "map_of (snd (guardedUpdate k guard f t)) i =
     (if i = k then map_option (\<lambda>r. if guard r then f r else r) (map_of t k) else map_of t i)"
  by (auto simp: guardedUpdate_def affected_def getRow_def Let_def map_of_updateWhere split: option.splits if_splits)

lemma guardedUpdate_ok:
  "fst (guardedUpdate k guard f t) = Inr r' \<longleftrightarrow> (\<exists>r. map_of t k = Some r \<and> guard r \<and> r' = f r)"
  by (auto simp: guardedUpdate_def affected_def getRow_def Let_def map_of_updateWhere split: option.splits if_splits)

lemma guardedUpdate_err:
  "fst (guardedUpdate k guard f t) = Inl e \<longleftrightarrow>
     (map_of t k = None \<and> e = ErrNotFound) \<or> (\<exists>r. map_of t k = Some r \<and> \<not> guard r \<and> e = ErrInvalidTransition)"
  by (auto simp: guardedUpdate_def affected_def getRow_def Let_def map_of_updateWhere split: option.splits if_splits)

lemma guardedUpdate_unchanged: "fst (guardedUpdate k guard f t) = Inl e \<Longrightarrow> snd (guardedUpdate k guard f t) = t"
  by (auto simp: guardedUpdate_def getRow_def Let_def affected_def map_of_updateWhere split: option.splits if_splits)

lemma affected_iff: "affected k guard t \<longleftrightarrow> (\<exists>r. map_of t k = Some r \<and> guard r)"
  by (auto simp: affected_def split: option.split)

lemma insertKeyed_cases:
  "insertKeyed key k r t = (Inl ErrDuplicateKey, t) \<or>
   (insertKeyed key k r t = (Inr r, t @ [(k, r)]) \<and> map_of t k = None \<and> (key r = [] \<or> \<not> list_ex (\<lambda>(_, x). key x = key r) t))"
  by (auto simp: insertKeyed_def insertRow_def)

lemma updateWhere_map:
  "(\<And>r. g (f r) = g r) \<Longrightarrow> map (\<lambda>(_, r). g r) (updateWhere k guard f t) = map (\<lambda>(_, r). g r) t"
  by (induction k guard f t rule: updateWhere.induct) auto

lemma uniqueBy_updateWhere: "(\<And>r. key (f r) = key r) \<Longrightarrow> uniqueBy key (updateWhere k guard f t) = uniqueBy key t"
  by (simp add: uniqueBy_def updateWhere_map)

lemma guardedUpdate_snd: "snd (guardedUpdate k guard f t) = t \<or> snd (guardedUpdate k guard f t) = updateWhere k guard f t"
  by (auto simp: guardedUpdate_def getRow_def Let_def split: option.splits)

lemma uniqueBy_guardedUpdate: "(\<And>r. key (f r) = key r) \<Longrightarrow> uniqueBy key t \<Longrightarrow> uniqueBy key (snd (guardedUpdate k guard f t))"
  using guardedUpdate_snd [of k guard f t] by (auto simp: uniqueBy_updateWhere)

lemma uniqueBy_insertKeyed: "uniqueBy key t \<Longrightarrow> uniqueBy key (snd (insertKeyed key k r t))"
  using insertKeyed_cases [of key k r t] by (fastforce simp: uniqueBy_def list_ex_iff)

lemma uniqueBy_find:
  assumes "uniqueBy key t" and "map_of t k = Some r" and "key r \<noteq> []"
  shows "find (\<lambda>(_, x). key x = key r) t = Some (k, r)"
  using assms
proof (induction t)
  case Nil
  then show ?case by simp
next
  case (Cons p t)
  obtain j q where p: "p = (j, q)" by (cases p)
  show ?case
  proof (cases "j = k")
    case True
    with Cons.prems p show ?thesis by simp
  next
    case False
    with Cons.prems p have r: "map_of t k = Some r" by simp
    then have mem: "(k, r) \<in> set t" by (rule map_of_SomeD)
    have "key q \<noteq> key r"
      using Cons.prems(1,3) p mem by (auto simp: uniqueBy_def split: if_splits)
    moreover have "uniqueBy key t" using Cons.prems(1) p by (auto simp: uniqueBy_def split: if_splits)
    ultimately show ?thesis using Cons.IH r Cons.prems(3) p by simp
  qed
qed

locale row_machine =
  fixes rows :: "'st \<Rightarrow> string \<Rightarrow> 'r option"
    and exec :: "'op \<Rightarrow> 'st \<Rightarrow> 'st"
    and moves :: "'r \<Rightarrow> 'r \<Rightarrow> bool"
    and fresh :: "'r \<Rightarrow> bool"
  assumes exec_row: "rows st k = Some r \<Longrightarrow> \<exists>r'. rows (exec op st) k = Some r' \<and> (r' = r \<or> moves r r')"
    and exec_new: "rows st k = None \<Longrightarrow> rows (exec op st) k = Some r \<Longrightarrow> fresh r"
begin

lemma run_row: "rows st k = Some r \<Longrightarrow> \<exists>r'. rows (fold exec ops st) k = Some r' \<and> moves\<^sup>*\<^sup>* r r'"
proof (induction ops arbitrary: st r)
  case Nil
  then show ?case by simp
next
  case (Cons op ops)
  obtain r1 where r1: "rows (exec op st) k = Some r1" "r1 = r \<or> moves r r1"
    using exec_row [OF Cons.prems] by blast
  from Cons.IH [OF r1(1)] obtain r2 where "rows (fold exec ops (exec op st)) k = Some r2" "moves\<^sup>*\<^sup>* r1 r2" by blast
  with r1(2) show ?case by (auto intro: converse_rtranclp_into_rtranclp)
qed

lemma run_absorbing:
  assumes "rows st k = Some r" and "\<And>r'. \<not> moves r r'"
  shows "rows (fold exec ops st) k = Some r"
proof -
  obtain r' where "rows (fold exec ops st) k = Some r'" "moves\<^sup>*\<^sup>* r r'"
    using run_row [OF assms(1)] by blast
  moreover from this(2) have "r' = r" using assms(2) by (auto elim: converse_rtranclpE)
  ultimately show ?thesis by simp
qed

lemma run_invariant:
  assumes "\<And>r. fresh r \<Longrightarrow> I r" and "\<And>r r'. I r \<Longrightarrow> moves r r' \<Longrightarrow> I r'"
    and "\<And>k r. rows st k = Some r \<Longrightarrow> I r" and "rows (fold exec ops st) k = Some r"
  shows "I r"
  using assms(3,4)
proof (induction ops arbitrary: st)
  case Nil
  then show ?case by simp
next
  case (Cons op ops)
  have "I r'" if "rows (exec op st) j = Some r'" for j r'
  proof (cases "rows st j")
    case None
    with that assms(1) exec_new show ?thesis by blast
  next
    case (Some q)
    with that exec_row [OF Some, of op] Cons.prems(1) [OF Some] assms(2) show ?thesis by auto
  qed
  from Cons.IH [OF this] Cons.prems(2) show ?case by simp
qed

end

end
