(* ===== verification/Exec_Store.thy ===== *)
theory Exec_Store
  imports Row_Store Terminal_Policy
begin

text \<open>
  The store of pod exec sessions and one-use terminal tickets,
  \<^verbatim>\<open>internal/store/k8s_pod_exec.go\<close>. Every exported operation that changes state is one
  definition over the state \<open>exec_db\<close>, with the clock it reads as an argument.

  A stored timestamp is an \<open>instant option\<close>, \<open>None\<close> for the empty text; the RFC3339 text of an
  instant is not modelled, so a comparison of two stored texts is a comparison of instants.
  The policy result column holds the evaluation result itself instead of its JSON text,
  \<open>None\<close> for the default \<^verbatim>\<open>{}\<close>. The digest of a ticket is a parameter \<open>hash\<close>.
\<close>

type_synonym instant = int

section \<open>Rows\<close>

record K8sPodExecSession =
  se_ID :: string
  se_ClusterID :: string
  se_Namespace :: string
  se_Pod :: string
  se_Container :: string
  se_Command :: string
  se_Role :: string
  se_RequestedBy :: string
  se_Status :: string
  se_RiskLevel :: string
  se_RequireApproval :: bool
  se_AuditEnabled :: bool
  se_MaxSessionMinutes :: int
  se_PolicyResult :: "terminalPolicyEvalResult option"
  se_Reason :: string
  se_DecidedBy :: string
  se_DecidedAt :: "instant option"
  se_DecisionNote :: string
  se_ExecutedBy :: string
  se_ExecutedAt :: "instant option"
  se_OutputSample :: string
  se_ErrorMessage :: string
  se_ExitCode :: int
  se_ClaimID :: string
  se_CreatedAt :: "instant option"
  se_UpdatedAt :: "instant option"

record K8sTerminalTicket =
  tk_SessionID :: string
  tk_AdminID :: string
  tk_ClaimID :: string
  tk_AuthSessionID :: string
  tk_AuthExpiresAt :: "instant option"
  tk_ClientIP :: string
  tk_UserAgentHash :: string
  tk_ExpiresAt :: instant

record ticket_row =
  tr_ticket :: K8sTerminalTicket
  tr_consumed :: "instant option"
  tr_created :: instant

text \<open>A row of \<^verbatim>\<open>auth_sessions\<close> joined with the row of its user.\<close>

record auth_row =
  ar_revoked :: "instant option"
  ar_expires :: "instant option"
  ar_userStatus :: string
  ar_mustChangePassword :: bool

record exec_db =
  xd_sessions :: "K8sPodExecSession table"
  xd_tickets :: "ticket_row table"
  xd_auth :: "auth_row table"

type_synonym session_result = "(store_error + K8sPodExecSession) \<times> exec_db"

text \<open>\<^verbatim>\<open>timestampPredicate\<close>: a comparison with the empty text is unknown, so the row is not
  selected.\<close>

definition laterThan :: "instant option \<Rightarrow> instant \<Rightarrow> bool" where
  "laterThan column t \<longleftrightarrow> (case column of None \<Rightarrow> False | Some c \<Rightarrow> t < c)"

definition notLaterThan :: "instant option \<Rightarrow> instant \<Rightarrow> bool" where
  "notLaterThan column t \<longleftrightarrow> (case column of None \<Rightarrow> False | Some c \<Rightarrow> c \<le> t)"

section \<open>Tickets\<close>

definition deleteExpiredK8sTerminalTickets :: "instant \<Rightarrow> exec_db \<Rightarrow> exec_db" where
  "deleteExpiredK8sTerminalTickets now db =
     db\<lparr>xd_tickets := filter (\<lambda>(h, r). \<not> notLaterThan (Some (tk_ExpiresAt (tr_ticket r))) now) (xd_tickets db)\<rparr>"

definition CreateK8sTerminalTicket ::
  "(string \<Rightarrow> string) \<Rightarrow> instant \<Rightarrow> string \<Rightarrow> K8sTerminalTicket \<Rightarrow> exec_db \<Rightarrow> (store_error + unit) \<times> exec_db" where
  "CreateK8sTerminalTicket hash now ticket v db =
     (let db1 = deleteExpiredK8sTerminalTickets now db;
          row = \<lparr>tr_ticket = v\<lparr>tk_ClaimID := []\<rparr>, tr_consumed = None, tr_created = now\<rparr> in
      (case insertRow (hash ticket) row (xd_tickets db1) of
         (Inl e, _) \<Rightarrow> (Inl e, db1)
       | (Inr _, t) \<Rightarrow> (Inr (), db1\<lparr>xd_tickets := t\<rparr>)))"

definition authSessionGood :: "auth_row table \<Rightarrow> string \<Rightarrow> instant \<Rightarrow> bool" where
  "authSessionGood auth sid now \<longleftrightarrow>
     affected sid (\<lambda>a. ar_revoked a = None \<and> laterThan (ar_expires a) now \<and> ar_userStatus a = ''active'' \<and>
       \<not> ar_mustChangePassword a) auth"

definition ticketUsable :: "auth_row table \<Rightarrow> string \<Rightarrow> string \<Rightarrow> string \<Rightarrow> instant \<Rightarrow> ticket_row \<Rightarrow> bool" where
  "ticketUsable auth sessionID clientIP userAgentHash now r \<longleftrightarrow>
     (let v = tr_ticket r in
      tk_SessionID v = sessionID \<and> tr_consumed r = None \<and> laterThan (Some (tk_ExpiresAt v)) now \<and>
      tk_ClientIP v = clientIP \<and> tk_UserAgentHash v = userAgentHash \<and>
      (tk_AuthExpiresAt v = None \<or> laterThan (tk_AuthExpiresAt v) now) \<and>
      (tk_AuthSessionID v = [] \<or> authSessionGood auth (tk_AuthSessionID v) now))"

text \<open>The transaction: consume the ticket, read it back, claim the ready session. Any failure
  rolls both changes back.\<close>

definition ConsumeK8sTerminalTicketAndClaimSession ::
  "(string \<Rightarrow> string) \<Rightarrow> instant \<Rightarrow> string \<Rightarrow> string \<Rightarrow> string \<Rightarrow> string \<Rightarrow> exec_db \<Rightarrow> K8sTerminalTicket option \<times> exec_db" where
  "ConsumeK8sTerminalTicketAndClaimSession hash now sessionID ticket clientIP userAgentHash db =
     (let h = hash ticket; usable = ticketUsable (xd_auth db) sessionID clientIP userAgentHash now in
      if \<not> affected h usable (xd_tickets db) then (None, db)
      else
        let tickets' = updateWhere h usable (\<lambda>r. r\<lparr>tr_consumed := Some now\<rparr>) (xd_tickets db) in
        (case getRow h tickets' of
           Inl _ \<Rightarrow> (None, db)
         | Inr row \<Rightarrow>
             let value = (tr_ticket row)\<lparr>tk_ClaimID := h\<rparr>; ready = (\<lambda>s. se_Status s = ''ready'') in
             if \<not> affected sessionID ready (xd_sessions db) then (None, db)
             else (Some value,
               db\<lparr>xd_tickets := tickets',
                  xd_sessions := updateWhere sessionID ready
                    (\<lambda>s. s\<lparr>se_Status := ''connecting'', se_ClaimID := h, se_ExecutedBy := tk_AdminID value,
                           se_ExecutedAt := Some now, se_UpdatedAt := Some now\<rparr>) (xd_sessions db)\<rparr>)))"

section \<open>Sessions\<close>

definition sessionDefaults :: "instant \<Rightarrow> K8sPodExecSession \<Rightarrow> K8sPodExecSession" where
  "sessionDefaults now s =
     s\<lparr>se_CreatedAt := (if se_CreatedAt s = None then Some now else se_CreatedAt s),
       se_UpdatedAt := Some now,
       se_Status := (if se_Status s = [] then ''pending_approval'' else se_Status s),
       se_RiskLevel := (if se_RiskLevel s = [] then ''low'' else se_RiskLevel s),
       se_MaxSessionMinutes := (if se_MaxSessionMinutes s \<le> 0 then 10 else se_MaxSessionMinutes s)\<rparr>"

text \<open>The columns an insert does not name take their defaults.\<close>

definition insertedSession :: "K8sPodExecSession \<Rightarrow> K8sPodExecSession" where
  "insertedSession s = s\<lparr>se_DecidedBy := [], se_DecidedAt := None, se_DecisionNote := [], se_ExecutedBy := [],
     se_ExecutedAt := None, se_OutputSample := [], se_ErrorMessage := [], se_ExitCode := 0, se_ClaimID := []\<rparr>"

definition CreateK8sPodExecSession :: "instant \<Rightarrow> K8sPodExecSession \<Rightarrow> exec_db \<Rightarrow> session_result" where
  "CreateK8sPodExecSession now s db =
     (let s' = sessionDefaults now s in
      (case insertRow (se_ID s') (insertedSession s') (xd_sessions db) of
         (Inl e, _) \<Rightarrow> (Inl e, db)
       | (Inr _, t) \<Rightarrow> (Inr s', db\<lparr>xd_sessions := t\<rparr>)))"

record K8sPodExecSessionFilter =
  sf_ClusterID :: string
  sf_Namespace :: string
  sf_Pod :: string
  sf_Status :: string
  sf_Limit :: int

definition sessionSelected :: "K8sPodExecSessionFilter \<Rightarrow> K8sPodExecSession \<Rightarrow> bool" where
  "sessionSelected f s \<longleftrightarrow> (sf_ClusterID f = [] \<or> se_ClusterID s = sf_ClusterID f) \<and>
     (sf_Namespace f = [] \<or> se_Namespace s = sf_Namespace f) \<and>
     (sf_Pod f = [] \<or> se_Pod s = sf_Pod f) \<and> (sf_Status f = [] \<or> se_Status s = sf_Status f)"

text \<open>An empty timestamp sorts as the least one.\<close>

definition sortInstant :: "instant option \<Rightarrow> nat \<times> instant" where
  "sortInstant t = (case t of None \<Rightarrow> (0, 0) | Some i \<Rightarrow> (1, i))"

definition ListK8sPodExecSessions :: "K8sPodExecSessionFilter \<Rightarrow> exec_db \<Rightarrow> K8sPodExecSession list" where
  "ListK8sPodExecSessions f db =
     take (nat (boundedLimit (sf_Limit f) 100 1000))
       (rev (sort_key (\<lambda>s. sortInstant (se_CreatedAt s)) (filter (sessionSelected f) (map snd (xd_sessions db)))))"

definition second :: instant where "second = 1000000000"

definition recoveryDeadline :: "K8sPodExecSession \<Rightarrow> instant option" where
  "recoveryDeadline s =
     map_option (\<lambda>u. u + (if se_MaxSessionMinutes s > 0 then se_MaxSessionMinutes s else 1) * 60 * second + 30 * second)
       (se_UpdatedAt s)"

definition ListK8sPodExecSessionsForRecovery :: "int \<Rightarrow> exec_db \<Rightarrow> K8sPodExecSession list" where
  "ListK8sPodExecSessionsForRecovery limit db =
     take (nat (boundedLimit limit 100 1000))
       (sort_key (\<lambda>s. sortInstant (recoveryDeadline s))
         (filter (\<lambda>s. se_Status s = ''connecting'' \<or> se_Status s = ''running'') (map snd (xd_sessions db))))"

definition GetK8sPodExecSession :: "string \<Rightarrow> exec_db \<Rightarrow> store_error + K8sPodExecSession" where
  "GetK8sPodExecSession i db = getRow i (xd_sessions db)"

definition ExpireStaleK8sPodExecSession ::
  "instant \<Rightarrow> string \<Rightarrow> string \<Rightarrow> instant option \<Rightarrow> string \<Rightarrow> exec_db \<Rightarrow> (store_error + bool) \<times> exec_db" where
  "ExpireStaleK8sPodExecSession now i expectedStatus expectedUpdatedAt reason db =
     (if expectedStatus \<noteq> ''connecting'' \<and> expectedStatus \<noteq> ''running'' then (Inl ErrInvalidTransition, db)
      else
        let guard = (\<lambda>s. se_Status s = expectedStatus \<and> se_UpdatedAt s = expectedUpdatedAt) in
        (Inr (affected i guard (xd_sessions db)),
         db\<lparr>xd_sessions := updateWhere i guard
           (\<lambda>s. s\<lparr>se_Status := ''failed'', se_ClaimID := [], se_ErrorMessage := reason, se_ExitCode := 124,
                  se_UpdatedAt := Some now\<rparr>) (xd_sessions db)\<rparr>))"

definition sessionUpdate ::
  "string \<Rightarrow> (K8sPodExecSession \<Rightarrow> bool) \<Rightarrow> (K8sPodExecSession \<Rightarrow> K8sPodExecSession) \<Rightarrow> exec_db \<Rightarrow> session_result" where
  "sessionUpdate i guard f db =
     (let (res, t) = guardedUpdate i guard f (xd_sessions db) in (res, db\<lparr>xd_sessions := t\<rparr>))"

definition UpdateK8sPodExecSessionDecision ::
  "instant \<Rightarrow> string \<Rightarrow> string \<Rightarrow> string \<Rightarrow> string \<Rightarrow> exec_db \<Rightarrow> session_result" where
  "UpdateK8sPodExecSessionDecision now i status actor note db =
     (if status \<noteq> ''ready'' \<and> status \<noteq> ''rejected'' then (Inl ErrInvalidTransition, db)
      else sessionUpdate i (\<lambda>s. se_Status s = ''pending_approval'')
        (\<lambda>s. s\<lparr>se_Status := status, se_DecidedBy := actor, se_DecidedAt := Some now, se_DecisionNote := note,
               se_UpdatedAt := Some now\<rparr>) db)"

definition MarkK8sPodExecSessionRunning :: "instant \<Rightarrow> string \<Rightarrow> string \<Rightarrow> exec_db \<Rightarrow> session_result" where
  "MarkK8sPodExecSessionRunning now i actor db =
     sessionUpdate i (\<lambda>s. se_Status s = ''ready'')
       (\<lambda>s. s\<lparr>se_Status := ''running'', se_ExecutedBy := actor, se_ExecutedAt := Some now, se_UpdatedAt := Some now\<rparr>) db"

definition MarkK8sPodExecSessionConnecting :: "instant \<Rightarrow> string \<Rightarrow> string \<Rightarrow> string \<Rightarrow> exec_db \<Rightarrow> session_result" where
  "MarkK8sPodExecSessionConnecting now i actor claimID db =
     (if claimID = [] then (Inl ErrInvalidTransition, db)
      else sessionUpdate i (\<lambda>s. se_Status s = ''ready'')
        (\<lambda>s. s\<lparr>se_Status := ''connecting'', se_ClaimID := claimID, se_ExecutedBy := actor, se_ExecutedAt := Some now,
               se_UpdatedAt := Some now\<rparr>) db)"

definition MarkK8sPodExecSessionConnected :: "instant \<Rightarrow> string \<Rightarrow> string \<Rightarrow> exec_db \<Rightarrow> session_result" where
  "MarkK8sPodExecSessionConnected now i claimID db =
     sessionUpdate i (\<lambda>s. se_Status s = ''connecting'' \<and> se_ClaimID s = claimID)
       (\<lambda>s. s\<lparr>se_Status := ''running'', se_UpdatedAt := Some now\<rparr>) db"

definition RecoverStaleK8sPodExecSessionConnection ::
  "instant \<Rightarrow> string \<Rightarrow> instant \<Rightarrow> exec_db \<Rightarrow> bool \<times> exec_db" where
  "RecoverStaleK8sPodExecSessionConnection now i staleBefore db =
     (let guard = (\<lambda>s. se_Status s = ''connecting'' \<and> notLaterThan (se_UpdatedAt s) staleBefore) in
      (affected i guard (xd_sessions db),
       db\<lparr>xd_sessions := updateWhere i guard
         (\<lambda>s. s\<lparr>se_Status := ''ready'', se_ClaimID := [], se_ExecutedBy := [], se_ExecutedAt := None,
                se_UpdatedAt := Some now\<rparr>) (xd_sessions db)\<rparr>))"

definition finishSession :: "instant \<Rightarrow> string \<Rightarrow> string \<Rightarrow> string \<Rightarrow> string \<Rightarrow> int \<Rightarrow> K8sPodExecSession \<Rightarrow> K8sPodExecSession" where
  "finishSession now status actor sample err code s =
     s\<lparr>se_Status := status, se_ExecutedBy := actor, se_ExecutedAt := Some now, se_OutputSample := sample,
       se_ErrorMessage := err, se_ExitCode := code, se_UpdatedAt := Some now\<rparr>"

definition UpdateK8sPodTerminalSessionExecution ::
  "instant \<Rightarrow> string \<Rightarrow> string \<Rightarrow> string \<Rightarrow> string \<Rightarrow> string \<Rightarrow> string \<Rightarrow> int \<Rightarrow> exec_db \<Rightarrow> session_result" where
  "UpdateK8sPodTerminalSessionExecution now i claimID status actor sample err code db =
     (if claimID = [] \<or> (status \<noteq> ''completed'' \<and> status \<noteq> ''failed'') then (Inl ErrInvalidTransition, db)
      else sessionUpdate i
        (\<lambda>s. se_ClaimID s = claimID \<and>
          (se_Status s = ''running'' \<or> (status = ''failed'' \<and> se_Status s = ''connecting'')))
        (\<lambda>s. (finishSession now status actor sample err code s)\<lparr>se_ClaimID := []\<rparr>) db)"

definition UpdateK8sPodExecSessionExecution ::
  "instant \<Rightarrow> string \<Rightarrow> string \<Rightarrow> string \<Rightarrow> string \<Rightarrow> string \<Rightarrow> int \<Rightarrow> exec_db \<Rightarrow> session_result" where
  "UpdateK8sPodExecSessionExecution now i status actor sample err code db =
     (if status \<noteq> ''completed'' \<and> status \<noteq> ''failed'' then (Inl ErrInvalidTransition, db)
      else sessionUpdate i (\<lambda>s. se_Status s = ''running'') (finishSession now status actor sample err code) db)"

section \<open>The store as a machine\<close>

text \<open>One constructor per operation; the servers run any interleaving of them.\<close>

datatype exec_op =
    OpCreateTicket instant string K8sTerminalTicket
  | OpConsume instant string string string string
  | OpCreateSession instant K8sPodExecSession
  | OpExpire instant string string "instant option" string
  | OpDecide instant string string string string
  | OpMarkRunning instant string string
  | OpMarkConnecting instant string string string
  | OpMarkConnected instant string string
  | OpRecover instant string instant
  | OpFinishTerminal instant string string string string string string int
  | OpFinish instant string string string string string int

fun execOp :: "(string \<Rightarrow> string) \<Rightarrow> exec_op \<Rightarrow> exec_db \<Rightarrow> exec_db" where
  "execOp hash (OpCreateTicket now ticket v) db = snd (CreateK8sTerminalTicket hash now ticket v db)"
| "execOp hash (OpConsume now i ticket ip ua) db = snd (ConsumeK8sTerminalTicketAndClaimSession hash now i ticket ip ua db)"
| "execOp hash (OpCreateSession now s) db = snd (CreateK8sPodExecSession now s db)"
| "execOp hash (OpExpire now i st upd reason) db = snd (ExpireStaleK8sPodExecSession now i st upd reason db)"
| "execOp hash (OpDecide now i st actor note) db = snd (UpdateK8sPodExecSessionDecision now i st actor note db)"
| "execOp hash (OpMarkRunning now i actor) db = snd (MarkK8sPodExecSessionRunning now i actor db)"
| "execOp hash (OpMarkConnecting now i actor c) db = snd (MarkK8sPodExecSessionConnecting now i actor c db)"
| "execOp hash (OpMarkConnected now i c) db = snd (MarkK8sPodExecSessionConnected now i c db)"
| "execOp hash (OpRecover now i stale) db = snd (RecoverStaleK8sPodExecSessionConnection now i stale db)"
| "execOp hash (OpFinishTerminal now i c st actor sample err code) db =
     snd (UpdateK8sPodTerminalSessionExecution now i c st actor sample err code db)"
| "execOp hash (OpFinish now i st actor sample err code) db =
     snd (UpdateK8sPodExecSessionExecution now i st actor sample err code db)"

definition sessionRow :: "exec_db \<Rightarrow> string \<Rightarrow> K8sPodExecSession option" where
  "sessionRow db k = map_of (xd_sessions db) k"

definition sessionEdges :: "(string \<times> string) list" where
  "sessionEdges = [(''pending_approval'', ''ready''), (''pending_approval'', ''rejected''), (''ready'', ''running''),
     (''ready'', ''connecting''), (''connecting'', ''running''), (''connecting'', ''ready''), (''connecting'', ''failed''),
     (''running'', ''completed''), (''running'', ''failed'')]"

text \<open>What the requester asked for and what the policy answered; no operation changes it.\<close>

definition sameRequest :: "K8sPodExecSession \<Rightarrow> K8sPodExecSession \<Rightarrow> bool" where
  "sameRequest s s' \<longleftrightarrow> se_ID s' = se_ID s \<and> se_ClusterID s' = se_ClusterID s \<and> se_Namespace s' = se_Namespace s \<and>
     se_Pod s' = se_Pod s \<and> se_Container s' = se_Container s \<and> se_Command s' = se_Command s \<and> se_Role s' = se_Role s \<and>
     se_RequestedBy s' = se_RequestedBy s \<and> se_RiskLevel s' = se_RiskLevel s \<and>
     se_RequireApproval s' = se_RequireApproval s \<and> se_AuditEnabled s' = se_AuditEnabled s \<and>
     se_MaxSessionMinutes s' = se_MaxSessionMinutes s \<and> se_PolicyResult s' = se_PolicyResult s \<and>
     se_Reason s' = se_Reason s \<and> se_CreatedAt s' = se_CreatedAt s"

definition sessionMoves :: "K8sPodExecSession \<Rightarrow> K8sPodExecSession \<Rightarrow> bool" where
  "sessionMoves s s' \<longleftrightarrow> (se_Status s, se_Status s') \<in> set sessionEdges \<and> sameRequest s s' \<and>
     (se_Status s \<noteq> ''pending_approval'' \<longrightarrow> se_DecidedBy s' = se_DecidedBy s)"

definition freshSession :: "K8sPodExecSession \<Rightarrow> bool" where
  "freshSession s \<longleftrightarrow> se_Status s \<noteq> [] \<and> se_MaxSessionMinutes s > 0 \<and> se_DecidedBy s = [] \<and> se_ClaimID s = []"


section \<open>What one operation does to one session\<close>

named_theorems session_row \<open>effect of the store operations on the row of a session\<close>

definition setRow :: "bool \<Rightarrow> ('r \<Rightarrow> bool) \<Rightarrow> ('r \<Rightarrow> 'r) \<Rightarrow> 'r option \<Rightarrow> 'r option" where
  "setRow b guard f r = (if b then map_option (\<lambda>r. if guard r then f r else r) r else r)"

lemma sessionRow_update:
  "sessionRow (db\<lparr>xd_sessions := updateWhere i guard f (xd_sessions db)\<rparr>) k = setRow (k = i) guard f (sessionRow db k)"
  by (auto simp: sessionRow_def map_of_updateWhere setRow_def)

lemma sessionRow_sessionUpdate:
  "sessionRow (snd (sessionUpdate i guard f db)) k = setRow (k = i) guard f (sessionRow db k)"
  by (auto simp: sessionRow_def sessionUpdate_def guardedUpdate_table setRow_def split: prod.splits)
     (metis guardedUpdate_table snd_conv)+

lemma sessionUpdate_ok:
  "fst (sessionUpdate i guard f db) = Inr s' \<longleftrightarrow> (\<exists>s. sessionRow db i = Some s \<and> guard s \<and> s' = f s)"
  by (simp add: sessionUpdate_def sessionRow_def split: prod.splits) (metis fst_conv guardedUpdate_ok)

lemma sessionUpdate_err:
  "sessionRow db i = Some s \<Longrightarrow> \<not> guard s \<Longrightarrow> fst (sessionUpdate i guard f db) = Inl ErrInvalidTransition"
  by (simp add: sessionUpdate_def sessionRow_def split: prod.splits) (metis fst_conv guardedUpdate_err)

lemma row_CreateTicket [session_row]: "sessionRow (snd (CreateK8sTerminalTicket hash now ticket v db)) k = sessionRow db k"
  by (simp add: CreateK8sTerminalTicket_def Let_def deleteExpiredK8sTerminalTickets_def sessionRow_def
      split: prod.split sum.split)

text \<open>A successful consumption, in one step.\<close>

definition consumeGuard :: "(string \<Rightarrow> string) \<Rightarrow> instant \<Rightarrow> string \<Rightarrow> string \<Rightarrow> string \<Rightarrow> string \<Rightarrow> exec_db \<Rightarrow> bool" where
  "consumeGuard hash now i ticket ip ua db \<longleftrightarrow>
     affected (hash ticket) (ticketUsable (xd_auth db) i ip ua now) (xd_tickets db) \<and>
     affected i (\<lambda>s. se_Status s = ''ready'') (xd_sessions db)"

definition claimSession :: "instant \<Rightarrow> string \<Rightarrow> string \<Rightarrow> K8sPodExecSession \<Rightarrow> K8sPodExecSession" where
  "claimSession now h admin s = s\<lparr>se_Status := ''connecting'', se_ClaimID := h, se_ExecutedBy := admin,
     se_ExecutedAt := Some now, se_UpdatedAt := Some now\<rparr>"

lemma consume_cases:
  "(\<not> consumeGuard hash now i ticket ip ua db \<longrightarrow>
      ConsumeK8sTerminalTicketAndClaimSession hash now i ticket ip ua db = (None, db)) \<and>
   (consumeGuard hash now i ticket ip ua db \<longrightarrow>
      (\<exists>v admin. ConsumeK8sTerminalTicketAndClaimSession hash now i ticket ip ua db = (Some v,
         db\<lparr>xd_tickets := updateWhere (hash ticket) (ticketUsable (xd_auth db) i ip ua now) (\<lambda>r. r\<lparr>tr_consumed := Some now\<rparr>) (xd_tickets db),
            xd_sessions := updateWhere i (\<lambda>s. se_Status s = ''ready'') (claimSession now (hash ticket) admin) (xd_sessions db)\<rparr>)))"
proof -
  let ?u = "ticketUsable (xd_auth db) i ip ua now"
  have "affected (hash ticket) ?u (xd_tickets db) \<Longrightarrow>
      \<exists>r. getRow (hash ticket) (updateWhere (hash ticket) ?u (\<lambda>r. r\<lparr>tr_consumed := Some now\<rparr>) (xd_tickets db)) = Inr r"
    by (auto simp: getRow_def map_of_updateWhere affected_iff)
  then show ?thesis
    by (auto simp: ConsumeK8sTerminalTicketAndClaimSession_def consumeGuard_def claimSession_def [abs_def] Let_def)
      (rule exI, rule refl)
qed

lemma row_Consume:
  "\<exists>admin. sessionRow (snd (ConsumeK8sTerminalTicketAndClaimSession hash now i ticket ip ua db)) k =
     setRow (k = i \<and> consumeGuard hash now i ticket ip ua db) (\<lambda>s. se_Status s = ''ready'') (claimSession now (hash ticket) admin)
       (sessionRow db k)"
proof (cases "consumeGuard hash now i ticket ip ua db")
  case True
  then obtain v admin where "ConsumeK8sTerminalTicketAndClaimSession hash now i ticket ip ua db = (Some v,
         db\<lparr>xd_tickets := updateWhere (hash ticket) (ticketUsable (xd_auth db) i ip ua now) (\<lambda>r. r\<lparr>tr_consumed := Some now\<rparr>) (xd_tickets db),
            xd_sessions := updateWhere i (\<lambda>s. se_Status s = ''ready'') (claimSession now (hash ticket) admin) (xd_sessions db)\<rparr>)"
    using consume_cases by blast
  with True have "sessionRow (snd (ConsumeK8sTerminalTicketAndClaimSession hash now i ticket ip ua db)) k =
     setRow (k = i \<and> consumeGuard hash now i ticket ip ua db) (\<lambda>s. se_Status s = ''ready'') (claimSession now (hash ticket) admin)
       (sessionRow db k)"
    by (auto simp: sessionRow_def setRow_def map_of_updateWhere)
  then show ?thesis by blast
next
  case False
  then show ?thesis using consume_cases by (simp add: setRow_def)
qed

lemma row_Create [session_row]:
  "sessionRow (snd (CreateK8sPodExecSession now s db)) k =
     (if k = se_ID s \<and> sessionRow db k = None then Some (insertedSession (sessionDefaults now s)) else sessionRow db k)"
proof -
  have id: "se_ID (sessionDefaults now s) = se_ID s" by (simp add: sessionDefaults_def)
  show ?thesis
    using map_of_insertRow [of "se_ID s" "insertedSession (sessionDefaults now s)" "xd_sessions db" k]
    by (auto simp: CreateK8sPodExecSession_def Let_def id sessionRow_def insertRow_def split: if_splits)
qed

lemma row_Expire [session_row]:
  "sessionRow (snd (ExpireStaleK8sPodExecSession now i st upd reason db)) k =
     setRow (k = i \<and> (st = ''connecting'' \<or> st = ''running'')) (\<lambda>s. se_Status s = st \<and> se_UpdatedAt s = upd)
       (\<lambda>s. s\<lparr>se_Status := ''failed'', se_ClaimID := [], se_ErrorMessage := reason, se_ExitCode := 124, se_UpdatedAt := Some now\<rparr>)
       (sessionRow db k)"
  by (auto simp: ExpireStaleK8sPodExecSession_def Let_def sessionRow_update setRow_def)

lemma row_Recover [session_row]:
  "sessionRow (snd (RecoverStaleK8sPodExecSessionConnection now i stale db)) k =
     setRow (k = i) (\<lambda>s. se_Status s = ''connecting'' \<and> notLaterThan (se_UpdatedAt s) stale)
       (\<lambda>s. s\<lparr>se_Status := ''ready'', se_ClaimID := [], se_ExecutedBy := [], se_ExecutedAt := None, se_UpdatedAt := Some now\<rparr>)
       (sessionRow db k)"
  by (simp add: RecoverStaleK8sPodExecSessionConnection_def Let_def sessionRow_update)

lemma row_Decide [session_row]:
  "sessionRow (snd (UpdateK8sPodExecSessionDecision now i st actor note db)) k =
     setRow (k = i \<and> (st = ''ready'' \<or> st = ''rejected'')) (\<lambda>s. se_Status s = ''pending_approval'')
       (\<lambda>s. s\<lparr>se_Status := st, se_DecidedBy := actor, se_DecidedAt := Some now, se_DecisionNote := note, se_UpdatedAt := Some now\<rparr>)
       (sessionRow db k)"
  by (auto simp: UpdateK8sPodExecSessionDecision_def sessionRow_sessionUpdate setRow_def)

lemma row_MarkRunning [session_row]:
  "sessionRow (snd (MarkK8sPodExecSessionRunning now i actor db)) k =
     setRow (k = i) (\<lambda>s. se_Status s = ''ready'')
       (\<lambda>s. s\<lparr>se_Status := ''running'', se_ExecutedBy := actor, se_ExecutedAt := Some now, se_UpdatedAt := Some now\<rparr>)
       (sessionRow db k)"
  by (simp add: MarkK8sPodExecSessionRunning_def sessionRow_sessionUpdate)

lemma row_MarkConnecting [session_row]:
  "sessionRow (snd (MarkK8sPodExecSessionConnecting now i actor c db)) k =
     setRow (k = i \<and> c \<noteq> []) (\<lambda>s. se_Status s = ''ready'') (claimSession now c actor) (sessionRow db k)"
  by (auto simp: MarkK8sPodExecSessionConnecting_def sessionRow_sessionUpdate setRow_def claimSession_def [abs_def])

lemma row_MarkConnected [session_row]:
  "sessionRow (snd (MarkK8sPodExecSessionConnected now i c db)) k =
     setRow (k = i) (\<lambda>s. se_Status s = ''connecting'' \<and> se_ClaimID s = c) (\<lambda>s. s\<lparr>se_Status := ''running'', se_UpdatedAt := Some now\<rparr>)
       (sessionRow db k)"
  by (simp add: MarkK8sPodExecSessionConnected_def sessionRow_sessionUpdate)

lemma row_FinishTerminal [session_row]:
  "sessionRow (snd (UpdateK8sPodTerminalSessionExecution now i c st actor sample err code db)) k =
     setRow (k = i \<and> c \<noteq> [] \<and> (st = ''completed'' \<or> st = ''failed''))
       (\<lambda>s. se_ClaimID s = c \<and> (se_Status s = ''running'' \<or> (st = ''failed'' \<and> se_Status s = ''connecting'')))
       (\<lambda>s. (finishSession now st actor sample err code s)\<lparr>se_ClaimID := []\<rparr>) (sessionRow db k)"
  by (auto simp: UpdateK8sPodTerminalSessionExecution_def sessionRow_sessionUpdate setRow_def)

lemma row_Finish [session_row]:
  "sessionRow (snd (UpdateK8sPodExecSessionExecution now i st actor sample err code db)) k =
     setRow (k = i \<and> (st = ''completed'' \<or> st = ''failed'')) (\<lambda>s. se_Status s = ''running'')
       (finishSession now st actor sample err code) (sessionRow db k)"
  by (auto simp: UpdateK8sPodExecSessionExecution_def sessionRow_sessionUpdate setRow_def)


section \<open>The session machine\<close>

text \<open>The edges along which each kind of update moves a session.\<close>

lemma sameRequest_refl [simp]: "sameRequest s s"
  by (simp add: sameRequest_def)

lemma move_claim: "se_Status s = ''ready'' \<Longrightarrow> sessionMoves s (claimSession now h admin s)"
  by (simp add: sessionMoves_def sameRequest_def claimSession_def sessionEdges_def)

lemma move_finish:
  "se_Status s = ''running'' \<or> (st = ''failed'' \<and> se_Status s = ''connecting'') \<Longrightarrow> st = ''completed'' \<or> st = ''failed'' \<Longrightarrow>
   sessionMoves s (finishSession now st actor sample err code s)"
  by (auto simp: sessionMoves_def sameRequest_def finishSession_def sessionEdges_def)

lemma move_unclaim: "sessionMoves s (s'\<lparr>se_ClaimID := c\<rparr>) = sessionMoves s s'"
  by (simp add: sessionMoves_def sameRequest_def)

lemma setRow_moves:
  assumes "\<And>s. b \<Longrightarrow> guard s \<Longrightarrow> moves s (f s)" and "r = Some s"
  shows "\<exists>s'. setRow b guard f r = Some s' \<and> (s' = s \<or> moves s s')"
  using assms by (auto simp: setRow_def)

lemma execOp_row:
  assumes "sessionRow db k = Some s"
  shows "\<exists>s'. sessionRow (execOp hash op db) k = Some s' \<and> (s' = s \<or> sessionMoves s s')"
proof (cases op)
  case (OpConsume now i ticket ip ua)
  obtain admin where eq: "sessionRow (snd (ConsumeK8sTerminalTicketAndClaimSession hash now i ticket ip ua db)) k =
     setRow (k = i \<and> consumeGuard hash now i ticket ip ua db) (\<lambda>s. se_Status s = ''ready'') (claimSession now (hash ticket) admin)
       (sessionRow db k)"
    using row_Consume by blast
  show ?thesis unfolding OpConsume execOp.simps eq
    by (rule setRow_moves [OF _ assms]) (rule move_claim)
next
  case (OpExpire now i st upd reason)
  show ?thesis unfolding OpExpire execOp.simps session_row
    by (rule setRow_moves [OF _ assms]) (auto simp: sessionMoves_def sameRequest_def sessionEdges_def)
next
  case (OpDecide now i st actor memo)
  show ?thesis unfolding OpDecide execOp.simps session_row
    by (rule setRow_moves [OF _ assms]) (auto simp: sessionMoves_def sameRequest_def sessionEdges_def)
next
  case (OpMarkRunning now i actor)
  show ?thesis unfolding OpMarkRunning execOp.simps session_row
    by (rule setRow_moves [OF _ assms]) (auto simp: sessionMoves_def sameRequest_def sessionEdges_def)
next
  case (OpMarkConnecting now i actor c)
  show ?thesis unfolding OpMarkConnecting execOp.simps session_row
    by (rule setRow_moves [OF _ assms]) (rule move_claim)
next
  case (OpMarkConnected now i c)
  show ?thesis unfolding OpMarkConnected execOp.simps session_row
    by (rule setRow_moves [OF _ assms]) (auto simp: sessionMoves_def sameRequest_def sessionEdges_def)
next
  case (OpRecover now i stale)
  show ?thesis unfolding OpRecover execOp.simps session_row
    by (rule setRow_moves [OF _ assms]) (auto simp: sessionMoves_def sameRequest_def sessionEdges_def)
next
  case (OpFinishTerminal now i c st actor sample err code)
  show ?thesis unfolding OpFinishTerminal execOp.simps session_row
    by (rule setRow_moves [OF _ assms]) (simp add: move_unclaim move_finish)
next
  case (OpFinish now i st actor sample err code)
  show ?thesis unfolding OpFinish execOp.simps session_row
    by (rule setRow_moves [OF _ assms]) (simp add: move_finish)
qed (use assms in \<open>simp_all add: session_row\<close>)

lemma execOp_new:
  assumes "sessionRow db k = None" and "sessionRow (execOp hash op db) k = Some s"
  shows "freshSession s"
proof (cases op)
  case (OpConsume now i ticket ip ua)
  then show ?thesis using assms row_Consume [of hash now i ticket ip ua db k] by (auto simp: setRow_def split: if_splits)
next
  case (OpCreateSession now x)
  then show ?thesis using assms
    by (auto simp: session_row freshSession_def insertedSession_def sessionDefaults_def split: if_splits)
qed (use assms in \<open>auto simp: session_row setRow_def split: if_splits\<close>)

interpretation execRows: row_machine sessionRow "execOp hash" sessionMoves freshSession for hash
  by unfold_locales (rule execOp_row execOp_new; assumption)+

lemma moves_edges: "sessionMoves\<^sup>*\<^sup>* s s' \<Longrightarrow> sameRequest s s' \<and> (se_Status s, se_Status s') \<in> (set sessionEdges)\<^sup>*"
proof (induction rule: rtranclp_induct)
  case base
  then show ?case by simp
next
  case (step y z)
  then show ?case by (auto simp: sessionMoves_def sameRequest_def intro: rtrancl_into_rtrancl)
qed

definition closedStatus :: "string \<Rightarrow> bool" where
  "closedStatus st \<longleftrightarrow> st \<in> set [''denied'', ''rejected'', ''completed'', ''failed'']"

lemma closed_no_move: "closedStatus (se_Status s) \<Longrightarrow> \<not> sessionMoves s s'"
  by (auto simp: closedStatus_def sessionMoves_def sessionEdges_def)


section \<open>Tickets are consumed once\<close>

lemma map_of_filter:
  "distinct (map fst t) \<Longrightarrow> map_of (filter P t) k = (case map_of t k of None \<Rightarrow> None | Some r \<Rightarrow> if P (k, r) then Some r else None)"
proof (induction t)
  case Nil
  then show ?case by simp
next
  case (Cons p t)
  obtain j q where p: "p = (j, q)" by (cases p)
  have "j \<notin> fst ` set t" using Cons.prems p by simp
  then have none: "map_of t j = None" "map_of (filter P t) j = None"
    by (auto simp: map_of_eq_None_iff)
  show ?case
  proof (cases "j = k")
    case True
    with none p show ?thesis by simp
  next
    case False
    with Cons p show ?thesis by simp
  qed
qed

lemma updateWhere_keys [simp]: "map fst (updateWhere k guard f t) = map fst t"
  by (induction k guard f t rule: updateWhere.induct) auto

lemma distinct_map_filter_fst: "distinct (map fst t) \<Longrightarrow> distinct (map fst (filter P t))"
  by (rule distinct_map_filter)

text \<open>A ticket is spent when its row, if it is still there, is marked consumed.\<close>

definition spent :: "string \<Rightarrow> exec_db \<Rightarrow> bool" where
  "spent h db \<longleftrightarrow> distinct (map fst (xd_tickets db)) \<and>
     (case map_of (xd_tickets db) h of None \<Rightarrow> True | Some r \<Rightarrow> tr_consumed r \<noteq> None)"

fun reissues :: "(string \<Rightarrow> string) \<Rightarrow> string \<Rightarrow> exec_op \<Rightarrow> bool" where
  "reissues hash h (OpCreateTicket now ticket v) \<longleftrightarrow> hash ticket = h"
| "reissues hash h _ \<longleftrightarrow> False"

lemma spent_create:
  assumes "spent h db" and "hash ticket \<noteq> h"
  shows "spent h (snd (CreateK8sTerminalTicket hash now ticket v db))"
proof -
  define db1 where "db1 = deleteExpiredK8sTerminalTickets now db"
  have one: "spent h db1"
    using assms(1) by (auto simp: spent_def db1_def deleteExpiredK8sTerminalTickets_def map_of_filter
        distinct_map_filter_fst simp del: map_of_eq_Some_iff split: option.splits)
  define row where "row = \<lparr>tr_ticket = v\<lparr>tk_ClaimID := []\<rparr>, tr_consumed = None, tr_created = now\<rparr>"
  have ins: "distinct (map fst t) \<Longrightarrow> distinct (map fst (snd (insertRow k r t)))" for k and r :: ticket_row and t
    by (auto simp: insertRow_def map_of_eq_None_iff)
  have "snd (CreateK8sTerminalTicket hash now ticket v db) = db1 \<or>
      snd (CreateK8sTerminalTicket hash now ticket v db) = db1\<lparr>xd_tickets := snd (insertRow (hash ticket) row (xd_tickets db1))\<rparr>"
    by (auto simp: CreateK8sTerminalTicket_def Let_def row_def db1_def split: prod.split sum.split)
  then show ?thesis using one ins assms(2) by (auto simp: spent_def split: option.splits)
qed

lemma spent_consume:
  assumes "spent h db"
  shows "spent h (snd (ConsumeK8sTerminalTicketAndClaimSession hash now i ticket ip ua db))"
proof (cases "consumeGuard hash now i ticket ip ua db")
  case True
  with consume_cases [of hash now i ticket ip ua db] assms show ?thesis
    by (auto simp: spent_def map_of_updateWhere simp del: map_of_eq_Some_iff split: option.splits)
next
  case False
  with consume_cases [of hash now i ticket ip ua db] assms show ?thesis by simp
qed

lemma spent_step: "spent h db \<Longrightarrow> \<not> reissues hash h op \<Longrightarrow> spent h (execOp hash op db)"
proof (cases op)
  case (OpConsume now i ticket ip ua)
  assume "spent h db"
  then show ?thesis unfolding OpConsume execOp.simps by (rule spent_consume)
next
  case (OpCreateTicket now ticket v)
  assume "spent h db" "\<not> reissues hash h op"
  then show ?thesis unfolding OpCreateTicket execOp.simps by (intro spent_create) (auto simp: OpCreateTicket)
qed (auto simp: spent_def CreateK8sPodExecSession_def ExpireStaleK8sPodExecSession_def
      UpdateK8sPodExecSessionDecision_def MarkK8sPodExecSessionRunning_def MarkK8sPodExecSessionConnecting_def
      MarkK8sPodExecSessionConnected_def RecoverStaleK8sPodExecSessionConnection_def
      UpdateK8sPodTerminalSessionExecution_def UpdateK8sPodExecSessionExecution_def sessionUpdate_def Let_def
      split: prod.split sum.split)

lemma spent_run: "spent h db \<Longrightarrow> \<not> list_ex (reissues hash h) ops \<Longrightarrow> spent h (fold (execOp hash) ops db)"
  by (induction ops arbitrary: db) (auto intro: spent_step)

lemma spent_refused: "spent (hash ticket) db \<Longrightarrow> fst (ConsumeK8sTerminalTicketAndClaimSession hash now i ticket ip ua db) = None"
  using consume_cases [of hash now i ticket ip ua db]
  by (auto simp: spent_def consumeGuard_def affected_iff ticketUsable_def Let_def)

lemma consumed_spent:
  assumes "ConsumeK8sTerminalTicketAndClaimSession hash now i ticket ip ua db = (Some v, db1)"
    and "distinct (map fst (xd_tickets db))"
  shows "spent (hash ticket) db1"
proof -
  have "consumeGuard hash now i ticket ip ua db" using assms(1) consume_cases [of hash now i ticket ip ua db] by auto
  moreover from this consume_cases [of hash now i ticket ip ua db] assms(1) obtain admin where
    "db1 = db\<lparr>xd_tickets := updateWhere (hash ticket) (ticketUsable (xd_auth db) i ip ua now) (\<lambda>r. r\<lparr>tr_consumed := Some now\<rparr>) (xd_tickets db),
            xd_sessions := updateWhere i (\<lambda>s. se_Status s = ''ready'') (claimSession now (hash ticket) admin) (xd_sessions db)\<rparr>"
    by auto
  ultimately show ?thesis using assms(2)
    by (auto simp: spent_def map_of_updateWhere consumeGuard_def affected_iff)
qed

section \<open>Claims are exclusive and fenced\<close>

fun releases :: "string \<Rightarrow> exec_op \<Rightarrow> bool" where
  "releases k (OpRecover now i stale) \<longleftrightarrow> i = k"
| "releases k _ \<longleftrightarrow> False"

definition taken :: "string \<Rightarrow> exec_db \<Rightarrow> bool" where
  "taken k db \<longleftrightarrow> (\<exists>s. sessionRow db k = Some s \<and> se_Status s \<noteq> ''ready'' \<and> se_Status s \<noteq> ''pending_approval'')"

lemma setRow_pres:
  assumes "r = Some s" and "P s" and "\<And>s. b \<Longrightarrow> guard s \<Longrightarrow> P s \<Longrightarrow> P (f s)"
  shows "\<exists>s'. setRow b guard f r = Some s' \<and> P s'"
  using assms by (auto simp: setRow_def)

lemma consume_row_pres:
  assumes "sessionRow db k = Some s" and "P s"
    and "\<And>s admin. k = i \<Longrightarrow> se_Status s = ''ready'' \<Longrightarrow> P s \<Longrightarrow> P (claimSession now (hash ticket) admin s)"
  shows "\<exists>s'. sessionRow (snd (ConsumeK8sTerminalTicketAndClaimSession hash now i ticket ip ua db)) k = Some s' \<and> P s'"
proof -
  obtain admin where eq: "sessionRow (snd (ConsumeK8sTerminalTicketAndClaimSession hash now i ticket ip ua db)) k =
     setRow (k = i \<and> consumeGuard hash now i ticket ip ua db) (\<lambda>s. se_Status s = ''ready'') (claimSession now (hash ticket) admin)
       (sessionRow db k)"
    using row_Consume by blast
  show ?thesis unfolding eq using assms by (intro setRow_pres) auto
qed

lemma taken_step:
  assumes "taken k db" and "\<not> releases k op"
  shows "taken k (execOp hash op db)"
proof -
  from assms(1) obtain s where s: "sessionRow db k = Some s" "se_Status s \<noteq> ''ready'' \<and> se_Status s \<noteq> ''pending_approval''"
    by (auto simp: taken_def)
  show ?thesis unfolding taken_def
  proof (cases op)
    case (OpConsume now i ticket ip ua)
    show "\<exists>s. sessionRow (execOp hash op db) k = Some s \<and> se_Status s \<noteq> ''ready'' \<and> se_Status s \<noteq> ''pending_approval''"
      unfolding OpConsume execOp.simps
      by (rule consume_row_pres [where P = "\<lambda>s. se_Status s \<noteq> ''ready'' \<and> se_Status s \<noteq> ''pending_approval''"]) (use s in simp_all)
  qed (use s assms(2) in \<open>auto simp: session_row setRow_def finishSession_def\<close>)
qed

lemma taken_run: "taken k db \<Longrightarrow> \<not> list_ex (releases k) ops \<Longrightarrow> taken k (fold (execOp hash) ops db)"
  by (induction ops arbitrary: db) (auto intro: taken_step)

lemma taken_refused:
  assumes "taken k db"
  shows "fst (ConsumeK8sTerminalTicketAndClaimSession hash now k ticket ip ua db) = None"
    and "fst (MarkK8sPodExecSessionRunning now k actor db) = Inl ErrInvalidTransition"
    and "fst (MarkK8sPodExecSessionConnecting now k actor c db) = Inl ErrInvalidTransition"
proof -
  from assms obtain s where s: "sessionRow db k = Some s" "se_Status s \<noteq> ''ready''" by (auto simp: taken_def)
  show "fst (ConsumeK8sTerminalTicketAndClaimSession hash now k ticket ip ua db) = None"
    using consume_cases [of hash now k ticket ip ua db] s
    by (auto simp: consumeGuard_def affected_iff sessionRow_def)
  show "fst (MarkK8sPodExecSessionRunning now k actor db) = Inl ErrInvalidTransition"
    unfolding MarkK8sPodExecSessionRunning_def using s by (rule sessionUpdate_err)
  show "fst (MarkK8sPodExecSessionConnecting now k actor c db) = Inl ErrInvalidTransition"
    unfolding MarkK8sPodExecSessionConnecting_def using sessionUpdate_err [OF s(1)] s(2) by simp
qed

fun claimsWith :: "(string \<Rightarrow> string) \<Rightarrow> string \<Rightarrow> string \<Rightarrow> exec_op \<Rightarrow> bool" where
  "claimsWith hash k c (OpConsume now i ticket ip ua) \<longleftrightarrow> i = k \<and> hash ticket = c"
| "claimsWith hash k c (OpMarkConnecting now i actor d) \<longleftrightarrow> i = k \<and> d = c"
| "claimsWith hash k c _ \<longleftrightarrow> False"

definition fenced :: "string \<Rightarrow> string \<Rightarrow> exec_db \<Rightarrow> bool" where
  "fenced k c db \<longleftrightarrow> (\<exists>s. sessionRow db k = Some s \<and> se_ClaimID s \<noteq> c)"

lemma fenced_step:
  assumes "fenced k c db" and "c \<noteq> []" and "\<not> claimsWith hash k c op"
  shows "fenced k c (execOp hash op db)"
proof -
  from assms(1) obtain s where s: "sessionRow db k = Some s" "se_ClaimID s \<noteq> c" by (auto simp: fenced_def)
  show ?thesis unfolding fenced_def
  proof (cases op)
    case (OpConsume now i ticket ip ua)
    show "\<exists>s. sessionRow (execOp hash op db) k = Some s \<and> se_ClaimID s \<noteq> c"
      unfolding OpConsume execOp.simps
      by (rule consume_row_pres [where P = "\<lambda>s. se_ClaimID s \<noteq> c"]) (use s assms(3) OpConsume in \<open>auto simp: claimSession_def\<close>)
  qed (use s assms(2,3) in \<open>auto simp: session_row setRow_def finishSession_def claimSession_def\<close>)
qed

lemma fenced_run:
  "fenced k c db \<Longrightarrow> c \<noteq> [] \<Longrightarrow> \<not> list_ex (claimsWith hash k c) ops \<Longrightarrow> fenced k c (fold (execOp hash) ops db)"
  by (induction ops arbitrary: db) (auto intro: fenced_step)

section \<open>Properties\<close>

text \<open>
  C17. Life cycle of an exec session under any interleaving of store operations by any
  number of servers: the session never disappears, what was requested and what the policy
  answered never change, its status moves only along the edges of the state machine, and a
  denied, rejected, completed or failed session never changes again.
\<close>

theorem exec_session_lifecycle:
  assumes "sessionRow db k = Some s"
  shows "\<exists>s'. sessionRow (fold (execOp hash) ops db) k = Some s' \<and> sameRequest s s' \<and>
    (se_Status s, se_Status s') \<in> (set sessionEdges)\<^sup>* \<and> (closedStatus (se_Status s) \<longrightarrow> s' = s)"
proof -
  obtain s' where s': "sessionRow (fold (execOp hash) ops db) k = Some s'" "sessionMoves\<^sup>*\<^sup>* s s'"
    using execRows.run_row [OF assms] by blast
  moreover have "closedStatus (se_Status s) \<Longrightarrow> s' = s"
    using execRows.run_absorbing [OF assms, of hash ops] closed_no_move s'(1) by simp
  ultimately show ?thesis using moves_edges by blast
qed

definition exampleSession :: "string \<Rightarrow> K8sPodExecSession" where
  "exampleSession status =
     \<lparr>se_ID = ''s1'', se_ClusterID = ''c1'', se_Namespace = ''dev'', se_Pod = ''p'', se_Container = ''app'',
      se_Command = ''sh'', se_Role = ''admin'', se_RequestedBy = ''alice'', se_Status = status, se_RiskLevel = ''low'',
      se_RequireApproval = True, se_AuditEnabled = True, se_MaxSessionMinutes = 10, se_PolicyResult = None,
      se_Reason = [], se_DecidedBy = [], se_DecidedAt = None, se_DecisionNote = [], se_ExecutedBy = [],
      se_ExecutedAt = None, se_OutputSample = [], se_ErrorMessage = [], se_ExitCode = 0, se_ClaimID = [],
      se_CreatedAt = Some 1, se_UpdatedAt = Some 1\<rparr>"

definition exampleTicket :: K8sTerminalTicket where
  "exampleTicket = \<lparr>tk_SessionID = ''s1'', tk_AdminID = ''bob'', tk_ClaimID = [], tk_AuthSessionID = ''a1'',
     tk_AuthExpiresAt = Some 90, tk_ClientIP = ''10.0.0.1'', tk_UserAgentHash = ''ua'', tk_ExpiresAt = 50\<rparr>"

definition exampleExecDB :: "string \<Rightarrow> exec_db" where
  "exampleExecDB status = \<lparr>xd_sessions = [(''s1'', exampleSession status)],
     xd_tickets = [(''h:t'', \<lparr>tr_ticket = exampleTicket, tr_consumed = None, tr_created = 1\<rparr>)],
     xd_auth = [(''a1'', \<lparr>ar_revoked = None, ar_expires = Some 80, ar_userStatus = ''active'', ar_mustChangePassword = False\<rparr>)]\<rparr>"

theorem exec_session_lifecycle_witness:
  "\<exists>s'. sessionRow (fold (execOp (\<lambda>t. ''h:'' @ t)) [OpMarkRunning 9 ''s1'' ''eve'', OpDecide 10 ''s1'' ''ready'' ''bob'' []]
       (exampleExecDB ''rejected'')) ''s1'' = Some s' \<and> sameRequest (exampleSession ''rejected'') s' \<and>
    (se_Status (exampleSession ''rejected''), se_Status s') \<in> (set sessionEdges)\<^sup>* \<and>
    (closedStatus (se_Status (exampleSession ''rejected'')) \<longrightarrow> s' = exampleSession ''rejected'')"
  by (rule exec_session_lifecycle) (simp add: sessionRow_def exampleExecDB_def)

text \<open>
  C18. A terminal ticket opens at most one connection: once it has been consumed, every
  later attempt with the same ticket is refused, for any session, client and time and after
  any interleaving of operations that does not issue the same ticket again.
\<close>

theorem terminal_ticket_single_use:
  assumes "ConsumeK8sTerminalTicketAndClaimSession hash now i ticket ip ua db = (Some v, db1)"
    and "distinct (map fst (xd_tickets db))" and "\<not> list_ex (reissues hash (hash ticket)) ops"
  shows "fst (ConsumeK8sTerminalTicketAndClaimSession hash now' i' ticket ip' ua' (fold (execOp hash) ops db1)) = None"
  by (rule spent_refused) (rule spent_run [OF consumed_spent [OF assms(1,2)] assms(3)])

theorem terminal_ticket_single_use_witness:
  "fst (ConsumeK8sTerminalTicketAndClaimSession (\<lambda>t. ''h:'' @ t) 3 ''s1'' ''t'' ''10.0.0.1'' ''ua''
     (fold (execOp (\<lambda>t. ''h:'' @ t)) [OpRecover 40 ''s1'' 39]
       (snd (ConsumeK8sTerminalTicketAndClaimSession (\<lambda>t. ''h:'' @ t) 2 ''s1'' ''t'' ''10.0.0.1'' ''ua'' (exampleExecDB ''ready''))))) = None"
proof -
  let ?c = "ConsumeK8sTerminalTicketAndClaimSession (\<lambda>t. ''h:'' @ t) 2 ''s1'' ''t'' ''10.0.0.1'' ''ua'' (exampleExecDB ''ready'')"
  have "fst ?c \<noteq> None" by code_simp
  then obtain v where "?c = (Some v, snd ?c)" by (cases ?c) auto
  from terminal_ticket_single_use [OF this, where ops = "[OpRecover 40 ''s1'' 39]"] show ?thesis
    by (simp add: exampleExecDB_def)
qed

text \<open>
  A claimed session has one owner: while a session is connecting, running or closed and
  until its own stale connection is recovered, no ticket can claim it, no second executor can
  start it, and no direct claim succeeds, whatever the other operations do.
\<close>

theorem claimed_session_has_one_owner:
  assumes "sessionRow db k = Some s" and "se_Status s \<in> {''connecting'', ''running'', ''completed'', ''failed''}"
    and "\<not> list_ex (releases k) ops"
  shows "fst (ConsumeK8sTerminalTicketAndClaimSession hash now k ticket ip ua (fold (execOp hash) ops db)) = None \<and>
    fst (MarkK8sPodExecSessionRunning now k actor (fold (execOp hash) ops db)) = Inl ErrInvalidTransition \<and>
    fst (MarkK8sPodExecSessionConnecting now k actor c (fold (execOp hash) ops db)) = Inl ErrInvalidTransition"
proof -
  have "taken k db" using assms(1,2) by (auto simp: taken_def)
  from taken_refused [OF taken_run [OF this assms(3)]] show ?thesis by simp
qed

theorem claimed_session_has_one_owner_witness:
  "fst (ConsumeK8sTerminalTicketAndClaimSession (\<lambda>t. t) 5 ''s1'' ''t'' [] [] (fold (execOp (\<lambda>t. t)) [OpMarkRunning 4 ''s1'' ''eve'']
      (exampleExecDB ''running''))) = None \<and>
   fst (MarkK8sPodExecSessionRunning 5 ''s1'' ''eve'' (fold (execOp (\<lambda>t. t)) [OpMarkRunning 4 ''s1'' ''eve''] (exampleExecDB ''running''))) =
     Inl ErrInvalidTransition \<and>
   fst (MarkK8sPodExecSessionConnecting 5 ''s1'' ''eve'' ''c'' (fold (execOp (\<lambda>t. t)) [OpMarkRunning 4 ''s1'' ''eve''] (exampleExecDB ''running''))) =
     Inl ErrInvalidTransition"
  by (rule claimed_session_has_one_owner [where s = "exampleSession ''running''"])
     (simp_all add: sessionRow_def exampleExecDB_def exampleSession_def)

text \<open>
  C20. A recovered connection is fenced off: after the stale claim of a session has been
  released, a late process that still holds the old claim can neither mark the session
  running nor finish it, under any interleaving of operations in which nobody claims the
  session with that same claim again.
\<close>

theorem recovered_claim_is_fenced:
  assumes "RecoverStaleK8sPodExecSessionConnection now k stale db = (True, db1)"
    and "c \<noteq> []" and "\<not> list_ex (claimsWith hash k c) ops"
  shows "fst (MarkK8sPodExecSessionConnected now' k c (fold (execOp hash) ops db1)) = Inl ErrInvalidTransition \<and>
    fst (UpdateK8sPodTerminalSessionExecution now' k c st actor sample err code (fold (execOp hash) ops db1)) = Inl ErrInvalidTransition"
proof -
  have "fenced k c db1"
    using assms(1,2)
    by (auto simp: fenced_def RecoverStaleK8sPodExecSessionConnection_def Let_def affected_iff sessionRow_def map_of_updateWhere)
  from fenced_run [OF this assms(2,3)] obtain s where
    s: "sessionRow (fold (execOp hash) ops db1) k = Some s" "se_ClaimID s \<noteq> c"
    by (auto simp: fenced_def)
  then show ?thesis
    by (auto simp: MarkK8sPodExecSessionConnected_def UpdateK8sPodTerminalSessionExecution_def intro!: sessionUpdate_err)
qed

theorem recovered_claim_is_fenced_witness:
  "fst (MarkK8sPodExecSessionConnected 20 ''s1'' ''old'' (fold (execOp (\<lambda>t. t)) [OpMarkConnecting 11 ''s1'' ''eve'' ''new'']
      (snd (RecoverStaleK8sPodExecSessionConnection 10 ''s1'' 9 (exampleExecDB ''connecting''))))) = Inl ErrInvalidTransition \<and>
   fst (UpdateK8sPodTerminalSessionExecution 20 ''s1'' ''old'' ''failed'' ''bob'' [] [] 1
      (fold (execOp (\<lambda>t. t)) [OpMarkConnecting 11 ''s1'' ''eve'' ''new'']
      (snd (RecoverStaleK8sPodExecSessionConnection 10 ''s1'' 9 (exampleExecDB ''connecting''))))) = Inl ErrInvalidTransition"
proof (rule recovered_claim_is_fenced)
  have "fst (RecoverStaleK8sPodExecSessionConnection 10 ''s1'' 9 (exampleExecDB ''connecting''))" by code_simp
  then show "RecoverStaleK8sPodExecSessionConnection 10 ''s1'' 9 (exampleExecDB ''connecting'') =
      (True, snd (RecoverStaleK8sPodExecSessionConnection 10 ''s1'' 9 (exampleExecDB ''connecting'')))"
    by (metis prod.collapse)
qed simp_all

end
