(* ===== verification/Exec_Session.thy ===== *)
theory Exec_Session
  imports Exec_Store
begin

text \<open>
  The exec session handlers of \<^verbatim>\<open>internal/proxy/admin_k8s_exec.go\<close>, the ticket and stream
  entry points of \<^verbatim>\<open>admin_k8s_terminal_stream.go\<close> and the reaper of
  \<^verbatim>\<open>admin_k8s_terminal_reaper.go\<close>, over the exec store, the policy table, the audit log and
  the pod access log.

  A handler that talks to the cluster in its middle is cut at that call, so that what other
  servers do in between is part of the model: \<open>executeBegin\<close> and \<open>executeFinish\<close> are the two
  halves of \<^verbatim>\<open>executeK8sPodExecSession\<close>, \<open>streamBegin\<close>, \<open>streamConnected\<close> and \<open>streamClose\<close> the
  parts of \<^verbatim>\<open>streamK8sPodTerminal\<close>. The outcome of the cluster call, the log masking
  \<^verbatim>\<open>MaskSensitive\<close>, the verified access claims and the result of the client IP policy are
  inputs.
\<close>

section \<open>Inputs and state\<close>

record accessClaims =
  ac_Role :: string
  ac_Subject :: string
  ac_SessionID :: string
  ac_ExpiresAt :: int
  ac_PasswordChangeRequired :: bool

record execInput =
  ei_ClusterID :: string
  ei_Container :: string
  ei_Command :: string
  ei_Role :: string
  ei_Reason :: string

text \<open>What the handler reads of the inventory item of a pod: its labels and its default container.\<close>

record podItem =
  pi_Labels :: strmap
  pi_DefaultContainer :: string

record K8sPodAccess =
  pa_UserID :: string
  pa_ClusterID :: string
  pa_Namespace :: string
  pa_Pod :: string
  pa_Action :: string
  pa_Context :: string

record exec_world =
  xw_exec :: exec_db
  xw_policies :: "policy_row list"
  xw_audit :: "AdminAuditLog list"
  xw_access :: "K8sPodAccess list"

record podExecResult =
  pr_Stdout :: string
  pr_Stderr :: string
  pr_ExitCode :: int

definition recordPodAccess ::
  "string \<Rightarrow> string \<Rightarrow> string \<Rightarrow> string \<Rightarrow> string \<Rightarrow> string \<Rightarrow> exec_world \<Rightarrow> exec_world" where
  "recordPodAccess adminID clusterID namespace pod action ctx w =
     (if clusterID = [] \<or> namespace = [] \<or> pod = [] \<or> action = [] then w
      else w\<lparr>xw_access := xw_access w @ [\<lparr>pa_UserID = adminID, pa_ClusterID = clusterID, pa_Namespace = namespace,
        pa_Pod = pod, pa_Action = action, pa_Context = ctx\<rparr>]\<rparr>)"

definition auditWorld :: "string \<Rightarrow> string \<Rightarrow> string \<Rightarrow> exec_world \<Rightarrow> exec_world" where
  "auditWorld adminID action i w = w\<lparr>xw_audit := auditAdmin adminID action i (xw_audit w)\<rparr>"

definition setExec :: "exec_db \<Rightarrow> exec_world \<Rightarrow> exec_world" where
  "setExec db w = w\<lparr>xw_exec := db\<rparr>"

text \<open>\<^verbatim>\<open>truncateRunes\<close>: the first \<open>n\<close> runes of UTF-8 text, with an ellipsis when something is
  cut off. A byte that is not a continuation byte begins a rune.\<close>

definition runeStart :: "char \<Rightarrow> bool" where
  "runeStart c \<longleftrightarrow> \<not> (digit7 c \<and> \<not> digit6 c)"

definition runeCount :: "string \<Rightarrow> nat" where
  "runeCount s = length (filter runeStart s)"

fun takeRunes :: "nat \<Rightarrow> string \<Rightarrow> string" where
  "takeRunes n [] = []"
| "takeRunes n (c # cs) =
     (if runeStart c then (case n of 0 \<Rightarrow> [] | Suc m \<Rightarrow> c # takeRunes m cs) else c # takeRunes n cs)"

definition truncateRunes :: "string \<Rightarrow> nat \<Rightarrow> string" where
  "truncateRunes s n = (if runeCount s \<le> n then s else takeRunes n s @ (utf8 [0x2026]))"

definition execSessionTimeout :: "int \<Rightarrow> instant" where
  "execSessionTimeout maxSessionMinutes =
     (let m = (if maxSessionMinutes \<le> 0 then 1 else maxSessionMinutes);
          n = (if m > 10 then 10 else m) in n * 60 * second)"

section \<open>Requesting a session\<close>

definition requestStatus :: "terminalPolicyEvalResult \<Rightarrow> string \<times> string" where
  "requestStatus r =
     (if rs_Allowed r \<and> rs_RequireApproval r then (''pending_approval'', ''approval_required'')
      else if rs_Allowed r then (''ready'', ''connect_exec_transport'')
      else (''denied'', ''blocked''))"

definition resolveRequestPod ::
  "string \<Rightarrow> (string \<Rightarrow> podItem option) \<Rightarrow> (http_error + string \<times> podItem) \<Rightarrow> http_error + string \<times> podItem" where
  "resolveRequestPod clusterID getPod resolvePod =
     (if clusterID \<noteq> []
      then (case getPod clusterID of
              None \<Rightarrow> Inl (writeOpenAIError 404 ''pod not found'' ''pod_not_found'')
            | Some item \<Rightarrow> Inr (clusterID, item))
      else resolvePod)"

definition requestSession ::
  "string \<Rightarrow> string \<Rightarrow> string \<Rightarrow> string \<Rightarrow> string \<Rightarrow> string \<Rightarrow> string \<Rightarrow> string \<Rightarrow> string \<Rightarrow> terminalPolicyEvalResult \<Rightarrow> K8sPodExecSession" where
  "requestSession freshID adminID clusterID namespace pod container command role reason r =
     \<lparr>se_ID = freshID, se_ClusterID = clusterID, se_Namespace = namespace, se_Pod = pod, se_Container = container,
      se_Command = command, se_Role = role, se_RequestedBy = adminID, se_Status = fst (requestStatus r),
      se_RiskLevel = rs_RiskLevel r, se_RequireApproval = rs_RequireApproval r, se_AuditEnabled = rs_AuditEnabled r,
      se_MaxSessionMinutes = rs_MaxSessionMinutes r, se_PolicyResult = Some r,
      se_Reason = trimSpace (firstNonEmpty [reason, rs_Reason r]),
      se_DecidedBy = [], se_DecidedAt = None, se_DecisionNote = [], se_ExecutedBy = [], se_ExecutedAt = None,
      se_OutputSample = [], se_ErrorMessage = [], se_ExitCode = 0, se_ClaimID = [], se_CreatedAt = None, se_UpdatedAt = None\<rparr>"

definition evaluateExecRequest ::
  "string \<Rightarrow> string \<Rightarrow> string \<Rightarrow> string \<Rightarrow> strmap \<Rightarrow> string \<Rightarrow> policy_row list \<Rightarrow> terminalPolicyEvalResult" where
  "evaluateExecRequest role clusterID namespace pod labels command table =
     (let policies = ListK8sTerminalPolicies
            \<lparr>tf_Role = role, tf_ClusterID = clusterID, tf_Enabled = ''true'', tf_Limit = 500\<rparr> table;
          req = \<lparr>rq_Role = role, rq_ClusterID = clusterID, rq_Namespace = namespace, rq_Pod = pod, rq_PodLabels = labels,
                 rq_Command = command\<rparr>
      in applySuperAdminTerminalDefault req (evaluateTerminalPolicy req policies))"

definition requestRole :: "accessClaims option \<Rightarrow> execInput \<Rightarrow> string" where
  "requestRole claims inp =
     (case claims of
        Some c \<Rightarrow> toLower (trimSpace (ac_Role c))
      | None \<Rightarrow> toLower (trimSpace (firstNonEmpty [ei_Role inp, ''viewer''])))"

definition requestK8sPodExecSession ::
  "instant \<Rightarrow> string \<Rightarrow> string \<Rightarrow> accessClaims option \<Rightarrow> (string \<Rightarrow> podItem option) \<Rightarrow> (http_error + string \<times> podItem) \<Rightarrow>
     string \<Rightarrow> string \<Rightarrow> string \<Rightarrow> execInput option \<Rightarrow> exec_world \<Rightarrow> (http_error + K8sPodExecSession \<times> string) \<times> exec_world" where
  "requestK8sPodExecSession now freshID adminID claims getPod resolvePod namespace pod queryCluster body w =
     (case body of
        None \<Rightarrow> (Inl invalidBody, w)
      | Some inp \<Rightarrow>
          let command = trimSpace (ei_Command inp) in
          if command = [] then (Inl (writeOpenAIError 400 ''command is required'' ''missing_command''), w)
          else (case resolveRequestPod (trimSpace (firstNonEmpty [ei_ClusterID inp, queryCluster])) getPod resolvePod of
            Inl e \<Rightarrow> (Inl e, w)
          | Inr (clusterID, item) \<Rightarrow>
              let role = requestRole claims inp;
                  container = trimSpace (firstNonEmpty [ei_Container inp, pi_DefaultContainer item]);
                  r = evaluateExecRequest role clusterID namespace pod (pi_Labels item) command (xw_policies w);
                  sess = requestSession freshID adminID clusterID namespace pod container command role (ei_Reason inp) r in
              (case CreateK8sPodExecSession now sess (xw_exec w) of
                 (Inl e, _) \<Rightarrow> (Inl (writeOpenAIError 500 [] ''k8s_exec_session_create_failed''), w)
               | (Inr s, db) \<Rightarrow>
                   (Inr (s, snd (requestStatus r)),
                    recordPodAccess adminID clusterID namespace pod ''exec_request'' command
                      (auditWorld adminID ''k8s.pod.exec_session.request'' (se_ID s) (setExec db w))))))"

section \<open>Deciding a session\<close>

definition execNotFound :: "string \<Rightarrow> http_error" where
  "execNotFound i = writeOpenAIError 404 (''exec session not found: '' @ i) ''exec_session_not_found''"

definition execBadState :: http_error where
  "execBadState = writeOpenAIError 409 ''exec session cannot transition from current state'' ''exec_session_bad_state''"

definition decideSession ::
  "instant \<Rightarrow> string \<Rightarrow> string \<Rightarrow> string \<Rightarrow> string \<Rightarrow> K8sPodExecSession \<Rightarrow> exec_world \<Rightarrow> (http_error + K8sPodExecSession) \<times> exec_world" where
  "decideSession now adminID i command memo sess w =
     (if se_Status sess \<noteq> ''pending_approval''
      then (Inl (writeOpenAIError 409 (''exec session must be pending_approval before decision (current: '' @ se_Status sess @ '')'')
              ''exec_session_bad_state''), w)
      else if command = ''approve'' \<and> trimSpace (se_RequestedBy sess) \<noteq> [] \<and>
              trimSpace (se_RequestedBy sess) \<noteq> ''anonymous'' \<and> trimSpace (se_RequestedBy sess) = adminID
      then (Inl (writeOpenAIError 403
              ''the requester of an exec session cannot approve it; another administrator must decide''
              ''exec_session_self_approval''), w)
      else if command \<noteq> ''approve'' \<and> command \<noteq> ''reject''
      then (Inl (writeOpenAIError 400 ''unsupported exec session command'' ''unsupported_exec_session_command''), w)
      else (case UpdateK8sPodExecSessionDecision now i (if command = ''approve'' then ''ready'' else ''rejected'') adminID
                   (trimSpace memo) (xw_exec w) of
              (Inl ErrNotFound, _) \<Rightarrow> (Inl (execNotFound i), w)
            | (Inl _, _) \<Rightarrow> (Inl execBadState, w)
            | (Inr s, db) \<Rightarrow> (Inr s, auditWorld adminID (''k8s.pod.exec_session.'' @ command) i (setExec db w))))"

section \<open>Executing a single command\<close>

text \<open>Up to the call into the cluster: the client of the session's cluster is given as the
  error of finding it, if any.\<close>

definition executeBegin ::
  "instant \<Rightarrow> string \<Rightarrow> http_error option \<Rightarrow> K8sPodExecSession \<Rightarrow> exec_world \<Rightarrow> (http_error + K8sPodExecSession) \<times> exec_world" where
  "executeBegin now actor client sess w =
     (if se_Status sess \<noteq> ''ready''
      then (Inl (writeOpenAIError 409 (''exec session must be ready before execute (current: '' @ se_Status sess @ '')'')
              ''exec_session_not_ready''), w)
      else if fst (classifyTerminalCommandRisk (se_Command sess)) = ''critical''
      then (Inl (writeOpenAIError 409 (''critical command cannot be executed: '' @ snd (classifyTerminalCommandRisk (se_Command sess)))
              ''exec_command_blocked''), w)
      else (case client of
        Some e \<Rightarrow> (Inl e, w)
      | None \<Rightarrow>
          (case MarkK8sPodExecSessionRunning now (se_ID sess) actor (xw_exec w) of
             (Inl ErrInvalidTransition, _) \<Rightarrow>
               (Inl (writeOpenAIError 409 ''exec session is already running or closed'' ''exec_session_bad_state''), w)
           | (Inl _, _) \<Rightarrow> (Inl (execNotFound (se_ID sess)), w)
           | (Inr s, db) \<Rightarrow> (Inr s, setExec db w))))"

definition execOutcome :: "(string \<Rightarrow> string) \<Rightarrow> podExecResult \<Rightarrow> string option \<Rightarrow> string \<times> string \<times> int" where
  "execOutcome maskS result execErr =
     (case execErr of
        Some e \<Rightarrow> (''failed'', maskS e, if pr_ExitCode result = 0 then 1 else pr_ExitCode result)
      | None \<Rightarrow>
          if pr_ExitCode result \<noteq> 0
          then (''failed'', firstNonEmpty [maskS (pr_Stderr result), ''command exited with code '' @ itoa (pr_ExitCode result)],
                pr_ExitCode result)
          else (''completed'', [], 0))"

definition outputSample :: "(string \<Rightarrow> string) \<Rightarrow> podExecResult \<Rightarrow> string" where
  "outputSample maskS result =
     truncateRunes (trimSpace (maskS (pr_Stdout result) @ [newlineC] @ maskS (pr_Stderr result))) 8000"

definition executeFinish ::
  "(string \<Rightarrow> string) \<Rightarrow> instant \<Rightarrow> string \<Rightarrow> podExecResult \<Rightarrow> string option \<Rightarrow> K8sPodExecSession \<Rightarrow> exec_world \<Rightarrow>
     (http_error + K8sPodExecSession) \<times> exec_world" where
  "executeFinish maskS now actor result execErr sess w =
     (let (status, errMsg, exitCode) = execOutcome maskS result execErr in
      (case UpdateK8sPodExecSessionExecution now (se_ID sess) status actor (outputSample maskS result)
              (truncateRunes errMsg 2000) exitCode (xw_exec w) of
         (Inl ErrNotFound, _) \<Rightarrow> (Inl (execNotFound (se_ID sess)), w)
       | (Inl _, _) \<Rightarrow> (Inl (writeOpenAIError 409 ''exec session finalization was already applied'' ''exec_session_bad_state''), w)
       | (Inr s, db) \<Rightarrow> (Inr s, auditWorld actor ''k8s.pod.exec_session.execute'' (se_ID sess) (setExec db w))))"

section \<open>Terminal tickets and the terminal stream\<close>

definition sessionAccessMode :: "K8sPodExecSession \<Rightarrow> string" where
  "sessionAccessMode s = (case se_PolicyResult s of None \<Rightarrow> ''<nil>'' | Some r \<Rightarrow> rs_AccessMode r)"

definition recoverForTicket :: "instant \<Rightarrow> K8sPodExecSession \<Rightarrow> exec_db \<Rightarrow> K8sPodExecSession \<times> exec_db" where
  "recoverForTicket now sess db =
     (if se_Status sess = ''connecting''
      then (case RecoverStaleK8sPodExecSessionConnection now (se_ID sess)
                   (now - execSessionTimeout (se_MaxSessionMinutes sess) - 30 * second) db of
              (recovered, db') \<Rightarrow>
                (case (recovered, GetK8sPodExecSession (se_ID sess) db') of
                   (True, Inr s) \<Rightarrow> (s, db')
                 | _ \<Rightarrow> (sess, db')))
      else (sess, db))"

definition issueTerminalTicket ::
  "(string \<Rightarrow> string) \<Rightarrow> instant \<Rightarrow> string \<Rightarrow> string \<Rightarrow> accessClaims option \<Rightarrow> string \<Rightarrow> string \<Rightarrow> K8sPodExecSession \<Rightarrow> exec_world \<Rightarrow>
     (http_error + string) \<times> exec_world" where
  "issueTerminalTicket hash now ticket adminID claims clientIP uaHash sess0 w =
     (let (sess, db) = recoverForTicket now sess0 (xw_exec w); w1 = setExec db w in
      if se_Status sess \<noteq> ''ready'' \<or> \<not> streamInteractiveShell (se_Command sess) \<or> sessionAccessMode sess \<noteq> ''full_tty''
      then (Inl (writeOpenAIError 409 ''approved full_tty shell session is required'' ''terminal_session_not_ready''), w1)
      else if (case claims of Some c \<Rightarrow> ac_PasswordChangeRequired c | None \<Rightarrow> False)
      then (Inl (writeOpenAIError 403 ''password change is required before opening a terminal'' ''password_change_required''), w1)
      else
        let actor = (case claims of Some c \<Rightarrow> if trimSpace (ac_Subject c) \<noteq> [] then trimSpace (ac_Subject c) else adminID
                                  | None \<Rightarrow> adminID);
            v = \<lparr>tk_SessionID = se_ID sess, tk_AdminID = actor, tk_ClaimID = [],
                 tk_AuthSessionID = (case claims of Some c \<Rightarrow> trimSpace (ac_SessionID c) | None \<Rightarrow> []),
                 tk_AuthExpiresAt = (case claims of Some c \<Rightarrow> if ac_ExpiresAt c > 0 then Some (ac_ExpiresAt c * second) else None
                                                 | None \<Rightarrow> None),
                 tk_ClientIP = clientIP, tk_UserAgentHash = uaHash, tk_ExpiresAt = now + 30 * second\<rparr> in
        (case CreateK8sTerminalTicket hash now ticket v (xw_exec w1) of
           (Inl e, db') \<Rightarrow> (Inl (writeOpenAIError 500 ''terminal ticket issuance failed'' ''terminal_ticket_failed''), setExec db' w1)
         | (Inr _, db') \<Rightarrow> (Inr ticket, setExec db' w1)))"

datatype ip_policy = IpPolicyOff | IpBreakGlass | IpAllowed | IpRefused

definition consumeTerminalTicket ::
  "(string \<Rightarrow> string) \<Rightarrow> instant \<Rightarrow> string \<Rightarrow> ip_policy \<Rightarrow> string \<Rightarrow> string \<Rightarrow> string \<Rightarrow> string \<Rightarrow> exec_world \<Rightarrow>
     K8sTerminalTicket option \<times> exec_world" where
  "consumeTerminalTicket hash now adminID policy sessionID ticket0 clientIP uaHash w =
     (let ticket = trimSpace ticket0 in
      if ticket = [] then (None, w)
      else if policy = IpRefused then (None, w)
      else
        let w1 = (if policy = IpBreakGlass then auditWorld adminID ''admin_ip_break_glass'' sessionID w else w);
            (v, db) = ConsumeK8sTerminalTicketAndClaimSession hash now sessionID ticket clientIP uaHash (xw_exec w1)
        in (v, setExec db w1))"

definition failK8sPodTerminalConnection ::
  "(string \<Rightarrow> string) \<Rightarrow> instant \<Rightarrow> string \<Rightarrow> string \<Rightarrow> string \<Rightarrow> K8sPodExecSession \<Rightarrow> exec_world \<Rightarrow> exec_world" where
  "failK8sPodTerminalConnection maskS now claimID actor message sess w =
     setExec (snd (UpdateK8sPodTerminalSessionExecution now (se_ID sess) claimID ''failed'' actor []
       (truncateRunes (maskS message) 2000) 1 (xw_exec w))) w"

text \<open>The checks before the cluster is contacted, for a request that holds the claim of a
  consumed ticket. A connection problem found here or later fails the session.\<close>

definition streamBegin ::
  "(string \<Rightarrow> string) \<Rightarrow> instant \<Rightarrow> string \<Rightarrow> K8sTerminalTicket \<Rightarrow> (http_error \<times> string) option \<Rightarrow> K8sPodExecSession \<Rightarrow> exec_world \<Rightarrow>
     (http_error + K8sPodExecSession) \<times> exec_world" where
  "streamBegin maskS now adminID auth connectErr sess w =
     (let failWith = (\<lambda>msg. failK8sPodTerminalConnection maskS now (tk_ClaimID auth) adminID msg sess w) in
      if tk_SessionID auth \<noteq> [] \<and> tk_SessionID auth \<noteq> se_ID sess
      then (Inl (writeOpenAIError 401 ''terminal ticket session mismatch'' ''terminal_ticket_invalid''), w)
      else if se_Status sess \<noteq> ''connecting''
      then (Inl (writeOpenAIError 409 ''terminal session must be approved and ready'' ''terminal_session_not_ready''), w)
      else if \<not> streamInteractiveShell (se_Command sess)
      then (Inl (writeOpenAIError 400 ''interactive terminal only supports /bin/sh or /bin/bash'' ''terminal_shell_invalid''),
            failWith ''interactive terminal shell is invalid'')
      else if sessionAccessMode sess \<noteq> ''full_tty''
      then (Inl (writeOpenAIError 409 ''session was not approved as full_tty'' ''terminal_full_tty_required''),
            failWith ''session was not approved as full_tty'')
      else (case connectErr of
              Some (e, msg) \<Rightarrow> (Inl e, failWith msg)
            | None \<Rightarrow> (Inr sess, w)))"

definition streamConnected ::
  "(string \<Rightarrow> string) \<Rightarrow> instant \<Rightarrow> string \<Rightarrow> string \<Rightarrow> K8sPodExecSession \<Rightarrow> exec_world \<Rightarrow> K8sPodExecSession option \<times> exec_world" where
  "streamConnected maskS now adminID claimID sess w =
     (case MarkK8sPodExecSessionConnected now (se_ID sess) claimID (xw_exec w) of
        (Inl _, _) \<Rightarrow> (None, failK8sPodTerminalConnection maskS now claimID adminID ''terminal session connected transition failed'' sess w)
      | (Inr s, db) \<Rightarrow> (Some s, auditWorld adminID ''k8s.pod.terminal.connect'' (se_ID sess) (setExec db w)))"

definition streamClose ::
  "(string \<Rightarrow> string) \<Rightarrow> instant \<Rightarrow> string \<Rightarrow> string \<Rightarrow> string \<Rightarrow> string \<Rightarrow> string \<Rightarrow> int \<Rightarrow> K8sPodExecSession \<Rightarrow> exec_world \<Rightarrow> exec_world" where
  "streamClose maskS now adminID claimID status transcript errMsg exitCode sess w =
     auditWorld adminID ''k8s.pod.terminal.close'' (se_ID sess)
       (setExec (snd (UpdateK8sPodTerminalSessionExecution now (se_ID sess) claimID status adminID transcript
          (truncateRunes (maskS errMsg) 2000) exitCode (xw_exec w))) w)"

section \<open>The reaper\<close>

definition reaperID :: string where "reaperID = ''system:terminal-session-reaper''"

definition reapSession :: "instant \<Rightarrow> instant \<Rightarrow> K8sPodExecSession \<Rightarrow> exec_world \<Rightarrow> exec_world" where
  "reapSession now clock snap w =
     (case se_UpdatedAt snap of
        None \<Rightarrow>
          (case ExpireStaleK8sPodExecSession clock (se_ID snap) (se_Status snap) None
                  ''terminal session heartbeat is unreadable'' (xw_exec w) of
             (Inr True, db) \<Rightarrow> auditWorld reaperID ''k8s.pod.terminal.expired'' (se_ID snap) (setExec db w)
           | _ \<Rightarrow> w)
      | Some updatedAt \<Rightarrow>
          if now < updatedAt + (execSessionTimeout (se_MaxSessionMinutes snap) + 30 * second) then w
          else if se_Status snap = ''connecting''
          then (case RecoverStaleK8sPodExecSessionConnection clock (se_ID snap) updatedAt (xw_exec w) of
                  (True, db) \<Rightarrow> auditWorld reaperID ''k8s.pod.terminal.connection_recovered'' (se_ID snap) (setExec db w)
                | (False, db) \<Rightarrow> w)
          else if se_Status snap = ''running''
          then (case ExpireStaleK8sPodExecSession clock (se_ID snap) (se_Status snap) (se_UpdatedAt snap)
                       ''terminal owner disappeared after the maximum session duration'' (xw_exec w) of
                  (Inr True, db) \<Rightarrow> auditWorld reaperID ''k8s.pod.terminal.expired'' (se_ID snap) (setExec db w)
                | _ \<Rightarrow> w)
          else w)"

definition reapBatch :: "int \<Rightarrow> instant \<Rightarrow> instant \<Rightarrow> exec_world \<Rightarrow> exec_world" where
  "reapBatch batchSize now clock w =
     foldl (\<lambda>v snap. reapSession now clock snap v) w (ListK8sPodExecSessionsForRecovery batchSize (xw_exec w))"

section \<open>All handlers as one machine\<close>

datatype exec_handler =
    HRequest instant string string "accessClaims option" "string \<Rightarrow> podItem option" "http_error + string \<times> podItem" string string string "execInput option"
  | HDecide instant string string string string K8sPodExecSession
  | HExecuteBegin instant string "http_error option" K8sPodExecSession
  | HExecuteFinish "string \<Rightarrow> string" instant string podExecResult "string option" K8sPodExecSession
  | HTicket "string \<Rightarrow> string" instant string string "accessClaims option" string string K8sPodExecSession
  | HConsume "string \<Rightarrow> string" instant string ip_policy string string string string
  | HStreamBegin "string \<Rightarrow> string" instant string K8sTerminalTicket "(http_error \<times> string) option" K8sPodExecSession
  | HStreamConnected "string \<Rightarrow> string" instant string string K8sPodExecSession
  | HStreamClose "string \<Rightarrow> string" instant string string string string string int K8sPodExecSession
  | HReap instant instant K8sPodExecSession

text \<open>A handler reads its session before it acts, so the row it holds may be stale; the
  decision of a handler on a session is taken on the row it read. \<open>runHandler\<close> covers every
  such snapshot, except that a decision reads requester and command, which no operation
  changes, from a row that was in the table.\<close>

fun runHandler :: "exec_handler \<Rightarrow> exec_world \<Rightarrow> exec_world" where
  "runHandler (HRequest now freshID adminID claims getPod resolvePod ns pod qc body) w =
     snd (requestK8sPodExecSession now freshID adminID claims getPod resolvePod ns pod qc body w)"
| "runHandler (HDecide now adminID i command memo snap) w =
     (case GetK8sPodExecSession i (xw_exec w) of
        Inl _ \<Rightarrow> w
      | Inr s \<Rightarrow> snd (decideSession now adminID i command memo
                        (snap\<lparr>se_RequestedBy := se_RequestedBy s\<rparr>) w))"
| "runHandler (HExecuteBegin now actor client snap) w = snd (executeBegin now actor client snap w)"
| "runHandler (HExecuteFinish maskS now actor result err snap) w = snd (executeFinish maskS now actor result err snap w)"
| "runHandler (HTicket hash now ticket adminID claims ip ua snap) w = snd (issueTerminalTicket hash now ticket adminID claims ip ua snap w)"
| "runHandler (HConsume hash now adminID policy i ticket ip ua) w = snd (consumeTerminalTicket hash now adminID policy i ticket ip ua w)"
| "runHandler (HStreamBegin maskS now adminID auth err snap) w = snd (streamBegin maskS now adminID auth err snap w)"
| "runHandler (HStreamConnected maskS now adminID claim snap) w = snd (streamConnected maskS now adminID claim snap w)"
| "runHandler (HStreamClose maskS now adminID claim status transcript err code snap) w =
     streamClose maskS now adminID claim status transcript err code snap w"
| "runHandler (HReap now clock snap) w = reapSession now clock snap w"


section \<open>Handlers as sequences of store operations\<close>

fun quietOp :: "exec_op \<Rightarrow> bool" where
  "quietOp (OpCreateSession now s) \<longleftrightarrow> False"
| "quietOp (OpDecide now i st actor memo) \<longleftrightarrow> False"
| "quietOp _ \<longleftrightarrow> True"

definition quietStep :: "exec_world \<Rightarrow> exec_world \<Rightarrow> bool" where
  "quietStep w w' \<longleftrightarrow> (\<exists>hash ops. list_all quietOp ops \<and> xw_exec w' = fold (execOp hash) ops (xw_exec w))"

lemma world_exec [simp]:
  "xw_exec (setExec db w) = db" "xw_exec (auditWorld a x i w) = xw_exec w"
  "xw_exec (recordPodAccess a c n p x y w) = xw_exec w"
  by (simp_all add: setExec_def auditWorld_def recordPodAccess_def)

lemma quiet_refl: "xw_exec w' = xw_exec w \<Longrightarrow> quietStep w w'"
  unfolding quietStep_def by (rule exI [of _ id], rule exI [of _ "[]"]) simp

lemma quiet_op: "xw_exec w' = execOp hash op (xw_exec w) \<Longrightarrow> quietOp op \<Longrightarrow> quietStep w w'"
  unfolding quietStep_def by (rule exI [of _ hash], rule exI [of _ "[op]"]) simp

lemma quiet_two:
  "xw_exec w' = execOp hash op2 (execOp hash op1 (xw_exec w)) \<Longrightarrow> quietOp op1 \<Longrightarrow> quietOp op2 \<Longrightarrow> quietStep w w'"
  unfolding quietStep_def by (rule exI [of _ hash], rule exI [of _ "[op1, op2]"]) simp

lemma executeBegin_quiet: "quietStep w (snd (executeBegin now actor client sess w))"
proof -
  let ?m = "MarkK8sPodExecSessionRunning now (se_ID sess) actor (xw_exec w)"
  have "xw_exec (snd (executeBegin now actor client sess w)) \<in> {xw_exec w, snd ?m}"
    by (cases ?m) (auto simp: executeBegin_def split: sum.split store_error.split option.split)
  then show ?thesis
    using quiet_refl quiet_op [where op = "OpMarkRunning now (se_ID sess) actor"] by fastforce
qed

lemma executeFinish_quiet: "quietStep w (snd (executeFinish maskS now actor result err sess w))"
proof -
  obtain status msg code where o: "execOutcome maskS result err = (status, msg, code)"
    by (cases "execOutcome maskS result err")
  let ?m = "UpdateK8sPodExecSessionExecution now (se_ID sess) status actor (outputSample maskS result) (truncateRunes msg 2000) code (xw_exec w)"
  have "xw_exec (snd (executeFinish maskS now actor result err sess w)) \<in> {xw_exec w, snd ?m}"
    by (cases ?m) (auto simp: executeFinish_def o split: sum.split store_error.split)
  then show ?thesis
    using quiet_refl quiet_op [where op = "OpFinish now (se_ID sess) status actor (outputSample maskS result) (truncateRunes msg 2000) code"]
    by fastforce
qed

lemma fail_quiet: "quietStep w (failK8sPodTerminalConnection maskS now c actor msg sess w)"
  by (rule quiet_op [where op = "OpFinishTerminal now (se_ID sess) c ''failed'' actor [] (truncateRunes (maskS msg) 2000) 1"])
     (simp_all add: failK8sPodTerminalConnection_def)

lemma streamBegin_quiet: "quietStep w (snd (streamBegin maskS now adminID auth err sess w))"
  by (auto simp: streamBegin_def Let_def intro: fail_quiet quiet_refl split: option.split)

lemma streamConnected_quiet: "quietStep w (snd (streamConnected maskS now adminID c sess w))"
proof (cases "MarkK8sPodExecSessionConnected now (se_ID sess) c (xw_exec w)")
  case (Pair res db)
  then have "execOp id (OpMarkConnected now (se_ID sess) c) (xw_exec w) = db" by simp
  with Pair show ?thesis
    by (cases res) (auto simp: streamConnected_def intro: fail_quiet quiet_op [where hash = id and op = "OpMarkConnected now (se_ID sess) c"])
qed

lemma streamClose_quiet: "quietStep w (streamClose maskS now adminID c st transcript err code sess w)"
  by (rule quiet_op [where op = "OpFinishTerminal now (se_ID sess) c st adminID transcript (truncateRunes (maskS err) 2000) code"])
     (simp_all add: streamClose_def)

lemma consume_quiet: "quietStep w (snd (consumeTerminalTicket hash now adminID policy i ticket ip ua w))"
proof -
  have "xw_exec (snd (consumeTerminalTicket hash now adminID policy i ticket ip ua w)) \<in>
      {xw_exec w, execOp hash (OpConsume now i (trimSpace ticket) ip ua) (xw_exec w)}"
    by (auto simp: consumeTerminalTicket_def Let_def split: prod.split if_splits)
  then show ?thesis using quiet_refl quiet_op [where op = "OpConsume now i (trimSpace ticket) ip ua"] by fastforce
qed

lemma reap_expire:
  "quietStep w (case ExpireStaleK8sPodExecSession clock i st upd reason (xw_exec w) of
     (Inr True, db) \<Rightarrow> auditWorld a x j (setExec db w) | _ \<Rightarrow> w)"
proof (cases "ExpireStaleK8sPodExecSession clock i st upd reason (xw_exec w)")
  case (Pair res db)
  have "quietStep w (auditWorld a x j (setExec db w))"
    by (rule quiet_op [where hash = id and op = "OpExpire clock i st upd reason"]) (simp_all add: Pair)
  then show ?thesis unfolding Pair by (auto intro: quiet_refl split: sum.split bool.split)
qed

lemma reap_recover:
  "quietStep w (case RecoverStaleK8sPodExecSessionConnection clock i u (xw_exec w) of
     (True, db) \<Rightarrow> auditWorld a x j (setExec db w) | (False, db) \<Rightarrow> w)"
proof (cases "RecoverStaleK8sPodExecSessionConnection clock i u (xw_exec w)")
  case (Pair res db)
  have "quietStep w (auditWorld a x j (setExec db w))"
    by (rule quiet_op [where hash = id and op = "OpRecover clock i u"]) (simp_all add: Pair)
  then show ?thesis unfolding Pair by (cases res) (auto intro: quiet_refl)
qed

lemma reap_quiet: "quietStep w (reapSession now clock snap w)"
  unfolding reapSession_def
  by (cases "se_UpdatedAt snap") (auto simp del: split_paired_All intro: reap_expire reap_recover quiet_refl)

lemma ticket_quiet: "quietStep w (snd (issueTerminalTicket hash now ticket adminID claims ip ua sess w))"
proof -
  let ?stale = "now - execSessionTimeout (se_MaxSessionMinutes sess) - 30 * second"
  obtain s1 db1 where rec: "recoverForTicket now sess (xw_exec w) = (s1, db1)" by (cases "recoverForTicket now sess (xw_exec w)")
  have db1: "db1 = xw_exec w \<or> db1 = execOp hash (OpRecover now (se_ID sess) ?stale) (xw_exec w)"
    using rec by (auto simp: recoverForTicket_def split: prod.splits if_splits sum.splits bool.splits)
  have created: "xw_exec (snd (case C of (Inl e, db') \<Rightarrow> (Inl x, setExec db' w1) | (Inr _, db') \<Rightarrow> (Inr ticket, setExec db' w1))) = snd C"
    for C :: "(store_error + unit) \<times> exec_db" and x w1
    by (cases C; cases "fst C") auto
  have res: "xw_exec (snd (issueTerminalTicket hash now ticket adminID claims ip ua sess w)) = db1 \<or>
      (\<exists>v. xw_exec (snd (issueTerminalTicket hash now ticket adminID claims ip ua sess w)) = execOp hash (OpCreateTicket now ticket v) db1)"
    unfolding issueTerminalTicket_def rec Let_def by (simp add: created) blast
  from db1 res show ?thesis
    using quiet_refl quiet_op [where hash = hash] quiet_two [where hash = hash] by (auto simp del: execOp.simps)
qed


section \<open>Who authorised a session\<close>

definition secondPerson :: "K8sPodExecSession \<Rightarrow> bool" where
  "secondPerson s \<longleftrightarrow> trimSpace (se_RequestedBy s) = [] \<or> trimSpace (se_RequestedBy s) = ''anonymous'' \<or>
     trimSpace (se_RequestedBy s) \<noteq> se_DecidedBy s"

definition unattendedOK :: "K8sPodExecSession \<Rightarrow> bool" where
  "unattendedOK s \<longleftrightarrow>
     (Findings (ParseCommandRisk (se_Command s)) = [] \<and> \<not> isInteractiveShell (se_Command s)) \<or>
     (equalFold (se_Role s) ''super_admin'' \<and> streamInteractiveShell (se_Command s))"

definition notCritical :: "K8sPodExecSession \<Rightarrow> bool" where
  "notCritical s \<longleftrightarrow> Risk (ParseCommandRisk (se_Command s)) \<noteq> ''critical''"

definition authMoves :: "K8sPodExecSession \<Rightarrow> K8sPodExecSession \<Rightarrow> bool" where
  "authMoves s s' \<longleftrightarrow> sessionMoves s s' \<and>
     (se_Status s = ''pending_approval'' \<and> se_Status s' = ''ready'' \<longrightarrow> secondPerson s')"

definition authFresh :: "K8sPodExecSession \<Rightarrow> bool" where
  "authFresh s \<longleftrightarrow> se_Status s = ''denied'' \<or>
     (notCritical s \<and>
       ((se_Status s = ''pending_approval'' \<and> se_RequireApproval s) \<or>
        (se_Status s = ''ready'' \<and> \<not> se_RequireApproval s \<and> unattendedOK s)))"

text \<open>What holds of every session: one that may ever run is not critical, and it was either
  approved by a second person or needed no approval.\<close>

definition authorised :: "K8sPodExecSession \<Rightarrow> bool" where
  "authorised s \<longleftrightarrow> se_Status s = ''denied'' \<or> se_Status s = ''rejected'' \<or>
     (notCritical s \<and>
       (if se_RequireApproval s then se_Status s = ''pending_approval'' \<or> secondPerson s else unattendedOK s))"

definition worldRow :: "exec_world \<Rightarrow> string \<Rightarrow> K8sPodExecSession option" where
  "worldRow w k = sessionRow (xw_exec w) k"

lemma quiet_row:
  assumes "sessionRow db k = Some s" and "quietOp op"
  shows "\<exists>s'. sessionRow (execOp hash op db) k = Some s' \<and> (s' = s \<or> authMoves s s')"
proof -
  obtain s' where s': "sessionRow (execOp hash op db) k = Some s'" "s' = s \<or> sessionMoves s s'"
    using execRows.exec_row [OF assms(1)] by blast
  have "s' = s" if "se_Status s = ''pending_approval''"
  proof (cases op)
    case (OpConsume now i ticket ip ua)
    with s'(1) assms(1) that row_Consume [of hash now i ticket ip ua db k] show ?thesis
      by (auto simp: setRow_def split: if_splits)
  qed (use s'(1) assms that in \<open>auto simp: session_row setRow_def split: if_splits\<close>)
  with s' show ?thesis by (auto simp: authMoves_def)
qed

lemma quiet_rows:
  "list_all quietOp ops \<Longrightarrow> sessionRow db k = Some s \<Longrightarrow>
   \<exists>s'. sessionRow (fold (execOp hash) ops db) k = Some s' \<and> authMoves\<^sup>*\<^sup>* s s'"
proof (induction ops arbitrary: db s)
  case Nil
  then show ?case by simp
next
  case (Cons op ops)
  then obtain s1 where s1: "sessionRow (execOp hash op db) k = Some s1" "s1 = s \<or> authMoves s s1"
    using quiet_row [of db k s op hash] by auto
  from Cons.IH [OF _ s1(1)] Cons.prems(1) obtain s2 where
    "sessionRow (fold (execOp hash) ops (execOp hash op db)) k = Some s2" "authMoves\<^sup>*\<^sup>* s1 s2" by auto
  with s1(2) show ?case by (auto intro: converse_rtranclp_into_rtranclp)
qed

lemma quiet_new: "quietOp op \<Longrightarrow> sessionRow db k = None \<Longrightarrow> sessionRow (execOp hash op db) k = None"
proof (cases op)
  case (OpConsume now i ticket ip ua)
  assume "sessionRow db k = None"
  with OpConsume row_Consume [of hash now i ticket ip ua db k] show ?thesis by (auto simp: setRow_def)
qed (auto simp: session_row setRow_def)

lemma quiet_news: "list_all quietOp ops \<Longrightarrow> sessionRow db k = None \<Longrightarrow> sessionRow (fold (execOp hash) ops db) k = None"
  by (induction ops arbitrary: db) (simp_all add: quiet_new)

lemma quietStep_row: "quietStep w w' \<Longrightarrow> worldRow w k = Some s \<Longrightarrow> \<exists>s'. worldRow w' k = Some s' \<and> authMoves\<^sup>*\<^sup>* s s'"
  unfolding quietStep_def worldRow_def using quiet_rows by fastforce

lemma quietStep_new: "quietStep w w' \<Longrightarrow> worldRow w k = None \<Longrightarrow> worldRow w' k = None"
  unfolding quietStep_def worldRow_def using quiet_news by fastforce

lemmas handler_quiet = executeBegin_quiet executeFinish_quiet ticket_quiet consume_quiet streamBegin_quiet
  streamConnected_quiet streamClose_quiet reap_quiet

text \<open>The row a request creates.\<close>

lemma evaluate_fresh:
  assumes "r = evaluateExecRequest role cl ns pod labels command table"
  shows "authFresh (insertedSession (sessionDefaults now (requestSession i a cl ns pod container command role reason r)))"
proof -
  let ?s = "insertedSession (sessionDefaults now (requestSession i a cl ns pod container command role reason r))"
  have status: "se_Status ?s = fst (requestStatus r)" and app: "se_RequireApproval ?s = rs_RequireApproval r"
    and cmd: "se_Command ?s = command" "se_Role ?s = role"
    by (simp_all add: insertedSession_def sessionDefaults_def requestSession_def requestStatus_def)
  define req where "req = \<lparr>rq_Role = role, rq_ClusterID = cl, rq_Namespace = ns, rq_Pod = pod, rq_PodLabels = labels, rq_Command = command\<rparr>"
  obtain policies where r: "r = applySuperAdminTerminalDefault req (evaluateTerminalPolicy req policies)"
    using assms by (auto simp: evaluateExecRequest_def req_def Let_def)
  have crit: "rs_Allowed r \<Longrightarrow> notCritical ?s"
    using allowed_not_critical [of req policies] by (simp add: r [symmetric] notCritical_def cmd) (simp add: req_def)
  have unatt: "rs_Allowed r \<Longrightarrow> \<not> rs_RequireApproval r \<Longrightarrow> unattendedOK ?s"
    using unattended_cases [of req policies]
    by (simp add: r [symmetric] unattendedOK_def streamInteractiveShell_def cmd) (auto simp: req_def)
  consider "\<not> rs_Allowed r" | "rs_Allowed r" "rs_RequireApproval r" | "rs_Allowed r" "\<not> rs_RequireApproval r" by blast
  then show ?thesis
    by cases (use crit unatt in \<open>simp_all add: authFresh_def status app requestStatus_def\<close>)
qed


lemma request_exec:
  "xw_exec (snd (requestK8sPodExecSession now freshID adminID claims getPod resolvePod ns pod qc body w)) = xw_exec w \<or>
   (\<exists>sess. xw_exec (snd (requestK8sPodExecSession now freshID adminID claims getPod resolvePod ns pod qc body w)) =
        snd (CreateK8sPodExecSession now sess (xw_exec w)) \<and> authFresh (insertedSession (sessionDefaults now sess)))"
proof (cases body)
  case None
  then show ?thesis by (simp add: requestK8sPodExecSession_def)
next
  case (Some inp)
  let ?cl = "trimSpace (firstNonEmpty [ei_ClusterID inp, qc])"
  show ?thesis
  proof (cases "trimSpace (ei_Command inp) = [] \<or> (\<exists>e. resolveRequestPod ?cl getPod resolvePod = Inl e)")
    case True
    then show ?thesis by (auto simp: requestK8sPodExecSession_def Some Let_def)
  next
    case False
    then obtain clusterID item where pod: "resolveRequestPod ?cl getPod resolvePod = Inr (clusterID, item)"
      by (cases "resolveRequestPod ?cl getPod resolvePod") auto
    define r where "r = evaluateExecRequest (requestRole claims inp) clusterID ns pod (pi_Labels item)
      (trimSpace (ei_Command inp)) (xw_policies w)"
    define sess where "sess = requestSession freshID adminID clusterID ns pod
      (trimSpace (firstNonEmpty [ei_Container inp, pi_DefaultContainer item])) (trimSpace (ei_Command inp)) (requestRole claims inp) (ei_Reason inp) r"
    have fresh: "authFresh (insertedSession (sessionDefaults now sess))"
      unfolding sess_def by (rule evaluate_fresh [OF r_def])
    obtain res db where c: "CreateK8sPodExecSession now sess (xw_exec w) = (res, db)" by (cases "CreateK8sPodExecSession now sess (xw_exec w)")
    have "xw_exec (snd (requestK8sPodExecSession now freshID adminID claims getPod resolvePod ns pod qc body w)) = xw_exec w \<or>
        xw_exec (snd (requestK8sPodExecSession now freshID adminID claims getPod resolvePod ns pod qc body w)) = db"
      using False pod c
      by (cases res) (simp_all add: requestK8sPodExecSession_def Some Let_def r_def [symmetric] sess_def [symmetric])
    then show ?thesis using fresh c by (metis snd_conv)
  qed
qed

lemma decide_exec:
  "xw_exec (snd (decideSession now adminID i command memo snap w)) = xw_exec w \<or>
   (\<exists>st m. xw_exec (snd (decideSession now adminID i command memo snap w)) =
        snd (UpdateK8sPodExecSessionDecision now i st adminID m (xw_exec w)) \<and>
      (st = ''ready'' \<longrightarrow> trimSpace (se_RequestedBy snap) = [] \<or> trimSpace (se_RequestedBy snap) = ''anonymous'' \<or>
         trimSpace (se_RequestedBy snap) \<noteq> adminID))"
proof -
  let ?st = "if command = ''approve'' then ''ready'' else ''rejected''"
  obtain res db where u: "UpdateK8sPodExecSessionDecision now i ?st adminID (trimSpace memo) (xw_exec w) = (res, db)"
    by (cases "UpdateK8sPodExecSessionDecision now i ?st adminID (trimSpace memo) (xw_exec w)")
  let ?self = "command = ''approve'' \<and> trimSpace (se_RequestedBy snap) \<noteq> [] \<and>
    trimSpace (se_RequestedBy snap) \<noteq> ''anonymous'' \<and> trimSpace (se_RequestedBy snap) = adminID"
  have "xw_exec (snd (decideSession now adminID i command memo snap w)) = xw_exec w \<or>
      (xw_exec (snd (decideSession now adminID i command memo snap w)) = db \<and> \<not> ?self)"
    unfolding decideSession_def u by (auto split: sum.split store_error.split)
  moreover have "db = snd (UpdateK8sPodExecSessionDecision now i ?st adminID (trimSpace memo) (xw_exec w))" by (simp add: u)
  moreover have "\<not> ?self \<Longrightarrow> ?st = ''ready'' \<longrightarrow> trimSpace (se_RequestedBy snap) = [] \<or>
      trimSpace (se_RequestedBy snap) = ''anonymous'' \<or> trimSpace (se_RequestedBy snap) \<noteq> adminID"
    by auto
  ultimately show ?thesis by blast
qed

lemma decide_row:
  assumes "sessionRow db k = Some s"
    and "\<And>x. sessionRow db i = Some x \<Longrightarrow> st = ''ready'' \<Longrightarrow> trimSpace (se_RequestedBy x) = [] \<or>
      trimSpace (se_RequestedBy x) = ''anonymous'' \<or> trimSpace (se_RequestedBy x) \<noteq> adminID"
  shows "\<exists>s'. sessionRow (snd (UpdateK8sPodExecSessionDecision now i st adminID m db)) k = Some s' \<and> (s' = s \<or> authMoves s s')"
proof -
  obtain s' where s': "sessionRow (execOp id (OpDecide now i st adminID m) db) k = Some s'" "s' = s \<or> sessionMoves s s'"
    using execRows.exec_row [OF assms(1)] by blast
  moreover have "secondPerson s'" if "se_Status s = ''pending_approval''" "se_Status s' = ''ready''"
    using s'(1) that assms by (auto simp: session_row setRow_def secondPerson_def split: if_splits)
  ultimately show ?thesis by (auto simp: authMoves_def)
qed

lemma decide_none: "worldRow w k = None \<Longrightarrow> worldRow (snd (decideSession now adminID i command memo snap w)) k = None"
  using decide_exec [of now adminID i command memo snap w] by (auto simp: worldRow_def row_Decide setRow_def)

lemma handler_row:
  assumes "worldRow w k = Some s"
  shows "\<exists>s'. worldRow (runHandler h w) k = Some s' \<and> (s' = s \<or> authMoves\<^sup>*\<^sup>* s s')"
proof (cases h)
  case (HRequest now freshID adminID claims getPod resolvePod ns pod qc body)
  then show ?thesis
    using assms request_exec [of now freshID adminID claims getPod resolvePod ns pod qc body w]
    by (auto simp: worldRow_def row_Create)
next
  case (HDecide now adminID i command memo snap)
  show ?thesis
  proof (cases "GetK8sPodExecSession i (xw_exec w)")
    case (Inl e)
    with HDecide assms show ?thesis by simp
  next
    case (Inr x)
    then have x: "sessionRow (xw_exec w) i = Some x"
      by (auto simp: GetK8sPodExecSession_def getRow_def sessionRow_def split: option.splits)
    let ?snap = "snap\<lparr>se_RequestedBy := se_RequestedBy x\<rparr>"
    have run: "runHandler h w = snd (decideSession now adminID i command memo ?snap w)"
      using HDecide Inr by simp
    from decide_exec [of now adminID i command memo ?snap w] show ?thesis
    proof
      assume "xw_exec (snd (decideSession now adminID i command memo ?snap w)) = xw_exec w"
      with assms run show ?thesis by (simp add: worldRow_def)
    next
      assume "\<exists>st m. xw_exec (snd (decideSession now adminID i command memo ?snap w)) =
          snd (UpdateK8sPodExecSessionDecision now i st adminID m (xw_exec w)) \<and>
        (st = ''ready'' \<longrightarrow> trimSpace (se_RequestedBy ?snap) = [] \<or> trimSpace (se_RequestedBy ?snap) = ''anonymous'' \<or>
           trimSpace (se_RequestedBy ?snap) \<noteq> adminID)"
      then obtain st m where u: "xw_exec (snd (decideSession now adminID i command memo ?snap w)) =
          snd (UpdateK8sPodExecSessionDecision now i st adminID m (xw_exec w))"
        "st = ''ready'' \<Longrightarrow> trimSpace (se_RequestedBy x) = [] \<or> trimSpace (se_RequestedBy x) = ''anonymous'' \<or>
           trimSpace (se_RequestedBy x) \<noteq> adminID"
        by auto
      from decide_row [OF assms [unfolded worldRow_def], of i st adminID now m] u x show ?thesis
        unfolding run worldRow_def by auto
    qed
  qed
qed (use quietStep_row [OF _ assms] handler_quiet in \<open>simp_all, meson+\<close>)

lemma handler_new:
  assumes "worldRow w k = None" and "worldRow (runHandler h w) k = Some s"
  shows "authFresh s"
proof (cases h)
  case (HRequest now freshID adminID claims getPod resolvePod ns pod qc body)
  then show ?thesis
    using assms request_exec [of now freshID adminID claims getPod resolvePod ns pod qc body w]
    by (auto simp: worldRow_def row_Create split: if_splits)
next
  case (HDecide now adminID i command memo snap)
  then have "worldRow (runHandler h w) k = None"
    using decide_none [OF assms(1)] assms(1) by (simp split: sum.split)
  with assms(2) show ?thesis by simp
qed (use assms(2) in \<open>simp_all add: quietStep_new [OF _ assms(1)] handler_quiet\<close>)


lemma reap_expire_other:
  assumes "k \<noteq> i"
  shows "sessionRow (xw_exec (case ExpireStaleK8sPodExecSession clock i st upd reason (xw_exec w) of
     (Inr True, db) \<Rightarrow> auditWorld a x j (setExec db w) | _ \<Rightarrow> w)) k = sessionRow (xw_exec w) k"
proof (cases "ExpireStaleK8sPodExecSession clock i st upd reason (xw_exec w)")
  case (Pair res db)
  then have "sessionRow db k = sessionRow (xw_exec w) k"
    using row_Expire [of clock i st upd reason "xw_exec w" k] assms by (simp add: setRow_def)
  then show ?thesis unfolding Pair by (auto split: sum.split bool.split)
qed

lemma reap_recover_other:
  assumes "k \<noteq> i"
  shows "sessionRow (xw_exec (case RecoverStaleK8sPodExecSessionConnection clock i u (xw_exec w) of
     (True, db) \<Rightarrow> auditWorld a x j (setExec db w) | (False, db) \<Rightarrow> w)) k = sessionRow (xw_exec w) k"
proof (cases "RecoverStaleK8sPodExecSessionConnection clock i u (xw_exec w)")
  case (Pair res db)
  then have "sessionRow db k = sessionRow (xw_exec w) k"
    using row_Recover [of clock i u "xw_exec w" k] assms by (simp add: setRow_def)
  then show ?thesis unfolding Pair by (cases res) auto
qed

lemma reap_other: "k \<noteq> se_ID snap \<Longrightarrow> sessionRow (xw_exec (reapSession now clock snap w)) k = sessionRow (xw_exec w) k"
  unfolding reapSession_def
  by (cases "se_UpdatedAt snap") (simp_all add: reap_expire_other reap_recover_other)

interpretation handlerRows: row_machine worldRow runHandler "authMoves\<^sup>*\<^sup>*" authFresh
  by unfold_locales (rule handler_row handler_new; assumption)+

lemma fresh_authorised: "authFresh s \<Longrightarrow> authorised s"
  by (auto simp: authFresh_def authorised_def)

lemma authorised_move:
  assumes "authorised s" and "authMoves s s'"
  shows "authorised s'"
proof -
  have keep: "notCritical s' = notCritical s" "unattendedOK s' = unattendedOK s" "se_RequireApproval s' = se_RequireApproval s"
    using assms(2) by (simp_all add: authMoves_def sessionMoves_def sameRequest_def notCritical_def unattendedOK_def)
  have edge: "(se_Status s, se_Status s') \<in> set sessionEdges" using assms(2) by (simp add: authMoves_def sessionMoves_def)
  then have live: "se_Status s \<noteq> ''denied'' \<and> se_Status s \<noteq> ''rejected''" by (auto simp: sessionEdges_def)
  show ?thesis
  proof (cases "se_Status s = ''pending_approval''")
    case True
    with edge have "se_Status s' = ''ready'' \<or> se_Status s' = ''rejected''" by (auto simp: sessionEdges_def)
    then show ?thesis using True assms live by (auto simp: authorised_def keep authMoves_def)
  next
    case False
    then have "secondPerson s' = secondPerson s"
      using assms(2) by (simp add: authMoves_def sessionMoves_def sameRequest_def secondPerson_def)
    with False assms(1) live show ?thesis by (auto simp: authorised_def keep)
  qed
qed

lemma authorised_moves: "authMoves\<^sup>*\<^sup>* s s' \<Longrightarrow> authorised s \<Longrightarrow> authorised s'"
  by (induction rule: rtranclp_induct) (auto intro: authorised_move)

lemma all_authorised:
  assumes "xd_sessions (xw_exec w) = []" and "worldRow (fold runHandler hs w) k = Some s"
  shows "authorised s"
  by (rule handlerRows.run_invariant [OF _ _ _ assms(2)])
     (auto intro: fresh_authorised authorised_moves simp: worldRow_def sessionRow_def assms(1))

section \<open>Properties\<close>


definition exampleExecWorld :: exec_world where
  "exampleExecWorld = \<lparr>xw_exec = \<lparr>xd_sessions = [], xd_tickets = [], xd_auth = []\<rparr>, xw_policies = [], xw_audit = [], xw_access = []\<rparr>"

definition exampleShellRequest :: exec_handler where
  "exampleShellRequest = HRequest 5 ''s1'' ''root''
     (Some \<lparr>ac_Role = ''Super_Admin'', ac_Subject = ''root'', ac_SessionID = [], ac_ExpiresAt = 0, ac_PasswordChangeRequired = False\<rparr>)
     (\<lambda>_. Some \<lparr>pi_Labels = (\<lambda>_. None), pi_DefaultContainer = ''app''\<rparr>) (Inl invalidBody) ''dev'' ''p'' []
     (Some \<lparr>ei_ClusterID = ''c1'', ei_Container = [], ei_Command = '' /bin/sh'', ei_Role = [], ei_Reason = []\<rparr>)"


text \<open>
  C22. The reaper spares live sessions: whenever a reaper step changes anything, the
  session it read has no readable heartbeat or its full session time plus thirty seconds has
  passed since the heartbeat; the row it changed still carried the status and heartbeat it
  had read, or was a stale claim no newer than that heartbeat; and every other session is
  untouched.
\<close>

theorem reaper_spares_live_sessions:
  assumes "reapSession now clock snap w \<noteq> w"
  shows "(case se_UpdatedAt snap of None \<Rightarrow> True
          | Some u \<Rightarrow> u + execSessionTimeout (se_MaxSessionMinutes snap) + 30 * second \<le> now) \<and>
    (\<exists>s. sessionRow (xw_exec w) (se_ID snap) = Some s \<and> se_Status s = se_Status snap \<and>
       (se_UpdatedAt s = se_UpdatedAt snap \<or>
        (\<exists>u v. se_UpdatedAt snap = Some u \<and> se_UpdatedAt s = Some v \<and> v \<le> u))) \<and>
    (\<forall>k. k = se_ID snap \<or> sessionRow (xw_exec (reapSession now clock snap w)) k = sessionRow (xw_exec w) k)"
proof -
  have expired: "\<exists>s. sessionRow (xw_exec w) (se_ID snap) = Some s \<and> se_Status s = se_Status snap \<and> se_UpdatedAt s = upd"
    if "ExpireStaleK8sPodExecSession clock (se_ID snap) (se_Status snap) upd reason (xw_exec w) = (Inr True, db)" for upd reason db
    using that by (auto simp: ExpireStaleK8sPodExecSession_def Let_def affected_iff sessionRow_def split: if_splits)
  have recovered: "\<exists>s v. sessionRow (xw_exec w) (se_ID snap) = Some s \<and> se_Status s = ''connecting'' \<and> se_UpdatedAt s = Some v \<and> v \<le> u"
    if "RecoverStaleK8sPodExecSessionConnection clock (se_ID snap) u (xw_exec w) = (True, db)" for u db
    using that
    by (auto simp: RecoverStaleK8sPodExecSessionConnection_def Let_def affected_iff sessionRow_def notLaterThan_def split: option.splits)
  have others: "k = se_ID snap \<or> sessionRow (xw_exec (reapSession now clock snap w)) k = sessionRow (xw_exec w) k" for k
    by (cases "k = se_ID snap") (auto simp: reap_other)
  show ?thesis
  proof (cases "se_UpdatedAt snap")
    case None
    with assms obtain db where "ExpireStaleK8sPodExecSession clock (se_ID snap) (se_Status snap) None
        ''terminal session heartbeat is unreadable'' (xw_exec w) = (Inr True, db)"
      by (auto simp: reapSession_def split: prod.splits sum.splits bool.splits)
    from expired [OF this] None others show ?thesis by auto
  next
    case (Some u)
    with assms have late: "\<not> now < u + (execSessionTimeout (se_MaxSessionMinutes snap) + 30 * second)"
      by (auto simp: reapSession_def)
    show ?thesis
    proof (cases "se_Status snap = ''connecting''")
      case True
      with assms Some late obtain db where "RecoverStaleK8sPodExecSessionConnection clock (se_ID snap) u (xw_exec w) = (True, db)"
        by (auto simp: reapSession_def split: prod.splits bool.splits)
      from recovered [OF this] Some True late others show ?thesis by fastforce
    next
      case False
      with assms Some late obtain db where "ExpireStaleK8sPodExecSession clock (se_ID snap) (se_Status snap) (Some u)
          ''terminal owner disappeared after the maximum session duration'' (xw_exec w) = (Inr True, db)"
        by (auto simp: reapSession_def split: prod.splits sum.splits bool.splits if_splits)
      from expired [OF this] Some late others show ?thesis by auto
    qed
  qed
qed

theorem reaper_spares_live_sessions_witness:
  "1 + execSessionTimeout 10 + 30 * second \<le> 700 * second \<and>
   reapSession (700 * second) 0 (exampleSession ''running'') (exampleExecWorld\<lparr>xw_exec := exampleExecDB ''running''\<rparr>) \<noteq>
     exampleExecWorld\<lparr>xw_exec := exampleExecDB ''running''\<rparr>"
proof -
  let ?w = "exampleExecWorld\<lparr>xw_exec := exampleExecDB ''running''\<rparr>"
  have "length (xw_audit (reapSession (700 * second) 0 (exampleSession ''running'') ?w)) = 1" by code_simp
  moreover have "xw_audit ?w = []" by (simp add: exampleExecWorld_def)
  ultimately have ch: "reapSession (700 * second) 0 (exampleSession ''running'') ?w \<noteq> ?w" by auto
  from reaper_spares_live_sessions [OF this] have "1 + execSessionTimeout 10 + 30 * second \<le> 700 * second"
    by (simp add: exampleSession_def)
  with ch show ?thesis by blast
qed

text \<open>
  The session clock: a session's transport runs for at least one and at most ten
  minutes, whatever limit the policy set; in particular the break-glass session that the
  gate announces as limited to fifteen minutes is cut off after ten.
\<close>

theorem session_timeout_bounds:
  "60 * second \<le> execSessionTimeout m \<and> execSessionTimeout m \<le> 600 * second \<and>
   (execSessionTimeout m = m * 60 * second \<longleftrightarrow> 1 \<le> m \<and> m \<le> 10) \<and>
   execSessionTimeout (rs_MaxSessionMinutes (applySuperAdminTerminalDefault
     (exampleRequest ''sh''\<lparr>rq_Role := ''super_admin''\<rparr>) (evaluateTerminalPolicy (exampleRequest ''sh''\<lparr>rq_Role := ''super_admin''\<rparr>) ps))) = 600 * second"
proof (intro conjI)
  show "60 * second \<le> execSessionTimeout m" "execSessionTimeout m \<le> 600 * second"
    "execSessionTimeout m = m * 60 * second \<longleftrightarrow> 1 \<le> m \<and> m \<le> 10"
    by (auto simp: execSessionTimeout_def second_def)
  have "equalFold ''super_admin'' ''super_admin''" "streamInteractiveShell ''sh''" by code_simp+
  then show "execSessionTimeout (rs_MaxSessionMinutes (applySuperAdminTerminalDefault
     (exampleRequest ''sh''\<lparr>rq_Role := ''super_admin''\<rparr>) (evaluateTerminalPolicy (exampleRequest ''sh''\<lparr>rq_Role := ''super_admin''\<rparr>) ps))) = 600 * second"
    by (simp add: applySuperAdminTerminalDefault_def exampleRequest_def execSessionTimeout_def)
qed

end
