(* ===== verification/Go_Value.thy ===== *)
theory Go_Value
  imports Complex_Main Prelude
begin

text \<open>
  Decoded JSON as the Go sources hold it, a value of type \<^verbatim>\<open>any\<close>: the constructors are the
  dynamic types the sources test for. A number decoded from JSON is a \<^verbatim>\<open>float64\<close>; it is
  modelled as the rational number it stands for, and \<open>GInt\<close> and \<open>GInt64\<close> are the integer
  types that code, not the decoder, puts into such a map. A \<^verbatim>\<open>map[string]any\<close> is the list of
  its entries. Reading a missing key gives \<^verbatim>\<open>nil\<close>.
\<close>

datatype gval =
    GNil
  | GBool bool
  | GFloat rat
  | GInt int
  | GInt64 int
  | GStr string
  | GList "gval list"
  | GMap "(string \<times> gval) list"

type_synonym gmap = "(string \<times> gval) list"

definition gget :: "gmap \<Rightarrow> string \<Rightarrow> gval" where
  "gget m k = (case map_of m k of None \<Rightarrow> GNil | Some v \<Rightarrow> v)"

definition ghas :: "gmap \<Rightarrow> string \<Rightarrow> bool" where
  "ghas m k \<longleftrightarrow> map_of m k \<noteq> None"

text \<open>Conversion \<^verbatim>\<open>int(t)\<close> of a float64: towards zero.\<close>

definition truncInt :: "rat \<Rightarrow> int" where
  "truncInt q = (if q < 0 then - \<lfloor>- q\<rfloor> else \<lfloor>q\<rfloor>)"

text \<open>Type assertions with the zero value on failure.\<close>

definition asString :: "gval \<Rightarrow> string" where
  "asString v = (case v of GStr s \<Rightarrow> s | _ \<Rightarrow> [])"

definition asMapOpt :: "gval \<Rightarrow> gmap option" where
  "asMapOpt v = (case v of GMap m \<Rightarrow> Some m | _ \<Rightarrow> None)"

definition asListOpt :: "gval \<Rightarrow> gval list option" where
  "asListOpt v = (case v of GList l \<Rightarrow> Some l | _ \<Rightarrow> None)"

text \<open>\<^verbatim>\<open>strconv.Atoi\<close>: an optional sign and decimal digits, in the range of a 64-bit integer.\<close>

fun digitsValue :: "int \<Rightarrow> string \<Rightarrow> int option" where
  "digitsValue acc [] = Some acc"
| "digitsValue acc (c # cs) =
     (if isDigitC c then digitsValue (acc * 10 + (of_char c - 48)) cs else None)"

definition atoi :: "string \<Rightarrow> int option" where
  "atoi s =
     (let (neg, ds) = (case s of c # cs \<Rightarrow> if c = CHR ''-'' then (True, cs) else if c = CHR ''+'' then (False, cs) else (False, s)
                               | [] \<Rightarrow> (False, []))
      in if ds = [] then None
         else (case digitsValue 0 ds of
                 None \<Rightarrow> None
               | Some n \<Rightarrow> let v = (if neg then - n else n) in
                   if - (2 ^ 63) \<le> v \<and> v < 2 ^ 63 then Some v else None))"

text \<open>The verbs \<^verbatim>\<open>%q\<close> (on text whose bytes above 127 form printable runes), \<^verbatim>\<open>%+d\<close> and \<^verbatim>\<open>%t\<close>.\<close>

definition quoteByte :: "char \<Rightarrow> string" where
  "quoteByte c =
     (if c = dquoteC then [backslashC, dquoteC] else if c = backslashC then [backslashC, backslashC]
      else if c = newlineC then [backslashC, CHR ''n''] else if c = tabC then [backslashC, CHR ''t'']
      else if c = returnC then [backslashC, CHR ''r''] else [c])"

definition goQuote :: "string \<Rightarrow> string" where
  "goQuote s = [dquoteC] @ concat (map quoteByte s) @ [dquoteC]"

definition signedDecimal :: "int \<Rightarrow> string" where
  "signedDecimal n = (if n < 0 then itoa n else ''+'' @ itoa n)"

lemma gget_Nil [simp]: "gget [] k = GNil"
  by (simp add: gget_def)

lemma truncInt_int [simp]: "truncInt (of_int n) = n"
  by (simp add: truncInt_def)

lemma digitsValue_nonneg: "digitsValue acc s = Some n \<Longrightarrow> 0 \<le> acc \<Longrightarrow> 0 \<le> n"
proof (induction acc s rule: digitsValue.induct)
  case (1 acc)
  then show ?case by simp
next
  case (2 acc c cs)
  then have d: "isDigitC c" and rec: "digitsValue (acc * 10 + (of_char c - 48)) cs = Some n" by (auto split: if_splits)
  have "(48::nat) \<le> of_char c" using d by (simp add: isDigitC_def Let_def)
  then have "(48::int) \<le> of_char c" by (metis of_nat_le_iff of_nat_numeral of_nat_of_char)
  then have "0 \<le> acc * 10 + (of_char c - 48 :: int)" using "2.prems"(2) by simp
  with "2.IH" [OF d rec] show ?case by simp
qed

end
