(* ===== verification/K8s_Inventory.thy ===== *)
theory K8s_Inventory
  imports Go_Value
begin

text \<open>
  Inventory items, the rows of \<^verbatim>\<open>internal/store/k8s.go\<close> that every analysis reads, and the readers
  of decoded JSON the analyses share (\<^verbatim>\<open>internal/analyzer/connectivity.go\<close>, \<^verbatim>\<open>security.go\<close> and
  \<^verbatim>\<open>workload.go\<close>). The reader \<^verbatim>\<open>str\<close> is \<open>asString\<close> of \<^verbatim>\<open>Go_Value\<close>. A failed type assertion to a
  map or slice is \<^verbatim>\<open>nil\<close>, which reads like the empty one; where the sources compare with
  \<^verbatim>\<open>nil\<close> the model has an option.
\<close>

record K8sInventoryItem =
  iv_ID :: string
  iv_ClusterID :: string
  iv_Kind :: string
  iv_Namespace :: string
  iv_Name :: string
  iv_UID :: string
  iv_APIVersion :: string
  iv_Status :: string
  iv_HealthScore :: int
  iv_RiskLevel :: string
  iv_Spec :: gmap
  iv_StatusObject :: "gmap option"
  iv_Labels :: "(string \<times> string) list"
  iv_Annotations :: "(string \<times> string) list"
  iv_CreationTimestamp :: string
  iv_DeletionTimestamp :: string
  iv_ObservedAt :: string
  iv_UpdatedAt :: string

definition emptyItem :: K8sInventoryItem where
  "emptyItem = \<lparr>iv_ID = [], iv_ClusterID = [], iv_Kind = [], iv_Namespace = [], iv_Name = [], iv_UID = [],
     iv_APIVersion = [], iv_Status = [], iv_HealthScore = 0, iv_RiskLevel = [], iv_Spec = [], iv_StatusObject = None,
     iv_Labels = [], iv_Annotations = [], iv_CreationTimestamp = [],
     iv_DeletionTimestamp = [], iv_ObservedAt = [], iv_UpdatedAt = []\<rparr>"

definition asAnySlice :: "gval \<Rightarrow> gval list" where
  "asAnySlice v = (case v of GList l \<Rightarrow> l | _ \<Rightarrow> [])"

definition asAnyMap :: "gval \<Rightarrow> gmap" where
  "asAnyMap v = (case v of GMap m \<Rightarrow> m | _ \<Rightarrow> [])"

definition asBool :: "gval \<Rightarrow> bool" where
  "asBool v = (case v of GBool b \<Rightarrow> b | _ \<Rightarrow> False)"

text \<open>\<^verbatim>\<open>strings.ToUpper\<close> on ASCII bytes.\<close>

definition toUpperC :: "char \<Rightarrow> char" where
  "toUpperC c = (let n = (of_char c :: nat) in if 97 \<le> n \<and> n \<le> 122 then char_of (n - 32) else c)"

definition toUpper :: "string \<Rightarrow> string" where
  "toUpper s = map toUpperC s"

definition stringSlice :: "gval \<Rightarrow> string list" where
  "stringSlice v = concat (map (\<lambda>x. case x of GStr s \<Rightarrow> [s] | _ \<Rightarrow> []) (asAnySlice v))"

text \<open>\<open>scanDecimal\<close> is \<^verbatim>\<open>fmt.Sscanf(s, "%d", &n)\<close> on trimmed text: a sign and the longest run of
  digits; the target keeps its zero when there is no digit or the value leaves 64 bits.\<close>

definition scanDecimal :: "string \<Rightarrow> int" where
  "scanDecimal s =
     (let (neg, ds) = (case s of c # cs \<Rightarrow> if c = CHR ''-'' then (True, cs) else if c = CHR ''+'' then (False, cs) else (False, s)
                               | [] \<Rightarrow> (False, []));
          run = takeWhile isDigitC ds in
      case atoi ((if neg then ''-'' else []) @ run) of None \<Rightarrow> 0 | Some n \<Rightarrow> n)"

definition numVal :: "gval \<Rightarrow> int" where
  "numVal v = (case v of GFloat q \<Rightarrow> truncInt q | GInt n \<Rightarrow> n | GInt64 n \<Rightarrow> n
     | GStr s \<Rightarrow> scanDecimal (trimSpace s) | _ \<Rightarrow> 0)"

lemma asAny_GNil [simp]: "asAnySlice GNil = []" "asAnyMap GNil = []" "asBool GNil = False" "stringSlice GNil = []"
  by (simp_all add: asAnySlice_def asAnyMap_def asBool_def stringSlice_def)

end
