(* ===== verification/Action_Impact.thy ===== *)
theory Action_Impact
  imports K8s_Inventory
begin

text \<open>
  The read-only side of the Action Center: \<^verbatim>\<open>internal/action/k8s.go\<close> (classification of an
  action and the check that its target kind is the one the executor addresses) and
  \<^verbatim>\<open>internal/action/impact.go\<close> (the impact preview that an approver reads), with the pod
  owner lookup of \<^verbatim>\<open>internal/analyzer/podowner.go\<close> and the parameter reader of the executor
  in \<^verbatim>\<open>internal/proxy/admin_k8s.go\<close>.
\<close>

section \<open>Classification\<close>

record Decision =
  de_RiskLevel :: string
  de_RequiresApproval :: bool
  de_DryRunRequired :: bool
  de_Reason :: string

definition mkDecision :: "string \<Rightarrow> bool \<Rightarrow> string \<Rightarrow> Decision" where
  "mkDecision risk approval reason =
     \<lparr>de_RiskLevel = risk, de_RequiresApproval = approval, de_DryRunRequired = True, de_Reason = reason\<rparr>"

definition Classify :: "string \<Rightarrow> Decision" where
  "Classify action =
     (let name = toLower (trimSpace action) in
      if name = ''scale'' \<or> name = ''rollout_restart'' then mkDecision ''medium'' False ''workload-scoped reversible action''
      else if name = ''jupyter_server_start'' \<or> name = ''jupyter_server_stop''
      then mkDecision ''medium'' True ''user-scoped JupyterHub server lifecycle action''
      else if name = ''cordon'' \<or> name = ''uncordon'' then mkDecision ''high'' True ''node scheduling state change''
      else if name = ''delete_pod'' then mkDecision ''high'' True ''destructive pod lifecycle action''
      else if name = ''drain'' then mkDecision ''critical'' True ''node drain can evict many workloads''
      else if name = ''apply_manifest'' then mkDecision ''high'' True ''manifest mutation requires server-side dry-run review''
      else mkDecision ''medium'' True ''unknown or custom action requires operator approval'')"

lemma Classify_level: "de_RiskLevel (Classify action) \<noteq> []"
  by (simp add: Classify_def mkDecision_def Let_def)

section \<open>The kind an action addresses\<close>

definition beforeFirst :: "char \<Rightarrow> string \<Rightarrow> string" where
  "beforeFirst c k = (case index k [c] of None \<Rightarrow> k | Some i \<Rightarrow> if i > 0 then take i k else k)"

definition normalizeKind :: "string \<Rightarrow> string" where
  "normalizeKind kind =
     (let k = beforeFirst (CHR ''.'') (afterLast (CHR ''/'') (toLower (trimSpace kind))) in
      if k \<in> set [''deploy'', ''deployment'', ''deployments''] then ''deployment''
      else if k \<in> set [''sts'', ''statefulset'', ''statefulsets''] then ''statefulset''
      else if k \<in> set [''ds'', ''daemonset'', ''daemonsets''] then ''daemonset''
      else if k \<in> set [''po'', ''pod'', ''pods''] then ''pod''
      else if k \<in> set [''no'', ''node'', ''nodes''] then ''node''
      else k)"

definition kindMismatch :: "string \<Rightarrow> string \<Rightarrow> string \<Rightarrow> string" where
  "kindMismatch action want got =
     action @ (utf8 [0xC740] @ '' '') @ want @ (utf8 [0xB9CC, 0x20, 0xB300, 0xC0C1, 0xC73C, 0xB85C, 0x20, 0xD560, 0x20, 0xC218, 0x20, 0xC788, 0xB294, 0xB370, 0x20, 0xC694, 0xCCAD, 0x20, 0xB300, 0xC0C1] @ '' kind'' @ utf8 [0xB294] @ '' '') @ goQuote (trimSpace got) @
     (utf8 [0xC785, 0xB2C8, 0xB2E4, 0x20, 0x2014, 0x20, 0xC2B9, 0xC778, 0x20, 0xAE30, 0xB85D, 0xACFC, 0x20, 0xB2E4, 0xB978, 0x20, 0xB9AC, 0xC18C, 0xC2A4, 0xAC00, 0x20, 0xBCC0, 0xACBD, 0xB420, 0x20, 0xC218, 0x20, 0xC788, 0xC2B5, 0xB2C8, 0xB2E4] @ ''.'')"

definition TargetKindIssue :: "string \<Rightarrow> string \<Rightarrow> string" where
  "TargetKindIssue actionName kind =
     (let k = normalizeKind kind; name = toLower (trimSpace actionName) in
      if k = [] then []
      else if name = ''scale''
      then (if k = ''deployment'' \<or> k = ''statefulset'' then []
            else if k = ''daemonset''
            then (''scale'' @ utf8 [0xC740] @ '' DaemonSet'' @ utf8 [0xC5D0, 0x20, 0xC801, 0xC6A9, 0xD560, 0x20, 0xC218, 0x20, 0xC5C6, 0xC2B5, 0xB2C8, 0xB2E4, 0x20, 0x2014, 0x20, 0xB178, 0xB4DC, 0xB9C8, 0xB2E4] @ '' 1'' @ utf8 [0xAC1C, 0xC529, 0x20, 0xC2E4, 0xD589, 0xB418, 0xC5B4] @ '' replicas'' @ utf8 [0xAC00, 0x20, 0xC5C6, 0xC2B5, 0xB2C8, 0xB2E4] @ ''('' @ utf8 [0xC2E4, 0xD589, 0xAE30, 0xAC00, 0x20, 0xAC70, 0xC808, 0xD569, 0xB2C8, 0xB2E4] @ '').'')
            else kindMismatch ''scale'' ''Deployment/StatefulSet'' kind)
      else if name = ''rollout_restart''
      then (if k = ''deployment'' \<or> k = ''statefulset'' \<or> k = ''daemonset'' then []
            else kindMismatch ''rollout_restart'' ''Deployment/StatefulSet/DaemonSet'' kind)
      else if name = ''delete_pod''
      then (if k = ''pod'' then [] else kindMismatch ''delete_pod'' ''Pod'' kind)
      else if name = ''cordon'' \<or> name = ''uncordon'' \<or> name = ''drain''
      then (if k = ''node'' then [] else kindMismatch name ''Node'' kind)
      else [])"

definition TargetKindIssueErr :: "string \<Rightarrow> string \<Rightarrow> string option" where
  "TargetKindIssueErr actionName kind =
     (let issue = TargetKindIssue actionName kind in if issue \<noteq> [] then Some issue else None)"

section \<open>Inventory\<close>

definition PodOwnerReference :: "gmap \<Rightarrow> string \<times> string" where
  "PodOwnerReference spec =
     (let refs = map asAnyMap (asAnySlice (gget spec ''ownerReferences''));
          pick = (\<lambda>m. (asString (gget m ''kind''), asString (gget m ''name''))) in
      case find (\<lambda>m. asBool (gget m ''controller'') \<and> asString (gget m ''kind'') \<noteq> []) refs of
        Some m \<Rightarrow> pick m
      | None \<Rightarrow> (case find (\<lambda>m. asString (gget m ''kind'') \<noteq> []) refs of Some m \<Rightarrow> pick m | None \<Rightarrow> ([], [])))"

definition PodControllerKind :: "gmap \<Rightarrow> (string \<times> string) list \<Rightarrow> string" where
  "PodControllerKind spec labels =
     (let kind = fst (PodOwnerReference spec); has = (\<lambda>k. map_of labels k \<noteq> None) in
      if kind \<noteq> [] then kind
      else if has ''statefulset.kubernetes.io/pod-name'' then ''StatefulSet''
      else if has ''pod-template-hash'' then ''ReplicaSet''
      else if has ''controller-revision-hash'' then ''DaemonSet''
      else if has ''job-name'' \<or> has ''batch.kubernetes.io/job-name'' then ''Job''
      else [])"

definition podControllerKind :: "K8sInventoryItem \<Rightarrow> string" where
  "podControllerKind pod = PodControllerKind (iv_Spec pod) (iv_Labels pod)"

definition podControllerOwned :: "K8sInventoryItem \<Rightarrow> bool" where
  "podControllerOwned pod \<longleftrightarrow> podControllerKind pod \<noteq> []"

definition hasLocalStorage :: "K8sInventoryItem \<Rightarrow> bool" where
  "hasLocalStorage pod =
     list_ex (\<lambda>raw. case asMapOpt raw of None \<Rightarrow> False | Some v \<Rightarrow> ghas v ''emptyDir'' \<or> ghas v ''hostPath'')
       (asAnySlice (gget (iv_Spec pod) ''volumes''))"

definition podsOnNode :: "string \<Rightarrow> K8sInventoryItem list \<Rightarrow> K8sInventoryItem list" where
  "podsOnNode node all = filter (\<lambda>it. iv_Kind it = ''Pod'' \<and> asString (gget (iv_Spec it) ''nodeName'') = node) all"

fun namespacesFrom :: "string list \<Rightarrow> K8sInventoryItem list \<Rightarrow> string list" where
  "namespacesFrom seen [] = []"
| "namespacesFrom seen (p # ps) =
     (if iv_Namespace p \<in> set seen then namespacesFrom seen ps
      else iv_Namespace p # namespacesFrom (iv_Namespace p # seen) ps)"

definition namespaceList :: "K8sInventoryItem list \<Rightarrow> string list" where
  "namespaceList pods = namespacesFrom [] pods"

definition countNamespaces :: "K8sInventoryItem list \<Rightarrow> nat" where
  "countNamespaces pods = length (namespaceList pods)"

section \<open>Parameters\<close>

definition num :: "gval \<Rightarrow> int" where
  "num v = (case v of GFloat q \<Rightarrow> truncInt q | GInt n \<Rightarrow> n | GInt64 n \<Rightarrow> n | _ \<Rightarrow> 0)"

definition currentReplicas :: "K8sInventoryItem \<Rightarrow> int" where
  "currentReplicas it =
     (if ghas (iv_Spec it) ''replicas'' then num (gget (iv_Spec it) ''replicas'')
      else (case iv_StatusObject it of None \<Rightarrow> 0 | Some st \<Rightarrow> num (gget st ''replicas'')))"

text \<open>The preview's reader; \<open>None\<close> is the result that is not ok.\<close>

definition replicaParam :: "gval \<Rightarrow> int option" where
  "replicaParam v =
     (let n = (case v of GFloat q \<Rightarrow> Some (truncInt q) | GInt i \<Rightarrow> Some i | GInt64 i \<Rightarrow> Some i
                       | GStr s \<Rightarrow> atoi (trimSpace s) | _ \<Rightarrow> None) in
      case n of None \<Rightarrow> None | Some i \<Rightarrow> if i \<ge> 0 then Some i else None)"

text \<open>The executor's reader.\<close>

definition intFromParams :: "gmap \<Rightarrow> string \<Rightarrow> int \<Rightarrow> int" where
  "intFromParams params key fallback =
     (case gget params key of
        GFloat q \<Rightarrow> truncInt q
      | GInt i \<Rightarrow> i
      | GStr s \<Rightarrow> (case atoi (trimSpace s) of Some n \<Rightarrow> n | None \<Rightarrow> fallback)
      | _ \<Rightarrow> fallback)"

definition keysOf :: "gmap \<Rightarrow> string list" where
  "keysOf m = sort (map fst m)"

section \<open>Impact\<close>

record Impact =
  im_Summary :: string
  im_Blockers :: "string list"
  im_Details :: gmap

definition mkImpact :: "string \<Rightarrow> string list \<Rightarrow> gmap \<Rightarrow> Impact" where
  "mkImpact summary blockers details = \<lparr>im_Summary = summary, im_Blockers = blockers, im_Details = details\<rparr>"

definition unobservedTarget :: string where
  "unobservedTarget = (utf8 [0xB300, 0xC0C1, 0xC774, 0x20, 0xC218, 0xC9D1, 0xB41C, 0x20, 0xC778, 0xBCA4, 0xD1A0, 0xB9AC, 0xC5D0, 0x20, 0xC5C6, 0xC2B5, 0xB2C8, 0xB2E4, 0x20, 0x2014, 0x20, 0xD604, 0xC7AC, 0x20, 0xC0C1, 0xD0DC, 0xB97C, 0x20, 0xD655, 0xC778, 0xD560, 0x20, 0xC218, 0x20, 0xC5C6, 0xC5B4, 0x20, 0xC601, 0xD5A5, 0xB3C4, 0xB97C, 0x20, 0xC694, 0xCCAD, 0x20, 0xAC12, 0xB9CC, 0xC73C, 0xB85C, 0x20, 0xC0B0, 0xCD9C, 0xD588, 0xC2B5, 0xB2C8, 0xB2E4] @ ''.'')"

definition itoaN :: "nat \<Rightarrow> string" where
  "itoaN n = itoa (int n)"

definition scaleImpact :: "gmap \<Rightarrow> K8sInventoryItem \<Rightarrow> bool \<Rightarrow> Impact" where
  "scaleImpact params target observed =
     (let cur = currentReplicas target;
          curText = (if observed then itoa cur else (utf8 [0xBBF8, 0xD655, 0xC778]));
          curDetail = (if observed then GInt cur else GNil) in
      case replicaParam (gget params ''replicas'') of
        None \<Rightarrow>
          mkImpact (iv_Kind target @ ''/'' @ iv_Name target @ ('' scale '' @ utf8 [0x2014] @ '' replicas '' @ utf8 [0xAC12, 0xC744, 0x20, 0xC77D, 0xC744, 0x20, 0xC218, 0x20, 0xC5C6, 0xC5B4, 0x20, 0xC601, 0xD5A5, 0xB3C4, 0xB97C, 0x20, 0xC0B0, 0xCD9C, 0xD560, 0x20, 0xC218, 0x20, 0xC5C6, 0xC2B5, 0xB2C8, 0xB2E4] @ ''('' @ utf8 [0xD604, 0xC7AC] @ '' '') @ curText @ '').'')
            [(''replicas '' @ utf8 [0xD30C, 0xB77C, 0xBBF8, 0xD130, 0xAC00, 0x20, 0xC5C6, 0xAC70, 0xB098] @ '' 0 '' @ utf8 [0xC774, 0xC0C1, 0xC758, 0x20, 0xC815, 0xC218, 0xAC00, 0x20, 0xC544, 0xB2D9, 0xB2C8, 0xB2E4, 0x20, 0x2014, 0x20, 0xC2E4, 0xD589, 0xAE30, 0xAC00, 0x20, 0xAC70, 0xC808, 0xD569, 0xB2C8, 0xB2E4] @ ''.'')]
            [(''current_replicas'', curDetail), (''desired_replicas'', GNil)]
      | Some desired \<Rightarrow>
          let summary = (if observed
                then ''replicas '' @ itoa cur @ ('' '' @ utf8 [0x2192] @ '' '') @ itoa desired @ '' ('' @ signedDecimal (desired - cur) @ '')''
                else ''replicas '' @ curText @ ('' '' @ utf8 [0x2192] @ '' '') @ itoa desired) in
          if desired = 0
          then mkImpact (summary @ ('' '' @ utf8 [0x2014] @ '' replica 0'' @ utf8 [0xC740, 0x20, 0xC6CC, 0xD06C, 0xB85C, 0xB4DC, 0xB97C, 0x20, 0xC804, 0xBA74, 0x20, 0xC911, 0xB2E8, 0xC2DC, 0xD0B5, 0xB2C8, 0xB2E4] @ ''.''))
                 [(''replicas 0'' @ utf8 [0xC73C, 0xB85C, 0xC758, 0x20, 0xCD95, 0xC18C, 0xB294, 0x20, 0xC11C, 0xBE44, 0xC2A4, 0x20, 0xC804, 0xBA74, 0x20, 0xC911, 0xB2E8, 0xC774, 0xB77C, 0x20, 0xC2B9, 0xC778, 0xC774, 0x20, 0xD544, 0xC694, 0xD569, 0xB2C8, 0xB2E4] @ ''.'')]
                 [(''current_replicas'', curDetail), (''desired_replicas'', GInt desired)]
          else mkImpact summary [] [(''current_replicas'', curDetail), (''desired_replicas'', GInt desired)])"

definition restartImpact :: "K8sInventoryItem \<Rightarrow> Impact" where
  "restartImpact target =
     mkImpact (iv_Kind target @ ''/'' @ iv_Name target @ ('' '' @ utf8 [0xC758, 0x20, 0xBAA8, 0xB4E0] @ '' Pod'' @ utf8 [0xAC00, 0x20, 0xC21C, 0xCC28, 0x20, 0xC7AC, 0xC0DD, 0xC131, 0xB429, 0xB2C8, 0xB2E4] @ ''(rolling).'')) []
       [(''strategy'', GStr ''rolling restart'')]"

definition deletePodImpact :: "K8sInventoryItem \<Rightarrow> bool \<Rightarrow> Impact" where
  "deletePodImpact target observed =
     (if \<not> observed
      then mkImpact (''Pod '' @ iv_Name target @ ('' '' @ utf8 [0xC0AD, 0xC81C, 0x20, 0x2014, 0x20, 0xCEE8, 0xD2B8, 0xB864, 0xB7EC, 0x20, 0xC7AC, 0xC0DD, 0xC131, 0x20, 0xC5EC, 0xBD80, 0xB97C, 0x20, 0xD655, 0xC778, 0xD560, 0x20, 0xC218, 0x20, 0xC5C6, 0xC2B5, 0xB2C8, 0xB2E4] @ ''.'')) [] [(''controller_owned'', GNil)]
      else
        let owned = podControllerOwned target; summary = ''Pod '' @ iv_Name target @ ('' '' @ utf8 [0xC0AD, 0xC81C]) in
        if owned
        then mkImpact (summary @ ('' '' @ utf8 [0x2014] @ '' controller'' @ utf8 [0xAC00, 0x20, 0xC790, 0xB3D9, 0xC73C, 0xB85C, 0x20, 0xC7AC, 0xC0DD, 0xC131, 0xD569, 0xB2C8, 0xB2E4] @ ''.'')) [] [(''controller_owned'', GBool True)]
        else mkImpact (summary @ ('' '' @ utf8 [0x2014] @ '' standalone Pod'' @ utf8 [0xC774, 0xB77C, 0x20, 0xC790, 0xB3D9, 0x20, 0xC7AC, 0xC0DD, 0xC131, 0xB418, 0xC9C0, 0x20, 0xC54A, 0xC2B5, 0xB2C8, 0xB2E4] @ ''.''))
               [(''standalone Pod '' @ utf8 [0xC0AD, 0xC81C, 0xB294, 0x20, 0xC2B9, 0xC778, 0xC774, 0x20, 0xD544, 0xC694, 0xD569, 0xB2C8, 0xB2E4] @ ''('' @ utf8 [0xC790, 0xB3D9, 0x20, 0xBCF5, 0xAD6C, 0x20, 0xC5C6, 0xC74C] @ '').'')] [(''controller_owned'', GBool False)])"

definition nodeDetails :: "K8sInventoryItem list \<Rightarrow> gmap" where
  "nodeDetails pods = [(''running_pods'', GInt (int (length pods))), (''namespaces'', GList (map GStr (namespaceList pods)))]"

definition cordonImpact :: "K8sInventoryItem \<Rightarrow> K8sInventoryItem list \<Rightarrow> Impact" where
  "cordonImpact target all =
     (let pods = podsOnNode (iv_Name target) all in
      mkImpact ((utf8 [0xB178, 0xB4DC] @ '' '') @ iv_Name target @ ('' cordon: '' @ utf8 [0xC2E0, 0xADDC, 0x20, 0xC2A4, 0xCF00, 0xC904, 0xB9CC, 0x20, 0xCC28, 0xB2E8, 0xD569, 0xB2C8, 0xB2E4] @ ''. '' @ utf8 [0xD604, 0xC7AC, 0x20, 0xC2E4, 0xD589, 0x20, 0xC911, 0xC778] @ '' '') @ itoaN (length pods) @
          (utf8 [0xAC1C] @ '' Pod('') @ itoaN (countNamespaces pods) @ (utf8 [0xAC1C] @ '' namespace)'' @ utf8 [0xB294] @ '' evict'' @ utf8 [0xB418, 0xC9C0, 0x20, 0xC54A, 0xACE0, 0x20, 0xADF8, 0xB300, 0xB85C, 0x20, 0xC720, 0xC9C0, 0xB429, 0xB2C8, 0xB2E4] @ ''.'')) [] (nodeDetails pods))"

definition uncordonImpact :: "K8sInventoryItem \<Rightarrow> K8sInventoryItem list \<Rightarrow> Impact" where
  "uncordonImpact target all =
     (let pods = podsOnNode (iv_Name target) all in
      mkImpact ((utf8 [0xB178, 0xB4DC] @ '' '') @ iv_Name target @ ('' uncordon: '' @ utf8 [0xC2E0, 0xADDC, 0x20, 0xC2A4, 0xCF00, 0xC904, 0xC744, 0x20, 0xB2E4, 0xC2DC, 0x20, 0xD5C8, 0xC6A9, 0xD569, 0xB2C8, 0xB2E4] @ ''. '' @ utf8 [0xD604, 0xC7AC, 0x20, 0xC2E4, 0xD589, 0x20, 0xC911, 0xC778] @ '' '') @ itoaN (length pods) @
          (utf8 [0xAC1C] @ '' Pod('') @ itoaN (countNamespaces pods) @ (utf8 [0xAC1C] @ '' namespace)'' @ utf8 [0xB294, 0x20, 0xC601, 0xD5A5, 0xBC1B, 0xC9C0, 0x20, 0xC54A, 0xC2B5, 0xB2C8, 0xB2E4] @ ''.'')) [] (nodeDetails pods))"

definition drainImpact :: "K8sInventoryItem \<Rightarrow> K8sInventoryItem list \<Rightarrow> Impact" where
  "drainImpact target all =
     (let pods = podsOnNode (iv_Name target) all;
          evicted = filter (\<lambda>p. podControllerKind p \<noteq> ''DaemonSet'') pods;
          ds = length (filter (\<lambda>p. podControllerKind p = ''DaemonSet'') pods);
          local = length (filter hasLocalStorage evicted) in
      mkImpact ((utf8 [0xB178, 0xB4DC] @ '' '') @ iv_Name target @ '' drain: '' @ itoaN (length evicted) @ (utf8 [0xAC1C] @ '' Pod evict(local-storage '') @ itoaN local @
          ''), DaemonSet Pod '' @ itoaN ds @
          (utf8 [0xAC1C, 0xB294] @ '' evict '' @ utf8 [0xB300, 0xC0C1, 0xC774, 0x20, 0xC544, 0xB2D9, 0xB2C8, 0xB2E4] @ ''. PDB'' @ utf8 [0xB294, 0x20, 0xC774, 0x20, 0xBBF8, 0xB9AC, 0xBCF4, 0xAE30, 0xC5D0, 0xC11C, 0x20, 0xD3C9, 0xAC00, 0xD558, 0xC9C0, 0x20, 0xC54A, 0xC73C, 0xB2C8, 0x20, 0xB178, 0xB4DC] @ '' drain '' @ utf8 [0xC601, 0xD5A5, 0x20, 0xBD84, 0xC11D, 0xC5D0, 0xC11C, 0x20, 0xD655, 0xC778, 0x20, 0xD544, 0xC694] @ ''.''))
        ((''drain'' @ utf8 [0xC740, 0x20, 0xB2E4, 0xC218, 0x20, 0xC6CC, 0xD06C, 0xB85C, 0xB4DC, 0xB97C] @ '' evict'' @ utf8 [0xD560, 0x20, 0xC218, 0x20, 0xC788, 0xC5B4, 0x20, 0xC2B9, 0xC778, 0xC774, 0x20, 0xD544, 0xC694, 0xD569, 0xB2C8, 0xB2E4] @ ''.'') #
          (if local > 0 then [''local storage(emptyDir/hostPath) Pod '' @ itoaN local @ (utf8 [0xAC1C, 0xC758, 0x20, 0xB370, 0xC774, 0xD130, 0xAC00, 0x20, 0xC720, 0xC2E4, 0xB420, 0x20, 0xC218, 0x20, 0xC788, 0xC2B5, 0xB2C8, 0xB2E4] @ ''.'')] else []))
        [(''affected_pods'', GInt (int (length evicted))), (''local_storage_pods'', GInt (int local)),
         (''daemonset_pods'', GInt (int ds)), (''namespaces'', GList (map GStr (namespaceList evicted)))])"

definition patchImpact :: "gmap \<Rightarrow> K8sInventoryItem \<Rightarrow> Impact" where
  "patchImpact params target =
     (let bad = sort (filter (\<lambda>k. toLower k \<notin> set [''image'', ''replicas'', ''annotations'']) (map fst params)) in
      mkImpact (iv_Kind target @ ''/'' @ iv_Name target @ ('' patch ('' @ utf8 [0xD5C8, 0xC6A9, 0x20, 0xD544, 0xB4DC] @ '': image/replicas/annotations)''))
        (if bad \<noteq> [] then [(utf8 [0xD5C8, 0xC6A9, 0xB418, 0xC9C0, 0x20, 0xC54A, 0xC740] @ '' patch '' @ utf8 [0xD544, 0xB4DC] @ '': '') @ joinWith '', '' bad] else [])
        [(''fields'', GList (map GStr (keysOf params)))])"

definition assessImpact :: "string \<Rightarrow> gmap \<Rightarrow> K8sInventoryItem \<Rightarrow> bool \<Rightarrow> K8sInventoryItem list \<Rightarrow> Impact" where
  "assessImpact name params target observed all =
     (if name = ''scale'' then scaleImpact params target observed
      else if name = ''rollout_restart'' then restartImpact target
      else if name = ''delete_pod'' then deletePodImpact target observed
      else if name = ''cordon'' then cordonImpact target all
      else if name = ''uncordon'' then uncordonImpact target all
      else if name = ''drain'' then drainImpact target all
      else if name = ''patch'' \<or> name = ''apply_manifest'' then patchImpact params target
      else mkImpact (utf8 [0xC0AC, 0xC6A9, 0xC790, 0x20, 0xC815, 0xC758, 0x20, 0xC561, 0xC158, 0x20, 0x2014, 0x20, 0xC601, 0xD5A5, 0xB3C4, 0xB97C, 0x20, 0xC790, 0xB3D9, 0x20, 0xC0B0, 0xCD9C, 0xD560, 0x20, 0xC218, 0x20, 0xC5C6, 0xC2B5, 0xB2C8, 0xB2E4] @ ''.'') [(utf8 [0xC54C, 0x20, 0xC218, 0x20, 0xC5C6, 0xB294, 0x20, 0xC561, 0xC158, 0xC740, 0x20, 0xC2B9, 0xC778, 0xC774, 0x20, 0xD544, 0xC694, 0xD569, 0xB2C8, 0xB2E4] @ ''.'')] [])"

definition AssessImpact :: "string \<Rightarrow> gmap \<Rightarrow> K8sInventoryItem \<Rightarrow> bool \<Rightarrow> K8sInventoryItem list \<Rightarrow> Impact" where
  "AssessImpact actionName params target observed all =
     (let name = toLower (trimSpace actionName);
          imp = assessImpact name params target observed all;
          issue = TargetKindIssue name (iv_Kind target);
          imp1 = (if issue \<noteq> [] then imp\<lparr>im_Blockers := issue # im_Blockers imp\<rparr> else imp) in
      if observed then imp1
      else imp1\<lparr>im_Summary := im_Summary imp1 @ ('' ('' @ utf8 [0xB300, 0xC0C1, 0xC774, 0x20, 0xC778, 0xBCA4, 0xD1A0, 0xB9AC, 0xC5D0, 0x20, 0xC5C6, 0xC5B4, 0x20, 0xD604, 0xC7AC, 0x20, 0xC0C1, 0xD0DC, 0xB294, 0x20, 0xBBF8, 0xD655, 0xC778, 0xC785, 0xB2C8, 0xB2E4] @ ''.)''),
                im_Blockers := im_Blockers imp1 @ [unobservedTarget]\<rparr>)"

section \<open>Properties\<close>

text \<open>
  C24. The approver sees what will run: for every parameter value that JSON decoding can
  produce, the replica count the impact preview shows is the one the executor will apply, and
  the preview reports an unreadable value precisely when the executor refuses the request. A
  Go \<open>int64\<close>, which the preview accepts and the executor does not, is the exception.
\<close>

theorem scale_preview_is_what_runs:
  assumes "case gget params ''replicas'' of GInt64 _ \<Rightarrow> False | _ \<Rightarrow> True"
  shows "replicaParam (gget params ''replicas'') =
    (if intFromParams params ''replicas'' (-1) \<ge> 0 then Some (intFromParams params ''replicas'' (-1)) else None)"
  using assms by (auto simp: replicaParam_def intFromParams_def Let_def split: gval.splits option.splits)

theorem scale_preview_is_what_runs_witness:
  "replicaParam (gget [(''replicas'', GStr '' 3'')] ''replicas'') = Some 3 \<and>
   replicaParam (GInt64 5) = Some 5 \<and> intFromParams [(''replicas'', GInt64 5)] ''replicas'' (-1) = -1"
proof (intro conjI)
  have "intFromParams [(''replicas'', GStr '' 3'')] ''replicas'' (-1) = 3" by code_simp
  then show "replicaParam (gget [(''replicas'', GStr '' 3'')] ''replicas'') = Some 3"
    using scale_preview_is_what_runs [of "[(''replicas'', GStr '' 3'')]"] by (simp add: gget_def)
  show "replicaParam (GInt64 5) = Some 5" "intFromParams [(''replicas'', GInt64 5)] ''replicas'' (-1) = -1" by code_simp+
qed

text \<open>
  Nothing surprising is waved through: the impact preview has no blocker only for a
  target that was observed and whose kind the action addresses, and only for a scale to at
  least one replica, a rolling restart, a cordon or uncordon, the deletion of a pod that a
  controller recreates, or a patch that names allowed fields only.
\<close>

theorem unblocked_impacts:
  "im_Blockers (AssessImpact actionName params target observed all) = [] \<longleftrightarrow>
     observed \<and> TargetKindIssue actionName (iv_Kind target) = [] \<and>
     (let name = toLower (trimSpace actionName) in
      (name = ''scale'' \<and> (case replicaParam (gget params ''replicas'') of Some n \<Rightarrow> 0 < n | None \<Rightarrow> False)) \<or>
      (name \<in> {''rollout_restart'', ''cordon'', ''uncordon''}) \<or>
      (name = ''delete_pod'' \<and> podControllerOwned target) \<or>
      (name \<in> {''patch'', ''apply_manifest''} \<and>
        list_all (\<lambda>k. toLower k \<in> set [''image'', ''replicas'', ''annotations'']) (map fst params)))"
proof -
  let ?n = "toLower (trimSpace actionName)"
  have lower_trim: "toLower (trimSpace ?n) = ?n"
    by (metis toLower_idem trimSpace_idem trimSpace_toLower)
  have issue: "TargetKindIssue ?n (iv_Kind target) = TargetKindIssue actionName (iv_Kind target)"
    by (simp add: TargetKindIssue_def lower_trim)
  have replica: "replicaParam v = Some n \<Longrightarrow> 0 \<le> n" for v n
    by (auto simp: replicaParam_def Let_def split: option.splits if_splits)
  have scale: "im_Blockers (scaleImpact params target obs) = [] \<longleftrightarrow>
      (case replicaParam (gget params ''replicas'') of Some n \<Rightarrow> 0 < n | None \<Rightarrow> False)" for obs
  proof (cases "replicaParam (gget params ''replicas'')")
    case None
    then show ?thesis by (simp add: scaleImpact_def mkImpact_def Let_def)
  next
    case (Some n)
    from replica [OF this] Some show ?thesis by (simp add: scaleImpact_def mkImpact_def Let_def)
  qed
  have patch: "im_Blockers (patchImpact params target) = [] \<longleftrightarrow>
      list_all (\<lambda>k. toLower k \<in> set [''image'', ''replicas'', ''annotations'']) (map fst params)"
    unfolding patchImpact_def mkImpact_def Let_def
    by (simp add: filter_empty_conv list_all_iff flip: set_empty)
  have del: "im_Blockers (deletePodImpact target True) = [] \<longleftrightarrow> podControllerOwned target"
    by (simp add: deletePodImpact_def mkImpact_def Let_def)
  have rest: "im_Blockers (restartImpact target) = []" "im_Blockers (cordonImpact target all) = []"
    "im_Blockers (uncordonImpact target all) = []" "im_Blockers (drainImpact target all) \<noteq> []"
    by (simp_all add: restartImpact_def cordonImpact_def uncordonImpact_def drainImpact_def mkImpact_def Let_def)
  have base: "observed \<Longrightarrow> im_Blockers (assessImpact ?n params target observed all) = [] \<longleftrightarrow>
      (?n = ''scale'' \<and> (case replicaParam (gget params ''replicas'') of Some n \<Rightarrow> 0 < n | None \<Rightarrow> False)) \<or>
      (?n \<in> {''rollout_restart'', ''cordon'', ''uncordon''}) \<or> (?n = ''delete_pod'' \<and> podControllerOwned target) \<or>
      (?n \<in> {''patch'', ''apply_manifest''} \<and>
        list_all (\<lambda>k. toLower k \<in> set [''image'', ''replicas'', ''annotations'']) (map fst params))"
    unfolding assessImpact_def
    by (simp add: scale patch del rest mkImpact_def)
  show ?thesis
    using base by (auto simp: AssessImpact_def Let_def issue)
qed

end
