(* ===== verification/Action_Center.thy ===== *)
theory Action_Center
  imports Action_Impact Row_Store Admin_Http
begin

text \<open>
  The Action Center: action requests in \<^verbatim>\<open>internal/store/k8s.go\<close> and the handlers of
  \<^verbatim>\<open>internal/proxy/admin_k8s.go\<close> that create, approve, reject and execute them. Execution is cut
  at the call into the cluster: \<open>actionBegin\<close> claims the request, \<open>dispatchAction\<close> is the
  command the claimed request sends to the cluster, \<open>actionFinish\<close> records the outcome. The
  cluster's answer, the digest of the command, the resource version read from the target and
  whether the cluster and its client exist are inputs; JupyterHub actions, which another
  executor runs, are not covered; requests linked to a rollout are the subject of the rollout theories.
\<close>

section \<open>Requests and their store\<close>

record K8sActionRequest =
  ac_ID :: string
  ac_ClusterID :: string
  ac_Namespace :: string
  ac_ResourceKind :: string
  ac_ResourceName :: string
  ac_Action :: string
  ac_Parameters :: gmap
  ac_RiskLevel :: string
  ac_Status :: string
  ac_RequestedBy :: string
  ac_ApprovedBy :: string
  ac_ExecutedBy :: string
  ac_Result :: string
  ac_DryRunDiff :: string
  ac_IdempotencyKey :: string
  ac_TargetUID :: string
  ac_TargetResourceVersion :: string
  ac_CommandHash :: string
  ac_CreatedAt :: string
  ac_UpdatedAt :: string
  ac_ApprovedAt :: string
  ac_ExecutedAt :: string

type_synonym action_table = "K8sActionRequest table"

definition actionDefaults :: "string \<Rightarrow> K8sActionRequest \<Rightarrow> K8sActionRequest" where
  "actionDefaults now a =
     a\<lparr>ac_CreatedAt := (if ac_CreatedAt a = [] then now else ac_CreatedAt a),
       ac_UpdatedAt := (if ac_UpdatedAt a = [] then now else ac_UpdatedAt a),
       ac_RiskLevel := (if ac_RiskLevel a = [] then ''medium'' else ac_RiskLevel a),
       ac_Status := (if ac_Status a = [] then ''pending'' else ac_Status a)\<rparr>"

text \<open>Besides the primary key, a unique index forbids two rows with the same non-empty
  idempotency key.\<close>

definition insertK8sActionRequest :: "string \<Rightarrow> K8sActionRequest \<Rightarrow> action_table \<Rightarrow> (store_error + unit) \<times> action_table" where
  "insertK8sActionRequest now a0 t =
     (let a = actionDefaults now a0 in
      case insertKeyed ac_IdempotencyKey (ac_ID a) a t of (Inl e, _) \<Rightarrow> (Inl e, t) | (Inr _, t') \<Rightarrow> (Inr (), t'))"

record K8sActionFilter =
  af_ClusterID :: string
  af_Status :: string
  af_Limit :: int

definition ListK8sActionRequests :: "K8sActionFilter \<Rightarrow> action_table \<Rightarrow> K8sActionRequest list" where
  "ListK8sActionRequests f t =
     take (nat (boundedLimit (af_Limit f) 100 500))
       (rev (sort_key ac_CreatedAt
         (filter (\<lambda>a. (af_ClusterID f = [] \<or> ac_ClusterID a = af_ClusterID f) \<and> (af_Status f = [] \<or> ac_Status a = af_Status f))
           (map snd t))))"

definition GetK8sActionRequest :: "string \<Rightarrow> action_table \<Rightarrow> store_error + K8sActionRequest" where
  "GetK8sActionRequest i t = getRow i t"

definition GetK8sActionRequestByIdempotencyKey :: "string \<Rightarrow> action_table \<Rightarrow> store_error + K8sActionRequest" where
  "GetK8sActionRequestByIdempotencyKey key t =
     (if key = [] then Inl ErrNotFound
      else (case find (\<lambda>(_, r). ac_IdempotencyKey r = key) t of None \<Rightarrow> Inl ErrNotFound | Some (_, r) \<Rightarrow> Inr r))"

definition awaitingDecision :: "string \<Rightarrow> bool" where
  "awaitingDecision st \<longleftrightarrow> st \<in> set [''pending'', ''approval_required'', ''pending_approval'']"

definition actionAllowedFrom :: "string \<Rightarrow> string \<Rightarrow> bool" where
  "actionAllowedFrom status current \<longleftrightarrow>
     (if status = ''approved'' \<or> status = ''rejected'' then awaitingDecision current
      else if status = ''running'' then current = ''approved''
      else if status = ''executed'' \<or> status = ''failed'' then current = ''running''
      else False)"

definition setActionStatus :: "string \<Rightarrow> string \<Rightarrow> string \<Rightarrow> string \<Rightarrow> K8sActionRequest \<Rightarrow> K8sActionRequest" where
  "setActionStatus now status actor result a =
     (let b = a\<lparr>ac_Status := status, ac_UpdatedAt := now, ac_Result := result\<rparr> in
      if status = ''approved'' then b\<lparr>ac_ApprovedBy := actor, ac_ApprovedAt := now\<rparr>
      else if status = ''running'' \<or> status = ''executed'' \<or> status = ''failed''
      then b\<lparr>ac_ExecutedBy := actor, ac_ExecutedAt := now\<rparr>
      else b)"

definition actionStatuses :: "string list" where
  "actionStatuses = [''approved'', ''rejected'', ''running'', ''executed'', ''failed'']"

definition UpdateK8sActionStatus ::
  "string \<Rightarrow> string \<Rightarrow> string \<Rightarrow> string \<Rightarrow> string \<Rightarrow> action_table \<Rightarrow> (store_error + K8sActionRequest) \<times> action_table" where
  "UpdateK8sActionStatus now i status actor result t =
     (if status \<notin> set actionStatuses then (Inl ErrInvalidTransition, t)
      else guardedUpdate i (\<lambda>a. actionAllowedFrom status (ac_Status a)) (setActionStatus now status actor result) t)"

section \<open>Handlers\<close>

text \<open>The ledger of service operations, which follows the request it belongs to.\<close>

record service_op =
  so_RequestID :: string
  so_Status :: string
  so_Result :: string
  so_UpdatedAt :: string

definition UpdateK8sServiceOperationsByRequestID ::
  "string \<Rightarrow> string \<Rightarrow> string \<Rightarrow> string \<Rightarrow> service_op list \<Rightarrow> service_op list" where
  "UpdateK8sServiceOperationsByRequestID now requestID status result ops =
     (if trimSpace requestID = [] then ops
      else map (\<lambda>so. if so_RequestID so = requestID
                     then so\<lparr>so_Status := status, so_Result := result, so_UpdatedAt := now\<rparr> else so) ops)"

record action_world =
  aw_actions :: action_table
  aw_services :: "service_op list"
  aw_audit :: "AdminAuditLog list"

record k8sActionPayload =
  ap_ClusterID :: string
  ap_Namespace :: string
  ap_ResourceKind :: string
  ap_ResourceName :: string
  ap_Action :: string
  ap_Parameters :: gmap
  ap_DryRunDiff :: string
  ap_IdempotencyKey :: string

text \<open>What the handler reads besides the request: the inventory of the cluster.\<close>

record action_env =
  ae_cluster :: "http_error option"
  ae_inventory :: "K8sInventoryItem list"
  ae_lookup :: "string \<Rightarrow> string \<Rightarrow> string \<Rightarrow> string \<Rightarrow> K8sInventoryItem option"
  ae_resourceVersion :: "K8sInventoryItem \<Rightarrow> string"
  ae_commandHash :: "K8sActionRequest \<Rightarrow> string"

definition actionTarget :: "action_env \<Rightarrow> k8sActionPayload \<Rightarrow> K8sInventoryItem \<times> bool" where
  "actionTarget env p =
     (case ae_lookup env (ap_ClusterID p) (ap_ResourceKind p) (ap_Namespace p) (ap_ResourceName p) of
        Some t \<Rightarrow> (t, True)
      | None \<Rightarrow> (emptyItem\<lparr>iv_ClusterID := trimSpace (ap_ClusterID p), iv_Kind := trimSpace (ap_ResourceKind p),
                   iv_Namespace := trimSpace (ap_Namespace p), iv_Name := trimSpace (ap_ResourceName p)\<rparr>, False))"

definition dryRunText :: "string \<Rightarrow> Decision \<Rightarrow> Impact \<Rightarrow> string" where
  "dryRunText given decision impact =
     (let diff = trimSpace given in
      if diff \<noteq> [] then diff
      else (utf8 [0xC601, 0xD5A5, 0xB3C4] @ '': '') @ im_Summary impact @
        (if im_Blockers impact \<noteq> [] then [newlineC] @ (utf8 [0xC2B9, 0xC778, 0x20, 0xD544, 0xC694, 0x20, 0xC0AC, 0xC720] @ '': '') @ joinWith ('' '' @ utf8 [0xB7] @ '' '') (im_Blockers impact) else []) @
        (if de_DryRunRequired decision
         then [newlineC] @ (''('' @ utf8 [0xC2E4, 0xC81C, 0x20, 0xC11C, 0xBC84, 0xC0AC, 0xC774, 0xB4DC, 0x20, 0xC2E4, 0xD589, 0xAE30, 0xB294, 0x20, 0xC544, 0xC9C1, 0x20, 0xC5F0, 0xACB0, 0xB418, 0xC9C0, 0x20, 0xC54A, 0xC544, 0x20, 0xD734, 0xBA3C, 0x20, 0xAC80, 0xD1A0, 0xC6A9, 0xC73C, 0xB85C, 0x20, 0xAE30, 0xB85D, 0xB429, 0xB2C8, 0xB2E4] @ ''.)'') else []))"

definition buildAction ::
  "action_env \<Rightarrow> string \<Rightarrow> string \<Rightarrow> string \<Rightarrow> string \<Rightarrow> k8sActionPayload \<Rightarrow> K8sActionRequest" where
  "buildAction env freshID freshIdem adminID idemKey p =
     (let decision = Classify (ap_Action p);
          (target, observed) = actionTarget env p;
          impact = AssessImpact (ap_Action p) (ap_Parameters p) target observed (ae_inventory env);
          req = \<lparr>ac_ID = freshID, ac_ClusterID = trimSpace (ap_ClusterID p), ac_Namespace = trimSpace (ap_Namespace p),
            ac_ResourceKind = trimSpace (ap_ResourceKind p), ac_ResourceName = trimSpace (ap_ResourceName p),
            ac_Action = trimSpace (ap_Action p), ac_Parameters = ap_Parameters p, ac_RiskLevel = de_RiskLevel decision,
            ac_Status = (if de_RequiresApproval decision \<or> im_Blockers impact \<noteq> [] then ''approval_required'' else ''pending''),
            ac_RequestedBy = adminID, ac_ApprovedBy = [], ac_ExecutedBy = [], ac_Result = de_Reason decision,
            ac_DryRunDiff = dryRunText (ap_DryRunDiff p) decision impact,
            ac_IdempotencyKey = firstNonEmpty [idemKey, freshIdem], ac_TargetUID = iv_UID target,
            ac_TargetResourceVersion = ae_resourceVersion env target, ac_CommandHash = [], ac_CreatedAt = [], ac_UpdatedAt = [],
            ac_ApprovedAt = [], ac_ExecutedAt = []\<rparr>
      in req\<lparr>ac_CommandHash := ae_commandHash env req\<rparr>)"

datatype action_reply = ActionCreated K8sActionRequest | ActionReplayed K8sActionRequest

definition postK8sAction ::
  "action_env \<Rightarrow> string \<Rightarrow> string \<Rightarrow> string \<Rightarrow> string \<Rightarrow> bool \<Rightarrow> string \<Rightarrow> k8sActionPayload option \<Rightarrow> action_world \<Rightarrow>
     (http_error + action_reply) \<times> action_world" where
  "postK8sAction env now freshID freshIdem adminID authorized headerKey body w =
     (if \<not> authorized then (Inl invalidAdminToken, w)
      else (case body of
        None \<Rightarrow> (Inl invalidBody, w)
      | Some p \<Rightarrow>
          if trimSpace (ap_ClusterID p) = [] \<or> trimSpace (ap_ResourceKind p) = [] \<or> trimSpace (ap_ResourceName p) = [] \<or>
             trimSpace (ap_Action p) = []
          then (Inl (writeOpenAIError 400 ''cluster_id, resource_kind, resource_name and action are required'' ''missing_fields''), w)
          else
            let idemKey = trimSpace (firstNonEmpty [ap_IdempotencyKey p, headerKey]) in
            (case (if idemKey \<noteq> [] then GetK8sActionRequestByIdempotencyKey idemKey (aw_actions w) else Inl ErrNotFound) of
               Inr existing \<Rightarrow> (Inr (ActionReplayed existing), w)
             | Inl _ \<Rightarrow>
                 (case ae_cluster env of
                    Some e \<Rightarrow> (Inl e, w)
                  | None \<Rightarrow>
                      let req = buildAction env freshID freshIdem adminID idemKey p in
                      (case insertK8sActionRequest now req (aw_actions w) of
                         (Inl _, _) \<Rightarrow> (Inl (writeOpenAIError 500 [] ''k8s_action_save_failed''), w)
                       | (Inr _, t) \<Rightarrow>
                           (Inr (ActionCreated req),
                            w\<lparr>aw_actions := t, aw_audit := auditAdmin adminID ''k8s.action.request'' [] (aw_audit w)\<rparr>))))))"

definition actionNotFound :: "string \<Rightarrow> http_error" where
  "actionNotFound i = writeOpenAIError 404 (''action request not found: '' @ i) ''action_not_found''"

definition decideK8sAction ::
  "string \<Rightarrow> string \<Rightarrow> bool \<Rightarrow> string \<Rightarrow> string \<Rightarrow> string \<Rightarrow> action_world \<Rightarrow> (http_error + string) \<times> action_world" where
  "decideK8sAction now adminID authorized i command result w =
     (if \<not> authorized then (Inl invalidAdminToken, w)
      else if i = [] then (Inl (writeOpenAIError 400 ''action id and command required'' ''bad_action_path''), w)
      else if command \<noteq> ''approve'' \<and> command \<noteq> ''reject''
      then (Inl (writeOpenAIError 400 ''unsupported action command'' ''unsupported_action_command''), w)
      else
        let status = (if command = ''approve'' then ''approved'' else ''rejected'') in
        (case UpdateK8sActionStatus now i status adminID result (aw_actions w) of
           (Inl ErrNotFound, _) \<Rightarrow> (Inl (actionNotFound i), w)
         | (Inl _, _) \<Rightarrow> (Inl (writeOpenAIError 409 ''action cannot transition from current state'' ''action_bad_state''), w)
         | (Inr _, t) \<Rightarrow>
             (Inr status,
              w\<lparr>aw_actions := t,
                aw_services := UpdateK8sServiceOperationsByRequestID now i status
                  (firstNonEmpty [trimSpace result, ''Action Center '' @ status]) (aw_services w),
                aw_audit := auditAdmin adminID (''k8s.action.'' @ command) [] (aw_audit w)\<rparr>)))"

section \<open>Execution\<close>

datatype cluster_command =
    CmdScale string string string int
  | CmdRolloutRestart string string string
  | CmdSetCordon string bool
  | CmdDeletePod string string string

definition k8sActionExecutable :: "string \<Rightarrow> bool" where
  "k8sActionExecutable actionName \<longleftrightarrow>
     toLower (trimSpace actionName) \<in> set [''scale'', ''rollout_restart'', ''cordon'', ''uncordon'', ''delete_pod'',
       ''jupyter_server_start'', ''jupyter_server_stop'']"

definition dispatchAction :: "K8sActionRequest \<Rightarrow> string + cluster_command" where
  "dispatchAction act =
     (case TargetKindIssueErr (ac_Action act) (ac_ResourceKind act) of
        Some issue \<Rightarrow> Inl issue
      | None \<Rightarrow>
          let name = toLower (ac_Action act) in
          if name = ''scale''
          then (let replicas = intFromParams (ac_Parameters act) ''replicas'' (-1) in
                if replicas < 0 then Inl (''scale '' @ utf8 [0xC561, 0xC158, 0xC5D0] @ '' replicas '' @ utf8 [0xD30C, 0xB77C, 0xBBF8, 0xD130, 0xAC00, 0x20, 0xD544, 0xC694, 0xD569, 0xB2C8, 0xB2E4])
                else Inr (CmdScale (ac_ResourceKind act) (ac_Namespace act) (ac_ResourceName act) replicas))
          else if name = ''rollout_restart''
          then Inr (CmdRolloutRestart (ac_ResourceKind act) (ac_Namespace act) (ac_ResourceName act))
          else if name = ''cordon'' then Inr (CmdSetCordon (ac_ResourceName act) True)
          else if name = ''uncordon'' then Inr (CmdSetCordon (ac_ResourceName act) False)
          else if name = ''delete_pod'' then Inr (CmdDeletePod (ac_ResourceKind act) (ac_Namespace act) (ac_ResourceName act))
          else Inl ((utf8 [0xC2E4, 0xD589, 0x20, 0xAC00, 0xB2A5, 0xD55C, 0x20, 0xC561, 0xC158, 0xC774, 0x20, 0xC544, 0xB2D9, 0xB2C8, 0xB2E4] @ '': '') @ ac_Action act))"

text \<open>The claim. \<open>client\<close> is the error of preparing the cluster's client, if any.\<close>

definition actionBegin ::
  "string \<Rightarrow> string \<Rightarrow> http_error option \<Rightarrow> K8sActionRequest \<Rightarrow> action_world \<Rightarrow> (http_error + string + cluster_command) \<times> action_world" where
  "actionBegin now actor client act w =
     (if ac_Status act \<noteq> ''approved''
      then (Inl (writeOpenAIError 409 (''action must be approved before execution (current: '' @ ac_Status act @ '')'') ''action_not_approved''), w)
      else (case client of
        Some e \<Rightarrow> (Inl e, w)
      | None \<Rightarrow>
          if \<not> k8sActionExecutable (ac_Action act)
          then (Inl (writeOpenAIError 400 ((utf8 [0xC2E4, 0xD589, 0x20, 0xAC00, 0xB2A5, 0xD55C, 0x20, 0xC561, 0xC158, 0xC774, 0x20, 0xC544, 0xB2D9, 0xB2C8, 0xB2E4] @ '': '') @ ac_Action act @ ('' (drain '' @ utf8 [0xB4F1, 0xC740, 0x20, 0xC218, 0xB3D9, 0x20, 0xCC98, 0xB9AC] @ '')''))
                  ''action_not_executable''), w)
          else (case UpdateK8sActionStatus now (ac_ID act) ''running'' actor (utf8 [0xC2E4, 0xD589, 0x20, 0xC911]) (aw_actions w) of
                  (Inl ErrInvalidTransition, _) \<Rightarrow>
                    (Inl (writeOpenAIError 409 ''action is already running or closed'' ''action_bad_state''), w)
                | (Inl _, _) \<Rightarrow> (Inl (actionNotFound (ac_ID act)), w)
                | (Inr _, t) \<Rightarrow>
                    (Inr (dispatchAction act),
                     w\<lparr>aw_actions := t,
                       aw_services := UpdateK8sServiceOperationsByRequestID now (ac_ID act) ''running''
                         ''Action Center execution in progress'' (aw_services w)\<rparr>))))"

definition actionFinish ::
  "string \<Rightarrow> string \<Rightarrow> (string \<times> bool) option \<Rightarrow> K8sActionRequest \<Rightarrow> action_world \<Rightarrow> (http_error + string \<times> string) \<times> action_world" where
  "actionFinish now actor execErr act w =
     (let (status, msg) = (case execErr of
            None \<Rightarrow> (''executed'', (utf8 [0xC2E4, 0xD589, 0x20, 0xC644, 0xB8CC]))
          | Some (e, interrupted) \<Rightarrow>
              (''failed'', if interrupted then (utf8 [0xC2E4, 0xD589, 0x20, 0xACB0, 0xACFC, 0x20, 0xBD88, 0xBA85, 0xD655] @ '': '' @ utf8 [0xC678, 0xBD80, 0x20, 0xC2DC, 0xC2A4, 0xD15C, 0x20, 0xC751, 0xB2F5, 0xC774, 0x20, 0xC911, 0xB2E8, 0xB428] @ ''; '' @ utf8 [0xB300, 0xC0C1, 0x20, 0xC0C1, 0xD0DC, 0xB97C, 0x20, 0xD655, 0xC778, 0xD558, 0xC138, 0xC694])
                           else (utf8 [0xC2E4, 0xD589, 0x20, 0xC2E4, 0xD328] @ '': '') @ e)) in
      (case UpdateK8sActionStatus now (ac_ID act) status actor msg (aw_actions w) of
         (Inl ErrInvalidTransition, _) \<Rightarrow>
           (Inl (writeOpenAIError 409 ''action finalization was already applied'' ''action_bad_state''), w)
       | (Inl _, _) \<Rightarrow> (Inl (writeOpenAIError 500 [] ''k8s_action_finalize_failed''), w)
       | (Inr _, t) \<Rightarrow>
           (Inr (status, msg),
            w\<lparr>aw_actions := t,
              aw_services := UpdateK8sServiceOperationsByRequestID now (ac_ID act) status msg (aw_services w),
              aw_audit := auditAdmin actor ''k8s.action.execute'' [] (aw_audit w)\<rparr>)))"


section \<open>The request machine\<close>

datatype action_op = AInsert string K8sActionRequest | AUpdate string string string string string

fun actionOp :: "action_op \<Rightarrow> action_table \<Rightarrow> action_table" where
  "actionOp (AInsert now a) t = snd (insertK8sActionRequest now a t)"
| "actionOp (AUpdate now i status actor result) t = snd (UpdateK8sActionStatus now i status actor result t)"

text \<open>What was requested, and what the approver saw.\<close>

definition sameAction :: "K8sActionRequest \<Rightarrow> K8sActionRequest \<Rightarrow> bool" where
  "sameAction a b \<longleftrightarrow> ac_ID b = ac_ID a \<and> ac_ClusterID b = ac_ClusterID a \<and> ac_Namespace b = ac_Namespace a \<and>
     ac_ResourceKind b = ac_ResourceKind a \<and> ac_ResourceName b = ac_ResourceName a \<and> ac_Action b = ac_Action a \<and>
     ac_Parameters b = ac_Parameters a \<and> ac_RiskLevel b = ac_RiskLevel a \<and> ac_RequestedBy b = ac_RequestedBy a \<and>
     ac_DryRunDiff b = ac_DryRunDiff a \<and> ac_IdempotencyKey b = ac_IdempotencyKey a \<and> ac_TargetUID b = ac_TargetUID a \<and>
     ac_TargetResourceVersion b = ac_TargetResourceVersion a \<and> ac_CommandHash b = ac_CommandHash a"

definition actionMoves :: "K8sActionRequest \<Rightarrow> K8sActionRequest \<Rightarrow> bool" where
  "actionMoves a b \<longleftrightarrow> sameAction a b \<and> actionAllowedFrom (ac_Status b) (ac_Status a) \<and>
     (ac_Status b = ''approved'' \<or> ac_ApprovedBy b = ac_ApprovedBy a)"

definition freshAction :: "K8sActionRequest \<Rightarrow> bool" where
  "freshAction a \<longleftrightarrow> ac_Status a \<noteq> []"

lemma sameAction_refl [simp]: "sameAction a a"
  by (simp add: sameAction_def)

lemma setActionStatus_move:
  "actionAllowedFrom status (ac_Status a) \<Longrightarrow> actionMoves a (setActionStatus now status actor result a)"
  by (auto simp: actionMoves_def sameAction_def setActionStatus_def Let_def)

lemma setActionStatus_status [simp]: "ac_Status (setActionStatus now status actor result a) = status"
  by (simp add: setActionStatus_def Let_def)

lemma actionDefaults_keys [simp]:
  "ac_ID (actionDefaults now a) = ac_ID a" "ac_IdempotencyKey (actionDefaults now a) = ac_IdempotencyKey a"
  by (simp_all add: actionDefaults_def)

lemma insert_keyed:
  "snd (insertK8sActionRequest now a t) = snd (insertKeyed ac_IdempotencyKey (ac_ID a) (actionDefaults now a) t)"
  using insertKeyed_cases [of ac_IdempotencyKey "ac_ID a" "actionDefaults now a" t]
  by (auto simp: insertK8sActionRequest_def Let_def)

lemma insert_table:
  "snd (insertK8sActionRequest now a t) = t \<or>
   (map_of t (ac_ID a) = None \<and> snd (insertK8sActionRequest now a t) = t @ [(ac_ID a, actionDefaults now a)])"
  using insertKeyed_cases [of ac_IdempotencyKey "ac_ID a" "actionDefaults now a" t] by (auto simp: insert_keyed)

lemma insert_ok:
  assumes "fst (insertK8sActionRequest now a t) = Inr ()"
  shows "map_of (snd (insertK8sActionRequest now a t)) (ac_ID a) = Some (actionDefaults now a)"
  using assms insertKeyed_cases [of ac_IdempotencyKey "ac_ID a" "actionDefaults now a" t]
  by (auto simp: insertK8sActionRequest_def Let_def map_add_def)

lemma update_row:
  "map_of (snd (UpdateK8sActionStatus now i status actor result t)) k =
     (if k = i \<and> status \<in> set actionStatuses
      then map_option (\<lambda>a. if actionAllowedFrom status (ac_Status a) then setActionStatus now status actor result a else a) (map_of t i)
      else map_of t k)"
  by (simp add: UpdateK8sActionStatus_def guardedUpdate_table)

lemma actionOp_row:
  assumes "map_of t k = Some a"
  shows "\<exists>b. map_of (actionOp op t) k = Some b \<and> (b = a \<or> actionMoves a b)"
proof (cases op)
  case (AInsert now x)
  with assms insert_table [of now x t] show ?thesis by (auto simp: map_add_def)
next
  case (AUpdate now i status actor result)
  with assms setActionStatus_move show ?thesis
    by (cases "k = i \<and> status \<in> set actionStatuses"; cases "actionAllowedFrom status (ac_Status a)") (auto simp: update_row)
qed

lemma actionOp_new:
  assumes "map_of t k = None" and "map_of (actionOp op t) k = Some a"
  shows "freshAction a"
proof (cases op)
  case (AInsert now x)
  with assms insert_table [of now x t] have "a = actionDefaults now x"
    by (auto simp: map_add_def split: if_splits)
  then show ?thesis by (simp add: freshAction_def actionDefaults_def)
next
  case (AUpdate now i status actor result)
  with assms show ?thesis by (auto simp: update_row split: if_splits)
qed

interpretation actionRows: row_machine map_of actionOp actionMoves freshAction
  by unfold_locales (rule actionOp_row actionOp_new; assumption)+

text \<open>How far a request has come; every move goes up.\<close>

definition actionStage :: "string \<Rightarrow> nat" where
  "actionStage st = (if awaitingDecision st then 0 else if st = ''approved'' then 1 else if st = ''running'' then 2 else 3)"

lemma move_stage: "actionMoves a b \<Longrightarrow> actionStage (ac_Status a) < actionStage (ac_Status b)"
  by (auto simp: actionMoves_def actionAllowedFrom_def actionStage_def awaitingDecision_def split: if_splits)

lemma moves_stage: "actionMoves\<^sup>*\<^sup>* a b \<Longrightarrow> sameAction a b \<and> (b = a \<or> actionStage (ac_Status a) < actionStage (ac_Status b))"
proof (induction rule: rtranclp_induct)
  case base
  then show ?case by simp
next
  case (step y z)
  then show ?case using move_stage [of y z] by (auto simp: actionMoves_def sameAction_def)
qed

section \<open>Idempotency keys\<close>

abbreviation uniqueKeys :: "action_table \<Rightarrow> bool" where
  "uniqueKeys \<equiv> uniqueBy ac_IdempotencyKey"

lemma uniqueKeys_op: "uniqueKeys t \<Longrightarrow> uniqueKeys (actionOp op t)"
proof (cases op)
  case (AInsert now x)
  assume "uniqueKeys t"
  then have "uniqueKeys (snd (insertKeyed ac_IdempotencyKey (ac_ID x) (actionDefaults now x) t))" by (rule uniqueBy_insertKeyed)
  with AInsert \<open>uniqueKeys t\<close> insert_keyed [of now x t] show ?thesis by auto
next
  case (AUpdate now i status actor result)
  assume "uniqueKeys t"
  moreover have "ac_IdempotencyKey (setActionStatus now status actor result r) = ac_IdempotencyKey r" for r
    by (simp add: setActionStatus_def Let_def)
  ultimately show ?thesis using AUpdate by (auto simp: UpdateK8sActionStatus_def intro: uniqueBy_guardedUpdate)
qed

lemma uniqueKeys_run: "uniqueKeys t \<Longrightarrow> uniqueKeys (fold actionOp ops t)"
  by (induction ops arbitrary: t) (auto intro: uniqueKeys_op)

section \<open>Commands address what was approved\<close>

lemma lower_name:
  assumes "toLower a = n" and "trimSpace n = n"
  shows "toLower (trimSpace a) = n"
  using assms trimSpace_toLower [of a] by simp

lemma trimmed_names:
  "trimSpace ''scale'' = ''scale''" "trimSpace ''rollout_restart'' = ''rollout_restart''" "trimSpace ''cordon'' = ''cordon''"
  "trimSpace ''uncordon'' = ''uncordon''" "trimSpace ''delete_pod'' = ''delete_pod''"
  by code_simp+

lemma kindMismatch_nonempty: "kindMismatch a w g \<noteq> []"
  by (simp add: kindMismatch_def goQuote_def)

section \<open>Properties\<close>


definition exampleAction :: "string \<Rightarrow> K8sActionRequest" where
  "exampleAction status =
     \<lparr>ac_ID = ''a1'', ac_ClusterID = ''c1'', ac_Namespace = ''dev'', ac_ResourceKind = ''Deployment'', ac_ResourceName = ''web'',
      ac_Action = ''scale'', ac_Parameters = [(''replicas'', GStr ''2'')], ac_RiskLevel = ''medium'', ac_Status = status,
      ac_RequestedBy = ''alice'', ac_ApprovedBy = [], ac_ExecutedBy = [], ac_Result = [], ac_DryRunDiff = [],
      ac_IdempotencyKey = ''k1'', ac_TargetUID = [], ac_TargetResourceVersion = [], ac_CommandHash = [], ac_CreatedAt = ''t0'',
      ac_UpdatedAt = ''t0'', ac_ApprovedAt = [], ac_ExecutedAt = []\<rparr>"


text \<open>
  C27. An approval is spent by one execution: only an approved request can be claimed for
  execution, and after one claim every later claim is refused, under any interleaving of
  operations by any number of servers.
\<close>

theorem approved_action_runs_once:
  assumes "UpdateK8sActionStatus now i ''running'' actor msg t = (Inr b, t1)"
  shows "(\<exists>a. map_of t i = Some a \<and> ac_Status a = ''approved'' \<and> sameAction a b) \<and>
    fst (UpdateK8sActionStatus now' i ''running'' actor' msg' (fold actionOp ops t1)) = Inl ErrInvalidTransition"
proof -
  have member: "''running'' \<in> set actionStatuses" by (simp add: actionStatuses_def)
  have "fst (UpdateK8sActionStatus now i ''running'' actor msg t) = Inr b" by (simp add: assms)
  then obtain a where a: "map_of t i = Some a" "actionAllowedFrom ''running'' (ac_Status a)" "b = setActionStatus now ''running'' actor msg a"
    by (auto simp: UpdateK8sActionStatus_def member guardedUpdate_ok)
  have t1: "map_of t1 i = Some b"
    using update_row [of now i "''running''" actor msg t i] member a by (simp add: assms)
  from actionRows.run_row [OF t1] obtain c where c: "map_of (fold actionOp ops t1) i = Some c" "actionMoves\<^sup>*\<^sup>* b c" by blast
  have "actionStage (ac_Status b) = 2" by (simp add: a(3) actionStage_def awaitingDecision_def)
  with moves_stage [OF c(2)] have "2 \<le> actionStage (ac_Status c)" by auto
  then have "ac_Status c \<noteq> ''approved''" by (auto simp: actionStage_def awaitingDecision_def)
  then have "\<not> actionAllowedFrom ''running'' (ac_Status c)" by (simp add: actionAllowedFrom_def)
  with c(1) have "fst (UpdateK8sActionStatus now' i ''running'' actor' msg' (fold actionOp ops t1)) = Inl ErrInvalidTransition"
    by (simp add: UpdateK8sActionStatus_def member guardedUpdate_err)
  moreover have "ac_Status a = ''approved''" using a(2) by (simp add: actionAllowedFrom_def)
  moreover have "sameAction a b" using setActionStatus_move [OF a(2)] a(3) by (simp add: actionMoves_def)
  ultimately show ?thesis using a(1) by blast
qed

theorem approved_action_runs_once_witness:
  "fst (UpdateK8sActionStatus ''t3'' ''a1'' ''running'' ''eve'' []
     (fold actionOp [AUpdate ''t2'' ''a1'' ''failed'' ''bob'' []]
       (snd (UpdateK8sActionStatus ''t1'' ''a1'' ''running'' ''bob'' [] [(''a1'', exampleAction ''approved'')])))) = Inl ErrInvalidTransition"
proof -
  let ?u = "UpdateK8sActionStatus ''t1'' ''a1'' ''running'' ''bob'' [] [(''a1'', exampleAction ''approved'')]"
  have "(case fst ?u of Inr _ \<Rightarrow> True | Inl _ \<Rightarrow> False)" by code_simp
  then obtain b where "?u = (Inr b, snd ?u)" by (cases ?u) (auto split: sum.splits)
  from approved_action_runs_once [OF this] show ?thesis by blast
qed

text \<open>
  The command sent to the cluster addresses what the record names: a cordon or uncordon
  is only sent for a record whose kind is a node, a pod deletion only for a pod, a restart or
  scale only for a workload kind that has it (a blank kind claims nothing), always with the
  recorded names, and a scale never with a negative count. Any other record sends nothing.
\<close>

theorem dispatched_command_matches_record:
  "case dispatchAction act of
     Inl msg \<Rightarrow> msg \<noteq> []
   | Inr cmd \<Rightarrow> TargetKindIssue (ac_Action act) (ac_ResourceKind act) = [] \<and>
      (let k = normalizeKind (ac_ResourceKind act) in
       case cmd of
         CmdScale kind ns name n \<Rightarrow> kind = ac_ResourceKind act \<and> ns = ac_Namespace act \<and> name = ac_ResourceName act \<and>
           0 \<le> n \<and> k \<in> {[], ''deployment'', ''statefulset''}
       | CmdRolloutRestart kind ns name \<Rightarrow> kind = ac_ResourceKind act \<and> ns = ac_Namespace act \<and> name = ac_ResourceName act \<and>
           k \<in> {[], ''deployment'', ''statefulset'', ''daemonset''}
       | CmdSetCordon name _ \<Rightarrow> name = ac_ResourceName act \<and> k \<in> {[], ''node''}
       | CmdDeletePod kind ns name \<Rightarrow> kind = ac_ResourceKind act \<and> ns = ac_Namespace act \<and> name = ac_ResourceName act \<and>
           k \<in> {[], ''pod''})"
proof (cases "TargetKindIssue (ac_Action act) (ac_ResourceKind act) = []")
  case False
  then show ?thesis by (simp add: dispatchAction_def TargetKindIssueErr_def Let_def)
next
  case ok: True
  let ?n = "toLower (ac_Action act)"
  have issue: "TargetKindIssue (ac_Action act) (ac_ResourceKind act) = [] \<Longrightarrow> toLower (trimSpace (ac_Action act)) = n \<Longrightarrow>
      (n = ''scale'' \<longrightarrow> normalizeKind (ac_ResourceKind act) \<in> {[], ''deployment'', ''statefulset''}) \<and>
      (n = ''rollout_restart'' \<longrightarrow> normalizeKind (ac_ResourceKind act) \<in> {[], ''deployment'', ''statefulset'', ''daemonset''}) \<and>
      (n = ''cordon'' \<or> n = ''uncordon'' \<longrightarrow> normalizeKind (ac_ResourceKind act) \<in> {[], ''node''}) \<and>
      (n = ''delete_pod'' \<longrightarrow> normalizeKind (ac_ResourceKind act) \<in> {[], ''pod''})" for n
    unfolding TargetKindIssue_def Let_def
    by (auto simp: kindMismatch_nonempty split: if_splits)
  have none: "TargetKindIssueErr (ac_Action act) (ac_ResourceKind act) = None"
    using ok by (simp add: TargetKindIssueErr_def Let_def)
  show ?thesis
    using issue [OF ok] lower_name [of "ac_Action act"] trimmed_names ok
    by (simp add: dispatchAction_def none Let_def)
qed

text \<open>
  A retried request is not carried out twice: once a request with a caller-supplied
  idempotency key was created, every later creation attempt with the same key is answered
  with that same request and changes nothing, after any interleaving of other operations.
\<close>

theorem idempotent_action_replay:
  assumes "postK8sAction env now freshID freshIdem adminID True header (Some p) w = (Inr (ActionCreated req), w1)"
    and "trimSpace (firstNonEmpty [ap_IdempotencyKey p, header]) = key" and "key \<noteq> []"
    and "uniqueKeys (aw_actions w)" and "aw_actions w2 = fold actionOp ops (aw_actions w1)"
    and "trimSpace (firstNonEmpty [ap_IdempotencyKey q, header']) = key"
    and "list_all (\<lambda>s. trimSpace s \<noteq> []) [ap_ClusterID q, ap_ResourceKind q, ap_ResourceName q, ap_Action q]"
  shows "\<exists>r. postK8sAction env' now' freshID' freshIdem' adminID' True header' (Some q) w2 = (Inr (ActionReplayed r), w2) \<and>
    sameAction req r"
proof -
  have req: "req = buildAction env freshID freshIdem adminID key p"
    and ins: "aw_actions w1 = snd (insertK8sActionRequest now req (aw_actions w))"
    and ok: "fst (insertK8sActionRequest now req (aw_actions w)) = Inr ()"
    using assms(1,2,3)
    by (auto simp: postK8sAction_def Let_def split: if_splits sum.splits option.splits prod.splits)
  have key: "ac_IdempotencyKey req = key"
    using assms(3) by (simp add: req buildAction_def Let_def firstNonEmpty_def split: prod.split)
  have row: "map_of (aw_actions w1) (ac_ID req) = Some (actionDefaults now req)"
    unfolding ins by (rule insert_ok [OF ok])
  have uniq: "uniqueKeys (aw_actions w2)"
    using uniqueKeys_run [of "actionOp (AInsert now req) (aw_actions w)" ops] uniqueKeys_op [OF assms(4), of "AInsert now req"]
      assms(5) ins by simp
  obtain r where r: "map_of (aw_actions w2) (ac_ID req) = Some r" "actionMoves\<^sup>*\<^sup>* (actionDefaults now req) r"
    using actionRows.run_row [OF row] assms(5) by auto
  have "ac_RiskLevel req \<noteq> []"
    unfolding req buildAction_def Let_def by (simp add: case_prod_beta Classify_level)
  then have same: "sameAction req r"
    using moves_stage [OF r(2)] by (simp add: sameAction_def actionDefaults_def)
  then have "ac_IdempotencyKey r = key" using key by (simp add: sameAction_def)
  with uniqueBy_find [OF uniq r(1)] assms(3) have "GetK8sActionRequestByIdempotencyKey key (aw_actions w2) = Inr r"
    by (simp add: GetK8sActionRequestByIdempotencyKey_def)
  with assms(3,6,7) same show ?thesis by (simp add: postK8sAction_def Let_def)
qed

definition exampleEnv :: action_env where
  "exampleEnv = \<lparr>ae_cluster = None, ae_inventory = [], ae_lookup = (\<lambda>_ _ _ _. None), ae_resourceVersion = (\<lambda>_. []), ae_commandHash = (\<lambda>_. [])\<rparr>"

definition examplePayload :: k8sActionPayload where
  "examplePayload = \<lparr>ap_ClusterID = ''c1'', ap_Namespace = ''dev'', ap_ResourceKind = ''Deployment'', ap_ResourceName = ''web'',
     ap_Action = ''scale'', ap_Parameters = [(''replicas'', GStr ''2'')], ap_DryRunDiff = [], ap_IdempotencyKey = ''k1''\<rparr>"

theorem idempotent_action_replay_witness:
  "\<exists>r w1. postK8sAction exampleEnv ''t1'' ''a2'' ''i2'' ''bob'' True [] (Some examplePayload) w1 = (Inr (ActionReplayed r), w1)"
proof -
  let ?w = "\<lparr>aw_actions = [], aw_services = [], aw_audit = []\<rparr>"
  let ?x = "postK8sAction exampleEnv ''t0'' ''a1'' ''i1'' ''alice'' True [] (Some examplePayload) ?w"
  have "(case fst ?x of Inr (ActionCreated _) \<Rightarrow> True | _ \<Rightarrow> False)" by code_simp
  then obtain req where x: "?x = (Inr (ActionCreated req), snd ?x)"
    by (cases ?x) (auto split: sum.splits action_reply.splits)
  have f: "trimSpace (firstNonEmpty [ap_IdempotencyKey examplePayload, []]) = ''k1''"
    "list_all (\<lambda>s. trimSpace s \<noteq> []) [ap_ClusterID examplePayload, ap_ResourceKind examplePayload,
       ap_ResourceName examplePayload, ap_Action examplePayload]" by code_simp+
  have "uniqueKeys (aw_actions ?w)" by (simp add: uniqueBy_def)
  from idempotent_action_replay [OF x f(1) _ this, where ops = "[]" and ?w2.0 = "snd ?x", OF _ _ f] show ?thesis by simp blast
qed

end
