(* ===== verification/Pod_Security.thy ===== *)
theory Pod_Security
  imports K8s_Inventory
begin

text \<open>
  The security posture of \<^verbatim>\<open>internal/analyzer/security.go\<close>: the Pod Security level of every
  workload, image tag, secret reference and RBAC findings, namespaces without a network
  policy, and the posture score; with the image readers of \<^verbatim>\<open>diff.go\<close> and \<^verbatim>\<open>policy.go\<close>. The set of
  secret names a workload refers to is listed in the order of its first reference (the Go
  code iterates over a map). \<^verbatim>\<open>DetectActionAnomalies\<close>, a count over a time window, is left out,
  and the RBAC comparison is in \<open>Rbac_Diff\<close>.
\<close>

section \<open>Pod specs and containers\<close>

definition workloadKinds :: "string list" where
  "workloadKinds = [''Deployment'', ''StatefulSet'', ''DaemonSet'', ''Pod'', ''Job'', ''CronJob'']"

definition podSpecFromKindSpec :: "string \<Rightarrow> gmap \<Rightarrow> gmap option" where
  "podSpecFromKindSpec kind spec0 =
     (if kind = ''Pod'' then Some spec0
      else
        let spec = (if kind = ''CronJob'' then asAnyMap (gget (asAnyMap (gget spec0 ''jobTemplate'')) ''spec'') else spec0);
            tmpl = asAnyMap (gget spec ''template'')
        in asMapOpt (gget tmpl ''spec''))"

definition podSpecOf :: "K8sInventoryItem \<Rightarrow> gmap option" where
  "podSpecOf it = podSpecFromKindSpec (iv_Kind it) (iv_Spec it)"

definition SecurityRelevantContainers :: "gmap \<Rightarrow> gval list" where
  "SecurityRelevantContainers ps =
     asAnySlice (gget ps ''containers'') @ asAnySlice (gget ps ''initContainers'') @ asAnySlice (gget ps ''ephemeralContainers'')"

definition resourceDeclaringContainers :: "gmap \<Rightarrow> gval list" where
  "resourceDeclaringContainers ps = asAnySlice (gget ps ''containers'') @ asAnySlice (gget ps ''initContainers'')"

definition containerName :: "gval \<Rightarrow> string" where
  "containerName raw = asString (gget (asAnyMap raw) ''name'')"

definition containerSC :: "gval \<Rightarrow> gmap" where
  "containerSC raw = asAnyMap (gget (asAnyMap raw) ''securityContext'')"

definition EffectiveRunAsUser :: "gmap \<Rightarrow> gmap \<Rightarrow> int option" where
  "EffectiveRunAsUser podSC sc =
     (if gget sc ''runAsUser'' \<noteq> GNil then Some (numVal (gget sc ''runAsUser''))
      else if gget podSC ''runAsUser'' \<noteq> GNil then Some (numVal (gget podSC ''runAsUser''))
      else None)"

definition PodRunsAsRoot :: "gmap \<Rightarrow> bool" where
  "PodRunsAsRoot ps \<longleftrightarrow>
     (let podSC = asAnyMap (gget ps ''securityContext''); cs = SecurityRelevantContainers ps in
      if cs = [] then EffectiveRunAsUser podSC [] = Some 0
      else list_ex (\<lambda>raw. EffectiveRunAsUser podSC (containerSC raw) = Some 0) cs)"

section \<open>Profile violations\<close>

definition baselineCapabilities :: "string list" where
  "baselineCapabilities =
     [''AUDIT_WRITE'', ''CHOWN'', ''DAC_OVERRIDE'', ''FOWNER'', ''FSETID'', ''KILL'', ''MKNOD'', ''NET_BIND_SERVICE'',
      ''SETFCAP'', ''SETGID'', ''SETPCAP'', ''SETUID'', ''SYS_CHROOT'']"

record profileViolation =
  pv_msg :: string
  pv_failsBaseline :: bool

definition dropsAll :: "gmap \<Rightarrow> bool" where
  "dropsAll caps \<longleftrightarrow> list_ex (\<lambda>d. equalFold d ''ALL'') (stringSlice (gget caps ''drop''))"

definition nonRootViolations :: "bool \<Rightarrow> gval \<Rightarrow> profileViolation list" where
  "nonRootViolations podRunAsNonRoot raw =
     (case gget (containerSC raw) ''runAsNonRoot'' of
        GBool own \<Rightarrow>
          if own then [] else [\<lparr>pv_msg = containerName raw @ ('': runAsNonRoot=false (Pod '' @ utf8 [0xC124, 0xC815, 0xC744, 0x20, 0xB36E, 0xC5B4, 0xC500] @ '')''), pv_failsBaseline = False\<rparr>]
      | _ \<Rightarrow>
          if podRunAsNonRoot then [] else [\<lparr>pv_msg = containerName raw @ ('': runAsNonRoot '' @ utf8 [0xBBF8, 0xC124, 0xC815]), pv_failsBaseline = False\<rparr>])"

definition escalationViolations :: "gval \<Rightarrow> profileViolation list" where
  "escalationViolations raw =
     (let sc = containerSC raw in
      if \<not> ghas sc ''allowPrivilegeEscalation'' \<or> asBool (gget sc ''allowPrivilegeEscalation'')
      then [\<lparr>pv_msg = containerName raw @ '': allowPrivilegeEscalation!=false'', pv_failsBaseline = False\<rparr>] else [])"

definition dropViolations :: "gval \<Rightarrow> profileViolation list" where
  "dropViolations raw =
     (if dropsAll (asAnyMap (gget (containerSC raw) ''capabilities'')) then []
      else [\<lparr>pv_msg = containerName raw @ ('': capabilities drop ALL '' @ utf8 [0xC544, 0xB2D8]), pv_failsBaseline = False\<rparr>])"

definition seccompViolations :: "string \<Rightarrow> gval \<Rightarrow> profileViolation list" where
  "seccompViolations podSeccomp raw =
     (let t = asString (gget (asAnyMap (gget (containerSC raw) ''seccompProfile'')) ''type'');
          seccomp = (if t \<noteq> [] then t else podSeccomp) in
      if seccomp = ''RuntimeDefault'' \<or> seccomp = ''Localhost'' then []
      else if seccomp = [] then [\<lparr>pv_msg = containerName raw @ ('': seccompProfile '' @ utf8 [0xBBF8, 0xC124, 0xC815]), pv_failsBaseline = False\<rparr>]
      else if seccomp = ''Unconfined''
      then [\<lparr>pv_msg = containerName raw @ '': seccompProfile=Unconfined'', pv_failsBaseline = True\<rparr>]
      else [\<lparr>pv_msg = containerName raw @ '': seccompProfile='' @ seccomp, pv_failsBaseline = False\<rparr>])"

definition containerProfileViolations :: "gmap \<Rightarrow> profileViolation list" where
  "containerProfileViolations ps =
     (let podSC = asAnyMap (gget ps ''securityContext'');
          podRunAsNonRoot = asBool (gget podSC ''runAsNonRoot'');
          podSeccomp = asString (gget (asAnyMap (gget podSC ''seccompProfile'')) ''type'')
      in concat (map (\<lambda>raw. nonRootViolations podRunAsNonRoot raw @ escalationViolations raw @ dropViolations raw @
                            seccompViolations podSeccomp raw)
           (SecurityRelevantContainers ps)))"

definition restrictedProfileViolations :: "gmap \<Rightarrow> string list" where
  "restrictedProfileViolations ps = map pv_msg (containerProfileViolations ps)"

section \<open>The level of a pod\<close>

record PodSecurityResult =
  pr_ClusterID :: string
  pr_Namespace :: string
  pr_Kind :: string
  pr_Name :: string
  pr_Level :: string
  pr_Violations :: "string list"

text \<open>The three violation lists that \<^verbatim>\<open>classifyPodSecurity\<close> builds container by container.\<close>

definition hostPathVolume :: "gval \<Rightarrow> bool" where
  "hostPathVolume raw \<longleftrightarrow> ghas (asAnyMap raw) ''hostPath''"

definition rootViolations :: "gmap \<Rightarrow> gval \<Rightarrow> string list" where
  "rootViolations podSC raw =
     (if EffectiveRunAsUser podSC (containerSC raw) = Some 0
      then (if EffectiveRunAsUser [] (containerSC raw) \<noteq> None then [containerName raw @ '': runAsUser=0'']
            else [containerName raw @ ('': runAsUser=0 (Pod securityContext '' @ utf8 [0xC0C1, 0xC18D] @ '')'')])
      else [])"

definition addedCapabilities :: "gval \<Rightarrow> string list" where
  "addedCapabilities raw = map toUpper (stringSlice (gget (asAnyMap (gget (containerSC raw) ''capabilities'')) ''add''))"

definition capabilityMsg :: "gval \<Rightarrow> string \<Rightarrow> string" where
  "capabilityMsg raw up = containerName raw @ ('': '' @ utf8 [0xCD94, 0xAC00] @ '' capability '') @ up"

definition restrictedCaps :: "gval \<Rightarrow> string list" where
  "restrictedCaps raw =
     map (capabilityMsg raw) (filter (\<lambda>up. up \<noteq> ''NET_BIND_SERVICE'' \<and> up \<in> set baselineCapabilities) (addedCapabilities raw))"

definition baselineCaps :: "gval \<Rightarrow> string list" where
  "baselineCaps raw =
     map (capabilityMsg raw) (filter (\<lambda>up. up \<noteq> ''NET_BIND_SERVICE'' \<and> up \<notin> set baselineCapabilities) (addedCapabilities raw))"

definition hostPorts :: "gval \<Rightarrow> string list" where
  "hostPorts raw =
     map (\<lambda>_. containerName raw @ ('': hostPort '' @ utf8 [0xC0AC, 0xC6A9]))
       (filter (\<lambda>p. numVal (gget (asAnyMap p) ''hostPort'') > 0) (asAnySlice (gget (asAnyMap raw) ''ports'')))"

definition hostLevelOf :: "gmap \<Rightarrow> string list" where
  "hostLevelOf ps =
     (if asBool (gget ps ''hostNetwork'') then [''hostNetwork=true''] else []) @
     (if asBool (gget ps ''hostPID'') then [''hostPID=true''] else []) @
     (if asBool (gget ps ''hostIPC'') then [''hostIPC=true''] else []) @
     concat (map (\<lambda>raw. if asBool (gget (containerSC raw) ''privileged'') then [containerName raw @ '': privileged=true''] else [])
       (SecurityRelevantContainers ps))"

definition failsBaselineOf :: "gmap \<Rightarrow> string list" where
  "failsBaselineOf ps =
     (if list_ex hostPathVolume (asAnySlice (gget ps ''volumes'')) then [''hostPath volume''] else []) @
     map pv_msg (filter pv_failsBaseline (containerProfileViolations ps)) @
     concat (map (\<lambda>raw. baselineCaps raw @ hostPorts raw) (SecurityRelevantContainers ps))"

definition failsRestrictedOf :: "gmap \<Rightarrow> string list" where
  "failsRestrictedOf ps =
     map pv_msg (filter (\<lambda>v. \<not> pv_failsBaseline v) (containerProfileViolations ps)) @
     concat (map (\<lambda>raw. rootViolations (asAnyMap (gget ps ''securityContext'')) raw @ restrictedCaps raw) (SecurityRelevantContainers ps))"

definition classifyPodSecurity :: "K8sInventoryItem \<Rightarrow> gmap \<Rightarrow> PodSecurityResult" where
  "classifyPodSecurity it ps =
     (let hostLevel = hostLevelOf ps; failsBaseline = failsBaselineOf ps; failsRestricted = failsRestrictedOf ps in
      \<lparr>pr_ClusterID = iv_ClusterID it, pr_Namespace = iv_Namespace it, pr_Kind = iv_Kind it, pr_Name = iv_Name it,
       pr_Level = (if hostLevel \<noteq> [] \<or> failsBaseline \<noteq> [] then ''privileged''
                   else if failsRestricted \<noteq> [] then ''baseline'' else ''restricted''),
       pr_Violations = hostLevel @ failsBaseline @ failsRestricted\<rparr>)"

section \<open>Images\<close>

definition imagesOf :: "gval \<Rightarrow> string list" where
  "imagesOf v =
     concat (map (\<lambda>c. case c of
         GMap cm \<Rightarrow> (case gget cm ''image'' of GStr img \<Rightarrow> if trimSpace img \<noteq> [] then [img] else [] | _ \<Rightarrow> [])
       | _ \<Rightarrow> []) (asAnySlice v))"

definition ExtractImages :: "gmap \<Rightarrow> string list" where
  "ExtractImages spec =
     imagesOf (gget spec ''containers'') @ imagesOf (gget spec ''initContainers'') @ imagesOf (gget spec ''ephemeralContainers'') @
     (case gget spec ''template'' of
        GMap tmpl \<Rightarrow> (case gget tmpl ''spec'' of
            GMap ps \<Rightarrow> imagesOf (gget ps ''containers'') @ imagesOf (gget ps ''initContainers'')
          | _ \<Rightarrow> [])
      | _ \<Rightarrow> [])"

text \<open>\<^verbatim>\<open>[registry[:port]/]repo[:tag][@digest]\<close>. A colon at the start of the name introduces no tag.\<close>

definition imageTagAndDigest :: "string \<Rightarrow> string \<times> string" where
  "imageTagAndDigest ref =
     (let (rest, digest) = (case index ref ''@'' of None \<Rightarrow> (ref, []) | Some i \<Rightarrow> (take i ref, drop (Suc i) ref));
          name = afterLast (CHR ''/'') rest;
          tag = (if CHR '':'' \<in> set (tl name) then afterLast (CHR '':'') name else [])
      in (tag, digest))"

definition mutableTag :: "string \<Rightarrow> bool" where
  "mutableTag img \<longleftrightarrow> (let (tag, digest) = imageTagAndDigest img in digest = [] \<and> (tag = [] \<or> tag = ''latest''))"

section \<open>Findings\<close>

record SecFinding =
  sf_ClusterID :: string
  sf_Namespace :: string
  sf_ResourceKind :: string
  sf_ResourceName :: string
  sf_Rule :: string
  sf_Severity :: string
  sf_Message :: string
  sf_Evidence :: "string list"

definition secf :: "K8sInventoryItem \<Rightarrow> string \<Rightarrow> string \<Rightarrow> string \<Rightarrow> string list \<Rightarrow> SecFinding" where
  "secf it rule severity msg evidence =
     \<lparr>sf_ClusterID = iv_ClusterID it, sf_Namespace = iv_Namespace it, sf_ResourceKind = iv_Kind it, sf_ResourceName = iv_Name it,
      sf_Rule = rule, sf_Severity = severity, sf_Message = msg, sf_Evidence = evidence\<rparr>"

definition imageFindings :: "K8sInventoryItem \<Rightarrow> gmap \<Rightarrow> SecFinding list" where
  "imageFindings it ps =
     map (\<lambda>img. secf it ''image-tag-policy'' ''medium'' ((utf8 [0xC774, 0xBBF8, 0xC9C0, 0x20, 0xD0DC, 0xADF8, 0x20, 0xC815, 0xCC45, 0x20, 0xC704, 0xBC18] @ '': '') @ img)
              [(''mutable/'' @ utf8 [0xB204, 0xB77D, 0x20, 0xD0DC, 0xADF8] @ ''(:latest '' @ utf8 [0xB610, 0xB294, 0x20, 0xD0DC, 0xADF8, 0x20, 0xC5C6, 0xC74C] @ '')''), (''digest '' @ utf8 [0xACE0, 0xC815, 0x20, 0xC548, 0x20, 0xB428])])
       (filter mutableTag (ExtractImages ps))"

definition secretNames :: "gmap \<Rightarrow> string list" where
  "secretNames ps =
     remdups (filter (\<lambda>n. n \<noteq> [])
       (map (\<lambda>raw. asString (gget (asAnyMap (gget (asAnyMap raw) ''secret'')) ''secretName'')) (asAnySlice (gget ps ''volumes'')) @
        concat (map (\<lambda>raw.
            map (\<lambda>ef. asString (gget (asAnyMap (gget (asAnyMap ef) ''secretRef'')) ''name'')) (asAnySlice (gget (asAnyMap raw) ''envFrom'')) @
            map (\<lambda>e. asString (gget (asAnyMap (gget (asAnyMap (gget (asAnyMap e) ''valueFrom'')) ''secretKeyRef'')) ''name''))
              (asAnySlice (gget (asAnyMap raw) ''env'')))
          (SecurityRelevantContainers ps))))"

definition secretRefFindings :: "K8sInventoryItem \<Rightarrow> gmap \<Rightarrow> SecFinding list" where
  "secretRefFindings it ps =
     (if secretNames ps = [] then []
      else [secf it ''secret-access'' ''low'' (utf8 [0xC6CC, 0xD06C, 0xB85C, 0xB4DC, 0xAC00] @ '' Secret'' @ utf8 [0xC744, 0x20, 0xCC38, 0xC870, 0xD569, 0xB2C8, 0xB2E4] @ ''.'') (secretNames ps)])"

definition ruleFindingsOf :: "K8sInventoryItem \<Rightarrow> gmap \<Rightarrow> SecFinding list" where
  "ruleFindingsOf it rule =
     (let verbs = map toLower (stringSlice (gget rule ''verbs''));
          resources = map toLower (stringSlice (gget rule ''resources''));
          apiGroups = map toLower (stringSlice (gget rule ''apiGroups'')) in
      if ''*'' \<in> set verbs \<and> ''*'' \<in> set resources
      then [secf it ''rbac-cluster-admin'' ''critical'' (utf8 [0xBAA8, 0xB4E0] @ '' verb/resource'' @ utf8 [0xB97C, 0x20, 0xD5C8, 0xC6A9, 0xD569, 0xB2C8, 0xB2E4] @ ''(cluster-admin '' @ utf8 [0xC218, 0xC900] @ '').'') [''verbs=* resources=*'']]
      else
        (if ''*'' \<in> set verbs \<or> ''*'' \<in> set resources \<or> ''*'' \<in> set apiGroups
         then [secf it ''rbac-wildcard'' ''high'' (''wildcard(*) '' @ utf8 [0xAD8C, 0xD55C, 0xC774, 0x20, 0xD3EC, 0xD568, 0xB418, 0xC5B4, 0x20, 0xC788, 0xC2B5, 0xB2C8, 0xB2E4] @ ''.'') [(''verbs/resources/apiGroups'' @ utf8 [0xC5D0] @ '' * '' @ utf8 [0xD3EC, 0xD568])]] else []) @
        (if ''secrets'' \<in> set resources \<and> (''list'' \<in> set verbs \<or> ''watch'' \<in> set verbs \<or> ''get'' \<in> set verbs \<or> ''*'' \<in> set verbs)
         then [secf it ''rbac-secret-access'' ''high'' (''Secret'' @ utf8 [0xC5D0, 0x20, 0xB300, 0xD55C] @ '' get/list/watch '' @ utf8 [0xAD8C, 0xD55C, 0xC774, 0x20, 0xC788, 0xC2B5, 0xB2C8, 0xB2E4] @ ''.'') [''resources=secrets verbs=get/list/watch'']]
         else []) @
        concat (map (\<lambda>danger. if danger \<in> set verbs
            then [secf it ''rbac-privilege-escalation'' ''high'' ((utf8 [0xAD8C, 0xD55C, 0x20, 0xC0C1, 0xC2B9] @ '' verb('') @ danger @ ('')'' @ utf8 [0xAC00, 0x20, 0xBD80, 0xC5EC, 0xB418, 0xC5B4, 0x20, 0xC788, 0xC2B5, 0xB2C8, 0xB2E4] @ ''.'')) [''verbs include '' @ danger]]
            else []) [''escalate'', ''bind'', ''impersonate'']))"

definition rbacFindings :: "K8sInventoryItem \<Rightarrow> SecFinding list" where
  "rbacFindings it = concat (map (\<lambda>raw. ruleFindingsOf it (asAnyMap raw)) (asAnySlice (gget (iv_Spec it) ''rules'')))"

section \<open>The report\<close>

record SecuritySummary =
  ss_Workloads :: int
  ss_Privileged :: int
  ss_Baseline :: int
  ss_Restricted :: int
  ss_RBACFindings :: int
  ss_ImageIssues :: int
  ss_NetGaps :: int
  ss_Score :: int

record SecurityReport =
  sr_PodSecurity :: "PodSecurityResult list"
  sr_RBAC :: "SecFinding list"
  sr_Images :: "SecFinding list"
  sr_Secrets :: "SecFinding list"
  sr_Network :: "SecFinding list"
  sr_Summary :: SecuritySummary

definition countLevel :: "string \<Rightarrow> PodSecurityResult list \<Rightarrow> int" where
  "countLevel l rs = int (length (filter (\<lambda>p. pr_Level p = l) rs))"

definition rbacPenalty :: "SecFinding \<Rightarrow> int" where
  "rbacPenalty f = (if sf_Severity f = ''critical'' then 6 else if sf_Severity f = ''high'' then 3 else 0)"

definition summarize ::
  "PodSecurityResult list \<Rightarrow> SecFinding list \<Rightarrow> SecFinding list \<Rightarrow> SecFinding list \<Rightarrow> SecuritySummary" where
  "summarize pods rbac images network =
     (let privileged = countLevel ''privileged'' pods; baseline = countLevel ''baseline'' pods;
          gaps = int (length network); issues = int (length images);
          score = 100 - privileged * 8 - baseline * 2 - sum_list (map rbacPenalty rbac) - gaps * 2 - issues in
      \<lparr>ss_Workloads = int (length pods), ss_Privileged = privileged, ss_Baseline = baseline,
       ss_Restricted = countLevel ''restricted'' pods, ss_RBACFindings = int (length rbac), ss_ImageIssues = issues,
       ss_NetGaps = gaps, ss_Score = (if score < 0 then 0 else score)\<rparr>)"

definition namespaceKey :: "K8sInventoryItem \<Rightarrow> string \<times> string" where
  "namespaceKey it = (iv_ClusterID it, iv_Namespace it)"

definition workloadSpecs :: "K8sInventoryItem list \<Rightarrow> (K8sInventoryItem \<times> gmap) list" where
  "workloadSpecs items =
     concat (map (\<lambda>it. if iv_Kind it \<in> set workloadKinds
                       then (case podSpecOf it of None \<Rightarrow> [] | Some ps \<Rightarrow> [(it, ps)]) else []) items)"

definition networkGaps :: "K8sInventoryItem list \<Rightarrow> (string \<times> string) list" where
  "networkGaps items =
     (let nsWithNetPol = map namespaceKey (filter (\<lambda>it. iv_Kind it = ''NetworkPolicy'') items);
          nsWithWorkload = map namespaceKey (filter (\<lambda>it. iv_Namespace it \<noteq> []) (map fst (workloadSpecs items)))
      in sort_key fst (sort_key snd (filter (\<lambda>key. key \<notin> set nsWithNetPol) (remdups nsWithWorkload))))"

definition gapFinding :: "string \<times> string \<Rightarrow> SecFinding" where
  "gapFinding key =
     \<lparr>sf_ClusterID = fst key, sf_Namespace = snd key, sf_ResourceKind = ''Namespace'', sf_ResourceName = snd key,
      sf_Rule = ''no-network-policy'', sf_Severity = ''medium'',
      sf_Message = (utf8 [0xC6CC, 0xD06C, 0xB85C, 0xB4DC, 0xAC00, 0x20, 0xC788, 0xC9C0, 0xB9CC] @ '' NetworkPolicy'' @ utf8 [0xAC00, 0x20, 0xC5C6, 0xC5B4, 0x20, 0xAE30, 0xBCF8] @ '' deny'' @ utf8 [0xAC00, 0x20, 0xC801, 0xC6A9, 0xB418, 0xC9C0, 0x20, 0xC54A, 0xC2B5, 0xB2C8, 0xB2E4] @ ''.''),
      sf_Evidence = [(''namespace'' @ utf8 [0xC5D0] @ '' NetworkPolicy '' @ utf8 [0xB9AC, 0xC18C, 0xC2A4, 0x20, 0xC5C6, 0xC74C])]\<rparr>"

definition AnalyzeSecurity :: "K8sInventoryItem list \<Rightarrow> SecurityReport" where
  "AnalyzeSecurity items =
     (let ws = workloadSpecs items;
          pods = map (\<lambda>(it, ps). classifyPodSecurity it ps) ws;
          images = concat (map (\<lambda>(it, ps). imageFindings it ps) ws);
          secrets = concat (map (\<lambda>(it, ps). secretRefFindings it ps) ws);
          rbac = concat (map rbacFindings (filter (\<lambda>it. iv_Kind it = ''Role'' \<or> iv_Kind it = ''ClusterRole'') items));
          network = map gapFinding (networkGaps items) in
      \<lparr>sr_PodSecurity = pods, sr_RBAC = rbac, sr_Images = images, sr_Secrets = secrets, sr_Network = network,
       sr_Summary = summarize pods rbac images network\<rparr>)"

definition SecurityRelevantKinds :: "string list" where
  "SecurityRelevantKinds = sort (workloadKinds @ [''Role'', ''ClusterRole'', ''NetworkPolicy'', ''Secret''])"

section \<open>Lemmas\<close>

lemma secf_sel [simp]:
  "sf_Severity (secf it rule severity msg evidence) = severity" "sf_Rule (secf it rule severity msg evidence) = rule"
  by (simp_all add: secf_def)

lemma gapFinding_inject [simp]: "gapFinding a = gapFinding b \<longleftrightarrow> a = b"
  by (cases a, cases b) (auto simp: gapFinding_def)

lemma workloadSpecs_iff:
  "(it, ps) \<in> set (workloadSpecs items) \<longleftrightarrow> it \<in> set items \<and> iv_Kind it \<in> set workloadKinds \<and> podSpecOf it = Some ps"
  by (auto simp: workloadSpecs_def split: option.splits if_splits)

lemma networkGaps_iff:
  "(c, n) \<in> set (networkGaps items) \<longleftrightarrow>
     (\<exists>it ps. (it, ps) \<in> set (workloadSpecs items) \<and> iv_ClusterID it = c \<and> iv_Namespace it = n) \<and> n \<noteq> [] \<and>
     \<not> (\<exists>it \<in> set items. iv_Kind it = ''NetworkPolicy'' \<and> iv_ClusterID it = c \<and> iv_Namespace it = n)"
proof -
  have netpol: "(c, n) \<in> namespaceKey ` {it \<in> set items. iv_Kind it = ''NetworkPolicy''} \<longleftrightarrow>
      (\<exists>it \<in> set items. iv_Kind it = ''NetworkPolicy'' \<and> iv_ClusterID it = c \<and> iv_Namespace it = n)"
    by (auto simp: namespaceKey_def image_iff)
  have work: "(c, n) \<in> namespaceKey ` {it \<in> fst ` set (workloadSpecs items). iv_Namespace it \<noteq> []} \<longleftrightarrow>
      (\<exists>it ps. (it, ps) \<in> set (workloadSpecs items) \<and> iv_ClusterID it = c \<and> iv_Namespace it = n) \<and> n \<noteq> []"
    by (force simp: namespaceKey_def image_iff)
  show ?thesis by (simp add: networkGaps_def Let_def netpol work)
qed

lemma networkGaps_distinct: "distinct (networkGaps items)"
  by (simp add: networkGaps_def Let_def)

lemma level_cases:
  "pr_Level (classifyPodSecurity it ps) \<in> {''privileged'', ''baseline'', ''restricted''}"
  by (simp add: classifyPodSecurity_def Let_def)

lemma restricted_iff: "pr_Level (classifyPodSecurity it ps) = ''restricted'' \<longleftrightarrow> pr_Violations (classifyPodSecurity it ps) = []"
  by (auto simp: classifyPodSecurity_def Let_def)

lemma privileged_iff:
  "pr_Level (classifyPodSecurity it ps) = ''privileged'' \<longleftrightarrow> hostLevelOf ps \<noteq> [] \<or> failsBaselineOf ps \<noteq> []"
  by (simp add: classifyPodSecurity_def Let_def)

text \<open>Every pod of a report has one of the three levels, so the counters partition it.\<close>

lemma countLevel_partition:
  assumes "\<And>p. p \<in> set rs \<Longrightarrow> pr_Level p \<in> {''privileged'', ''baseline'', ''restricted''}"
  shows "countLevel ''privileged'' rs + countLevel ''baseline'' rs + countLevel ''restricted'' rs = int (length rs)"
  using assms
proof (induction rs)
  case Nil
  then show ?case by (simp add: countLevel_def)
next
  case (Cons p rs)
  then have "pr_Level p \<in> {''privileged'', ''baseline'', ''restricted''}" by simp
  with Cons show ?case by (auto simp: countLevel_def)
qed

lemma countLevel_nonneg [simp]: "0 \<le> countLevel l rs"
  by (simp add: countLevel_def)

lemma countLevel_zero: "countLevel l rs = 0 \<longleftrightarrow> (\<forall>p \<in> set rs. pr_Level p \<noteq> l)"
  by (auto simp: countLevel_def filter_empty_conv)

lemma secf_severity: "sf_Severity (secf it rule severity msg evidence) = severity"
  by (simp add: secf_def)

lemma rule_severity: "list_all (\<lambda>f. sf_Severity f \<in> {''critical'', ''high''}) (ruleFindingsOf it rule)"
  by (simp add: ruleFindingsOf_def Let_def secf_severity)

lemma rbac_severity: "f \<in> set (rbacFindings it) \<Longrightarrow> sf_Severity f = ''critical'' \<or> sf_Severity f = ''high''"
  using rule_severity [of it] by (auto simp: rbacFindings_def list_all_iff)

lemma penalty_nonneg: "0 \<le> sum_list (map rbacPenalty fs)"
  by (induction fs) (auto simp: rbacPenalty_def)

lemma penalty_zero:
  assumes "\<And>f. f \<in> set fs \<Longrightarrow> sf_Severity f = ''critical'' \<or> sf_Severity f = ''high''"
  shows "sum_list (map rbacPenalty fs) = 0 \<longleftrightarrow> fs = []"
proof (cases fs)
  case Nil
  then show ?thesis by simp
next
  case (Cons f gs)
  with assms [of f] penalty_nonneg [of gs] have "0 < sum_list (map rbacPenalty fs)"
    by (auto simp: rbacPenalty_def)
  with Cons show ?thesis by simp
qed

lemma full_score:
  fixes p b r n i :: int
  assumes "0 \<le> p" "0 \<le> b" "0 \<le> r" "0 \<le> n" "0 \<le> i"
  shows "(if 100 - p * 8 - b * 2 - r - n * 2 - i < 0 then 0 else 100 - p * 8 - b * 2 - r - n * 2 - i) = 100 \<longleftrightarrow>
    p = 0 \<and> b = 0 \<and> r = 0 \<and> i = 0 \<and> n = 0"
  using assms by (cases "100 - p * 8 - b * 2 - r - n * 2 - i < 0") (simp_all, linarith+)

lemma summarize_score:
  "0 \<le> ss_Score (summarize pods rbac images network)" "ss_Score (summarize pods rbac images network) \<le> 100"
  "(\<And>f. f \<in> set rbac \<Longrightarrow> sf_Severity f = ''critical'' \<or> sf_Severity f = ''high'') \<Longrightarrow>
   ss_Score (summarize pods rbac images network) = 100 \<longleftrightarrow>
     countLevel ''privileged'' pods = 0 \<and> countLevel ''baseline'' pods = 0 \<and> rbac = [] \<and> images = [] \<and> network = []"
proof -
  show "0 \<le> ss_Score (summarize pods rbac images network)" by (simp add: summarize_def Let_def)
  show "ss_Score (summarize pods rbac images network) \<le> 100"
    using penalty_nonneg [of rbac] countLevel_nonneg [of "''privileged''" pods] countLevel_nonneg [of "''baseline''" pods]
    unfolding summarize_def Let_def by (simp split: if_split del: countLevel_nonneg)
  assume sev: "\<And>f. f \<in> set rbac \<Longrightarrow> sf_Severity f = ''critical'' \<or> sf_Severity f = ''high''"
  have "ss_Score (summarize pods rbac images network) = 100 \<longleftrightarrow>
      countLevel ''privileged'' pods = 0 \<and> countLevel ''baseline'' pods = 0 \<and> sum_list (map rbacPenalty rbac) = 0 \<and>
      int (length images) = 0 \<and> int (length network) = 0"
    unfolding summarize_def Let_def SecuritySummary.simps
    by (rule full_score) (simp_all add: penalty_nonneg)
  then show "ss_Score (summarize pods rbac images network) = 100 \<longleftrightarrow>
      countLevel ''privileged'' pods = 0 \<and> countLevel ''baseline'' pods = 0 \<and> rbac = [] \<and> images = [] \<and> network = []"
    by (simp add: penalty_zero [OF sev])
qed

section \<open>Properties\<close>

text \<open>
  The posture report. A namespace is reported without a network policy exactly when some
  workload with a pod spec runs in it and no network policy of the same cluster and namespace
  was collected, so a policy of another cluster's namespace of the same name never hides a
  gap; no gap is reported twice; every workload is counted at exactly one level; and the score
  is between 0 and 100, with 100 exactly when every pod meets the Restricted profile and
  there is no RBAC, image or network finding.
\<close>

theorem posture_report_exact:
  "(gapFinding (c, n) \<in> set (sr_Network (AnalyzeSecurity items)) \<longleftrightarrow>
      n \<noteq> [] \<and>
      (\<exists>it \<in> set items. iv_ClusterID it = c \<and> iv_Namespace it = n \<and> iv_Kind it \<in> set workloadKinds \<and> podSpecOf it \<noteq> None) \<and>
      \<not> (\<exists>it \<in> set items. iv_Kind it = ''NetworkPolicy'' \<and> iv_ClusterID it = c \<and> iv_Namespace it = n)) \<and>
   distinct (sr_Network (AnalyzeSecurity items)) \<and>
   ss_Privileged (sr_Summary (AnalyzeSecurity items)) + ss_Baseline (sr_Summary (AnalyzeSecurity items)) +
     ss_Restricted (sr_Summary (AnalyzeSecurity items)) = ss_Workloads (sr_Summary (AnalyzeSecurity items)) \<and>
   0 \<le> ss_Score (sr_Summary (AnalyzeSecurity items)) \<and> ss_Score (sr_Summary (AnalyzeSecurity items)) \<le> 100 \<and>
   (ss_Score (sr_Summary (AnalyzeSecurity items)) = 100 \<longleftrightarrow>
      list_all (\<lambda>p. pr_Level p = ''restricted'') (sr_PodSecurity (AnalyzeSecurity items)) \<and>
      sr_RBAC (AnalyzeSecurity items) = [] \<and> sr_Images (AnalyzeSecurity items) = [] \<and> sr_Network (AnalyzeSecurity items) = [])"
proof -
  let ?r = "AnalyzeSecurity items"
  have levels: "pr_Level p \<in> {''privileged'', ''baseline'', ''restricted''}" if "p \<in> set (sr_PodSecurity ?r)" for p
    using that level_cases by (auto simp: AnalyzeSecurity_def Let_def)
  have sev: "sf_Severity f = ''critical'' \<or> sf_Severity f = ''high''" if "f \<in> set (sr_RBAC ?r)" for f
    using that rbac_severity by (auto simp: AnalyzeSecurity_def Let_def)
  have summary: "sr_Summary ?r = summarize (sr_PodSecurity ?r) (sr_RBAC ?r) (sr_Images ?r) (sr_Network ?r)"
    by (simp add: AnalyzeSecurity_def Let_def)
  have network: "sr_Network ?r = map gapFinding (networkGaps items)" by (simp add: AnalyzeSecurity_def Let_def)
  have gap: "gapFinding (c, n) \<in> set (sr_Network ?r) \<longleftrightarrow> (c, n) \<in> set (networkGaps items)"
    by (auto simp: network)
  have dist: "distinct (sr_Network ?r)"
    by (simp add: network distinct_map networkGaps_distinct inj_on_def)
  have zero: "countLevel ''privileged'' (sr_PodSecurity ?r) = 0 \<and> countLevel ''baseline'' (sr_PodSecurity ?r) = 0 \<longleftrightarrow>
      list_all (\<lambda>p. pr_Level p = ''restricted'') (sr_PodSecurity ?r)"
    using levels by (fastforce simp: countLevel_zero list_all_iff)
  show ?thesis
    unfolding gap networkGaps_iff workloadSpecs_iff
    using dist countLevel_partition [of "sr_PodSecurity ?r", OF levels] summarize_score(1,2) summarize_score(3) [OF sev] zero
    by (auto simp: summary summarize_def Let_def)
qed

end
