(* ===== verification/Rbac_Diff.thy ===== *)
theory Rbac_Diff
  imports K8s_Inventory "HOL-Library.Multiset"
begin

text \<open>
  The RBAC comparison of \<^verbatim>\<open>internal/analyzer/security.go\<close>: which permissions a changed Role or
  ClusterRole confers that the old one did not. A revision is given by its \<^verbatim>\<open>Spec\<close>. The set of
  names in a \<^verbatim>\<open>resourceNames\<close> restriction is a list without duplicates; the result is sorted,
  so the iteration order of the Go map does not show. \<open>sortStrings\<close> is the in-place insertion
  sort of the source, with its two nested loops.

  The abstract specification is the authorizer of the Kubernetes API server, \<open>grantAllows\<close>:
  which requests one granted rule permits.
\<close>

section \<open>Grants\<close>

record rbacGrant =
  rg_group :: string
  rg_resource :: string
  rg_verb :: string
  rg_nonResource :: bool
  rg_names :: "string list option"

definition grant_key :: "rbacGrant \<Rightarrow> string \<Rightarrow> string" where
  "grant_key g name =
     (let k = rg_group g @ ''|'' @ rg_resource g @ ''|'' @ rg_verb g in if name \<noteq> [] then k @ ''|'' @ name else k)"

definition ruleGrants :: "gmap \<Rightarrow> rbacGrant list" where
  "ruleGrants rule =
     (let verbs = stringSlice (gget rule ''verbs'');
          rn = stringSlice (gget rule ''resourceNames'');
          names = (if rn \<noteq> [] then Some (remdups rn) else None);
          gs = stringSlice (gget rule ''apiGroups'');
          groups = (if gs = [] then [[]] else gs) in
      concat (map (\<lambda>g. concat (map (\<lambda>r. map (\<lambda>v.
          \<lparr>rg_group = g, rg_resource = r, rg_verb = v, rg_nonResource = False, rg_names = names\<rparr>) verbs)
        (stringSlice (gget rule ''resources'')))) groups) @
      concat (map (\<lambda>u. map (\<lambda>v.
          \<lparr>rg_group = [], rg_resource = u, rg_verb = v, rg_nonResource = True, rg_names = None\<rparr>) verbs)
        (stringSlice (gget rule ''nonResourceURLs''))))"

definition rbacGrants :: "gmap \<Rightarrow> rbacGrant list" where
  "rbacGrants spec = concat (map (\<lambda>raw. ruleGrants (asAnyMap raw)) (asAnySlice (gget spec ''rules'')))"

definition trimSuffix :: "string \<Rightarrow> string \<Rightarrow> string" where
  "trimSuffix s suf = (if hasSuffix s suf then take (length s - length suf) s else s)"

definition trimPrefix :: "string \<Rightarrow> string \<Rightarrow> string" where
  "trimPrefix s pre = (if hasPrefix s pre then drop (length pre) s else s)"

definition rbacCovers :: "rbacGrant \<Rightarrow> rbacGrant \<Rightarrow> string \<Rightarrow> bool" where
  "rbacCovers have0 want name \<longleftrightarrow>
     (if rg_nonResource have0 \<noteq> rg_nonResource want \<or> (rg_verb have0 \<noteq> ''*'' \<and> rg_verb have0 \<noteq> rg_verb want) then False
      else if rg_nonResource have0
      then rg_resource have0 = ''*'' \<or> rg_resource have0 = rg_resource want \<or>
           (hasSuffix (rg_resource have0) ''*'' \<and> hasPrefix (rg_resource want) (trimSuffix (rg_resource have0) ''*''))
      else if rg_group have0 \<noteq> ''*'' \<and> rg_group have0 \<noteq> rg_group want then False
      else if (case rg_names have0 of None \<Rightarrow> False | Some ns \<Rightarrow> name = [] \<or> name \<notin> set ns) then False
      else if rg_resource have0 = ''*'' \<or> rg_resource have0 = rg_resource want then True
      else let sub = trimPrefix (rg_resource have0) ''*/'' in
           if sub \<noteq> rg_resource have0 then hasSuffix (rg_resource want) (''/'' @ sub) else False)"

section \<open>Sorting\<close>

fun sortInner :: "nat \<Rightarrow> string list \<Rightarrow> string list" where
  "sortInner 0 ss = ss"
| "sortInner (Suc j) ss =
     (if ss ! j > ss ! Suc j then sortInner j (ss[j := ss ! Suc j, Suc j := ss ! j]) else ss)"

lemma length_sortInner [simp]: "length (sortInner j ss) = length ss"
  by (induction j ss rule: sortInner.induct) auto

function sortOuter :: "nat \<Rightarrow> string list \<Rightarrow> string list" where
  "sortOuter i ss = (if i < length ss then sortOuter (Suc i) (sortInner i ss) else ss)"
  by pat_completeness auto

termination sortOuter
  by (relation "measure (\<lambda>(i, ss). length ss - i)") auto

declare sortOuter.simps [simp del]

definition sortStrings :: "string list \<Rightarrow> string list" where
  "sortStrings ss = sortOuter 1 ss"

section \<open>Expansions\<close>

definition covered :: "rbacGrant list \<Rightarrow> rbacGrant \<Rightarrow> string \<Rightarrow> bool" where
  "covered fromGrants want name \<longleftrightarrow> list_ex (\<lambda>g. rbacCovers g want name) fromGrants"

definition grantExpansions :: "rbacGrant list \<Rightarrow> rbacGrant \<Rightarrow> string list" where
  "grantExpansions fromGrants want =
     (case rg_names want of
        None \<Rightarrow> if covered fromGrants want [] then [] else [grant_key want []]
      | Some ns \<Rightarrow> map (grant_key want) (filter (\<lambda>name. \<not> covered fromGrants want name) ns))"

definition addKey :: "string list \<Rightarrow> string \<Rightarrow> string list" where
  "addKey added k = (if k \<in> set added then added else added @ [k])"

definition RBACDiffExpansions :: "gmap \<Rightarrow> gmap \<Rightarrow> string list" where
  "RBACDiffExpansions fromSpec toSpec =
     sortStrings (foldl addKey [] (concat (map (grantExpansions (rbacGrants fromSpec)) (rbacGrants toSpec))))"

definition IsRiskyPermission :: "string \<Rightarrow> bool" where
  "IsRiskyPermission triple \<longleftrightarrow>
     (let parts = splitOn (CHR ''|'') triple in
      if length parts \<noteq> 3 \<and> length parts \<noteq> 4 then False
      else
        let grp = parts ! 0; resource = parts ! 1; verb = parts ! 2 in
        if grp = ''*'' \<or> resource = ''*'' \<or> verb = ''*'' then True
        else if resource = ''secrets'' \<and> (verb = ''get'' \<or> verb = ''list'' \<or> verb = ''watch'') then True
        else verb = ''escalate'' \<or> verb = ''bind'' \<or> verb = ''impersonate'')"

section \<open>The authorizer\<close>

text \<open>A request for an object of a resource (the name is empty for a request about the whole
  collection) or for a URL that is no resource.\<close>

datatype rbac_request =
    ResourceRequest string string string string
  | UrlRequest string string

text \<open>A \<^verbatim>\<open>*\<close> matches everything, \<^verbatim>\<open>*/sub\<close> the subresource of every resource, a URL that ends in
  \<^verbatim>\<open>*\<close> every URL that begins like it up to its trailing stars; a rule with resource names permits those objects only.\<close>

definition resourceMatches :: "string \<Rightarrow> string \<Rightarrow> bool" where
  "resourceMatches pat res \<longleftrightarrow> pat = ''*'' \<or> pat = res \<or>
     (\<exists>sub. pat = ''*/'' @ sub \<and> hasSuffix res (''/'' @ sub))"

definition trimStars :: "string \<Rightarrow> string" where
  "trimStars s = rev (dropWhile (\<lambda>c. c = CHR ''*'') (rev s))"

definition urlMatches :: "string \<Rightarrow> string \<Rightarrow> bool" where
  "urlMatches pat url \<longleftrightarrow> pat = ''*'' \<or> pat = url \<or> (hasSuffix pat ''*'' \<and> hasPrefix url (trimStars pat))"

fun grantAllows :: "rbacGrant \<Rightarrow> rbac_request \<Rightarrow> bool" where
  "grantAllows g (ResourceRequest grp resource verb name) \<longleftrightarrow>
     \<not> rg_nonResource g \<and> (rg_verb g = ''*'' \<or> rg_verb g = verb) \<and> (rg_group g = ''*'' \<or> rg_group g = grp) \<and>
     resourceMatches (rg_resource g) resource \<and> (case rg_names g of None \<Rightarrow> True | Some ns \<Rightarrow> name \<in> set ns)"
| "grantAllows g (UrlRequest url verb) \<longleftrightarrow>
     rg_nonResource g \<and> (rg_verb g = ''*'' \<or> rg_verb g = verb) \<and> urlMatches (rg_resource g) url"

definition roleAllows :: "gmap \<Rightarrow> rbac_request \<Rightarrow> bool" where
  "roleAllows spec req \<longleftrightarrow> (\<exists>g \<in> set (rbacGrants spec). grantAllows g req)"

section \<open>Insertion sort\<close>

lemma insort_snoc_less: "(x::string) < y \<Longrightarrow> insort x (xs @ [y]) = insort x xs @ [y]"
  by (induction xs) auto

lemma insort_last: "sorted xs \<Longrightarrow> \<forall>z \<in> set xs. z \<le> (x::string) \<Longrightarrow> insort x xs = xs @ [x]"
  using properties_for_sort [of "xs @ [x]" "x # xs"] by (simp add: sorted_append sorted_sort_id)

lemma sortInner_insort:
  "j < length ss \<Longrightarrow> sorted (take j ss) \<Longrightarrow> sortInner j ss = insort (ss ! j) (take j ss) @ drop (Suc j) ss"
proof (induction j ss rule: sortInner.induct)
  case (1 ss)
  then show ?case by (cases ss) auto
next
  case (2 j ss)
  let ?x = "ss ! Suc j" and ?y = "ss ! j"
  have j: "j < length ss" using "2.prems" by simp
  have split: "take (Suc j) ss = take j ss @ [?y]" using j by (simp add: take_Suc_conv_app_nth)
  then have sorted: "sorted (take j ss)" "\<forall>z \<in> set (take j ss). z \<le> ?y"
    using "2.prems"(2) by (simp_all add: sorted_append)
  show ?case
  proof (cases "?y > ?x")
    case True
    let ?ss = "ss[j := ?x, Suc j := ?y]"
    have "sortInner j ?ss = insort (?ss ! j) (take j ?ss) @ drop (Suc j) ?ss"
      using "2.IH" [OF True] "2.prems" sorted(1) by simp
    moreover have "?ss ! j = ?x" using "2.prems" by simp
    moreover have "drop (Suc j) ?ss = ?y # drop (Suc (Suc j)) ss"
      using "2.prems"(1) by (simp add: drop_update_swap Cons_nth_drop_Suc [symmetric])
    moreover have "insort ?x (take j ss @ [?y]) = insort ?x (take j ss) @ [?y]"
      using True by (simp add: insort_snoc_less)
    ultimately show ?thesis using True split by simp
  next
    case False
    have "insort ?x (take (Suc j) ss) = take (Suc j) ss @ [?x]"
      using False sorted "2.prems"(2) by (intro insort_last) (auto simp: split)
    moreover have "take (Suc j) ss @ ?x # drop (Suc (Suc j)) ss = ss" using "2.prems"(1) by (simp add: id_take_nth_drop [symmetric])
    ultimately show ?thesis using False by simp
  qed
qed

lemma sortOuter_sort:
  "sorted (take i ss) \<Longrightarrow> sortOuter i ss = sort ss"
proof (induction i ss rule: sortOuter.induct)
  case (1 i ss)
  show ?case
  proof (cases "i < length ss")
    case True
    let ?ss = "sortInner i ss"
    have eq: "?ss = insort (ss ! i) (take i ss) @ drop (Suc i) ss" using sortInner_insort [OF True "1.prems"] .
    have "sorted (take (Suc i) ?ss)" using True "1.prems" by (simp add: eq sorted_insort)
    then have "sortOuter (Suc i) ?ss = sort ?ss" by (rule "1.IH" [OF True])
    moreover have "mset ?ss = mset ss"
    proof -
      have "mset ss = mset (take i ss @ ss ! i # drop (Suc i) ss)" using True by (simp only: id_take_nth_drop [symmetric])
      then show ?thesis by (simp add: eq)
    qed
    then have "sort ?ss = sort ss" by (intro properties_for_sort) simp_all
    ultimately show ?thesis using True by (simp add: sortOuter.simps [of i ss])
  next
    case False
    then show ?thesis using "1.prems" by (simp add: sortOuter.simps [of i ss] sorted_sort_id)
  qed
qed

lemma sortStrings_sort: "sortStrings ss = sort ss"
proof -
  have "sorted (take 1 ss)" by (cases ss) auto
  then show ?thesis by (simp add: sortStrings_def sortOuter_sort)
qed

section \<open>Coverage is sound\<close>

lemma trimStars_split: "\<exists>k. s = trimStars s @ replicate k (CHR ''*'')"
proof -
  have "rev s = takeWhile (\<lambda>c. c = CHR ''*'') (rev s) @ dropWhile (\<lambda>c. c = CHR ''*'') (rev s)" by simp
  moreover have "takeWhile (\<lambda>c. c = CHR ''*'') (rev s) = replicate (length (takeWhile (\<lambda>c. c = CHR ''*'') (rev s))) (CHR ''*'')"
    by (intro replicate_eqI) (auto dest: set_takeWhileD)
  ultimately show ?thesis
    by (metis rev_append rev_replicate rev_rev_ident trimStars_def)
qed

lemma trimStars_no_star: "trimStars s \<noteq> [] \<Longrightarrow> last (trimStars s) \<noteq> CHR ''*''"
  by (metis (full_types) dropWhile_eq_Nil_conv hd_dropWhile last_rev rev_is_Nil_conv trimStars_def)

lemma trimStars_snoc: "trimStars (s @ ''*'') = trimStars s"
  by (simp add: trimStars_def)

lemma prefix_before_stars:
  assumes "prefix p (q @ replicate k (CHR ''*''))" and "p \<noteq> [] \<Longrightarrow> last p \<noteq> CHR ''*''"
  shows "prefix p q"
proof (cases "length p \<le> length q")
  case True
  with assms(1) show ?thesis using prefix_length_prefix [of p _ q] by simp
next
  case False
  then obtain r where r: "p = q @ r" "r \<noteq> []" "prefix r (replicate k (CHR ''*''))"
    using assms(1) by (auto simp: prefix_append dest: prefix_length_le)
  then have "last r \<in> set (replicate k (CHR ''*''))" using set_mono_prefix last_in_set by blast
  with r assms(2) show ?thesis by (auto split: if_splits)
qed

lemma prefix_trimStars: "prefix p w \<Longrightarrow> prefix (trimStars p) (trimStars w)"
proof -
  assume "prefix p w"
  obtain k where "p = trimStars p @ replicate k (CHR ''*'')" using trimStars_split by blast
  then have "prefix (trimStars p) p" by (metis prefixI)
  with \<open>prefix p w\<close> have "prefix (trimStars p) w" using prefix_order.trans by blast
  moreover obtain m where "w = trimStars w @ replicate m (CHR ''*'')" using trimStars_split by blast
  ultimately have "prefix (trimStars p) (trimStars w @ replicate m (CHR ''*''))" by simp
  then show ?thesis using trimStars_no_star by (rule prefix_before_stars)
qed

lemma trimStars_prefix: "prefix (trimStars s) s"
  by (metis prefixI trimStars_split)

lemma url_covered:
  assumes "hasSuffix h ''*''" and "hasPrefix w (trimSuffix h ''*'')" and "urlMatches w url"
  shows "urlMatches h url"
proof -
  obtain p where p: "h = p @ ''*''" using assms(1) by (auto simp: hasSuffix_iff)
  then have pw: "prefix p w" using assms(2) by (simp add: trimSuffix_def hasSuffix_iff hasPrefix_def)
  have hp: "trimStars h = trimStars p" by (simp add: p trimStars_snoc)
  have "prefix (trimStars h) url"
  proof (cases "w = url")
    case True
    with pw hp trimStars_prefix show ?thesis by (metis prefix_order.trans)
  next
    case False
    then have "prefix (trimStars w) url"
      using assms(3) by (auto simp: urlMatches_def hasPrefix_def trimStars_def)
    with prefix_trimStars [OF pw] hp show ?thesis by (metis prefix_order.trans)
  qed
  with assms(1) show ?thesis by (simp add: urlMatches_def hasPrefix_def)
qed

lemma subresource_covered:
  assumes "hasSuffix w (''/'' @ sub)" and "resourceMatches w res"
  shows "hasSuffix res (''/'' @ sub)"
proof -
  have star: "w \<noteq> ''*''" using assms(1) by (auto simp: hasSuffix_iff append_eq_Cons_conv)
  show ?thesis
  proof (cases "w = res")
    case True
    with assms(1) show ?thesis by simp
  next
    case False
    with assms(2) star obtain sub' where s: "w = ''*/'' @ sub'" "hasSuffix res (''/'' @ sub')"
      by (auto simp: resourceMatches_def)
    obtain a where a: "''*/'' @ sub' = a @ ''/'' @ sub" using assms(1) s(1) by (auto simp: hasSuffix_iff)
    then obtain b where "''/'' @ sub' = b @ ''/'' @ sub" by (cases a) auto
    with s(2) show ?thesis by (metis append.assoc hasSuffix_iff)
  qed
qed

lemma resource_covered:
  assumes "h = ''*'' \<or> h = w \<or> (trimPrefix h ''*/'' \<noteq> h \<and> hasSuffix w (''/'' @ trimPrefix h ''*/''))"
    and "resourceMatches w res"
  shows "resourceMatches h res"
proof (cases "h = ''*'' \<or> h = w")
  case True
  with assms(2) show ?thesis by (auto simp: resourceMatches_def)
next
  case False
  with assms(1) have h: "trimPrefix h ''*/'' \<noteq> h" "hasSuffix w (''/'' @ trimPrefix h ''*/'')" by auto
  then have "hasPrefix h ''*/''" by (auto simp: trimPrefix_def split: if_splits)
  then obtain sub where "h = ''*/'' @ sub" by (auto simp: hasPrefix_iff)
  moreover from this have "trimPrefix h ''*/'' = sub" by (simp add: trimPrefix_def hasPrefix_iff)
  ultimately show ?thesis using subresource_covered [OF h(2) assms(2)] by (auto simp: resourceMatches_def)
qed

lemma covers_resource:
  assumes "rbacCovers h w name" and "\<not> rg_nonResource w"
  shows "\<not> rg_nonResource h" and "rg_verb h = ''*'' \<or> rg_verb h = rg_verb w" and "rg_group h = ''*'' \<or> rg_group h = rg_group w"
    and "rg_names h = None \<or> (\<exists>ns. rg_names h = Some ns \<and> name \<noteq> [] \<and> name \<in> set ns)"
    and "rg_resource h = ''*'' \<or> rg_resource h = rg_resource w \<or>
      (trimPrefix (rg_resource h) ''*/'' \<noteq> rg_resource h \<and> hasSuffix (rg_resource w) (''/'' @ trimPrefix (rg_resource h) ''*/''))"
  using assms by (auto simp: rbacCovers_def Let_def split: if_splits option.splits)

lemma covers_sound_resource:
  assumes "rbacCovers h w name" and "grantAllows w (ResourceRequest grp res verb n)"
    and "rg_names w = None \<and> name = [] \<or> name = n"
  shows "grantAllows h (ResourceRequest grp res verb n)"
proof -
  have w: "\<not> rg_nonResource w" "resourceMatches (rg_resource w) res" using assms(2) by auto
  note c = covers_resource [OF assms(1) w(1)]
  have "resourceMatches (rg_resource h) res" using resource_covered [OF c(5) w(2)] .
  moreover have "rg_verb h = ''*'' \<or> rg_verb h = verb" "rg_group h = ''*'' \<or> rg_group h = grp"
    using c(2,3) assms(2) by auto
  moreover have "rg_names h = None \<or> (\<exists>ns. rg_names h = Some ns \<and> n \<in> set ns)" using c(4) assms(3) by auto
  ultimately show ?thesis using c(1) by auto
qed

lemma covers_sound_url:
  assumes "rbacCovers h w name" and "grantAllows w (UrlRequest url verb)"
  shows "grantAllows h (UrlRequest url verb)"
proof -
  have w: "rg_nonResource w" "urlMatches (rg_resource w) url" using assms(2) by auto
  have c: "rg_nonResource h" "rg_verb h = ''*'' \<or> rg_verb h = rg_verb w"
    "rg_resource h = ''*'' \<or> rg_resource h = rg_resource w \<or>
       (hasSuffix (rg_resource h) ''*'' \<and> hasPrefix (rg_resource w) (trimSuffix (rg_resource h) ''*''))"
    using assms(1) w(1) by (auto simp: rbacCovers_def split: if_splits)
  have "urlMatches (rg_resource h) url" using c(3) w(2) url_covered by (auto simp: urlMatches_def)
  with c assms(2) show ?thesis by auto
qed

lemma foldl_addKey: "set (foldl addKey acc ks) = set acc \<union> set ks \<and> (distinct acc \<longrightarrow> distinct (foldl addKey acc ks))"
  by (induction ks arbitrary: acc) (auto simp: addKey_def)

lemma expansions_set:
  "set (RBACDiffExpansions f t) = (\<Union>w \<in> set (rbacGrants t). set (grantExpansions (rbacGrants f) w))"
  by (simp add: RBACDiffExpansions_def sortStrings_sort foldl_addKey)

lemma urlGrant_names: "g \<in> set (rbacGrants spec) \<Longrightarrow> rg_nonResource g \<Longrightarrow> rg_names g = None"
  by (auto simp: rbacGrants_def ruleGrants_def Let_def)

text \<open>The name a request is about, as far as a grant distinguishes names.\<close>

definition requestName :: "rbacGrant \<Rightarrow> rbac_request \<Rightarrow> string" where
  "requestName g req = (case req of ResourceRequest _ _ _ n \<Rightarrow> if rg_names g = None then [] else n | UrlRequest _ _ \<Rightarrow> [])"

lemma covers_sound: "rbacCovers h w (requestName w req) \<Longrightarrow> grantAllows w req \<Longrightarrow> grantAllows h req"
proof (cases req)
  case (ResourceRequest grp res verb n)
  assume "rbacCovers h w (requestName w req)" and "grantAllows w req"
  moreover have "rg_names w = None \<and> requestName w req = [] \<or> requestName w req = n"
    by (auto simp: requestName_def ResourceRequest)
  ultimately show ?thesis using covers_sound_resource ResourceRequest by metis
next
  case (UrlRequest url verb)
  assume "rbacCovers h w (requestName w req)" and "grantAllows w req"
  then show ?thesis using covers_sound_url UrlRequest by metis
qed

lemma requestName_allowed:
  assumes "w \<in> set (rbacGrants t)" and "grantAllows w req"
  shows "rg_names w = None \<and> requestName w req = [] \<or> (\<exists>ns. rg_names w = Some ns \<and> requestName w req \<in> set ns)"
  using assms urlGrant_names [OF assms(1)] by (cases req) (auto simp: requestName_def split: option.splits)

lemma uncovered_reported:
  assumes "w \<in> set (rbacGrants t)" and "grantAllows w req" and "\<not> roleAllows f req"
  shows "grant_key w (requestName w req) \<in> set (grantExpansions (rbacGrants f) w)"
proof -
  have "\<not> covered (rbacGrants f) w (requestName w req)"
    using covers_sound [OF _ assms(2)] assms(3) by (auto simp: covered_def list_ex_iff roleAllows_def)
  then show ?thesis using requestName_allowed [OF assms(1,2)] by (auto simp: grantExpansions_def)
qed

section \<open>Properties\<close>

text \<open>
  C31. No permission gained by a changed Role or ClusterRole escapes the RBAC diff: for every
  request that the API server authorizes under the new rules and refused under the old ones,
  the diff lists the key of a grant of the new rules that permits it. In particular a diff
  without entries means that no request became permitted.
\<close>

theorem rbac_diff_reports_new_permissions:
  assumes "roleAllows t req" and "\<not> roleAllows f req"
  shows "\<exists>w \<in> set (rbacGrants t). grantAllows w req \<and> grant_key w (requestName w req) \<in> set (RBACDiffExpansions f t)"
proof -
  obtain w where w: "w \<in> set (rbacGrants t)" "grantAllows w req" using assms(1) by (auto simp: roleAllows_def)
  with uncovered_reported [OF w assms(2)] show ?thesis by (auto simp: expansions_set)
qed

definition exampleRole :: "(string \<times> gval) list \<Rightarrow> gmap" where
  "exampleRole extra =
     [(''rules'', GList [GMap ([(''apiGroups'', GList [GStr []]), (''resources'', GList [GStr ''secrets'']),
        (''verbs'', GList [GStr ''get''])] @ extra)])]"

theorem rbac_diff_reports_new_permissions_witness:
  "\<exists>w \<in> set (rbacGrants (exampleRole [])). grantAllows w (ResourceRequest [] ''secrets'' ''get'' ''db'') \<and>
     grant_key w (requestName w (ResourceRequest [] ''secrets'' ''get'' ''db'')) \<in>
       set (RBACDiffExpansions (exampleRole [(''resourceNames'', GList [GStr ''web''])]) (exampleRole []))"
proof (rule rbac_diff_reports_new_permissions)
  show "roleAllows (exampleRole []) (ResourceRequest [] ''secrets'' ''get'' ''db'')"
    by (simp add: roleAllows_def rbacGrants_def ruleGrants_def exampleRole_def asAnySlice_def asAnyMap_def gget_def stringSlice_def
        resourceMatches_def)
  show "\<not> roleAllows (exampleRole [(''resourceNames'', GList [GStr ''web''])]) (ResourceRequest [] ''secrets'' ''get'' ''db'')"
    by (simp add: roleAllows_def rbacGrants_def ruleGrants_def exampleRole_def asAnySlice_def asAnyMap_def gget_def stringSlice_def)
qed

text \<open>
  C34. The hand-written sort of the RBAC diff, an in-place insertion sort, terminates on every
  list and returns the sorted permutation of it; so the diff is sorted and lists no key twice.
\<close>

theorem rbac_diff_is_sorted:
  "sortStrings ss = sort ss \<and> sorted (RBACDiffExpansions f t) \<and> distinct (RBACDiffExpansions f t)"
  using foldl_addKey by (simp add: RBACDiffExpansions_def sortStrings_sort)

end
