(* ===== verification/Policy_Engine.thy ===== *)
theory Policy_Engine
  imports Pod_Security Row_Store
begin

text \<open>
  The policy pack: the guardrail rules of \<^verbatim>\<open>internal/analyzer/policy.go\<close>, the manifest analysis of
  \<^verbatim>\<open>internal/analyzer/stack.go\<close> that the deploy and manifest paths gate on, the compliance scan
  over the inventory, and the stored policies of \<^verbatim>\<open>internal/store/k8s_meta.go\<close>. A rule's result
  \<^verbatim>\<open>(true, detail)\<close> is \<open>Some detail\<close>, \<^verbatim>\<open>(false, "")\<close> is \<open>None\<close>. Annotations are the list of their
  entries, a later entry standing first.
\<close>

section \<open>Policies\<close>

record Policy =
  po_ID :: string
  po_Name :: string
  po_RuleType :: string
  po_Action :: string
  po_Enabled :: bool

record PolicyResult =
  pt_PolicyID :: string
  pt_Name :: string
  pt_RuleType :: string
  pt_Action :: string
  pt_Violated :: bool
  pt_Detail :: string

definition PolicyRuleTypes :: "string list" where
  "PolicyRuleTypes =
     [''disallow_privileged'', ''disallow_host_network'', ''disallow_host_path'', ''disallow_latest_tag'',
      ''require_resource_limits'', ''require_run_as_non_root'', ''disallow_wildcard_rbac'', ''disallow_unsigned_image'',
      ''require_image_digest'', ''require_sbom'', ''require_vuln_scan_attestation'', ''deny_critical_vulnerability'',
      ''warn_high_vulnerability'', ''deny_unfixed_exception_expired'', ''deny_privileged_runtime'', ''enforce_pss_restricted'']"

text \<open>The stored form, its table and the conversion of the handlers.\<close>

record K8sPolicy =
  kp_ID :: string
  kp_Name :: string
  kp_RuleType :: string
  kp_Action :: string
  kp_Enabled :: bool
  kp_CreatedAt :: string
  kp_UpdatedAt :: string

definition UpsertK8sPolicy :: "string \<Rightarrow> K8sPolicy \<Rightarrow> K8sPolicy table \<Rightarrow> K8sPolicy table" where
  "UpsertK8sPolicy now p0 t =
     (let p = p0\<lparr>kp_CreatedAt := (if kp_CreatedAt p0 = [] then now else kp_CreatedAt p0), kp_UpdatedAt := now\<rparr> in
      if map_of t (kp_ID p) = None then t @ [(kp_ID p, p)]
      else updateWhere (kp_ID p) (\<lambda>_. True) (\<lambda>q. p\<lparr>kp_CreatedAt := kp_CreatedAt q\<rparr>) t)"

definition ListK8sPolicies :: "K8sPolicy table \<Rightarrow> K8sPolicy list" where
  "ListK8sPolicies t = sort_key kp_Name (map snd t)"

definition DeleteK8sPolicy :: "string \<Rightarrow> K8sPolicy table \<Rightarrow> K8sPolicy table" where
  "DeleteK8sPolicy i t = filter (\<lambda>(k, _). k \<noteq> i) t"

definition toAnalyzerPolicies :: "K8sPolicy list \<Rightarrow> Policy list" where
  "toAnalyzerPolicies ps =
     map (\<lambda>p. \<lparr>po_ID = kp_ID p, po_Name = kp_Name p, po_RuleType = kp_RuleType p, po_Action = kp_Action p, po_Enabled = kp_Enabled p\<rparr>) ps"

definition validPolicyRule :: "string \<Rightarrow> bool" where
  "validPolicyRule rt \<longleftrightarrow> rt \<in> set PolicyRuleTypes"

section \<open>What a rule reads\<close>

definition kindsWithTopLevelPayload :: "string list" where
  "kindsWithTopLevelPayload =
     [''configmap'', ''secret'', ''serviceaccount'', ''role'', ''clusterrole'', ''rolebinding'', ''clusterrolebinding'']"

definition PolicySpecOfDoc :: "string \<Rightarrow> gmap \<Rightarrow> gmap" where
  "PolicySpecOfDoc kind doc =
     (let spec = asAnyMap (gget doc ''spec'') in
      if spec \<noteq> [] then spec
      else if toLower (trimSpace kind) \<in> set kindsWithTopLevelPayload then doc
      else [])"

type_synonym annotations = "(string \<times> string) list"

definition annGet :: "annotations \<Rightarrow> string \<Rightarrow> string" where
  "annGet m k = (case map_of m k of None \<Rightarrow> [] | Some v \<Rightarrow> v)"

definition addAnnotation :: "annotations \<Rightarrow> string \<times> string \<Rightarrow> annotations" where
  "addAnnotation out kv = (let s = trimSpace (snd kv) in if s \<noteq> [] then (fst kv, s) # out else out)"

definition addAnnotations :: "annotations \<Rightarrow> gval \<Rightarrow> annotations" where
  "addAnnotations out raw = foldl addAnnotation out (map (\<lambda>(k, v). (k, asString v)) (asAnyMap raw))"

definition policyAnnotations :: "string \<Rightarrow> gmap \<Rightarrow> annotations \<Rightarrow> annotations" where
  "policyAnnotations kind spec own =
     (let out1 = addAnnotations [] (gget (asAnyMap (gget spec ''metadata'')) ''annotations'');
          tmpl = asAnyMap (gget spec ''template'');
          out2 = addAnnotations out1 (gget (asAnyMap (gget tmpl ''metadata'')) ''annotations'');
          out3 = (if equalFold kind ''Pod'' then addAnnotations out2 (gget spec ''annotations'') else out2)
      in foldl addAnnotation out3 own)"

definition quantitySet :: "gval \<Rightarrow> bool" where
  "quantitySet v \<longleftrightarrow> (case v of GNil \<Rightarrow> False | GStr t \<Rightarrow> trimSpace t \<noteq> [] | _ \<Rightarrow> True)"

definition hasWildcard :: "gval \<Rightarrow> bool" where
  "hasWildcard v \<longleftrightarrow> ''*'' \<in> set (stringSlice v)"

section \<open>The rules\<close>

definition psMap :: "gmap option \<Rightarrow> gmap" where
  "psMap ps = (case ps of None \<Rightarrow> [] | Some m \<Rightarrow> m)"

definition ruleContainers :: "gmap option \<Rightarrow> gval list" where
  "ruleContainers ps = (case ps of None \<Rightarrow> [] | Some m \<Rightarrow> SecurityRelevantContainers m)"

definition ruleImages :: "gmap option \<Rightarrow> string list" where
  "ruleImages ps = (case ps of None \<Rightarrow> [] | Some m \<Rightarrow> ExtractImages m)"

definition disallowPrivileged :: "gmap option \<Rightarrow> string option" where
  "disallowPrivileged ps =
     map_option (\<lambda>raw. containerName raw @ '': privileged=true'')
       (find (\<lambda>raw. asBool (gget (containerSC raw) ''privileged'')) (ruleContainers ps))"

definition hostPathRule :: "gmap option \<Rightarrow> string option" where
  "hostPathRule ps =
     (if list_ex hostPathVolume (asAnySlice (gget (psMap ps) ''volumes'')) then Some (''hostPath volume '' @ utf8 [0xC0AC, 0xC6A9]) else None)"

definition disallowLatestTag :: "gmap option \<Rightarrow> string option" where
  "disallowLatestTag ps = map_option (\<lambda>img. (''mutable '' @ utf8 [0xD0DC, 0xADF8] @ '': '') @ img) (find mutableTag (ruleImages ps))"

definition requireImageDigest :: "gmap option \<Rightarrow> string option" where
  "requireImageDigest ps =
     map_option (\<lambda>img. (''digest '' @ utf8 [0xBBF8, 0xACE0, 0xC815, 0x20, 0xC774, 0xBBF8, 0xC9C0] @ '': '') @ img) (find (\<lambda>img. \<not> contains img ''@sha256:'') (ruleImages ps))"

definition attestationRule :: "gmap option \<Rightarrow> annotations \<Rightarrow> string \<Rightarrow> string \<Rightarrow> string \<Rightarrow> string option" where
  "attestationRule ps ann key1 key2 msg =
     (if ruleImages ps \<noteq> [] \<and> annGet ann key1 = [] \<and> annGet ann key2 = [] then Some msg else None)"

definition countRule :: "annotations \<Rightarrow> string \<Rightarrow> string \<Rightarrow> string option" where
  "countRule ann key msg =
     (let n = trimSpace (annGet ann key) in if n \<noteq> [] \<and> n \<noteq> ''0'' then Some (msg @ n) else None)"

definition privilegedRuntime :: "gmap option \<Rightarrow> string option" where
  "privilegedRuntime ps =
     (let m = psMap ps in
      if asBool (gget m ''hostNetwork'') \<or> asBool (gget m ''hostPID'') \<or> asBool (gget m ''hostIPC'')
      then Some (''host namespace '' @ utf8 [0xC0AC, 0xC6A9])
      else (case hostPathRule ps of
        Some d \<Rightarrow> Some d
      | None \<Rightarrow> map_option (\<lambda>raw. containerName raw @ '': privileged/privesc'')
          (find (\<lambda>raw. asBool (gget (containerSC raw) ''privileged'') \<or> asBool (gget (containerSC raw) ''allowPrivilegeEscalation''))
            (ruleContainers ps))))"

definition enforcePssRestricted :: "gmap option \<Rightarrow> string option" where
  "enforcePssRestricted ps =
     (case privilegedRuntime ps of
        Some d \<Rightarrow> Some d
      | None \<Rightarrow> (case ps of
          None \<Rightarrow> None
        | Some m \<Rightarrow> let v = restrictedProfileViolations m in if v \<noteq> [] then Some (joinWith '', '' v) else None))"

definition missingLimits :: "gval \<Rightarrow> string list" where
  "missingLimits raw =
     (let lim = asAnyMap (gget (asAnyMap (gget (asAnyMap raw) ''resources'')) ''limits'') in
      filter (\<lambda>key. \<not> quantitySet (gget lim key)) [''cpu'', ''memory''])"

definition requireResourceLimits :: "gmap option \<Rightarrow> string option" where
  "requireResourceLimits ps =
     map_option (\<lambda>raw. containerName raw @ '': resources.limits.'' @ joinWith ''/'' (missingLimits raw) @ ('' '' @ utf8 [0xBBF8, 0xC124, 0xC815]))
       (find (\<lambda>raw. missingLimits raw \<noteq> []) (resourceDeclaringContainers (psMap ps)))"

definition nonRootFault :: "bool \<Rightarrow> gval \<Rightarrow> string option" where
  "nonRootFault podNonRoot raw =
     (case gget (containerSC raw) ''runAsNonRoot'' of
        GBool own \<Rightarrow> if own then None else Some (containerName raw @ ('': runAsNonRoot=false (Pod '' @ utf8 [0xC124, 0xC815, 0xC744, 0x20, 0xB36E, 0xC5B4, 0xC500] @ '')''))
      | _ \<Rightarrow> if podNonRoot then None else Some (containerName raw @ ('': runAsNonRoot '' @ utf8 [0xBBF8, 0xC124, 0xC815])))"

definition requireRunAsNonRoot :: "gmap option \<Rightarrow> string option" where
  "requireRunAsNonRoot ps =
     (let podNonRoot = asBool (gget (asAnyMap (gget (psMap ps) ''securityContext'')) ''runAsNonRoot'') in
      case find (\<lambda>raw. nonRootFault podNonRoot raw \<noteq> None) (ruleContainers ps) of
        None \<Rightarrow> None | Some raw \<Rightarrow> nonRootFault podNonRoot raw)"

definition wildcardRule :: "gmap \<Rightarrow> bool" where
  "wildcardRule rule \<longleftrightarrow>
     hasWildcard (gget rule ''verbs'') \<or> hasWildcard (gget rule ''resources'') \<or> hasWildcard (gget rule ''apiGroups'')"

definition disallowWildcardRbac :: "string \<Rightarrow> gmap \<Rightarrow> string option" where
  "disallowWildcardRbac kind spec =
     (if (kind = ''Role'' \<or> kind = ''ClusterRole'') \<and>
         list_ex (\<lambda>raw. wildcardRule (asAnyMap raw)) (asAnySlice (gget spec ''rules''))
      then Some (''wildcard(*) '' @ utf8 [0xAD8C, 0xD55C]) else None)"

definition evalPolicyRule :: "string \<Rightarrow> string \<Rightarrow> gmap \<Rightarrow> gmap option \<Rightarrow> annotations \<Rightarrow> string option" where
  "evalPolicyRule ruleType kind spec ps ann =
     (if ruleType = ''disallow_privileged'' then disallowPrivileged ps
      else if ruleType = ''disallow_host_network''
      then (if asBool (gget (psMap ps) ''hostNetwork'') then Some ''hostNetwork=true'' else None)
      else if ruleType = ''disallow_host_path'' then hostPathRule ps
      else if ruleType = ''disallow_latest_tag'' then disallowLatestTag ps
      else if ruleType = ''require_image_digest'' then requireImageDigest ps
      else if ruleType = ''disallow_unsigned_image''
      then attestationRule ps ann ''cosign.sigstore.dev/signature'' ''clustara.io/image-signature'' (utf8 [0xC774, 0xBBF8, 0xC9C0, 0x20, 0xC11C, 0xBA85] @ '' attestation '' @ utf8 [0xC5C6, 0xC74C])
      else if ruleType = ''require_sbom''
      then attestationRule ps ann ''clustara.io/sbom-ref'' ''clustara.io/sbom-digest'' (''SBOM '' @ utf8 [0xC5F0, 0xACB0, 0x20, 0xC815, 0xBCF4, 0x20, 0xC5C6, 0xC74C])
      else if ruleType = ''require_vuln_scan_attestation''
      then attestationRule ps ann ''clustara.io/vuln-scan-id'' ''clustara.io/vuln-scan-attestation'' (utf8 [0xCDE8, 0xC57D, 0xC810, 0x20, 0xC2A4, 0xCE94] @ '' attestation '' @ utf8 [0xC5C6, 0xC74C])
      else if ruleType = ''deny_critical_vulnerability''
      then countRule ann ''clustara.io/critical-vulnerabilities'' (''Critical '' @ utf8 [0xCDE8, 0xC57D, 0xC810] @ '' attestation: '')
      else if ruleType = ''warn_high_vulnerability''
      then countRule ann ''clustara.io/high-vulnerabilities'' (''High '' @ utf8 [0xCDE8, 0xC57D, 0xC810] @ '' attestation: '')
      else if ruleType = ''deny_unfixed_exception_expired''
      then (if equalFold (annGet ann ''clustara.io/exception-expired'') ''true'' then Some (utf8 [0xB9CC, 0xB8CC, 0xB41C, 0x20, 0xBCF4, 0xC548, 0x20, 0xC608, 0xC678]) else None)
      else if ruleType = ''deny_privileged_runtime'' then privilegedRuntime ps
      else if ruleType = ''enforce_pss_restricted'' then enforcePssRestricted ps
      else if ruleType = ''require_resource_limits'' then requireResourceLimits ps
      else if ruleType = ''require_run_as_non_root'' then requireRunAsNonRoot ps
      else if ruleType = ''disallow_wildcard_rbac'' then disallowWildcardRbac kind spec
      else None)"

definition EvaluatePolicies :: "string \<Rightarrow> gmap \<Rightarrow> annotations \<Rightarrow> Policy list \<Rightarrow> PolicyResult list" where
  "EvaluatePolicies kind spec ann policies =
     (let ps = podSpecFromKindSpec kind spec; merged = policyAnnotations kind spec ann in
      map (\<lambda>p. let r = evalPolicyRule (po_RuleType p) kind spec ps merged in
            \<lparr>pt_PolicyID = po_ID p, pt_Name = po_Name p, pt_RuleType = po_RuleType p, pt_Action = po_Action p,
             pt_Violated = (r \<noteq> None), pt_Detail = (case r of None \<Rightarrow> [] | Some d \<Rightarrow> d)\<rparr>)
        (filter po_Enabled policies))"

section \<open>Manifest analysis\<close>

record StackResource =
  st_Kind :: string
  st_APIVersion :: string
  st_Namespace :: string
  st_Name :: string
  st_Approval :: bool
  st_ApprovalReason :: string

record StackPlan =
  sp_Resources :: "StackResource list"
  sp_PolicyViolations :: "PolicyResult list"
  sp_RequiresApproval :: bool
  sp_ApprovalReasons :: "string list"
  sp_Warnings :: "string list"
  sp_Denied :: bool

definition approvalKinds :: "(string \<times> string) list" where
  "approvalKinds =
     [(''Secret'', (''Secret '' @ utf8 [0xBCC0, 0xACBD])), (''PersistentVolumeClaim'', (utf8 [0xC2A4, 0xD1A0, 0xB9AC, 0xC9C0] @ ''(PVC) '' @ utf8 [0xBCC0, 0xACBD])), (''Ingress'', (utf8 [0xC678, 0xBD80, 0x20, 0xB178, 0xCD9C] @ ''(Ingress) '' @ utf8 [0xBCC0, 0xACBD])),
      (''NetworkPolicy'', (utf8 [0xB124, 0xD2B8, 0xC6CC, 0xD06C, 0x20, 0xC815, 0xCC45, 0x20, 0xBCC0, 0xACBD])), (''Role'', (''RBAC '' @ utf8 [0xBCC0, 0xACBD])), (''RoleBinding'', (''RBAC '' @ utf8 [0xBC14, 0xC778, 0xB529, 0x20, 0xBCC0, 0xACBD])),
      (''ClusterRole'', (utf8 [0xD074, 0xB7EC, 0xC2A4, 0xD130] @ '' RBAC '' @ utf8 [0xBCC0, 0xACBD])), (''ClusterRoleBinding'', (utf8 [0xD074, 0xB7EC, 0xC2A4, 0xD130] @ '' RBAC '' @ utf8 [0xBC14, 0xC778, 0xB529, 0x20, 0xBCC0, 0xACBD])),
      (''ResourceQuota'', (utf8 [0xB9AC, 0xC18C, 0xC2A4, 0x20, 0xCFFC, 0xD130, 0x20, 0xBCC0, 0xACBD])), (''Namespace'', (utf8 [0xB124, 0xC784, 0xC2A4, 0xD398, 0xC774, 0xC2A4, 0x20, 0xBCC0, 0xACBD]))]"

definition docAnnotations :: "gmap \<Rightarrow> annotations" where
  "docAnnotations doc = addAnnotations [] (gget (asAnyMap (gget doc ''metadata'')) ''annotations'')"

definition docKind :: "gmap \<Rightarrow> string" where
  "docKind doc = trimSpace (asString (gget doc ''kind''))"

definition docName :: "gmap \<Rightarrow> string" where
  "docName doc = trimSpace (asString (gget (asAnyMap (gget doc ''metadata'')) ''name''))"

definition docViolations :: "Policy list \<Rightarrow> gmap \<Rightarrow> PolicyResult list" where
  "docViolations policies doc =
     filter pt_Violated (EvaluatePolicies (docKind doc) (PolicySpecOfDoc (docKind doc) doc) (docAnnotations doc) policies)"

definition emptyPlan :: StackPlan where
  "emptyPlan = \<lparr>sp_Resources = [], sp_PolicyViolations = [], sp_RequiresApproval = False, sp_ApprovalReasons = [],
     sp_Warnings = [], sp_Denied = False\<rparr>"

definition stackStep :: "Policy list \<Rightarrow> StackPlan \<Rightarrow> nat \<times> gmap \<Rightarrow> StackPlan" where
  "stackStep policies plan idoc =
     (let (i, doc) = idoc; kind = docKind doc; name = docName doc; meta = asAnyMap (gget doc ''metadata'') in
      if doc = [] then plan
      else if kind = [] \<or> name = []
      then plan\<lparr>sp_Warnings := sp_Warnings plan @
             [(utf8 [0xBB38, 0xC11C] @ '' #'') @ itoa (int i + 1) @ ('': kind/metadata.name '' @ utf8 [0xB204, 0xB77D, 0x20, 0x2014, 0x20, 0xC720, 0xD6A8, 0xD55C, 0x20, 0xB9AC, 0xC18C, 0xC2A4, 0xAC00, 0x20, 0xC544, 0xB2D9, 0xB2C8, 0xB2E4])]\<rparr>
      else
        let reason = map_of approvalKinds kind;
            res = \<lparr>st_Kind = kind, st_APIVersion = trimSpace (asString (gget doc ''apiVersion'')),
              st_Namespace = trimSpace (asString (gget meta ''namespace'')), st_Name = name,
              st_Approval = (reason \<noteq> None), st_ApprovalReason = (case reason of None \<Rightarrow> [] | Some r \<Rightarrow> r)\<rparr>;
            violations = docViolations policies doc
        in plan\<lparr>sp_ApprovalReasons := (case reason of None \<Rightarrow> sp_ApprovalReasons plan
                 | Some r \<Rightarrow> if r \<in> set (sp_ApprovalReasons plan) then sp_ApprovalReasons plan else sp_ApprovalReasons plan @ [r]),
               sp_Resources := sp_Resources plan @ [res],
               sp_PolicyViolations := sp_PolicyViolations plan @ violations,
               sp_Denied := (sp_Denied plan \<or> list_ex (\<lambda>pr. equalFold (pt_Action pr) ''Deny'') violations)\<rparr>)"

definition AnalyzeStackManifest :: "gmap list \<Rightarrow> Policy list \<Rightarrow> StackPlan" where
  "AnalyzeStackManifest docs policies =
     (let plan = foldl (stackStep policies) emptyPlan (enumerate 0 docs);
          warnings = (if sp_Resources plan = [] \<and> sp_Warnings plan = []
                      then [(utf8 [0xC720, 0xD6A8, 0xD55C] @ '' Kubernetes '' @ utf8 [0xB9AC, 0xC18C, 0xC2A4, 0xB97C, 0x20, 0xCC3E, 0xC9C0, 0x20, 0xBABB, 0xD588, 0xC2B5, 0xB2C8, 0xB2E4])] else sp_Warnings plan)
      in plan\<lparr>sp_Warnings := warnings,
           sp_RequiresApproval := (sp_Denied plan \<or> sp_ApprovalReasons plan \<noteq> []),
           sp_ApprovalReasons := sort (sp_ApprovalReasons plan)\<rparr>)"

section \<open>Compliance over the inventory\<close>

record PolicyComplianceViolation =
  cv_Namespace :: string
  cv_Kind :: string
  cv_Name :: string
  cv_PolicyID :: string
  cv_RuleType :: string
  cv_Action :: string
  cv_Detail :: string

definition policyEvaluable :: "K8sInventoryItem \<Rightarrow> bool" where
  "policyEvaluable it \<longleftrightarrow> iv_Kind it \<in> set workloadKinds \<or> iv_Kind it = ''Role'' \<or> iv_Kind it = ''ClusterRole''"

definition itemViolations :: "Policy list \<Rightarrow> K8sInventoryItem \<Rightarrow> PolicyResult list" where
  "itemViolations policies it = filter pt_Violated (EvaluatePolicies (iv_Kind it) (iv_Spec it) (iv_Annotations it) policies)"

definition CheckPolicyCompliance :: "K8sInventoryItem list \<Rightarrow> Policy list \<Rightarrow> PolicyComplianceViolation list" where
  "CheckPolicyCompliance items policies =
     concat (map (\<lambda>it. map (\<lambda>res.
         \<lparr>cv_Namespace = iv_Namespace it, cv_Kind = iv_Kind it, cv_Name = iv_Name it, cv_PolicyID = pt_PolicyID res,
          cv_RuleType = pt_RuleType res, cv_Action = pt_Action res, cv_Detail = pt_Detail res\<rparr>) (itemViolations policies it))
       (filter policyEvaluable items))"

definition CountPolicyEvaluable :: "K8sInventoryItem list \<Rightarrow> int" where
  "CountPolicyEvaluable items = int (length (filter policyEvaluable items))"

definition policyRuleKinds :: "string \<Rightarrow> string list" where
  "policyRuleKinds ruleType =
     (if ruleType = ''disallow_wildcard_rbac'' then [''ClusterRole'', ''Role''] else sort workloadKinds)"

record UncoveredPolicyRule =
  up_RuleType :: string
  up_Kinds :: "string list"
  up_Policies :: int

definition uncoveredTypes :: "K8sInventoryItem list \<Rightarrow> Policy list \<Rightarrow> string list" where
  "uncoveredTypes items policies =
     map po_RuleType (filter (\<lambda>p. po_Enabled p \<and> \<not> list_ex (\<lambda>kind. kind \<in> set (map iv_Kind items)) (policyRuleKinds (po_RuleType p))) policies)"

definition UncoveredPolicyRules :: "K8sInventoryItem list \<Rightarrow> Policy list \<Rightarrow> UncoveredPolicyRule list" where
  "UncoveredPolicyRules items policies =
     (let types = uncoveredTypes items policies in
      map (\<lambda>rt. \<lparr>up_RuleType = rt, up_Kinds = policyRuleKinds rt, up_Policies = int (length (filter (\<lambda>x. x = rt) types))\<rparr>)
        (sort (remdups types)))"

definition PolicyEvaluableKinds :: "string list" where
  "PolicyEvaluableKinds = sort (workloadKinds @ [''Role'', ''ClusterRole''])"

section \<open>Lemmas\<close>

lemma EvaluatePolicies_mem:
  "pr \<in> set (filter pt_Violated (EvaluatePolicies kind spec ann policies)) \<longleftrightarrow>
     (\<exists>p \<in> set policies. \<exists>d. po_Enabled p \<and>
        evalPolicyRule (po_RuleType p) kind spec (podSpecFromKindSpec kind spec) (policyAnnotations kind spec ann) = Some d \<and>
        pr = \<lparr>pt_PolicyID = po_ID p, pt_Name = po_Name p, pt_RuleType = po_RuleType p, pt_Action = po_Action p,
              pt_Violated = True, pt_Detail = d\<rparr>)"
  by (force simp: EvaluatePolicies_def Let_def)

definition validDoc :: "gmap \<Rightarrow> bool" where
  "validDoc doc \<longleftrightarrow> docKind doc \<noteq> [] \<and> docName doc \<noteq> []"

lemma validDoc_nonempty: "validDoc doc \<Longrightarrow> doc \<noteq> []"
  by (auto simp: validDoc_def docKind_def asString_def trimSpace_def)

lemma stackStep_denied:
  "sp_Denied (stackStep policies plan (i, doc)) \<longleftrightarrow>
     sp_Denied plan \<or> (validDoc doc \<and> list_ex (\<lambda>pr. equalFold (pt_Action pr) ''Deny'') (docViolations policies doc))"
  using validDoc_nonempty [of doc] by (auto simp: stackStep_def Let_def validDoc_def)

lemma stackStep_reasons:
  "set (sp_ApprovalReasons (stackStep policies plan (i, doc))) =
     set (sp_ApprovalReasons plan) \<union> (if validDoc doc then set_option (map_of approvalKinds (docKind doc)) else {})"
  using validDoc_nonempty [of doc] by (auto simp: stackStep_def Let_def validDoc_def split: option.splits)

lemma stackStep_violations:
  "sp_PolicyViolations (stackStep policies plan (i, doc)) =
     sp_PolicyViolations plan @ (if validDoc doc then docViolations policies doc else [])"
  using validDoc_nonempty [of doc] by (auto simp: stackStep_def Let_def validDoc_def)

lemma foldl_stackStep:
  "sp_Denied (foldl (stackStep policies) plan (enumerate k docs)) \<longleftrightarrow>
     sp_Denied plan \<or> (\<exists>doc \<in> set docs. validDoc doc \<and> list_ex (\<lambda>pr. equalFold (pt_Action pr) ''Deny'') (docViolations policies doc))"
  "set (sp_ApprovalReasons (foldl (stackStep policies) plan (enumerate k docs))) =
     set (sp_ApprovalReasons plan) \<union> (\<Union>doc \<in> {d \<in> set docs. validDoc d}. set_option (map_of approvalKinds (docKind doc)))"
  "sp_PolicyViolations (foldl (stackStep policies) plan (enumerate k docs)) =
     sp_PolicyViolations plan @ concat (map (docViolations policies) (filter validDoc docs))"
  by (induction docs arbitrary: k plan) (auto simp: stackStep_denied stackStep_reasons stackStep_violations)

definition ruleFires :: "string \<Rightarrow> string \<Rightarrow> gmap \<Rightarrow> annotations \<Rightarrow> bool" where
  "ruleFires ruleType kind spec ann \<longleftrightarrow>
     evalPolicyRule ruleType kind spec (podSpecFromKindSpec kind spec) (policyAnnotations kind spec ann) \<noteq> None"

lemma docViolations_deny:
  "list_ex (\<lambda>pr. equalFold (pt_Action pr) ''Deny'') (docViolations policies doc) \<longleftrightarrow>
     (\<exists>p \<in> set policies. po_Enabled p \<and> equalFold (po_Action p) ''Deny'' \<and>
        ruleFires (po_RuleType p) (docKind doc) (PolicySpecOfDoc (docKind doc) doc) (docAnnotations doc))"
  unfolding docViolations_def EvaluatePolicies_def ruleFires_def Let_def list_ex_iff by auto

lemma find_None: "find P xs = None \<longleftrightarrow> \<not> list_ex P xs"
  by (auto simp: find_None_iff list_ex_iff)

lemma list_ex_append: "list_ex P (xs @ ys) \<longleftrightarrow> list_ex P xs \<or> list_ex P ys"
  by (simp add: list_ex_iff) blast

text \<open>The controls of the Restricted profile that the gate does not test.\<close>

definition gateGap :: "gmap \<Rightarrow> gval \<Rightarrow> bool" where
  "gateGap ps raw \<longleftrightarrow>
     EffectiveRunAsUser (asAnyMap (gget ps ''securityContext'')) (containerSC raw) = Some 0 \<or>
     list_ex (\<lambda>up. up \<noteq> ''NET_BIND_SERVICE'') (addedCapabilities raw) \<or>
     list_ex (\<lambda>p. numVal (gget (asAnyMap p) ''hostPort'') > 0) (asAnySlice (gget (asAnyMap raw) ''ports''))"

lemma gateGap_lists:
  "gateGap ps raw \<longleftrightarrow> rootViolations (asAnyMap (gget ps ''securityContext'')) raw @ restrictedCaps raw @ baselineCaps raw @ hostPorts raw \<noteq> []"
  by (auto simp: gateGap_def rootViolations_def restrictedCaps_def baselineCaps_def hostPorts_def list_ex_iff filter_empty_conv)

lemma escalation_is_violation:
  assumes "raw \<in> set (SecurityRelevantContainers ps)" and "asBool (gget (containerSC raw) ''allowPrivilegeEscalation'')"
  shows "containerProfileViolations ps \<noteq> []"
  using assms by (auto simp: containerProfileViolations_def Let_def escalationViolations_def)

lemma posture_restricted:
  "pr_Level (classifyPodSecurity it ps) = ''restricted'' \<longleftrightarrow>
     \<not> asBool (gget ps ''hostNetwork'') \<and> \<not> asBool (gget ps ''hostPID'') \<and> \<not> asBool (gget ps ''hostIPC'') \<and>
     \<not> list_ex (\<lambda>raw. asBool (gget (containerSC raw) ''privileged'')) (SecurityRelevantContainers ps) \<and>
     \<not> list_ex hostPathVolume (asAnySlice (gget ps ''volumes'')) \<and> containerProfileViolations ps = [] \<and>
     \<not> list_ex (gateGap ps) (SecurityRelevantContainers ps)"
proof -
  have split: "map pv_msg (filter pv_failsBaseline vs) = [] \<and> map pv_msg (filter (\<lambda>v. \<not> pv_failsBaseline v) vs) = [] \<longleftrightarrow> vs = []" for vs
    by (cases vs) auto
  have host: "hostLevelOf ps = [] \<longleftrightarrow> \<not> asBool (gget ps ''hostNetwork'') \<and> \<not> asBool (gget ps ''hostPID'') \<and> \<not> asBool (gget ps ''hostIPC'') \<and>
      \<not> list_ex (\<lambda>raw. asBool (gget (containerSC raw) ''privileged'')) (SecurityRelevantContainers ps)"
    by (auto simp: hostLevelOf_def list_ex_iff)
  have gaps: "concat (map (\<lambda>raw. baselineCaps raw @ hostPorts raw) cs) = [] \<and>
      concat (map (\<lambda>raw. rootViolations (asAnyMap (gget ps ''securityContext'')) raw @ restrictedCaps raw) cs) = [] \<longleftrightarrow>
      \<not> list_ex (gateGap ps) cs" for cs
    by (induction cs) (auto simp: gateGap_lists)
  show ?thesis
    using split [of "containerProfileViolations ps"] host gaps [of "SecurityRelevantContainers ps"]
    unfolding restricted_iff classifyPodSecurity_def Let_def PodSecurityResult.simps failsBaselineOf_def failsRestrictedOf_def
    by (auto split: if_splits)
qed

lemma gate_passes:
  "enforcePssRestricted (Some ps) = None \<longleftrightarrow>
     \<not> asBool (gget ps ''hostNetwork'') \<and> \<not> asBool (gget ps ''hostPID'') \<and> \<not> asBool (gget ps ''hostIPC'') \<and>
     \<not> list_ex hostPathVolume (asAnySlice (gget ps ''volumes'')) \<and>
     \<not> list_ex (\<lambda>raw. asBool (gget (containerSC raw) ''privileged'')) (SecurityRelevantContainers ps) \<and>
     containerProfileViolations ps = []"
proof -
  let ?privesc = "\<lambda>raw. asBool (gget (containerSC raw) ''allowPrivilegeEscalation'')"
  have esc: "containerProfileViolations ps = [] \<Longrightarrow> \<not> list_ex ?privesc (SecurityRelevantContainers ps)"
    using escalation_is_violation [of _ ps] by (auto simp: list_ex_iff)
  have runtime: "privilegedRuntime (Some ps) = None \<longleftrightarrow>
      \<not> asBool (gget ps ''hostNetwork'') \<and> \<not> asBool (gget ps ''hostPID'') \<and> \<not> asBool (gget ps ''hostIPC'') \<and>
      \<not> list_ex hostPathVolume (asAnySlice (gget ps ''volumes'')) \<and>
      \<not> list_ex (\<lambda>raw. asBool (gget (containerSC raw) ''privileged'') \<or> ?privesc raw) (SecurityRelevantContainers ps)"
    by (simp add: privilegedRuntime_def hostPathRule_def psMap_def ruleContainers_def Let_def find_None)
  have restricted: "enforcePssRestricted (Some ps) = None \<longleftrightarrow> privilegedRuntime (Some ps) = None \<and> containerProfileViolations ps = []"
    by (auto simp: enforcePssRestricted_def restrictedProfileViolations_def Let_def split: option.splits)
  show ?thesis unfolding restricted runtime using esc by (auto simp: list_ex_iff)
qed

text \<open>A pod that satisfies every control the gate tests and adds a capability of the node's
  administrator.\<close>

definition escapingPod :: gmap where
  "escapingPod =
     [(''containers'', GList [GMap [(''name'', GStr ''c''), (''securityContext'', GMap [
        (''runAsNonRoot'', GBool True), (''allowPrivilegeEscalation'', GBool False),
        (''capabilities'', GMap [(''drop'', GList [GStr ''ALL'']), (''add'', GList [GStr ''SYS_ADMIN''])]),
        (''seccompProfile'', GMap [(''type'', GStr ''RuntimeDefault'')])])]])]"

lemma escapingPod_gate: "enforcePssRestricted (Some escapingPod) = None"
  by code_simp

lemma escapingPod_level: "pr_Level (classifyPodSecurity it escapingPod) = ''privileged''"
proof -
  have "failsBaselineOf escapingPod \<noteq> []" by code_simp
  then show ?thesis by (simp add: privileged_iff)
qed

section \<open>Properties\<close>

text \<open>
  C30. The admission rule \<^verbatim>\<open>enforce_pss_restricted\<close> against the posture report. The report calls
  a pod restricted exactly when the rule passes it and, beyond that, no container runs as
  user 0, adds a capability other than \<^verbatim>\<open>NET_BIND_SERVICE\<close> or binds a host port. So the rule
  never refuses a pod the report calls restricted; but the gate and the screen do disagree:
  a container that adds \<^verbatim>\<open>SYS_ADMIN\<close> passes the rule while the report calls it privileged.
\<close>

theorem pss_gate_versus_posture:
  "(pr_Level (classifyPodSecurity it ps) = ''restricted'' \<longleftrightarrow>
      evalPolicyRule ''enforce_pss_restricted'' kind spec (Some ps) ann = None \<and>
      \<not> list_ex (gateGap ps) (SecurityRelevantContainers ps)) \<and>
   evalPolicyRule ''enforce_pss_restricted'' kind spec (Some escapingPod) ann = None \<and>
   pr_Level (classifyPodSecurity it escapingPod) = ''privileged''"
proof -
  have rule: "evalPolicyRule ''enforce_pss_restricted'' kind spec q ann = enforcePssRestricted q" for q
    by (simp add: evalPolicyRule_def)
  have "pr_Level (classifyPodSecurity it ps) = ''restricted'' \<longleftrightarrow>
      enforcePssRestricted (Some ps) = None \<and> \<not> list_ex (gateGap ps) (SecurityRelevantContainers ps)"
    unfolding posture_restricted gate_passes by blast
  then show ?thesis unfolding rule using escapingPod_gate escapingPod_level by blast
qed

text \<open>
  The manifest gate decides exactly by the policies: a manifest is denied when, and only
  when, an enabled policy whose action is Deny is violated by a document that names a kind
  and a name; approval is needed exactly when the manifest is denied or holds a resource of a
  sensitive kind; and the reported violations are those of the documents in their order.
\<close>

theorem stack_gate_exact:
  "(sp_Denied (AnalyzeStackManifest docs policies) \<longleftrightarrow>
      (\<exists>doc \<in> set docs. \<exists>p \<in> set policies. validDoc doc \<and> po_Enabled p \<and> equalFold (po_Action p) ''Deny'' \<and>
         ruleFires (po_RuleType p) (docKind doc) (PolicySpecOfDoc (docKind doc) doc) (docAnnotations doc))) \<and>
   (sp_RequiresApproval (AnalyzeStackManifest docs policies) \<longleftrightarrow>
      sp_Denied (AnalyzeStackManifest docs policies) \<or>
      (\<exists>doc \<in> set docs. validDoc doc \<and> map_of approvalKinds (docKind doc) \<noteq> None)) \<and>
   sp_PolicyViolations (AnalyzeStackManifest docs policies) = concat (map (docViolations policies) (filter validDoc docs))"
proof -
  have reasons: "sp_ApprovalReasons (foldl (stackStep policies) emptyPlan (enumerate 0 docs)) \<noteq> [] \<longleftrightarrow>
      (\<exists>doc \<in> set docs. validDoc doc \<and> map_of approvalKinds (docKind doc) \<noteq> None)"
    unfolding set_empty [symmetric] foldl_stackStep(2) by (auto simp: emptyPlan_def)
  have denied: "sp_Denied (foldl (stackStep policies) emptyPlan (enumerate 0 docs)) \<longleftrightarrow>
      (\<exists>doc \<in> set docs. \<exists>p \<in> set policies. validDoc doc \<and> po_Enabled p \<and> equalFold (po_Action p) ''Deny'' \<and>
         ruleFires (po_RuleType p) (docKind doc) (PolicySpecOfDoc (docKind doc) doc) (docAnnotations doc))"
    unfolding foldl_stackStep(1) docViolations_deny by (auto simp: emptyPlan_def)
  have violations: "sp_PolicyViolations (foldl (stackStep policies) emptyPlan (enumerate 0 docs)) =
      concat (map (docViolations policies) (filter validDoc docs))"
    unfolding foldl_stackStep(3) by (simp add: emptyPlan_def)
  show ?thesis by (simp add: AnalyzeStackManifest_def Let_def reasons denied violations)
qed

section \<open>Documents the rules do not see through\<close>

text \<open>A non-empty \<^verbatim>\<open>spec\<close> key in an RBAC document hides its rules from the wildcard rule.\<close>

definition wildcardRole :: "(string \<times> gval) list \<Rightarrow> gmap" where
  "wildcardRole extra =
     [(''kind'', GStr ''ClusterRole''), (''metadata'', GMap [(''name'', GStr ''r'')]),
      (''rules'', GList [GMap [(''apiGroups'', GList [GStr ''*'']), (''resources'', GList [GStr ''*'']), (''verbs'', GList [GStr ''*''])]])] @ extra"

definition denyAll :: "string \<Rightarrow> Policy" where
  "denyAll ruleType = \<lparr>po_ID = ''p1'', po_Name = ''p1'', po_RuleType = ruleType, po_Action = ''Deny'', po_Enabled = True\<rparr>"

lemma spec_key_disarms_rbac_rule:
  "sp_Denied (AnalyzeStackManifest [wildcardRole []] [denyAll ''disallow_wildcard_rbac'']) \<and>
   \<not> sp_Denied (AnalyzeStackManifest [wildcardRole [(''spec'', GMap [(''x'', GBool True)])]] [denyAll ''disallow_wildcard_rbac''])"
  by code_simp

text \<open>The pod template of a CronJob is two levels deeper than the rules look for annotations:
  the attestation that denies a Job of the same template is not read.\<close>

definition vulnerableTemplate :: gval where
  "vulnerableTemplate =
     GMap [(''metadata'', GMap [(''annotations'', GMap [(''clustara.io/critical-vulnerabilities'', GStr ''3'')])]),
           (''spec'', GMap [(''containers'', GList [GMap [(''name'', GStr ''c''), (''image'', GStr ''app:1'')]])])]"

definition vulnerableJob :: "string \<Rightarrow> gmap" where
  "vulnerableJob kind =
     [(''kind'', GStr kind), (''metadata'', GMap [(''name'', GStr ''j'')]),
      (''spec'', if kind = ''CronJob'' then GMap [(''jobTemplate'', GMap [(''spec'', GMap [(''template'', vulnerableTemplate)])])]
                 else GMap [(''template'', vulnerableTemplate)])]"

lemma cronjob_template_annotations_unread:
  "sp_Denied (AnalyzeStackManifest [vulnerableJob ''Job''] [denyAll ''deny_critical_vulnerability'']) \<and>
   \<not> sp_Denied (AnalyzeStackManifest [vulnerableJob ''CronJob''] [denyAll ''deny_critical_vulnerability''])"
  by code_simp

end
