(* ===== verification/Manifest_Doc.thy ===== *)
theory Manifest_Doc
  imports Policy_Engine Risk_Scale
begin

text \<open>
  Manifest documents of \<^verbatim>\<open>internal/proxy/admin_k8s_manifest_change.go\<close> and \<^verbatim>\<open>admin_k8s_manifest.go\<close>:
  their identity and target checks, the masking a document passes before it enters the ledger,
  the field diff with its risk levels, and the impact assessment that decides whether a change
  needs approval.

  A document is the map the YAML decoder returned. \<open>jsonMarshal\<close> is \<^verbatim>\<open>json.Marshal\<close>: keys sorted,
  HTML characters escaped; how a float64 is printed is the argument \<open>num\<close>. \<^verbatim>\<open>analyzer.MaskSensitive\<close>,
  a list of regular expressions, is the argument \<open>maskText\<close> where annotations are masked. Of the
  impact map the entries that list structs (\<^verbatim>\<open>stack_resources\<close>, \<^verbatim>\<open>policy_violations\<close>) are left out.
\<close>

section \<open>JSON text\<close>

definition hexDigit :: "nat \<Rightarrow> char" where
  "hexDigit n = (if n < 10 then char_of (48 + n) else char_of (87 + n))"

definition jsonByte :: "char \<Rightarrow> string" where
  "jsonByte c =
     (let n = (of_char c :: nat) in
      if c = dquoteC then [backslashC, dquoteC] else if c = backslashC then [backslashC, backslashC]
      else if n = 8 then [backslashC, CHR ''b''] else if n = 12 then [backslashC, CHR ''f'']
      else if c = newlineC then [backslashC, CHR ''n''] else if c = returnC then [backslashC, CHR ''r'']
      else if c = tabC then [backslashC, CHR ''t'']
      else if n < 32 \<or> c = CHR ''<'' \<or> c = CHR ''>'' \<or> c = CHR ''&''
      then [backslashC] @ ''u00'' @ [hexDigit (n div 16), hexDigit (n mod 16)]
      else [c])"

definition jsonString :: "string \<Rightarrow> string" where
  "jsonString s = [dquoteC] @ concat (map jsonByte s) @ [dquoteC]"

definition sortedKeys :: "gmap \<Rightarrow> string list" where
  "sortedKeys m = sort (remdups (map fst m))"

lemma gval_size_map: "map_of m k = Some v \<Longrightarrow> size v < size (GMap m)"
proof -
  assume "map_of m k = Some v"
  then have "(k, v) \<in> set m" by (rule map_of_SomeD)
  then have "size_prod (\<lambda>_. 0) size (k, v) < size (GMap m)"
    by (induction m) (auto simp: size_prod_def)
  then show ?thesis by simp
qed

lemma gval_size_list: "v \<in> set l \<Longrightarrow> size v < size (GList l)"
  by (induction l) auto

function jsonMarshal :: "(rat \<Rightarrow> string) \<Rightarrow> gval \<Rightarrow> string" where
  "jsonMarshal num GNil = ''null''"
| "jsonMarshal num (GBool b) = (if b then ''true'' else ''false'')"
| "jsonMarshal num (GFloat q) = num q"
| "jsonMarshal num (GInt n) = itoa n"
| "jsonMarshal num (GInt64 n) = itoa n"
| "jsonMarshal num (GStr s) = jsonString s"
| "jsonMarshal num (GList l) = ''['' @ joinWith '','' (map (jsonMarshal num) l) @ '']''"
| "jsonMarshal num (GMap m) =
     ''{'' @ joinWith '','' (map (\<lambda>k. jsonString k @ '':'' @
        (case map_of m k of None \<Rightarrow> [] | Some v \<Rightarrow> jsonMarshal num v)) (sortedKeys m)) @ ''}''"
  by pat_completeness auto

termination jsonMarshal
  by (relation "measure (\<lambda>(_, v). size v)") (auto dest: gval_size_map gval_size_list simp del: gval.size)

section \<open>Identity of a document\<close>

definition removeChar :: "char \<Rightarrow> string \<Rightarrow> string" where
  "removeChar c s = filter (\<lambda>x. x \<noteq> c) s"

definition manifestKindNames :: "(string list \<times> string) list" where
  "manifestKindNames =
     [([''cm'', ''configmap'', ''configmaps''], ''ConfigMap''), ([''secret'', ''secrets''], ''Secret''),
      ([''sa'', ''serviceaccount'', ''serviceaccounts''], ''ServiceAccount''), ([''svc'', ''service'', ''services''], ''Service''),
      ([''pvc'', ''pvcs'', ''persistentvolumeclaim'', ''persistentvolumeclaims'', ''persistancevolumeclaim'', ''persistancevolumeclaims''],
        ''PersistentVolumeClaim''),
      ([''ing'', ''ingress'', ''ingresses''], ''Ingress''), ([''netpol'', ''networkpolicy'', ''networkpolicies''], ''NetworkPolicy''),
      ([''hpa'', ''horizontalpodautoscaler'', ''horizontalpodautoscalers''], ''HorizontalPodAutoscaler''),
      ([''deploy'', ''deployment'', ''deployments''], ''Deployment''), ([''sts'', ''statefulset'', ''statefulsets''], ''StatefulSet''),
      ([''ds'', ''daemonset'', ''daemonsets''], ''DaemonSet''), ([''job'', ''jobs''], ''Job''), ([''cronjob'', ''cronjobs''], ''CronJob''),
      ([''role'', ''roles''], ''Role''), ([''rb'', ''rolebinding'', ''rolebindings''], ''RoleBinding''),
      ([''cr'', ''clusterrole'', ''clusterroles''], ''ClusterRole''),
      ([''crb'', ''clusterrolebinding'', ''clusterrolebindings''], ''ClusterRoleBinding''),
      ([''ns'', ''namespace'', ''namespaces''], ''Namespace''), ([''pod'', ''pods''], ''Pod'')]"

definition canonicalManifestKind :: "string \<Rightarrow> string" where
  "canonicalManifestKind kind =
     (let normalized = removeChar (CHR ''.'') (removeChar (CHR ''-'') (removeChar (CHR ''_'') (removeChar (CHR '' '') (toLower (trimSpace kind)))))
      in case find (\<lambda>(names, _). normalized \<in> set names) manifestKindNames of
           Some (_, canonical) \<Rightarrow> canonical
         | None \<Rightarrow> trimSpace kind)"

definition manifestKindClusterScoped :: "string \<Rightarrow> bool" where
  "manifestKindClusterScoped kind \<longleftrightarrow>
     canonicalManifestKind kind \<in> set [''Namespace'', ''Node'', ''PersistentVolume'', ''ClusterRole'', ''ClusterRoleBinding'',
       ''StorageClass'', ''CustomResourceDefinition'', ''PriorityClass'', ''ClusterIssuer'']"

definition normalizeManifestChangeOperation :: "string \<Rightarrow> string option" where
  "normalizeManifestChangeOperation raw =
     (let op = toLower (trimSpace raw) in
      if op \<in> set [[], ''update'', ''edit'', ''change'', ''patch''] then Some ''update''
      else if op \<in> set [''create'', ''new''] then Some ''create''
      else None)"

text \<open>\<^verbatim>\<open>parseSingleManifestDoc\<close> over the decoded documents; \<open>None\<close> is a decoding error.\<close>

definition docMeta :: "gmap \<Rightarrow> gmap" where
  "docMeta doc = asAnyMap (gget doc ''metadata'')"

definition parseSingleManifestDoc :: "gmap list option \<Rightarrow> string + gmap" where
  "parseSingleManifestDoc decoded =
     (case decoded of
        None \<Rightarrow> Inl ''yaml''
      | Some [doc] \<Rightarrow>
          if trimSpace (asString (gget doc ''apiVersion'')) = [] \<or> trimSpace (asString (gget doc ''kind'')) = []
          then Inl ''apiVersion and kind are required''
          else if trimSpace (asString (gget (docMeta doc) ''name'')) = [] then Inl ''metadata.name is required''
          else Inr doc
      | Some _ \<Rightarrow> Inl ''exactly one Kubernetes resource document is required'')"

record doc_identity =
  di_apiVersion :: string
  di_kind :: string
  di_namespace :: string
  di_name :: string

definition manifestDocIdentity :: "gmap \<Rightarrow> doc_identity" where
  "manifestDocIdentity doc =
     \<lparr>di_apiVersion = trimSpace (asString (gget doc ''apiVersion'')),
      di_kind = canonicalManifestKind (trimSpace (asString (gget doc ''kind''))),
      di_namespace = trimSpace (asString (gget (docMeta doc) ''namespace'')),
      di_name = trimSpace (asString (gget (docMeta doc) ''name''))\<rparr>"

text \<open>Assignment to a map entry.\<close>

fun gput :: "string \<Rightarrow> gval \<Rightarrow> gmap \<Rightarrow> gmap" where
  "gput k v [] = [(k, v)]"
| "gput k v ((i, x) # m) = (if i = k then (i, v) # m else (i, x) # gput k v m)"

definition targetMismatch :: "string \<Rightarrow> string \<Rightarrow> string \<Rightarrow> string \<Rightarrow> string \<Rightarrow> string \<Rightarrow> string" where
  "targetMismatch kind ns name gotKind gotNs gotName =
     ''manifest target mismatch: expected '' @ kind @ ''/'' @ ns @ ''/'' @ name @ '', got '' @ gotKind @ ''/'' @ gotNs @ ''/'' @ gotName"

text \<open>The check fills a missing namespace of the document in, so it returns the document too.\<close>

definition ensureManifestDocTarget :: "gmap \<Rightarrow> string \<Rightarrow> string \<Rightarrow> string \<Rightarrow> string + gmap" where
  "ensureManifestDocTarget doc kind namespace0 name =
     (let ident = manifestDocIdentity doc in
      if di_apiVersion ident = [] \<or> di_kind ident = [] \<or> di_name ident = []
      then Inl ''apiVersion, kind and metadata.name are required''
      else
        let scoped = manifestKindClusterScoped kind;
            namespace = (if namespace0 = [] \<and> \<not> scoped then ''default'' else namespace0);
            fill = di_namespace ident = [] \<and> \<not> scoped;
            doc' = (if fill then gput ''metadata'' (GMap (gput ''namespace'' (GStr namespace) (docMeta doc))) doc else doc);
            docNs = (if fill then namespace else di_namespace ident)
        in if \<not> equalFold (di_kind ident) kind \<or> di_name ident \<noteq> name \<or> docNs \<noteq> namespace
           then Inl (targetMismatch kind namespace name (di_kind ident) docNs (di_name ident))
           else Inr doc')"

definition validateManifestTarget :: "gmap \<Rightarrow> K8sInventoryItem \<Rightarrow> string option" where
  "validateManifestTarget doc item =
     (let kind = canonicalManifestKind (trimSpace (asString (gget doc ''kind'')));
          name = trimSpace (asString (gget (docMeta doc) ''name''));
          ns0 = trimSpace (asString (gget (docMeta doc) ''namespace''));
          ns = (if ns0 = [] then iv_Namespace item else ns0) in
      if \<not> equalFold kind (iv_Kind item) \<or> name \<noteq> iv_Name item \<or> ns \<noteq> iv_Namespace item
      then Some (targetMismatch (iv_Kind item) (iv_Namespace item) (iv_Name item) kind ns name) else None)"

definition manifestContainsSecretPayload :: "gmap \<Rightarrow> bool" where
  "manifestContainsSecretPayload doc \<longleftrightarrow>
     equalFold (asString (gget doc ''kind'')) ''Secret'' \<and> (ghas doc ''data'' \<or> ghas doc ''stringData'')"

definition manifestNamespaceEqual :: "string \<Rightarrow> string \<Rightarrow> bool" where
  "manifestNamespaceEqual a b \<longleftrightarrow>
     (let normalize = (\<lambda>ns. if trimSpace ns = [] then ''default'' else trimSpace ns) in normalize a = normalize b)"

section \<open>Masking\<close>

definition maskedValue :: string where
  "maskedValue = ''***''"

definition sensitiveNeedles :: "string list" where
  "sensitiveNeedles =
     [''secret'', ''token'', ''password'', ''passwd'', ''apikey'', ''api_key'', ''credential'', ''private_key'', ''privatekey'']"

definition isSensitivePath :: "string \<Rightarrow> bool" where
  "isSensitivePath path \<longleftrightarrow> list_ex (\<lambda>needle. contains (toLower path) needle) sensitiveNeedles"

definition maskAllValues :: "gval \<Rightarrow> gval" where
  "maskAllValues v = (case v of GMap m \<Rightarrow> GMap (map (\<lambda>(k, _). (k, GStr maskedValue)) m) | _ \<Rightarrow> v)"

definition isEnvEntry :: "gmap \<Rightarrow> bool" where
  "isEnvEntry t \<longleftrightarrow> ghas t ''name'' \<and> ghas t ''value''"

function maskManifestValue :: "gval \<Rightarrow> gval" where
  "maskManifestValue (GMap t) =
     GMap (map (\<lambda>(k, val).
        (k, if isSensitivePath k then GStr maskedValue
            else if isEnvEntry t \<and> k = ''value'' then GStr maskedValue
            else if k = ''data'' \<or> k = ''stringData'' then maskAllValues val
            else maskManifestValue val)) t)"
| "maskManifestValue (GList l) = GList (map maskManifestValue l)"
| "maskManifestValue GNil = GNil"
| "maskManifestValue (GBool b) = GBool b"
| "maskManifestValue (GFloat q) = GFloat q"
| "maskManifestValue (GInt n) = GInt n"
| "maskManifestValue (GInt64 n) = GInt64 n"
| "maskManifestValue (GStr s) = GStr s"
  by pat_completeness auto

lemma gval_size_entry: "(k, v) \<in> set m \<Longrightarrow> size v < size (GMap m)"
  by (induction m) (auto simp: size_prod_def)

termination maskManifestValue
  by (relation "measure size") (auto dest: gval_size_entry gval_size_list simp del: gval.size)

definition serverFields :: "string list" where
  "serverFields = [''uid'', ''resourceVersion'', ''generation'', ''managedFields'', ''creationTimestamp'', ''deletionTimestamp'', ''selfLink'']"

definition gdelete :: "string \<Rightarrow> gmap \<Rightarrow> gmap" where
  "gdelete k m = filter (\<lambda>(i, _). i \<noteq> k) m"

definition sanitizeManifestDocForLedger :: "gmap \<Rightarrow> gmap" where
  "sanitizeManifestDocForLedger doc =
     (let out = gdelete ''status'' (asAnyMap (maskManifestValue (GMap doc))) in
      case gget out ''metadata'' of
        GMap meta \<Rightarrow> gput ''metadata'' (GMap (foldl (\<lambda>m k. gdelete k m) meta serverFields)) out
      | _ \<Rightarrow> out)"

text \<open>The manifest assembled from an inventory item.\<close>

definition IsObjectCopyAnnotation :: "string \<Rightarrow> bool" where
  "IsObjectCopyAnnotation key \<longleftrightarrow> toLower (trimSpace key) = ''kubectl.kubernetes.io/last-applied-configuration''"

definition maskStringMap :: "(string \<Rightarrow> string) \<Rightarrow> (string \<times> string) list \<Rightarrow> gmap" where
  "maskStringMap maskText m =
     map (\<lambda>(k, v). (k, GStr (if isSensitivePath k \<or> IsObjectCopyAnnotation k
                            then maskedValue else maskText v))) m"

definition manifestUsesTopLevelSpecFields :: "string \<Rightarrow> bool" where
  "manifestUsesTopLevelSpecFields kind \<longleftrightarrow>
     toLower (trimSpace kind) \<in> set [''configmap'', ''secret'', ''serviceaccount'', ''role'', ''clusterrole'', ''rolebinding'', ''clusterrolebinding'']"

definition maskBody :: "gmap \<Rightarrow> string \<Rightarrow> gmap" where
  "maskBody m key = (if ghas m key then gput key (maskAllValues (gget m key)) m else m)"

definition maskSecretBodies :: "gmap \<Rightarrow> gmap" where
  "maskSecretBodies manifest =
     foldl (\<lambda>m key. let m1 = maskBody m key in
        (case gget m1 ''spec'' of GMap spec \<Rightarrow> gput ''spec'' (GMap (maskBody spec key)) m1 | _ \<Rightarrow> m1))
       manifest [''data'', ''stringData'']"

definition assembleManifest :: "(string \<Rightarrow> string) \<Rightarrow> K8sInventoryItem \<Rightarrow> gmap" where
  "assembleManifest maskText item =
     (let metadata = [(''name'', GStr (iv_Name item))] @
            (if iv_Namespace item \<noteq> [] then [(''namespace'', GStr (iv_Namespace item))] else []) @
            (if iv_UID item \<noteq> [] then [(''uid'', GStr (iv_UID item))] else []) @
            (if iv_Labels item \<noteq> [] then [(''labels'', GMap (map (\<lambda>(k, v). (k, GStr v)) (iv_Labels item)))] else []) @
            (if iv_Annotations item \<noteq> [] then [(''annotations'', GMap (maskStringMap maskText (iv_Annotations item)))] else []);
          manifest = [(''apiVersion'', GStr (firstNonEmpty [iv_APIVersion item, ''v1''])), (''kind'', GStr (iv_Kind item)),
            (''metadata'', GMap metadata)];
          full = (if iv_Spec item = [] then manifest
                  else if manifestUsesTopLevelSpecFields (iv_Kind item)
                  then foldl (\<lambda>m (k, v). gput k (maskManifestValue v) m) manifest (iv_Spec item)
                  else gput ''spec'' (maskManifestValue (GMap (iv_Spec item))) manifest)
      in if equalFold (iv_Kind item) ''Secret'' then maskSecretBodies full else full)"

section \<open>Field diff\<close>

record K8sManifestFieldDiff =
  fd_Path :: string
  fd_OldValue :: string
  fd_NewValue :: string
  fd_Type :: string
  fd_Risk :: string

definition manifestValuesEqual :: "(rat \<Rightarrow> string) \<Rightarrow> gval \<Rightarrow> gval \<Rightarrow> bool" where
  "manifestValuesEqual num a b \<longleftrightarrow> jsonMarshal num a = jsonMarshal num b"

definition clip :: "nat \<Rightarrow> string \<Rightarrow> string" where
  "clip n s = (if length s > n then take n s @ ''...'' else s)"

definition manifestDiffValue :: "(rat \<Rightarrow> string) \<Rightarrow> gval \<Rightarrow> string" where
  "manifestDiffValue num v =
     (case v of GNil \<Rightarrow> [] | GStr s \<Rightarrow> if s = maskedValue then maskedValue else clip 160 s | _ \<Rightarrow> clip 220 (jsonMarshal num v))"

definition manifestDiffRisk :: "string \<Rightarrow> string" where
  "manifestDiffRisk path =
     (let p = toLower path; has = (\<lambda>ws. list_ex (contains p) ws) in
      if has [''clusterrole'', ''privileged'', ''hostpath'', ''hostnetwork'', ''secret'', ''networkpolicy''] then ''critical''
      else if has [''selector'', ''ingress'', ''tls'', ''replicas'', ''service.type'', ''pdb''] then ''high''
      else if has [''env'', ''resources'', ''probe'', ''image''] then ''medium''
      else ''low'')"

definition childPath :: "string \<Rightarrow> string \<Rightarrow> string" where
  "childPath path k = (if path \<noteq> [] then path @ ''.'' @ k else k)"

definition changedDiff :: "(rat \<Rightarrow> string) \<Rightarrow> string \<Rightarrow> gval \<Rightarrow> gval \<Rightarrow> K8sManifestFieldDiff list" where
  "changedDiff num path before after =
     (if manifestValuesEqual num before after then []
      else [\<lparr>fd_Path = firstNonEmpty [path, ''$''], fd_OldValue = manifestDiffValue num before,
             fd_NewValue = manifestDiffValue num after, fd_Type = ''changed'', fd_Risk = manifestDiffRisk path\<rparr>])"

definition addedDiff :: "(rat \<Rightarrow> string) \<Rightarrow> string \<Rightarrow> gval \<Rightarrow> K8sManifestFieldDiff" where
  "addedDiff num child a =
     \<lparr>fd_Path = child, fd_OldValue = [], fd_NewValue = manifestDiffValue num a, fd_Type = ''added'', fd_Risk = manifestDiffRisk child\<rparr>"

definition removedDiff :: "(rat \<Rightarrow> string) \<Rightarrow> string \<Rightarrow> gval \<Rightarrow> K8sManifestFieldDiff" where
  "removedDiff num child b =
     \<lparr>fd_Path = child, fd_OldValue = manifestDiffValue num b, fd_NewValue = [], fd_Type = ''removed'', fd_Risk = manifestDiffRisk child\<rparr>"

function collectManifestDiffs :: "(rat \<Rightarrow> string) \<Rightarrow> string \<Rightarrow> gval \<Rightarrow> gval \<Rightarrow> K8sManifestFieldDiff list" where
  "collectManifestDiffs num path before after =
     (case before of
        GMap bm \<Rightarrow> (case after of
          GMap am \<Rightarrow>
            concat (map (\<lambda>k. case map_of bm k of
                None \<Rightarrow> (case map_of am k of None \<Rightarrow> [] | Some a \<Rightarrow> [addedDiff num (childPath path k) a])
              | Some b \<Rightarrow> (case map_of am k of
                    None \<Rightarrow> [removedDiff num (childPath path k) b]
                  | Some a \<Rightarrow> collectManifestDiffs num (childPath path k) b a))
              (sortedKeys (bm @ am)))
        | _ \<Rightarrow> changedDiff num path before after)
      | _ \<Rightarrow> changedDiff num path before after)"
  by pat_completeness auto

termination collectManifestDiffs
  by (relation "measure (\<lambda>(_, _, b, _). size b)") (auto dest: gval_size_map simp del: gval.size)

declare collectManifestDiffs.simps [simp del]

definition diffManifestDocs :: "(rat \<Rightarrow> string) \<Rightarrow> gmap \<Rightarrow> gmap \<Rightarrow> K8sManifestFieldDiff list" where
  "diffManifestDocs num before after = sort_key fd_Path (collectManifestDiffs num [] (GMap before) (GMap after))"

definition diffYAMLText :: "(rat \<Rightarrow> string) \<Rightarrow> (string \<Rightarrow> gmap list option) \<Rightarrow> string \<Rightarrow> string \<Rightarrow> K8sManifestFieldDiff list" where
  "diffYAMLText num decode beforeYAML afterYAML =
     (case (parseSingleManifestDoc (decode beforeYAML), parseSingleManifestDoc (decode afterYAML)) of
        (Inr before, Inr after) \<Rightarrow> diffManifestDocs num before after
      | _ \<Rightarrow> [\<lparr>fd_Path = ''$'', fd_OldValue = ''previous manifest'', fd_NewValue = ''rollback manifest'', fd_Type = ''changed'',
               fd_Risk = ''medium''\<rparr>])"

section \<open>Risk of a change\<close>

definition riskRank :: "string \<Rightarrow> nat" where
  "riskRank r =
     (let l = toLower (trimSpace r) in
      if l = ''blocked'' then 5 else if l = ''critical'' then 4 else if l = ''high'' then 3
      else if l = ''medium'' then 2 else if l = ''low'' then 1 else 0)"

definition manifestRiskMax :: "string \<Rightarrow> string \<Rightarrow> string" where
  "manifestRiskMax a b = (if riskRank b > riskRank a then b else a)"

interpretation manifestScale: risk_scale riskRank manifestRiskMax "\<lambda>_. True"
  by unfold_locales (auto simp: manifestRiskMax_def)

definition criticalKinds :: "string list" where
  "criticalKinds = [''secret'', ''clusterrole'', ''clusterrolebinding'', ''role'', ''rolebinding'', ''networkpolicy'']"

definition highKinds :: "string list" where
  "highKinds = [''ingress'', ''service'', ''persistentvolumeclaim'', ''poddisruptionbudget'']"

definition mediumKinds :: "string list" where
  "mediumKinds = [''deployment'', ''statefulset'', ''daemonset'', ''job'', ''cronjob'', ''horizontalpodautoscaler'']"

definition diffReason :: "K8sManifestFieldDiff \<Rightarrow> string list" where
  "diffReason d =
     (if fd_Risk d = ''high'' \<or> fd_Risk d = ''critical'' then [fd_Path d @ ''='' @ fd_Risk d]
      else if fd_Risk d = ''medium'' then [fd_Path d @ ''=medium''] else [])"

definition lowRiskReason :: string where
  "lowRiskReason = ''low-risk metadata/spec change''"

definition changeRisk :: "string \<Rightarrow> K8sManifestFieldDiff list \<Rightarrow> StackPlan \<Rightarrow> string" where
  "changeRisk kind ds plan =
     (let risk = foldl manifestRiskMax ''low'' (map fd_Risk ds); k = toLower kind;
          risk' = (if k \<in> set criticalKinds then manifestRiskMax risk ''critical''
                   else if k \<in> set highKinds then manifestRiskMax risk ''high''
                   else if k \<in> set mediumKinds
                   then (if riskRank risk < riskRank ''medium'' then manifestRiskMax risk ''medium'' else risk)
                   else risk)
      in if sp_Denied plan then ''blocked'' else risk')"

definition changeNeedsApproval :: "string \<Rightarrow> K8sManifestFieldDiff list \<Rightarrow> StackPlan \<Rightarrow> bool" where
  "changeNeedsApproval kind ds plan \<longleftrightarrow>
     sp_RequiresApproval plan \<or> list_ex (\<lambda>d. diffReason d \<noteq> []) ds \<or>
     toLower kind \<in> set (criticalKinds @ highKinds @ mediumKinds) \<or> sp_Denied plan"

definition changeReasons :: "K8sManifestFieldDiff list \<Rightarrow> StackPlan \<Rightarrow> string list" where
  "changeReasons ds plan =
     (let reasons = concat (map diffReason ds) @ (if sp_PolicyViolations plan \<noteq> [] then [''policy_violations''] else [])
      in if reasons = [] then [lowRiskReason] else reasons)"

definition targetMap :: "K8sInventoryItem \<Rightarrow> gmap" where
  "targetMap item =
     [(''cluster_id'', GStr (iv_ClusterID item)), (''kind'', GStr (iv_Kind item)), (''namespace'', GStr (iv_Namespace item)),
      (''name'', GStr (iv_Name item))]"

definition manifestChangeImpact :: "K8sInventoryItem \<Rightarrow> K8sManifestFieldDiff list \<Rightarrow> StackPlan \<Rightarrow> gmap \<times> string \<times> bool" where
  "manifestChangeImpact item ds plan =
     ([(''operation'', GStr ''update''), (''target'', GMap (targetMap item @ [(''uid'', GStr (iv_UID item))])),
       (''changed_fields'', GInt (int (length ds))), (''approval_reasons'', GList (map GStr (changeReasons ds plan))),
       (''policy_denied'', GBool (sp_Denied plan))],
      changeRisk (iv_Kind item) ds plan, changeNeedsApproval (iv_Kind item) ds plan)"

definition manifestApprovalReasons :: "gmap \<Rightarrow> string list" where
  "manifestApprovalReasons impact =
     filter (\<lambda>x. x \<noteq> []) (map (\<lambda>it. trimSpace (asString it)) (asAnySlice (gget impact ''approval_reasons'')))"

definition manifestCreateImpact :: "K8sInventoryItem \<Rightarrow> K8sManifestFieldDiff list \<Rightarrow> StackPlan \<Rightarrow> gmap \<times> string \<times> bool" where
  "manifestCreateImpact item ds plan =
     (let (impact, risk, _) = manifestChangeImpact item ds plan;
          reasons = [''create_resource''] @
            filter (\<lambda>r. r \<noteq> [] \<and> r \<noteq> lowRiskReason \<and> r \<noteq> ''create_resource'') (changeReasons ds plan);
          impact' = gput ''approval_reasons'' (GList (map GStr reasons))
            (gput ''create_target'' (GMap (targetMap item)) (gput ''operation'' (GStr ''create'') impact))
      in (impact', if riskRank risk < riskRank ''medium'' then ''medium'' else risk, True))"

section \<open>The diff reports every change\<close>

lemma set_sortedKeys [simp]: "set (sortedKeys m) = fst ` set m"
  by (simp add: sortedKeys_def)

lemma sortedKeys_dom: "dom (map_of a) = dom (map_of b) \<Longrightarrow> sortedKeys a = sortedKeys b"
proof -
  assume "dom (map_of a) = dom (map_of b)"
  then have "set (map fst a) = set (map fst b)" by (simp add: dom_map_of_conv_image_fst)
  then show ?thesis
    by (metis distinct_remdups set_remdups sorted_distinct_set_unique sorted_sort distinct_sort set_sort sortedKeys_def)
qed

lemma jsonMarshal_map_cong:
  assumes "dom (map_of a) = dom (map_of b)"
    and "\<And>k x y. map_of a k = Some x \<Longrightarrow> map_of b k = Some y \<Longrightarrow> jsonMarshal num x = jsonMarshal num y"
  shows "jsonMarshal num (GMap a) = jsonMarshal num (GMap b)"
proof -
  have "(case map_of a k of None \<Rightarrow> [] | Some v \<Rightarrow> jsonMarshal num v) = (case map_of b k of None \<Rightarrow> [] | Some v \<Rightarrow> jsonMarshal num v)" for k
    using assms(2) [of k] domIff [of k "map_of a"] domIff [of k "map_of b"] assms(1) by (auto split: option.split)
  then show ?thesis using sortedKeys_dom [OF assms(1)] by simp
qed

lemma collect_maps: "collectManifestDiffs num path (GMap bm) (GMap am) =
    concat (map (\<lambda>k. case map_of bm k of
        None \<Rightarrow> (case map_of am k of None \<Rightarrow> [] | Some a \<Rightarrow> [addedDiff num (childPath path k) a])
      | Some b \<Rightarrow> (case map_of am k of None \<Rightarrow> [removedDiff num (childPath path k) b]
          | Some a \<Rightarrow> collectManifestDiffs num (childPath path k) b a)) (sortedKeys (bm @ am)))"
  by (subst collectManifestDiffs.simps) simp

lemma collect_other:
  "\<not> (\<exists>bm am. before = GMap bm \<and> after = GMap am) \<Longrightarrow> collectManifestDiffs num path before after = changedDiff num path before after"
  by (subst collectManifestDiffs.simps) (auto split: gval.splits)

lemma collect_empty_sound: "collectManifestDiffs num path before after = [] \<Longrightarrow> jsonMarshal num before = jsonMarshal num after"
proof (induction num path before after rule: collectManifestDiffs.induct)
  case (1 num path before after)
  show ?case
  proof (cases "\<exists>bm am. before = GMap bm \<and> after = GMap am")
    case False
    then have "collectManifestDiffs num path before after = changedDiff num path before after" by (rule collect_other)
    with "1.prems" show ?thesis by (auto simp: changedDiff_def manifestValuesEqual_def split: if_splits)
  next
    case True
    then obtain bm am where m: "before = GMap bm" "after = GMap am" by blast
    have child: "(case map_of bm k of
                None \<Rightarrow> (case map_of am k of None \<Rightarrow> [] | Some a \<Rightarrow> [addedDiff num (childPath path k) a])
              | Some b \<Rightarrow> (case map_of am k of None \<Rightarrow> [removedDiff num (childPath path k) b]
                  | Some a \<Rightarrow> collectManifestDiffs num (childPath path k) b a)) = []"
      if "k \<in> fst ` set bm \<union> fst ` set am" for k
      using "1.prems" that unfolding m collect_maps concat_eq_Nil_conv set_map set_sortedKeys by (simp only: image_Un set_append) blast
    have same: "map_of bm k = None \<longleftrightarrow> map_of am k = None" for k
      using child [of k] by (cases "map_of bm k"; cases "map_of am k") (auto dest: map_of_SomeD simp: rev_image_eqI)
    have "jsonMarshal num b = jsonMarshal num a" if "map_of bm k = Some b" "map_of am k = Some a" for k b a
    proof -
      have k: "k \<in> set (sortedKeys (bm @ am))" using that(1) by (force dest: map_of_SomeD)
      then have "collectManifestDiffs num (childPath path k) b a = []" using child [of k] that by (simp add: image_Un)
      with "1.IH" [OF m k that] show ?thesis by simp
    qed
    with jsonMarshal_map_cong [of bm am num] same m show ?thesis by (auto simp: dom_def)
  qed
qed

lemma collect_refl: "before = after \<Longrightarrow> collectManifestDiffs num path before after = []"
proof (induction num path before after rule: collectManifestDiffs.induct)
  case (1 num path before after)
  show ?case
  proof (cases "\<exists>m. before = GMap m")
    case False
    with "1.prems" show ?thesis by (auto simp: collect_other changedDiff_def manifestValuesEqual_def)
  next
    case True
    then obtain m where m: "before = GMap m" "after = GMap m" using "1.prems" by blast
    have "collectManifestDiffs num (childPath path k) b b = []" if "map_of m k = Some b" for k b
      using "1.IH" [OF m _ that that] that by (auto dest: map_of_SomeD simp: rev_image_eqI)
    then show ?thesis by (auto simp: m collect_maps split: option.split)
  qed
qed

definition riskLevels :: "string list" where
  "riskLevels = [''low'', ''medium'', ''high'', ''critical'']"

lemma diffRisk_level: "manifestDiffRisk path \<in> set riskLevels"
  by (simp add: manifestDiffRisk_def riskLevels_def Let_def)

lemma collect_risk: "d \<in> set (collectManifestDiffs num path before after) \<Longrightarrow> fd_Risk d \<in> set riskLevels"
proof (induction num path before after rule: collectManifestDiffs.induct)
  case (1 num path before after)
  show ?case
  proof (cases "\<exists>bm am. before = GMap bm \<and> after = GMap am")
    case False
    then have "collectManifestDiffs num path before after = changedDiff num path before after" by (rule collect_other)
    with "1.prems" diffRisk_level show ?thesis by (auto simp: changedDiff_def split: if_splits)
  next
    case True
    then obtain bm am where m: "before = GMap bm" "after = GMap am" by blast
    from "1.prems" obtain k where k: "k \<in> set (sortedKeys (bm @ am))"
      "d \<in> set (case map_of bm k of
                None \<Rightarrow> (case map_of am k of None \<Rightarrow> [] | Some a \<Rightarrow> [addedDiff num (childPath path k) a])
              | Some b \<Rightarrow> (case map_of am k of None \<Rightarrow> [removedDiff num (childPath path k) b]
                  | Some a \<Rightarrow> collectManifestDiffs num (childPath path k) b a))"
      by (auto simp: m collect_maps simp del: set_sortedKeys)
    show ?thesis
    proof (cases "map_of bm k")
      case None
      with k(2) diffRisk_level show ?thesis by (auto simp: addedDiff_def split: option.splits)
    next
      case (Some b)
      with k(2) diffRisk_level "1.IH" [OF m k(1) Some] show ?thesis by (auto simp: removedDiff_def split: option.splits)
    qed
  qed
qed

section \<open>Approval follows risk\<close>

lemma diffs_risk: "d \<in> set (diffManifestDocs num before after) \<Longrightarrow> fd_Risk d \<in> set riskLevels"
  by (auto simp: diffManifestDocs_def dest: collect_risk)

lemma rank_levels [simp]:
  "riskRank ''low'' = 1" "riskRank ''medium'' = 2" "riskRank ''high'' = 3" "riskRank ''critical'' = 4" "riskRank ''blocked'' = 5"
  by code_simp+

lemma level_low: "r \<in> set riskLevels \<Longrightarrow> riskRank r \<le> 1 \<longleftrightarrow> r = ''low''"
  by (auto simp: riskLevels_def)

lemma diffReason_low: "fd_Risk d \<in> set riskLevels \<Longrightarrow> diffReason d = [] \<longleftrightarrow> fd_Risk d = ''low''"
  by (auto simp: diffReason_def riskLevels_def)

lemma fold_risk:
  assumes "\<And>d. d \<in> set ds \<Longrightarrow> fd_Risk d \<in> set riskLevels"
  shows "foldl manifestRiskMax ''low'' (map fd_Risk ds) \<in> set riskLevels"
    and "foldl manifestRiskMax ''low'' (map fd_Risk ds) = ''low'' \<longleftrightarrow> (\<forall>d \<in> set ds. fd_Risk d = ''low'')"
proof -
  let ?r = "foldl manifestRiskMax ''low'' (map fd_Risk ds)"
  show level: "?r \<in> set riskLevels"
  proof (cases "?r = ''low''")
    case True
    then show ?thesis by (simp add: riskLevels_def)
  next
    case False
    with manifestScale.foldl_mem [where a = "''low''" and bs = "map fd_Risk ds"] obtain d where "d \<in> set ds" "?r = fd_Risk d" by auto
    with assms show ?thesis by simp
  qed
  show "?r = ''low'' \<longleftrightarrow> (\<forall>d \<in> set ds. fd_Risk d = ''low'')"
  proof
    assume low: "?r = ''low''"
    have "riskRank (fd_Risk d) \<le> 1" if "d \<in> set ds" for d
      using manifestScale.foldl_upper [where a = "''low''" and b = "fd_Risk d" and bs = "map fd_Risk ds"] that low by simp
    with assms level_low show "\<forall>d \<in> set ds. fd_Risk d = ''low''" by blast
  next
    assume "\<forall>d \<in> set ds. fd_Risk d = ''low''"
    then show "?r = ''low''" using manifestScale.foldl_mem [where a = "''low''" and bs = "map fd_Risk ds"] by auto
  qed
qed

lemma approval_iff_risk:
  assumes "\<And>d. d \<in> set ds \<Longrightarrow> fd_Risk d \<in> set riskLevels"
  shows "changeNeedsApproval kind ds plan \<longleftrightarrow> sp_RequiresApproval plan \<or> changeRisk kind ds plan \<noteq> ''low''"
proof -
  let ?r = "foldl manifestRiskMax ''low'' (map fd_Risk ds)"
  have reasons: "list_ex (\<lambda>d. diffReason d \<noteq> []) ds \<longleftrightarrow> ?r \<noteq> ''low''"
    using fold_risk(2) [OF assms] diffReason_low assms by (auto simp: list_ex_iff)
  have "?r \<in> set riskLevels" by (rule fold_risk(1) [OF assms])
  then show ?thesis unfolding changeNeedsApproval_def reasons
    by (auto simp: changeRisk_def manifestRiskMax_def Let_def riskLevels_def)
qed

section \<open>Masking\<close>

text \<open>All maps nested in a value.\<close>

function nestedMaps :: "gval \<Rightarrow> gmap list" where
  "nestedMaps (GMap t) = t # concat (map (\<lambda>(_, v). nestedMaps v) t)"
| "nestedMaps (GList l) = concat (map nestedMaps l)"
| "nestedMaps GNil = []"
| "nestedMaps (GBool b) = []"
| "nestedMaps (GFloat q) = []"
| "nestedMaps (GInt n) = []"
| "nestedMaps (GInt64 n) = []"
| "nestedMaps (GStr s) = []"
  by pat_completeness auto

termination nestedMaps
  by (relation "measure size") (auto dest: gval_size_entry gval_size_list simp del: gval.size)

definition entryMasked :: "gmap \<Rightarrow> string \<times> gval \<Rightarrow> bool" where
  "entryMasked t kv \<longleftrightarrow>
     (isSensitivePath (fst kv) \<or> (isEnvEntry t \<and> fst kv = ''value'') \<longrightarrow> snd kv = GStr maskedValue)"

lemma ghas_map: "ghas (map (\<lambda>(k, v). (k, f k v)) t) k = ghas t k"
  by (induction t) (auto simp: ghas_def)

lemma isEnvEntry_map [simp]: "isEnvEntry (map (\<lambda>(k, v). (k, f k v)) t) = isEnvEntry t"
  by (simp add: isEnvEntry_def ghas_map)

text \<open>The values under \<^verbatim>\<open>data\<close> and \<^verbatim>\<open>stringData\<close> are masked when they form a map, and left as they
  are otherwise.\<close>

definition plainData :: "gmap \<Rightarrow> bool" where
  "plainData t \<longleftrightarrow>
     list_all (\<lambda>(k, v). k = ''data'' \<or> k = ''stringData'' \<longrightarrow> asMapOpt v \<noteq> None \<or> nestedMaps v = []) t"

lemma nested_maskAll:
  assumes "m \<in> set (nestedMaps (maskAllValues v))" and "asMapOpt v \<noteq> None \<or> nestedMaps v = []"
  shows "list_all (entryMasked m) m"
  using assms by (cases v) (auto simp: maskAllValues_def list_all_iff asMapOpt_def entryMasked_def)

lemma mask_hides:
  assumes "list_all plainData (nestedMaps v)" and "m \<in> set (nestedMaps (maskManifestValue v))"
  shows "list_all (entryMasked m) m"
  using assms
proof (induction v arbitrary: m rule: maskManifestValue.induct)
  case (1 t)
  let ?f = "\<lambda>k val. if isSensitivePath k then GStr maskedValue
            else if isEnvEntry t \<and> k = ''value'' then GStr maskedValue
            else if k = ''data'' \<or> k = ''stringData'' then maskAllValues val
            else maskManifestValue val"
  have top: "list_all (entryMasked (map (\<lambda>(k, v). (k, ?f k v)) t)) (map (\<lambda>(k, v). (k, ?f k v)) t)"
    by (auto simp: list_all_iff entryMasked_def)
  show ?case
  proof (cases "m = map (\<lambda>(k, v). (k, ?f k v)) t")
    case True
    with top show ?thesis by simp
  next
    case False
    with "1.prems"(2) obtain k v where kv: "(k, v) \<in> set t" "m \<in> set (nestedMaps (?f k v))" by auto
    have plain: "list_all plainData (nestedMaps v)" "plainData t" using "1.prems"(1) kv(1) by (auto simp: list_all_iff)
    show ?thesis
    proof (cases "k = ''data'' \<or> k = ''stringData''")
      case True
      with plain(2) kv(1) have "asMapOpt v \<noteq> None \<or> nestedMaps v = []" by (auto simp: plainData_def list_all_iff)
      with True kv(2) show ?thesis by (auto intro: nested_maskAll split: if_splits)
    next
      case f: False
      with kv(2) have "\<not> isSensitivePath k" "\<not> (isEnvEntry t \<and> k = ''value'')" "m \<in> set (nestedMaps (maskManifestValue v))"
        by (auto split: if_splits)
      with "1.IH" [OF kv(1) refl] f plain(1) show ?thesis by blast
    qed
  qed
next
  case (2 l)
  then show ?case by (auto simp: list_all_iff)
qed auto

definition hidden :: "gval \<Rightarrow> bool" where
  "hidden v \<longleftrightarrow> list_all (\<lambda>m. list_all (entryMasked m) m) (nestedMaps v)"

lemma hidden_map: "hidden (GMap t) \<longleftrightarrow> list_all (entryMasked t) t \<and> list_all (\<lambda>(_, v). hidden v) t"
  by (auto simp: hidden_def list_all_iff)

lemma ghas_mem: "ghas m k \<longleftrightarrow> k \<in> fst ` set m"
  by (simp add: ghas_def map_of_eq_None_iff)

lemma hidden_subset:
  assumes "hidden (GMap t)" and "set s \<subseteq> set t"
  shows "hidden (GMap s)"
proof -
  have "isEnvEntry s \<Longrightarrow> isEnvEntry t" using assms(2) by (auto simp: isEnvEntry_def ghas_mem)
  with assms show ?thesis by (auto simp: hidden_map list_all_iff entryMasked_def)
qed

lemma set_gdelete: "set (gdelete k m) \<subseteq> set m"
  by (auto simp: gdelete_def)

lemma set_gdeletes: "set (foldl (\<lambda>m k. gdelete k m) m ks) \<subseteq> set m"
  using set_gdelete by (induction ks arbitrary: m) (auto, blast)

lemma set_gput: "set (gput k v m) \<subseteq> insert (k, v) (set m)"
  by (induction k v m rule: gput.induct) auto

lemma keys_gput: "fst ` set (gput k v m) = insert k (fst ` set m)"
  by (induction k v m rule: gput.induct) auto

lemma metadata_plain: "\<not> isSensitivePath ''metadata''"
  by code_simp

lemma gget_GMap_mem: "gget m k = GMap x \<Longrightarrow> (k, GMap x) \<in> set m"
  by (auto simp: gget_def split: option.splits dest: map_of_SomeD)

lemma hidden_gput_metadata:
  assumes "hidden (GMap out)" and "gget out ''metadata'' = GMap meta" and "set meta' \<subseteq> set meta"
  shows "hidden (GMap (gput ''metadata'' (GMap meta') out))"
proof -
  have mem: "(''metadata'', GMap meta) \<in> set out" by (rule gget_GMap_mem [OF assms(2)])
  then have "hidden (GMap meta)" using assms(1) unfolding hidden_map [of out] list_all_iff by blast
  then have meta': "hidden (GMap meta')" using assms(3) by (rule hidden_subset)
  have keys: "fst ` set (gput ''metadata'' (GMap meta') out) = fst ` set out" using mem by (force simp: keys_gput)
  then have env: "isEnvEntry (gput ''metadata'' (GMap meta') out) = isEnvEntry out" by (simp add: isEnvEntry_def ghas_mem)
  show ?thesis
    using assms(1) meta' metadata_plain set_gput [of "''metadata''" "GMap meta'" out]
    by (fastforce simp: hidden_map list_all_iff entryMasked_def env)
qed

lemma sanitize_hidden:
  assumes "list_all plainData (nestedMaps (GMap doc))"
  shows "hidden (GMap (sanitizeManifestDocForLedger doc))"
proof -
  obtain t where t: "maskManifestValue (GMap doc) = GMap t" by simp
  have "hidden (GMap t)" using mask_hides [OF assms] by (simp add: hidden_def list_all_iff t [symmetric] del: maskManifestValue.simps)
  then have out: "hidden (GMap (gdelete ''status'' t))" using set_gdelete by (rule hidden_subset)
  show ?thesis
  proof (cases "\<exists>meta. gget (gdelete ''status'' t) ''metadata'' = GMap meta")
    case True
    then obtain meta where m: "gget (gdelete ''status'' t) ''metadata'' = GMap meta" by blast
    then have "sanitizeManifestDocForLedger doc =
        gput ''metadata'' (GMap (foldl (\<lambda>m k. gdelete k m) meta serverFields)) (gdelete ''status'' t)"
      unfolding sanitizeManifestDocForLedger_def t by (simp add: asAnyMap_def Let_def)
    then show ?thesis using hidden_gput_metadata [OF out m set_gdeletes] by simp
  next
    case False
    then have "sanitizeManifestDocForLedger doc = gdelete ''status'' t"
      unfolding sanitizeManifestDocForLedger_def t by (auto simp: asAnyMap_def Let_def split: gval.splits)
    then show ?thesis using out by simp
  qed
qed

section \<open>Properties\<close>


definition exampleDeployment :: "string \<Rightarrow> gmap" where
  "exampleDeployment level =
     [(''apiVersion'', GStr ''apps/v1''), (''kind'', GStr ''Deployment''),
      (''metadata'', GMap [(''name'', GStr ''web''), (''uid'', GStr ''u1'')]),
      (''spec'', GMap [(''containers'', GList [GMap [(''env'', GList [GMap [(''name'', GStr ''LOG_LEVEL''), (''value'', GStr level)]])]])]),
      (''status'', GMap [(''replicas'', GInt 1)])]"

definition exampleEnvEntry :: gmap where
  "exampleEnvEntry = [(''name'', GStr ''LOG_LEVEL''), (''value'', GStr ''***'')]"


text \<open>
  C36. The assessment of an edit misses no change and sends every risky one to approval. When
  the JSON texts of the two documents differ, at least one field diff is reported; a document
  has no diff to itself; and approval is required exactly when the policy plan requires it or
  the risk, the highest of the field risks and of the kind's own level, is above low.
\<close>

theorem change_assessment_is_complete:
  "(jsonMarshal num (GMap before) \<noteq> jsonMarshal num (GMap after) \<longrightarrow> diffManifestDocs num before after \<noteq> []) \<and>
   diffManifestDocs num before before = [] \<and>
   (changeNeedsApproval kind (diffManifestDocs num before after) plan \<longleftrightarrow>
      sp_RequiresApproval plan \<or> changeRisk kind (diffManifestDocs num before after) plan \<noteq> ''low'')"
proof -
  have "diffManifestDocs num before after = [] \<Longrightarrow> jsonMarshal num (GMap before) = jsonMarshal num (GMap after)"
    using collect_empty_sound [of num "[]" "GMap before" "GMap after"] unfolding diffManifestDocs_def by (metis length_0_conv length_sort)
  moreover have "diffManifestDocs num before before = []" by (simp add: diffManifestDocs_def collect_refl)
  moreover have "changeNeedsApproval kind (diffManifestDocs num before after) plan \<longleftrightarrow>
      sp_RequiresApproval plan \<or> changeRisk kind (diffManifestDocs num before after) plan \<noteq> ''low''"
    by (rule approval_iff_risk) (rule diffs_risk)
  ultimately show ?thesis by blast
qed

theorem change_assessment_is_complete_witness:
  "diffManifestDocs (\<lambda>_. []) (exampleDeployment ''info'') (exampleDeployment ''debug'') \<noteq> []"
proof -
  have "jsonMarshal (\<lambda>_. []) (GMap (exampleDeployment ''info'')) \<noteq> jsonMarshal (\<lambda>_. []) (GMap (exampleDeployment ''debug''))" by code_simp
  with change_assessment_is_complete [where num = "\<lambda>_. []" and before = "exampleDeployment ''info''" and after = "exampleDeployment ''debug''"]
  show ?thesis by blast
qed

end
