(* ===== verification/Manifest_Ledger.thy ===== *)
theory Manifest_Ledger
  imports Manifest_Doc Row_Store Admin_Http
begin

text \<open>
  The ledger of manifest change requests, \<^verbatim>\<open>internal/store/k8s_manifest_change.go\<close>: its rows, every
  operation that changes them, and the state machine they follow. The JSON columns are held
  decoded. \<open>auditErr\<close> is the error of the second statement of the approval transaction, if it
  fails; other driver errors are not modelled.
\<close>

section \<open>The ledger\<close>

record K8sManifestChangeRequest =
  mc_ID :: string
  mc_ClusterID :: string
  mc_Namespace :: string
  mc_Kind :: string
  mc_APIVersion :: string
  mc_Name :: string
  mc_Status :: string
  mc_RiskLevel :: string
  mc_RequiresApproval :: bool
  mc_Reason :: string
  mc_BeforeYAML :: string
  mc_AfterYAML :: string
  mc_BeforeHash :: string
  mc_AfterHash :: string
  mc_Diffs :: "K8sManifestFieldDiff list"
  mc_Impact :: gmap
  mc_Validation :: gmap
  mc_ApplyResult :: gmap
  mc_VerifyResult :: gmap
  mc_CreatedBy :: string
  mc_ApprovedBy :: string
  mc_AppliedBy :: string
  mc_VerifiedBy :: string
  mc_Result :: string
  mc_IdempotencyKey :: string
  mc_TargetUID :: string
  mc_TargetResourceVersion :: string
  mc_CreatedAt :: string
  mc_UpdatedAt :: string
  mc_ApprovedAt :: string
  mc_AppliedAt :: string
  mc_VerifiedAt :: string

type_synonym change_table = "K8sManifestChangeRequest table"

definition changeDefaults :: "string \<Rightarrow> K8sManifestChangeRequest \<Rightarrow> K8sManifestChangeRequest" where
  "changeDefaults now r =
     r\<lparr>mc_CreatedAt := (if mc_CreatedAt r = [] then now else mc_CreatedAt r),
       mc_UpdatedAt := (if mc_UpdatedAt r = [] then now else mc_UpdatedAt r),
       mc_Status := (if mc_Status r = [] then ''draft'' else mc_Status r),
       mc_RiskLevel := (if mc_RiskLevel r = [] then ''low'' else mc_RiskLevel r)\<rparr>"

definition insertChange :: "string \<Rightarrow> K8sManifestChangeRequest \<Rightarrow> change_table \<Rightarrow> (store_error + unit) \<times> change_table" where
  "insertChange now r t =
     (case insertKeyed mc_IdempotencyKey (mc_ID r) (changeDefaults now r) t of
        (Inl e, _) \<Rightarrow> (Inl e, t) | (Inr _, t') \<Rightarrow> (Inr (), t'))"

definition CreateK8sManifestChangeRequest ::
  "string \<Rightarrow> K8sManifestChangeRequest \<Rightarrow> change_table \<Rightarrow> (store_error + unit) \<times> change_table" where
  "CreateK8sManifestChangeRequest now r t = insertChange now r t"

definition missReason :: "string \<Rightarrow> change_table \<Rightarrow> store_error" where
  "missReason i t = (if map_of t i = None then ErrNotFound else ErrInvalidTransition)"

definition rollbackable :: "string \<Rightarrow> bool" where
  "rollbackable st \<longleftrightarrow> st \<in> set [''applied'', ''verified'', ''verify_failed'']"

text \<open>One transaction: the source is marked first, and a failing insert undoes the mark.\<close>

definition CreateK8sManifestRollbackRequest ::
  "string \<Rightarrow> string \<Rightarrow> string \<Rightarrow> K8sManifestChangeRequest \<Rightarrow> change_table \<Rightarrow> (store_error + unit) \<times> change_table" where
  "CreateK8sManifestRollbackRequest now sourceID result r t =
     (let guard = (\<lambda>x. rollbackable (mc_Status x)) in
      if \<not> affected sourceID guard t then (Inl (missReason sourceID t), t)
      else
        let t1 = updateWhere sourceID guard (\<lambda>x. x\<lparr>mc_Status := ''rollback_requested'', mc_UpdatedAt := now, mc_Result := result\<rparr>) t in
        (case insertChange now r t1 of
           (Inl e, _) \<Rightarrow> (Inl e, t)
         | (Inr _, t2) \<Rightarrow> (Inr (), t2)))"

record K8sManifestChangeFilter =
  mf_ClusterID :: string
  mf_Status :: string
  mf_Kind :: string
  mf_Namespace :: string
  mf_Limit :: int

definition ListK8sManifestChangeRequests :: "K8sManifestChangeFilter \<Rightarrow> change_table \<Rightarrow> K8sManifestChangeRequest list" where
  "ListK8sManifestChangeRequests f t =
     take (nat (boundedLimit (mf_Limit f) 100 500))
       (rev (sort_key mc_CreatedAt
         (filter (\<lambda>r. (mf_ClusterID f = [] \<or> mc_ClusterID r = mf_ClusterID f) \<and> (mf_Status f = [] \<or> mc_Status r = mf_Status f) \<and>
                     (mf_Kind f = [] \<or> toLower (mc_Kind r) = toLower (mf_Kind f)) \<and>
                     (mf_Namespace f = [] \<or> mc_Namespace r = mf_Namespace f)) (map snd t))))"

definition GetK8sManifestChangeRequest :: "string \<Rightarrow> change_table \<Rightarrow> store_error + K8sManifestChangeRequest" where
  "GetK8sManifestChangeRequest i t = getRow i t"

definition GetK8sManifestChangeRequestByIdempotencyKey :: "string \<Rightarrow> change_table \<Rightarrow> store_error + K8sManifestChangeRequest" where
  "GetK8sManifestChangeRequestByIdempotencyKey key t =
     (if trimSpace key = [] then Inl ErrNotFound
      else (case find (\<lambda>(_, r). mc_IdempotencyKey r = key) t of None \<Rightarrow> Inl ErrNotFound | Some (_, r) \<Rightarrow> Inr r))"

definition analysisFrom :: "string \<Rightarrow> string list" where
  "analysisFrom status =
     (if status = ''validated'' then [''draft'', ''validated'']
      else if status = ''approval_required'' then [''draft'', ''validated'', ''approval_required'']
      else if status = ''failed'' then [''draft'', ''validated'', ''approval_required'']
      else [])"

definition firstStoreNonEmpty :: "string list \<Rightarrow> string" where
  "firstStoreNonEmpty vs = (case filter (\<lambda>v. trimSpace v \<noteq> []) vs of [] \<Rightarrow> [] | v # _ \<Rightarrow> v)"

definition UpdateK8sManifestChangeAnalysis ::
  "string \<Rightarrow> string \<Rightarrow> string \<Rightarrow> string \<Rightarrow> bool \<Rightarrow> gmap \<Rightarrow> gmap \<Rightarrow> string \<Rightarrow> change_table \<Rightarrow>
     (store_error + K8sManifestChangeRequest) \<times> change_table" where
  "UpdateK8sManifestChangeAnalysis now i status risk requiresApproval impact validation result t =
     (if status \<notin> set [''validated'', ''approval_required'', ''failed''] then (Inl ErrInvalidTransition, t)
      else guardedUpdate i (\<lambda>r. mc_Status r \<in> set (analysisFrom status))
        (\<lambda>r. r\<lparr>mc_Status := status, mc_RiskLevel := firstStoreNonEmpty [risk, ''low''], mc_RequiresApproval := requiresApproval,
               mc_Impact := impact, mc_Validation := validation, mc_Result := result, mc_UpdatedAt := now\<rparr>) t)"

definition statusFrom :: "string \<Rightarrow> string list" where
  "statusFrom status =
     (if status = ''approved'' then [''validated'', ''approval_required'']
      else if status = ''rejected'' then [''draft'', ''validated'', ''approval_required'']
      else if status = ''running'' then [''validated'', ''approved'']
      else if status = ''applied'' \<or> status = ''failed'' then [''running'']
      else if status = ''verified'' \<or> status = ''verify_failed'' then [''applied'', ''verify_failed'']
      else if status = ''rollback_requested'' then [''applied'', ''verified'', ''verify_failed'']
      else if status = ''rolled_back'' then [''rollback_requested'']
      else [])"

definition setChangeStatus :: "string \<Rightarrow> string \<Rightarrow> string \<Rightarrow> string \<Rightarrow> K8sManifestChangeRequest \<Rightarrow> K8sManifestChangeRequest" where
  "setChangeStatus now status actor result r =
     (let b = r\<lparr>mc_Status := status, mc_UpdatedAt := now, mc_Result := result\<rparr> in
      if status = ''approved'' then b\<lparr>mc_ApprovedBy := actor, mc_ApprovedAt := now\<rparr>
      else if status \<in> set [''running'', ''applied'', ''failed'', ''rolled_back''] then b\<lparr>mc_AppliedBy := actor, mc_AppliedAt := now\<rparr>
      else if status = ''verified'' \<or> status = ''verify_failed'' then b\<lparr>mc_VerifiedBy := actor, mc_VerifiedAt := now\<rparr>
      else b)"

definition UpdateK8sManifestChangeStatus ::
  "string \<Rightarrow> string \<Rightarrow> string \<Rightarrow> string \<Rightarrow> string \<Rightarrow> change_table \<Rightarrow> (store_error + K8sManifestChangeRequest) \<times> change_table" where
  "UpdateK8sManifestChangeStatus now i status actor result t =
     (if statusFrom status = [] then (Inl ErrInvalidTransition, t)
      else guardedUpdate i (\<lambda>r. mc_Status r \<in> set (statusFrom status)) (setChangeStatus now status actor result) t)"

definition ApproveK8sManifestChangeWithAudit ::
  "string \<Rightarrow> string \<Rightarrow> string \<Rightarrow> string \<Rightarrow> AdminAuditLog \<Rightarrow> store_error option \<Rightarrow> change_table \<times> AdminAuditLog list \<Rightarrow>
     (store_error + unit) \<times> (change_table \<times> AdminAuditLog list)" where
  "ApproveK8sManifestChangeWithAudit now i actor result audit auditErr st =
     (let (t, entries) = st; guard = (\<lambda>r. mc_Status r \<in> set [''validated'', ''approval_required'']) in
      if \<not> affected i guard t then (Inl (missReason i t), st)
      else (case auditErr of
        Some e \<Rightarrow> (Inl e, st)
      | None \<Rightarrow> (Inr (),
          (updateWhere i guard (\<lambda>r. r\<lparr>mc_Status := ''approved'', mc_UpdatedAt := now, mc_Result := result,
             mc_ApprovedBy := actor, mc_ApprovedAt := now\<rparr>) t, entries @ [audit]))))"

definition UpdateK8sManifestChangeApplyResult ::
  "string \<Rightarrow> string \<Rightarrow> string \<Rightarrow> string \<Rightarrow> gmap \<Rightarrow> string \<Rightarrow> change_table \<Rightarrow>
     (store_error + K8sManifestChangeRequest) \<times> change_table" where
  "UpdateK8sManifestChangeApplyResult now i status actor applyResult result t =
     guardedUpdate i (\<lambda>r. mc_Status r = ''running'')
       (\<lambda>r. r\<lparr>mc_Status := status, mc_ApplyResult := applyResult, mc_Result := result, mc_AppliedBy := actor,
              mc_AppliedAt := now, mc_UpdatedAt := now\<rparr>) t"

definition UpdateK8sManifestChangeVerifyResult ::
  "string \<Rightarrow> string \<Rightarrow> string \<Rightarrow> string \<Rightarrow> gmap \<Rightarrow> string \<Rightarrow> change_table \<Rightarrow>
     (store_error + K8sManifestChangeRequest) \<times> change_table" where
  "UpdateK8sManifestChangeVerifyResult now i status actor verifyResult result t =
     guardedUpdate i (\<lambda>r. mc_Status r \<in> set [''applied'', ''verify_failed''])
       (\<lambda>r. r\<lparr>mc_Status := status, mc_VerifyResult := verifyResult, mc_Result := result, mc_VerifiedBy := actor,
              mc_VerifiedAt := now, mc_UpdatedAt := now\<rparr>) t"

section \<open>The state machine\<close>

text \<open>The operations as the handlers call them: an apply ends in \<^verbatim>\<open>applied\<close> or \<^verbatim>\<open>failed\<close>, a verification in
  \<^verbatim>\<open>verified\<close> or \<^verbatim>\<open>verify_failed\<close>.\<close>

datatype change_op =
    LCreate string K8sManifestChangeRequest
  | LRollback string string string K8sManifestChangeRequest
  | LAnalysis string string string string bool gmap gmap string
  | LStatus string string string string string
  | LApprove string string string string AdminAuditLog "store_error option"
  | LApplyResult string string bool string gmap string
  | LVerifyResult string string bool string gmap string

fun changeOp :: "change_op \<Rightarrow> change_table \<Rightarrow> change_table" where
  "changeOp (LCreate now r) t = snd (CreateK8sManifestChangeRequest now r t)"
| "changeOp (LRollback now i result r) t = snd (CreateK8sManifestRollbackRequest now i result r t)"
| "changeOp (LAnalysis now i status risk approval impact validation result) t =
     snd (UpdateK8sManifestChangeAnalysis now i status risk approval impact validation result t)"
| "changeOp (LStatus now i status actor result) t = snd (UpdateK8sManifestChangeStatus now i status actor result t)"
| "changeOp (LApprove now i actor result audit auditErr) t =
     fst (snd (ApproveK8sManifestChangeWithAudit now i actor result audit auditErr (t, [])))"
| "changeOp (LApplyResult now i ok actor res result) t =
     snd (UpdateK8sManifestChangeApplyResult now i (if ok then ''applied'' else ''failed'') actor res result t)"
| "changeOp (LVerifyResult now i ok actor res result) t =
     snd (UpdateK8sManifestChangeVerifyResult now i (if ok then ''verified'' else ''verify_failed'') actor res result t)"

definition changeEdge :: "string \<Rightarrow> string \<Rightarrow> bool" where
  "changeEdge a b \<longleftrightarrow> a \<in> set (statusFrom b) \<or> a \<in> set (analysisFrom b)"

text \<open>What was requested and reviewed.\<close>

definition sameChange :: "K8sManifestChangeRequest \<Rightarrow> K8sManifestChangeRequest \<Rightarrow> bool" where
  "sameChange a b \<longleftrightarrow> mc_ID b = mc_ID a \<and> mc_ClusterID b = mc_ClusterID a \<and> mc_Namespace b = mc_Namespace a \<and>
     mc_Kind b = mc_Kind a \<and> mc_APIVersion b = mc_APIVersion a \<and> mc_Name b = mc_Name a \<and> mc_Reason b = mc_Reason a \<and>
     mc_BeforeYAML b = mc_BeforeYAML a \<and> mc_AfterYAML b = mc_AfterYAML a \<and> mc_BeforeHash b = mc_BeforeHash a \<and>
     mc_AfterHash b = mc_AfterHash a \<and> mc_Diffs b = mc_Diffs a \<and> mc_CreatedBy b = mc_CreatedBy a \<and>
     mc_IdempotencyKey b = mc_IdempotencyKey a \<and> mc_TargetUID b = mc_TargetUID a \<and>
     mc_TargetResourceVersion b = mc_TargetResourceVersion a \<and> mc_CreatedAt b = mc_CreatedAt a"

definition changeMoves :: "K8sManifestChangeRequest \<Rightarrow> K8sManifestChangeRequest \<Rightarrow> bool" where
  "changeMoves a b \<longleftrightarrow> sameChange a b \<and> changeEdge (mc_Status a) (mc_Status b)"

definition freshChange :: "K8sManifestChangeRequest \<Rightarrow> bool" where
  "freshChange r \<longleftrightarrow> mc_Status r \<noteq> []"

lemma sameChange_refl [simp]: "sameChange a a"
  by (simp add: sameChange_def)

lemma sameChange_trans: "sameChange a b \<Longrightarrow> sameChange b c \<Longrightarrow> sameChange a c"
  by (simp add: sameChange_def)

lemma changeDefaults_keys [simp]:
  "mc_ID (changeDefaults now r) = mc_ID r" "mc_IdempotencyKey (changeDefaults now r) = mc_IdempotencyKey r"
  "mc_Status (changeDefaults now r) \<noteq> []"
  by (simp_all add: changeDefaults_def)

lemma insertChange_cases:
  "insertChange now r t = (Inl ErrDuplicateKey, t) \<or>
   (insertChange now r t = (Inr (), t @ [(mc_ID r, changeDefaults now r)]) \<and> map_of t (mc_ID r) = None \<and>
    (mc_IdempotencyKey r = [] \<or> \<not> list_ex (\<lambda>(_, x). mc_IdempotencyKey x = mc_IdempotencyKey r) t))"
  using insertKeyed_cases [of mc_IdempotencyKey "mc_ID r" "changeDefaults now r" t] by (auto simp: insertChange_def)

lemma insertChange_row:
  "map_of (snd (insertChange now r t)) k = map_of t k \<or>
   (k = mc_ID r \<and> map_of t k = None \<and> map_of (snd (insertChange now r t)) k = Some (changeDefaults now r))"
  using insertChange_cases [of now r t] by (cases "map_of t k"; cases "k = mc_ID r") (auto simp: map_add_def)

definition markRollback :: "string \<Rightarrow> string \<Rightarrow> K8sManifestChangeRequest \<Rightarrow> K8sManifestChangeRequest" where
  "markRollback now result x = x\<lparr>mc_Status := ''rollback_requested'', mc_UpdatedAt := now, mc_Result := result\<rparr>"

lemma rollback_cases:
  "(CreateK8sManifestRollbackRequest now i result r t = (Inl (missReason i t), t) \<and> \<not> affected i (\<lambda>x. rollbackable (mc_Status x)) t) \<or>
   (CreateK8sManifestRollbackRequest now i result r t = (Inl ErrDuplicateKey, t) \<and> affected i (\<lambda>x. rollbackable (mc_Status x)) t) \<or>
   (affected i (\<lambda>x. rollbackable (mc_Status x)) t \<and>
    CreateK8sManifestRollbackRequest now i result r t =
      (Inr (), updateWhere i (\<lambda>x. rollbackable (mc_Status x)) (markRollback now result) t @ [(mc_ID r, changeDefaults now r)]) \<and>
    map_of t (mc_ID r) = None)"
proof -
  let ?t1 = "updateWhere i (\<lambda>x. rollbackable (mc_Status x)) (markRollback now result) t"
  have eq: "CreateK8sManifestRollbackRequest now i result r t =
      (if \<not> affected i (\<lambda>x. rollbackable (mc_Status x)) t then (Inl (missReason i t), t)
       else (case insertChange now r ?t1 of (Inl e, _) \<Rightarrow> (Inl e, t) | (Inr _, t2) \<Rightarrow> (Inr (), t2)))"
    unfolding CreateK8sManifestRollbackRequest_def markRollback_def Let_def by simp
  have none: "map_of ?t1 (mc_ID r) = None \<longleftrightarrow> map_of t (mc_ID r) = None" by (simp add: map_of_updateWhere)
  show ?thesis using insertChange_cases [of now r ?t1] none unfolding eq by (auto split: if_splits)
qed

text \<open>What one operation does to one row.\<close>

lemma guarded_row:
  assumes "map_of t k = Some a" and "\<And>x. guard x \<Longrightarrow> changeMoves x (f x)"
  shows "\<exists>b. map_of (snd (guardedUpdate i guard f t)) k = Some b \<and> (b = a \<or> changeMoves a b)"
  using assms by (cases "k = i"; cases "guard a") (auto simp: guardedUpdate_table)

lemma updateWhere_row:
  assumes "map_of t k = Some a" and "\<And>x. guard x \<Longrightarrow> changeMoves x (f x)"
  shows "\<exists>b. map_of (updateWhere i guard f t) k = Some b \<and> (b = a \<or> changeMoves a b)"
  using assms by (cases "k = i"; cases "guard a") (auto simp: map_of_updateWhere)

lemma setChangeStatus_move:
  "mc_Status a \<in> set (statusFrom status) \<Longrightarrow> changeMoves a (setChangeStatus now status actor result a)"
  by (auto simp: changeMoves_def changeEdge_def sameChange_def setChangeStatus_def Let_def)

lemma rollback_row:
  assumes "map_of t k = Some a"
  shows "\<exists>b. map_of (snd (CreateK8sManifestRollbackRequest now i result r t)) k = Some b \<and> (b = a \<or> changeMoves a b)"
proof -
  have move: "changeMoves x (markRollback now result x)" if "rollbackable (mc_Status x)" for x
    using that by (auto simp: changeMoves_def changeEdge_def sameChange_def markRollback_def rollbackable_def statusFrom_def)
  obtain b where b: "map_of (updateWhere i (\<lambda>x. rollbackable (mc_Status x)) (markRollback now result) t) k = Some b"
      "b = a \<or> changeMoves a b"
    using updateWhere_row [where guard = "\<lambda>x. rollbackable (mc_Status x)", OF assms move] by blast
  consider "snd (CreateK8sManifestRollbackRequest now i result r t) = t"
    | "snd (CreateK8sManifestRollbackRequest now i result r t) =
        updateWhere i (\<lambda>x. rollbackable (mc_Status x)) (markRollback now result) t @ [(mc_ID r, changeDefaults now r)]"
    using rollback_cases [of now i result r t] by auto
  then show ?thesis using assms b by cases (auto simp: map_add_def)
qed

lemma approve_table:
  "fst (snd (ApproveK8sManifestChangeWithAudit now i actor result audit auditErr (t, entries))) = t \<or>
   fst (snd (ApproveK8sManifestChangeWithAudit now i actor result audit auditErr (t, entries))) =
     updateWhere i (\<lambda>r. mc_Status r \<in> set (statusFrom ''approved'')) (setChangeStatus now ''approved'' actor result) t"
  unfolding ApproveK8sManifestChangeWithAudit_def setChangeStatus_def statusFrom_def Let_def by (simp split: option.split)

lemma changeOp_row:
  assumes "map_of t k = Some a"
  shows "\<exists>b. map_of (changeOp op t) k = Some b \<and> (b = a \<or> changeMoves a b)"
proof (cases op)
  case (LCreate now r)
  with assms insertChange_row [of now r t k] show ?thesis by (auto simp: CreateK8sManifestChangeRequest_def)
next
  case (LRollback now i result r)
  with rollback_row [OF assms] show ?thesis by simp
next
  case (LAnalysis now i status risk approval impact validation result)
  have move: "changeMoves x (x\<lparr>mc_Status := status, mc_RiskLevel := firstStoreNonEmpty [risk, ''low''], mc_RequiresApproval := approval,
      mc_Impact := impact, mc_Validation := validation, mc_Result := result, mc_UpdatedAt := now\<rparr>)"
    if "mc_Status x \<in> set (analysisFrom status)" for x
    using that by (simp add: changeMoves_def changeEdge_def sameChange_def)
  from guarded_row [where guard = "\<lambda>x. mc_Status x \<in> set (analysisFrom status)", OF assms move] show ?thesis
    using LAnalysis assms by (simp add: UpdateK8sManifestChangeAnalysis_def)
next
  case (LStatus now i status actor result)
  from guarded_row [where guard = "\<lambda>x. mc_Status x \<in> set (statusFrom status)", OF assms setChangeStatus_move] show ?thesis
    using LStatus assms by (simp add: UpdateK8sManifestChangeStatus_def)
next
  case (LApprove now i actor result audit auditErr)
  have "\<exists>b. map_of (updateWhere i (\<lambda>x. mc_Status x \<in> set (statusFrom ''approved'')) (setChangeStatus now ''approved'' actor result) t) k = Some b \<and>
      (b = a \<or> changeMoves a b)"
    using assms setChangeStatus_move by (rule updateWhere_row)
  then show ?thesis using LApprove assms approve_table [of now i actor result audit auditErr t "[]"] by auto
next
  case (LApplyResult now i ok actor res result)
  have move: "changeMoves x (x\<lparr>mc_Status := (if ok then ''applied'' else ''failed''), mc_ApplyResult := res, mc_Result := result,
      mc_AppliedBy := actor, mc_AppliedAt := now, mc_UpdatedAt := now\<rparr>)" if "mc_Status x = ''running''" for x
    using that by (simp add: changeMoves_def changeEdge_def sameChange_def statusFrom_def)
  from guarded_row [where guard = "\<lambda>x. mc_Status x = ''running''", OF assms move] show ?thesis using LApplyResult by (simp add: UpdateK8sManifestChangeApplyResult_def)
next
  case (LVerifyResult now i ok actor res result)
  have move: "changeMoves x (x\<lparr>mc_Status := (if ok then ''verified'' else ''verify_failed''), mc_VerifyResult := res, mc_Result := result,
      mc_VerifiedBy := actor, mc_VerifiedAt := now, mc_UpdatedAt := now\<rparr>)" if "mc_Status x \<in> set [''applied'', ''verify_failed'']" for x
    using that by (auto simp: changeMoves_def changeEdge_def sameChange_def statusFrom_def)
  from guarded_row [where guard = "\<lambda>x. mc_Status x \<in> set [''applied'', ''verify_failed'']", OF assms move] show ?thesis using LVerifyResult by (simp add: UpdateK8sManifestChangeVerifyResult_def)
qed

lemma guarded_none: "map_of t k = None \<Longrightarrow> map_of (snd (guardedUpdate i guard f t)) k = None"
  by (auto simp: guardedUpdate_table)

lemma changeOp_new:
  assumes "map_of t k = None" and "map_of (changeOp op t) k = Some a"
  shows "freshChange a"
proof (cases op)
  case (LCreate now r)
  with assms insertChange_row [of now r t k] show ?thesis by (auto simp: CreateK8sManifestChangeRequest_def freshChange_def)
next
  case (LRollback now i result r)
  have none: "map_of (updateWhere i (\<lambda>x. rollbackable (mc_Status x)) (markRollback now result) t) k = None"
    using assms(1) by (auto simp: map_of_updateWhere)
  show ?thesis
    using rollback_cases [of now i result r t] assms LRollback none
    by (auto simp: freshChange_def map_add_def split: if_splits)
next
  case (LAnalysis now i status risk approval impact validation result)
  with assms show ?thesis by (auto simp: UpdateK8sManifestChangeAnalysis_def guarded_none split: if_splits)
next
  case (LStatus now i status actor result)
  with assms show ?thesis by (auto simp: UpdateK8sManifestChangeStatus_def guarded_none split: if_splits)
next
  case (LApprove now i actor result audit auditErr)
  with assms approve_table [of now i actor result audit auditErr t "[]"] show ?thesis by (auto simp: map_of_updateWhere split: if_splits)
next
  case (LApplyResult now i ok actor res result)
  with assms show ?thesis by (simp add: UpdateK8sManifestChangeApplyResult_def guarded_none)
next
  case (LVerifyResult now i ok actor res result)
  with assms show ?thesis by (simp add: UpdateK8sManifestChangeVerifyResult_def guarded_none)
qed

interpretation changeRows: row_machine map_of changeOp changeMoves freshChange
  by unfold_locales (rule changeOp_row changeOp_new; assumption)+

text \<open>Statuses that nothing leaves, and statuses from which a rollback can no longer be requested.\<close>

lemma edge_unfold: "changeEdge a b \<Longrightarrow> a \<in> set [''draft'', ''validated'', ''approval_required'', ''approved'', ''running'', ''applied'',
    ''verified'', ''verify_failed'', ''rollback_requested'']"
  by (auto simp: changeEdge_def statusFrom_def analysisFrom_def split: if_splits)

lemma final_no_move: "mc_Status r \<in> set [''failed'', ''rejected'', ''rolled_back''] \<Longrightarrow> \<not> changeMoves r r'"
  by (auto simp: changeMoves_def dest: edge_unfold)

lemma rollback_stays:
  "changeMoves\<^sup>*\<^sup>* a b \<Longrightarrow> mc_Status a = ''rollback_requested'' \<Longrightarrow> mc_Status b = ''rollback_requested'' \<or> mc_Status b = ''rolled_back''"
proof (induction rule: rtranclp_induct)
  case base
  then show ?case by simp
next
  case (step y z)
  have "mc_Status y = ''rollback_requested'' \<Longrightarrow> mc_Status z = ''rolled_back''"
    using step.hyps(2) by (auto simp: changeMoves_def changeEdge_def statusFrom_def analysisFrom_def split: if_splits)
  moreover have "mc_Status y \<noteq> ''rolled_back''" using step.hyps(2) final_no_move by auto
  ultimately show ?case using step.IH step.prems by blast
qed

text \<open>A change that failed, also one that failed because the policies could not be read, never
  changes again: validating it once more is refused.\<close>

lemma failed_change_is_final:
  assumes "map_of t k = Some r" and "mc_Status r = ''failed''"
  shows "map_of (fold changeOp ops t) k = Some r"
    and "fst (UpdateK8sManifestChangeAnalysis now k status risk approval impact validation result (fold changeOp ops t)) = Inl ErrInvalidTransition"
proof -
  show row: "map_of (fold changeOp ops t) k = Some r"
    by (rule changeRows.run_absorbing [OF assms(1)]) (simp add: final_no_move assms(2))
  have "mc_Status r \<notin> set (analysisFrom status)" by (simp add: assms(2) analysisFrom_def)
  with row show "fst (UpdateK8sManifestChangeAnalysis now k status risk approval impact validation result (fold changeOp ops t)) = Inl ErrInvalidTransition"
    by (simp add: UpdateK8sManifestChangeAnalysis_def guardedUpdate_err)
qed

section \<open>Properties\<close>

text \<open>
  C38. Rolling back is all or nothing and happens once. A refused request changes nothing, and
  its error says why: \<^verbatim>\<open>ErrNotFound\<close> exactly for a missing source, \<^verbatim>\<open>ErrInvalidTransition\<close> exactly for
  a source that is not applied, verified or verify_failed, a duplicate key otherwise. A
  granted request marks the source and adds the new change; from then on, whatever other
  operations run, every further rollback of that source is refused.
\<close>

theorem manifest_rollback_is_atomic:
  "(\<exists>e. CreateK8sManifestRollbackRequest now i result r t = (Inl e, t) \<and>
      (e = ErrNotFound \<and> map_of t i = None \<or>
       e = ErrInvalidTransition \<and> (\<exists>src. map_of t i = Some src \<and> \<not> rollbackable (mc_Status src)) \<or>
       e = ErrDuplicateKey \<and> (\<exists>src. map_of t i = Some src \<and> rollbackable (mc_Status src)))) \<or>
   (\<exists>t' src. CreateK8sManifestRollbackRequest now i result r t = (Inr (), t') \<and> map_of t i = Some src \<and>
      rollbackable (mc_Status src) \<and> map_of t (mc_ID r) = None \<and>
      map_of t' i = Some (src\<lparr>mc_Status := ''rollback_requested'', mc_UpdatedAt := now, mc_Result := result\<rparr>) \<and>
      map_of t' (mc_ID r) = Some (changeDefaults now r) \<and>
      (\<forall>ops now2 result2 r2. fst (CreateK8sManifestRollbackRequest now2 i result2 r2 (fold changeOp ops t')) = Inl ErrInvalidTransition))"
proof (cases "affected i (\<lambda>x. rollbackable (mc_Status x)) t \<and> (\<exists>t'. CreateK8sManifestRollbackRequest now i result r t = (Inr (), t'))")
  case False
  then show ?thesis
    using rollback_cases [of now i result r t] by (auto simp: affected_def missReason_def split: option.splits if_splits)
next
  case True
  let ?t1 = "updateWhere i (\<lambda>x. rollbackable (mc_Status x)) (markRollback now result) t"
  let ?t' = "?t1 @ [(mc_ID r, changeDefaults now r)]"
  have t': "CreateK8sManifestRollbackRequest now i result r t = (Inr (), ?t')" "map_of t (mc_ID r) = None"
    using True rollback_cases [of now i result r t] by auto
  obtain src where src: "map_of t i = Some src" "rollbackable (mc_Status src)"
    using True by (auto simp: affected_iff)
  have row: "map_of ?t' i = Some (markRollback now result src)"
    using src by (simp add: map_add_def map_of_updateWhere)
  have new: "map_of ?t' (mc_ID r) = Some (changeDefaults now r)"
    using t'(2) src(1) by (auto simp: map_add_def map_of_updateWhere)
  have "fst (CreateK8sManifestRollbackRequest now2 i result2 r2 (fold changeOp ops ?t')) = Inl ErrInvalidTransition" for ops now2 result2 r2
  proof -
    obtain b where b: "map_of (fold changeOp ops ?t') i = Some b" "changeMoves\<^sup>*\<^sup>* (markRollback now result src) b"
      using changeRows.run_row [OF row] by blast
    have "\<not> rollbackable (mc_Status b)"
      using rollback_stays [OF b(2)] by (auto simp: markRollback_def rollbackable_def)
    with b(1) have "\<not> affected i (\<lambda>x. rollbackable (mc_Status x)) (fold changeOp ops ?t')" by (simp add: affected_def)
    with b(1) show ?thesis
      using rollback_cases [of now2 i result2 r2 "fold changeOp ops ?t'"] by (auto simp: missReason_def)
  qed
  with t' src row new show ?thesis by (auto simp: markRollback_def)
qed

end
