(* ===== verification/Manifest_Change.thy ===== *)
theory Manifest_Change
  imports Manifest_Ledger
begin

text \<open>
  The handlers of \<^verbatim>\<open>internal/proxy/admin_k8s_manifest_change.go\<close> that create, validate, decide,
  apply, verify and roll back a manifest change, over the ledger of \<open>Manifest_Ledger\<close>, the
  admin audit log and the commands sent to the cluster.

  A handler that reads a request and later writes it is split at its store calls, so that
  steps of other handlers may run in between: it takes the request it read as an argument,
  and \<open>Manifest_Workflow\<close> lets that be any request that was read before. The YAML codec, the digest, the
  masking of annotation texts and the printing of floats and of other values by \<^verbatim>\<open>fmt.Sprint\<close> are arguments (record \<open>codec\<close>), the
  policies, inventory, cluster and client are inputs (record \<open>change_env\<close>), and so are the clock,
  new identifiers and the answers of the cluster. Reply bodies, display texts, the brief and
  the export endpoints are left out.
\<close>

section \<open>State and inputs\<close>

text \<open>A call of \<^verbatim>\<open>StackApplier.Apply\<close>, with the cluster its client was built for and the request it serves.\<close>

record apply_command =
  cmd_ID :: string
  cmd_ClusterID :: string
  cmd_APIVersion :: string
  cmd_Kind :: string
  cmd_Namespace :: string
  cmd_Name :: string
  cmd_YAML :: string

record change_world =
  mw_changes :: change_table
  mw_audit :: "AdminAuditLog list"
  mw_sent :: "apply_command list"

record codec =
  cd_decode :: "string \<Rightarrow> gmap list option"
  cd_encode :: "gmap \<Rightarrow> string"
  cd_hash :: "string \<Rightarrow> string"
  cd_num :: "rat \<Rightarrow> string"
  cd_maskText :: "string \<Rightarrow> string"
  cd_sprint :: "gval \<Rightarrow> string"

datatype client_state = ClientFailed string | ApplierMissing | ApplierReady

record change_env =
  ce_policies :: "string + K8sPolicy list"
  ce_inventory :: "string \<Rightarrow> string \<Rightarrow> string \<Rightarrow> string \<Rightarrow> store_error + K8sInventoryItem"
  ce_cluster :: "string \<Rightarrow> store_error option"
  ce_client :: client_state
  ce_dryRun :: "apply_command \<Rightarrow> string option"

definition k8sActionString :: "(gval \<Rightarrow> string) \<Rightarrow> gval \<Rightarrow> string" where
  "k8sActionString sprint v =
     (case v of GStr s \<Rightarrow> s | GInt n \<Rightarrow> itoa n | GNil \<Rightarrow> [] | GFloat q \<Rightarrow> sprint v
      | _ \<Rightarrow> trimSpace (trimSet (sprint v) [dquoteC]))"

definition versionIn :: "(gval \<Rightarrow> string) \<Rightarrow> gmap \<Rightarrow> string" where
  "versionIn sprint source =
     (let v = trimSpace (k8sActionString sprint (gget source ''resourceVersion'')) in
      if v \<noteq> [] then v
      else (case gget source ''metadata'' of
        GMap meta \<Rightarrow> trimSpace (k8sActionString sprint (gget meta ''resourceVersion''))
      | _ \<Rightarrow> []))"

definition k8sActionTargetResourceVersion :: "(gval \<Rightarrow> string) \<Rightarrow> K8sInventoryItem \<Rightarrow> string" where
  "k8sActionTargetResourceVersion sprint target =
     (let v1 = versionIn sprint (iv_Spec target);
          v2 = (case iv_StatusObject target of None \<Rightarrow> [] | Some st \<Rightarrow> versionIn sprint st) in
      if v1 \<noteq> [] then v1 else if v2 \<noteq> [] then v2 else trimSpace (firstNonEmpty [iv_ObservedAt target, iv_UpdatedAt target]))"

definition manifestChangeOperation :: "K8sManifestChangeRequest \<Rightarrow> string" where
  "manifestChangeOperation r =
     (if toLower (trimSpace (asString (gget (mc_Impact r) ''operation''))) = ''create'' then ''create'' else ''update'')"

definition commandOf :: "K8sManifestChangeRequest \<Rightarrow> apply_command" where
  "commandOf r = \<lparr>cmd_ID = mc_ID r, cmd_ClusterID = mc_ClusterID r, cmd_APIVersion = mc_APIVersion r, cmd_Kind = mc_Kind r, cmd_Namespace = mc_Namespace r,
     cmd_Name = mc_Name r, cmd_YAML = mc_AfterYAML r\<rparr>"

section \<open>Creation\<close>

record manifestChangeCreateInput =
  ci_ClusterID :: string
  ci_Namespace :: string
  ci_Kind :: string
  ci_APIVersion :: string
  ci_Name :: string
  ci_Operation :: string
  ci_AfterYAML :: string
  ci_Reason :: string
  ci_IdempotencyKey :: string

definition badRequest :: "string \<Rightarrow> string \<Rightarrow> http_error" where
  "badRequest message code = writeOpenAIError 400 message code"

definition secretGuidance :: "string \<Rightarrow> gval" where
  "secretGuidance operation = GMap [(''operation'', GStr operation)]"

definition draftRequest :: K8sManifestChangeRequest where
  "draftRequest =
     \<lparr>mc_ID = [], mc_ClusterID = [], mc_Namespace = [], mc_Kind = [], mc_APIVersion = [], mc_Name = [], mc_Status = ''draft'',
      mc_RiskLevel = [], mc_RequiresApproval = False, mc_Reason = [], mc_BeforeYAML = [], mc_AfterYAML = [], mc_BeforeHash = [],
      mc_AfterHash = [], mc_Diffs = [], mc_Impact = [], mc_Validation = [], mc_ApplyResult = [], mc_VerifyResult = [],
      mc_CreatedBy = [], mc_ApprovedBy = [], mc_AppliedBy = [], mc_VerifiedBy = [], mc_Result = [], mc_IdempotencyKey = [],
      mc_TargetUID = [], mc_TargetResourceVersion = [], mc_CreatedAt = [], mc_UpdatedAt = [], mc_ApprovedAt = [],
      mc_AppliedAt = [], mc_VerifiedAt = []\<rparr>"

text \<open>A Secret with a payload is always critical and needs approval.\<close>

definition secretGuard :: "string \<Rightarrow> string \<Rightarrow> gmap \<Rightarrow> gmap \<times> string \<times> bool \<Rightarrow> gmap \<times> string \<times> bool" where
  "secretGuard kind operation afterDoc assessed =
     (let (impact, risk, approval) = assessed in
      if equalFold kind ''Secret'' \<and> manifestContainsSecretPayload afterDoc
      then (gput ''secret_payload_guard'' (secretGuidance operation) impact, ''critical'', True)
      else (impact, risk, approval))"

definition buildUpdate ::
  "codec \<Rightarrow> string \<Rightarrow> string \<Rightarrow> string \<Rightarrow> string \<Rightarrow> string \<Rightarrow> string \<Rightarrow> string \<Rightarrow> string \<Rightarrow> K8sPolicy list \<Rightarrow> K8sInventoryItem \<Rightarrow>
     gmap \<Rightarrow> K8sManifestChangeRequest" where
  "buildUpdate cd freshID actor clusterID namespace kind apiVersion reason idemKey policies item afterDoc =
     (let beforeDoc = sanitizeManifestDocForLedger (assembleManifest (cd_maskText cd) item);
          beforeYAML = cd_encode cd beforeDoc;
          storeAfterDoc = sanitizeManifestDocForLedger afterDoc;
          afterYAML = cd_encode cd storeAfterDoc;
          ds = diffManifestDocs (cd_num cd) beforeDoc storeAfterDoc;
          plan = AnalyzeStackManifest [afterDoc] (toAnalyzerPolicies policies);
          (impact, risk, approval) = secretGuard kind ''update'' afterDoc (manifestChangeImpact item ds plan) in
      draftRequest\<lparr>mc_ID := freshID, mc_ClusterID := clusterID, mc_Namespace := namespace, mc_Kind := iv_Kind item,
        mc_APIVersion := firstNonEmpty [apiVersion, iv_APIVersion item], mc_Name := iv_Name item, mc_RiskLevel := risk,
        mc_RequiresApproval := approval, mc_Reason := reason, mc_BeforeYAML := beforeYAML, mc_AfterYAML := afterYAML,
        mc_BeforeHash := cd_hash cd beforeYAML, mc_AfterHash := cd_hash cd afterYAML, mc_Diffs := ds, mc_Impact := impact,
        mc_CreatedBy := actor, mc_IdempotencyKey := idemKey, mc_TargetUID := iv_UID item,
        mc_TargetResourceVersion := k8sActionTargetResourceVersion (cd_sprint cd) item,
        mc_Result := (utf8 [0xBCC0, 0xACBD, 0x20, 0xC694, 0xCCAD, 0x20, 0xC0DD, 0xC131, 0xB428] @ ''. validate'' @ utf8 [0xB97C, 0x20, 0xC2E4, 0xD589, 0xD574] @ '' schema/policy/server dry-run'' @ utf8 [0xC744, 0x20, 0xD655, 0xC778, 0xD558, 0xC138, 0xC694] @ ''.'')\<rparr>)"

definition buildCreate ::
  "codec \<Rightarrow> string \<Rightarrow> string \<Rightarrow> string \<Rightarrow> string \<Rightarrow> string \<Rightarrow> string \<Rightarrow> string \<Rightarrow> string \<Rightarrow> string \<Rightarrow> K8sPolicy list \<Rightarrow>
     gmap \<Rightarrow> K8sManifestChangeRequest" where
  "buildCreate cd freshID actor clusterID namespace kind apiVersion name reason idemKey policies afterDoc =
     (let storeAfterDoc = sanitizeManifestDocForLedger afterDoc;
          afterYAML = cd_encode cd storeAfterDoc;
          ds = diffManifestDocs (cd_num cd) [] storeAfterDoc;
          plan = AnalyzeStackManifest [afterDoc] (toAnalyzerPolicies policies);
          item = emptyItem\<lparr>iv_ClusterID := clusterID, iv_Namespace := namespace, iv_Kind := kind, iv_APIVersion := apiVersion, iv_Name := name\<rparr>;
          (impact, risk, approval) = secretGuard kind ''create'' afterDoc (manifestCreateImpact item ds plan) in
      draftRequest\<lparr>mc_ID := freshID, mc_ClusterID := clusterID, mc_Namespace := namespace, mc_Kind := kind, mc_APIVersion := apiVersion,
        mc_Name := name, mc_RiskLevel := risk, mc_RequiresApproval := approval, mc_Reason := reason, mc_AfterYAML := afterYAML,
        mc_BeforeHash := cd_hash cd [], mc_AfterHash := cd_hash cd afterYAML, mc_Diffs := ds, mc_Impact := impact,
        mc_CreatedBy := actor, mc_IdempotencyKey := idemKey,
        mc_Result := (utf8 [0xC0DD, 0xC131, 0x20, 0xC694, 0xCCAD, 0x20, 0xC0DD, 0xC131, 0xB428] @ ''. validate'' @ utf8 [0xB97C, 0x20, 0xC2E4, 0xD589, 0xD574] @ '' schema/policy/server dry-run'' @ utf8 [0xC744, 0x20, 0xD655, 0xC778, 0xD558, 0xC138, 0xC694] @ ''.'')\<rparr>)"

datatype change_reply = ChangeCreated K8sManifestChangeRequest | ChangeReplayed K8sManifestChangeRequest

definition saveChange :: "string \<Rightarrow> string \<Rightarrow> K8sManifestChangeRequest \<Rightarrow> change_table \<Rightarrow> (http_error + change_reply) \<times> change_table" where
  "saveChange now code r t =
     (case CreateK8sManifestChangeRequest now r t of
        (Inl _, _) \<Rightarrow> (Inl (writeOpenAIError 500 [] code), t)
      | (Inr _, t') \<Rightarrow> (Inr (ChangeCreated r), t'))"

text \<open>The target of a request, from its fields and the document.\<close>

record change_target =
  tg_kind :: string
  tg_namespace :: string
  tg_name :: string
  tg_apiVersion :: string
  tg_doc :: gmap

definition resolveTarget :: "manifestChangeCreateInput \<Rightarrow> gmap \<Rightarrow> http_error + change_target" where
  "resolveTarget inp doc =
     (let ident = manifestDocIdentity doc;
          kind0 = canonicalManifestKind (trimSpace (ci_Kind inp));
          kind = (if kind0 = [] then di_kind ident else kind0);
          name = (if trimSpace (ci_Name inp) = [] then di_name ident else trimSpace (ci_Name inp));
          ns0 = (if trimSpace (ci_Namespace inp) = [] then di_namespace ident else trimSpace (ci_Namespace inp));
          namespace = (if ns0 = [] \<and> \<not> manifestKindClusterScoped kind then ''default'' else ns0) in
      case ensureManifestDocTarget doc kind namespace name of
        Inl e \<Rightarrow> Inl (badRequest e ''manifest_target_mismatch'')
      | Inr doc' \<Rightarrow>
          let apiVersion = firstNonEmpty [trimSpace (ci_APIVersion inp), di_apiVersion ident] in
          if kind = [] \<or> name = [] \<or> apiVersion = []
          then Inl (badRequest ''cluster_id, apiVersion, kind, name and after_yaml are required'' ''missing_fields'')
          else Inr \<lparr>tg_kind = kind, tg_namespace = namespace, tg_name = name, tg_apiVersion = apiVersion, tg_doc = doc'\<rparr>)"

definition prepareCreate ::
  "codec \<Rightarrow> change_env \<Rightarrow> string \<Rightarrow> string \<Rightarrow> string \<Rightarrow> string \<Rightarrow> change_target \<Rightarrow> string \<Rightarrow> string \<Rightarrow> change_table \<Rightarrow>
     (http_error + change_reply) \<times> change_table" where
  "prepareCreate cd env now freshID actor clusterID tg reason idemKey t =
     (case ce_cluster env clusterID of
        Some ErrNotFound \<Rightarrow> (Inl (writeOpenAIError 404 (''cluster not found: '' @ clusterID) ''k8s_cluster_not_found''), t)
      | Some _ \<Rightarrow> (Inl (writeOpenAIError 500 [] ''k8s_cluster_failed''), t)
      | None \<Rightarrow> (case ce_inventory env clusterID (tg_kind tg) (tg_namespace tg) (tg_name tg) of
          Inr existing \<Rightarrow>
            (Inl (writeOpenAIError 409 (''resource already exists: '' @ tg_kind tg @ ''/'' @ tg_namespace tg @ ''/'' @ tg_name tg @
               '' (uid='' @ iv_UID existing @ '')'') ''manifest_create_target_exists''), t)
        | Inl ErrNotFound \<Rightarrow> (case ce_policies env of
            Inl e \<Rightarrow> (Inl (writeOpenAIError 500 e ''k8s_policy_load_failed''), t)
          | Inr policies \<Rightarrow>
              saveChange now ''k8s_manifest_create_save_failed''
                (buildCreate cd freshID actor clusterID (tg_namespace tg) (tg_kind tg) (tg_apiVersion tg) (tg_name tg) reason idemKey policies (tg_doc tg)) t)
        | Inl _ \<Rightarrow> (Inl (writeOpenAIError 500 [] ''k8s_inventory_failed''), t)))"

definition prepareUpdate ::
  "codec \<Rightarrow> change_env \<Rightarrow> string \<Rightarrow> string \<Rightarrow> string \<Rightarrow> string \<Rightarrow> change_target \<Rightarrow> string \<Rightarrow> string \<Rightarrow> change_table \<Rightarrow>
     (http_error + change_reply) \<times> change_table" where
  "prepareUpdate cd env now freshID actor clusterID tg reason idemKey t =
     (case ce_inventory env clusterID (tg_kind tg) (tg_namespace tg) (tg_name tg) of
        Inl ErrNotFound \<Rightarrow> (Inl (writeOpenAIError 404 (''live resource not found; '' @ utf8 [0xC2E0, 0xADDC, 0x20, 0xB9AC, 0xC18C, 0xC2A4, 0x20, 0xC0DD, 0xC131, 0xC740] @ '' operation=create'' @ utf8 [0xB85C, 0x20, 0xC694, 0xCCAD, 0xD558, 0xC138, 0xC694]) ''resource_not_found''), t)
      | Inl _ \<Rightarrow> (Inl (writeOpenAIError 500 [] ''k8s_inventory_failed''), t)
      | Inr item \<Rightarrow> (case validateManifestTarget (tg_doc tg) item of
          Some e \<Rightarrow> (Inl (badRequest e ''manifest_target_mismatch''), t)
        | None \<Rightarrow> (case ce_policies env of
            Inl e \<Rightarrow> (Inl (writeOpenAIError 500 e ''k8s_policy_load_failed''), t)
          | Inr policies \<Rightarrow>
              saveChange now ''k8s_manifest_change_save_failed''
                (buildUpdate cd freshID actor clusterID (tg_namespace tg) (tg_kind tg) (tg_apiVersion tg) reason idemKey policies item (tg_doc tg)) t)))"

definition prepareK8sManifestChangeRequest ::
  "codec \<Rightarrow> change_env \<Rightarrow> string \<Rightarrow> string \<Rightarrow> string \<Rightarrow> manifestChangeCreateInput \<Rightarrow> change_table \<Rightarrow>
     (http_error + change_reply) \<times> change_table" where
  "prepareK8sManifestChangeRequest cd env now freshID actor inp t =
     (let clusterID = trimSpace (ci_ClusterID inp); afterRaw = trimSpace (ci_AfterYAML inp) in
      case normalizeManifestChangeOperation (ci_Operation inp) of
        None \<Rightarrow> (Inl (badRequest ''operation must be update or create'' ''invalid_manifest_operation''), t)
      | Some operation \<Rightarrow>
          if clusterID = [] \<or> afterRaw = [] then (Inl (badRequest ''cluster_id and after_yaml are required'' ''missing_fields''), t)
          else (case parseSingleManifestDoc (cd_decode cd afterRaw) of
            Inl e \<Rightarrow> (Inl (badRequest (''after_yaml parse error: '' @ e) ''manifest_parse_failed''), t)
          | Inr doc \<Rightarrow> (case resolveTarget inp doc of
              Inl e \<Rightarrow> (Inl e, t)
            | Inr tg \<Rightarrow>
                let idemKey = trimSpace (ci_IdempotencyKey inp); reason = trimSpace (ci_Reason inp) in
                (case (if idemKey \<noteq> [] then GetK8sManifestChangeRequestByIdempotencyKey idemKey t else Inl ErrNotFound) of
                   Inr existing \<Rightarrow> (Inr (ChangeReplayed existing), t)
                 | Inl _ \<Rightarrow>
                     if operation = ''create'' then prepareCreate cd env now freshID actor clusterID tg reason idemKey t
                     else prepareUpdate cd env now freshID actor clusterID tg reason idemKey t))))"

definition createEvent :: "change_reply \<Rightarrow> string" where
  "createEvent reply =
     (case reply of
        ChangeCreated r \<Rightarrow> if manifestChangeOperation r = ''create'' then ''k8s.manifest_change.create_request'' else ''k8s.manifest_change.request''
      | ChangeReplayed r \<Rightarrow>
          (if manifestChangeOperation r = ''create'' then ''k8s.manifest_change.create_request'' else ''k8s.manifest_change.request'') @ ''.replay'')"

definition createK8sManifestChange ::
  "codec \<Rightarrow> change_env \<Rightarrow> string \<Rightarrow> string \<Rightarrow> string \<Rightarrow> string \<Rightarrow> manifestChangeCreateInput option \<Rightarrow> change_world \<Rightarrow>
     (http_error + change_reply) \<times> change_world" where
  "createK8sManifestChange cd env now freshID adminID headerKey body w =
     (case body of
        None \<Rightarrow> (Inl invalidBody, w)
      | Some inp \<Rightarrow>
          (case prepareK8sManifestChangeRequest cd env now freshID adminID
                  (inp\<lparr>ci_IdempotencyKey := firstNonEmpty [ci_IdempotencyKey inp, headerKey]\<rparr>) (mw_changes w) of
             (Inl e, _) \<Rightarrow> (Inl e, w)
           | (Inr reply, t) \<Rightarrow>
               (Inr reply, w\<lparr>mw_changes := t, mw_audit := auditAdmin adminID (createEvent reply) [] (mw_audit w)\<rparr>)))"

section \<open>Validation\<close>

record verdict =
  vd_status :: string
  vd_risk :: string
  vd_approval :: bool
  vd_dryRun :: string
  vd_denied :: bool
  vd_secret :: bool
  vd_result :: string

definition dryRunOf :: "change_env \<Rightarrow> K8sManifestChangeRequest \<Rightarrow> string \<times> string option" where
  "dryRunOf env r =
     (case ce_cluster env (mc_ClusterID r) of
        Some _ \<Rightarrow> (''skipped'', None)
      | None \<Rightarrow> (case ce_client env of
          ClientFailed _ \<Rightarrow> (''skipped'', None)
        | ApplierMissing \<Rightarrow> (''unsupported'', None)
        | ApplierReady \<Rightarrow> (case ce_dryRun env (commandOf r) of Some e \<Rightarrow> (''failed'', Some e) | None \<Rightarrow> (''passed'', None))))"

definition validateVerdict :: "change_env \<Rightarrow> K8sPolicy list \<Rightarrow> K8sManifestChangeRequest \<Rightarrow> gmap \<Rightarrow> verdict" where
  "validateVerdict env policies r doc =
     (let plan = AnalyzeStackManifest [doc] (toAnalyzerPolicies policies);
          secret = equalFold (mc_Kind r) ''Secret'' \<and> manifestContainsSecretPayload doc;
          approval = (secret \<or> mc_RequiresApproval r \<or> sp_RequiresApproval plan);
          risk0 = (if secret then ''blocked'' else manifestRiskMax (mc_RiskLevel r) ''low'');
          risk = (if sp_RequiresApproval plan \<and> riskRank risk0 < riskRank ''medium'' then ''medium'' else risk0);
          mk = (\<lambda>status rk dry result. \<lparr>vd_status = status, vd_risk = rk, vd_approval = approval, vd_dryRun = dry,
                  vd_denied = sp_Denied plan, vd_secret = secret, vd_result = result\<rparr>) in
      if secret
      then mk ''failed'' risk [] ''Secret payload changes are blocked; use Config Change Control or an external Secret manager''
      else if sp_Denied plan then mk ''failed'' ''blocked'' [] ''policy denied''
      else (case dryRunOf env r of
        (dry, Some e) \<Rightarrow> mk ''failed'' ''blocked'' dry (''server dry-run failed: '' @ e)
      | (dry, None) \<Rightarrow>
          if approval then mk ''approval_required'' risk dry (utf8 [0xAC80, 0xC99D, 0x20, 0xD1B5, 0xACFC] @ '', '' @ utf8 [0xC2B9, 0xC778, 0x20, 0xD544, 0xC694])
          else mk ''validated'' risk dry ''schema/policy passed''))"

definition validationMap :: "verdict \<Rightarrow> gmap" where
  "validationMap v =
     [(''schema'', GMap [(''status'', GStr ''basic_passed'')]), (''policy'', GMap [(''denied'', GBool (vd_denied v))])] @
     (if vd_secret v then [(''secret_payload_guard'', GMap [(''status'', GStr ''blocked'')])] else []) @
     (if vd_dryRun v = [] then [] else [(''dry_run'', GMap [(''status'', GStr (vd_dryRun v))])])"

definition changeNotFound :: "string \<Rightarrow> http_error" where
  "changeNotFound i = writeOpenAIError 404 (''manifest change not found: '' @ i) ''manifest_change_not_found''"

definition changeBadState :: http_error where
  "changeBadState = writeOpenAIError 409 ''manifest change cannot transition from current state'' ''manifest_change_bad_state''"

text \<open>The end of a validation: the analysis is stored and audited. \<open>status\<close> is the HTTP status of the
  reply.\<close>

definition persistAnalysis ::
  "string \<Rightarrow> string \<Rightarrow> K8sManifestChangeRequest \<Rightarrow> verdict \<Rightarrow> gmap \<Rightarrow> nat \<Rightarrow> change_world \<Rightarrow> (http_error + nat \<times> string) \<times> change_world" where
  "persistAnalysis now adminID r v validation http w =
     (case UpdateK8sManifestChangeAnalysis now (mc_ID r) (vd_status v) (vd_risk v) (vd_approval v) (mc_Impact r) validation (vd_result v) (mw_changes w) of
        (Inl ErrInvalidTransition, _) \<Rightarrow> (Inl changeBadState, w)
      | (Inl _, _) \<Rightarrow> (Inl (writeOpenAIError 500 [] ''k8s_manifest_change_validate_failed''), w)
      | (Inr _, t) \<Rightarrow> (Inr (http, vd_status v),
          w\<lparr>mw_changes := t, mw_audit := auditAdmin adminID ''k8s.manifest_change.validate'' (mc_ID r) (mw_audit w)\<rparr>))"

definition policyUnavailable :: "string \<Rightarrow> verdict" where
  "policyUnavailable cause =
     \<lparr>vd_status = ''failed'', vd_risk = ''blocked'', vd_approval = True, vd_dryRun = [], vd_denied = False,
      vd_secret = False, vd_result = ''policy validation could not run: '' @ cause\<rparr>"

definition unavailableMap :: "string \<Rightarrow> gmap" where
  "unavailableMap cause =
     [(''schema'', GMap [(''status'', GStr ''basic_passed'')]),
      (''policy'', GMap [(''status'', GStr ''unavailable''), (''error'', GStr cause),
         (''reason'', GStr (utf8 [0xC815, 0xCC45, 0x20, 0xBAA9, 0xB85D, 0xC744, 0x20, 0xBD88, 0xB7EC, 0xC624, 0xC9C0, 0x20, 0xBABB, 0xD574, 0x20, 0xC815, 0xCC45, 0x20, 0xAC80, 0xC0AC, 0xB97C, 0x20, 0xC218, 0xD589, 0xD558, 0xC9C0, 0x20, 0xBABB, 0xD588, 0xC2B5, 0xB2C8, 0xB2E4] @ ''.''))])]"

definition validateK8sManifestChange ::
  "codec \<Rightarrow> change_env \<Rightarrow> string \<Rightarrow> string \<Rightarrow> K8sManifestChangeRequest \<Rightarrow> change_world \<Rightarrow> (http_error + nat \<times> string) \<times> change_world" where
  "validateK8sManifestChange cd env now adminID r w =
     (case cd_decode cd (mc_AfterYAML r) of
        Some [doc] \<Rightarrow> (case ce_policies env of
          Inl cause \<Rightarrow> persistAnalysis now adminID r (policyUnavailable cause) (unavailableMap cause) 503 w
        | Inr policies \<Rightarrow> (let v = validateVerdict env policies r doc in persistAnalysis now adminID r v (validationMap v) 200 w))
      | _ \<Rightarrow> (Inl (badRequest ''stored manifest parse error'' ''manifest_parse_failed''), w))"

section \<open>Decision\<close>

definition decideK8sManifestChange ::
  "string \<Rightarrow> string \<Rightarrow> string \<Rightarrow> string \<Rightarrow> string \<Rightarrow> string \<Rightarrow> store_error option \<Rightarrow> change_world \<Rightarrow> (http_error + string) \<times> change_world" where
  "decideK8sManifestChange now adminID i command result msgNote auditErr w =
     (let status = (if command = ''reject'' then ''rejected'' else ''approved'');
          msg = trimSpace (firstNonEmpty [result, msgNote]);
          fail = (\<lambda>e. case e of ErrNotFound \<Rightarrow> changeNotFound i | ErrInvalidTransition \<Rightarrow> changeBadState
                     | _ \<Rightarrow> writeOpenAIError 500 [] ''k8s_manifest_change_decision_failed'') in
      if status = ''approved''
      then (case ApproveK8sManifestChangeWithAudit now i adminID msg
              \<lparr>au_AdminID = adminID, au_Action = ''k8s.manifest_change.'' @ command, au_BeforeValue = i\<rparr> auditErr (mw_changes w, mw_audit w) of
            (Inl e, _) \<Rightarrow> (Inl (fail e), w)
          | (Inr _, (t, entries)) \<Rightarrow> (Inr status, w\<lparr>mw_changes := t, mw_audit := entries\<rparr>))
      else (case UpdateK8sManifestChangeStatus now i status adminID msg (mw_changes w) of
            (Inl e, _) \<Rightarrow> (Inl (fail e), w)
          | (Inr _, t) \<Rightarrow> (Inr status, w\<lparr>mw_changes := t, mw_audit := auditAdmin adminID (''k8s.manifest_change.'' @ command) i (mw_audit w)\<rparr>)))"

section \<open>Drift guard and apply\<close>

record drift_guard =
  dg_status :: string
  dg_hard_block :: bool
  dg_reason :: string

definition mkGuard :: "string \<Rightarrow> bool \<Rightarrow> string \<Rightarrow> drift_guard" where
  "mkGuard status hard reason = \<lparr>dg_status = status, dg_hard_block = hard, dg_reason = reason\<rparr>"

definition liveHash :: "codec \<Rightarrow> K8sInventoryItem \<Rightarrow> string" where
  "liveHash cd item = cd_hash cd (cd_encode cd (sanitizeManifestDocForLedger (assembleManifest (cd_maskText cd) item)))"

definition manifestChangeDriftGuard :: "codec \<Rightarrow> change_env \<Rightarrow> K8sManifestChangeRequest \<Rightarrow> drift_guard" where
  "manifestChangeDriftGuard cd env r =
     (let current = ce_inventory env (mc_ClusterID r) (mc_Kind r) (mc_Namespace r) (mc_Name r) in
      if manifestChangeOperation r = ''create''
      then (case current of
          Inl ErrNotFound \<Rightarrow> mkGuard ''passed'' False ''create_target_absent''
        | Inl _ \<Rightarrow> mkGuard ''unknown'' False []
        | Inr _ \<Rightarrow> mkGuard ''blocked'' True ''create_target_already_exists'')
      else (case current of
          Inl ErrNotFound \<Rightarrow> mkGuard ''blocked'' True ''live_resource_missing''
        | Inl _ \<Rightarrow> mkGuard ''unknown'' False []
        | Inr item \<Rightarrow>
            if mc_TargetUID r \<noteq> [] \<and> iv_UID item \<noteq> [] \<and> mc_TargetUID r \<noteq> iv_UID item
            then mkGuard ''blocked'' True ''live_resource_uid_changed''
            else if mc_BeforeHash r \<noteq> [] \<and> liveHash cd item \<noteq> [] \<and> mc_BeforeHash r \<noteq> liveHash cd item
            then mkGuard ''drift'' False ''live_manifest_changed_since_request''
            else mkGuard ''passed'' False ''live_manifest_matches_request_baseline''))"

definition manifestChangeDriftBlocks :: "drift_guard \<Rightarrow> bool \<Rightarrow> bool" where
  "manifestChangeDriftBlocks guard force \<longleftrightarrow>
     (let status = toLower (trimSpace (dg_status guard)) in
      if dg_hard_block guard then True
      else if status = ''blocked'' then True
      else if status = ''drift'' then \<not> force
      else if status = ''unknown'' then \<not> force
      else False)"

definition overrideGuard :: "drift_guard \<Rightarrow> bool \<Rightarrow> drift_guard" where
  "overrideGuard guard force =
     (let st = toLower (dg_status guard) in
      if force \<and> (st = ''drift'' \<or> st = ''unknown'') then guard\<lparr>dg_status := ''overridden''\<rparr> else guard)"

definition applyChecks :: "K8sManifestChangeRequest \<Rightarrow> http_error option" where
  "applyChecks r =
     (if mc_RequiresApproval r \<and> mc_Status r \<noteq> ''approved''
      then Some (writeOpenAIError 428 (''approval required before apply (current: '' @ mc_Status r @ '')'') ''manifest_change_approval_required'')
      else if \<not> mc_RequiresApproval r \<and> mc_Status r \<noteq> ''validated'' \<and> mc_Status r \<noteq> ''approved''
      then Some (writeOpenAIError 409 (''manifest change must be validated or approved before apply (current: '' @ mc_Status r @ '')'') ''manifest_change_not_ready'')
      else None)"

definition finishManifestApplyFailure :: "string \<Rightarrow> string \<Rightarrow> string \<Rightarrow> string \<Rightarrow> change_world \<Rightarrow> http_error option \<times> change_world" where
  "finishManifestApplyFailure now i actor err w =
     (case UpdateK8sManifestChangeApplyResult now i ''failed'' actor [(''error'', GStr err), (''status'', GStr ''failed'')] err (mw_changes w) of
        (Inl _, _) \<Rightarrow> (Some (writeOpenAIError 500 [] ''k8s_manifest_change_finalize_failed''), w)
      | (Inr _, t) \<Rightarrow> (None, w\<lparr>mw_changes := t\<rparr>))"

definition abortApply :: "string \<Rightarrow> string \<Rightarrow> string \<Rightarrow> string \<Rightarrow> http_error \<Rightarrow> change_world \<Rightarrow> (http_error + apply_command) \<times> change_world" where
  "abortApply now i actor err reply w =
     (case finishManifestApplyFailure now i actor err w of
        (Some e, w') \<Rightarrow> (Inl e, w')
      | (None, w') \<Rightarrow> (Inl reply, w'))"

text \<open>The first half of the handler, up to the call of the cluster.\<close>

definition applyBegin ::
  "codec \<Rightarrow> change_env \<Rightarrow> string \<Rightarrow> string \<Rightarrow> bool \<Rightarrow> K8sManifestChangeRequest \<Rightarrow> change_world \<Rightarrow>
     (http_error + apply_command) \<times> change_world" where
  "applyBegin cd env now actor force r w =
     (case applyChecks r of
        Some e \<Rightarrow> (Inl e, w)
      | None \<Rightarrow>
          if manifestChangeDriftBlocks (manifestChangeDriftGuard cd env r) force
          then (Inl (writeOpenAIError 409
                 (if manifestChangeOperation r = ''create'' then ''create target already exists''
                  else ''live manifest changed after this request was created'') []), w)
          else (case UpdateK8sManifestChangeStatus now (mc_ID r) ''running'' actor ''SSA apply running'' (mw_changes w) of
              (Inl ErrInvalidTransition, _) \<Rightarrow>
                (Inl (writeOpenAIError 409 ''manifest change cannot transition to running'' ''manifest_change_bad_state''), w)
            | (Inl _, _) \<Rightarrow> (Inl (writeOpenAIError 500 [] ''k8s_manifest_change_running_failed''), w)
            | (Inr _, t) \<Rightarrow>
                let w1 = w\<lparr>mw_changes := t\<rparr> in
                (case ce_cluster env (mc_ClusterID r) of
                   Some _ \<Rightarrow> abortApply now (mc_ID r) actor ''cluster'' (badRequest ''cluster not found: '' ''k8s_cluster_failed'') w1
                 | None \<Rightarrow> (case ce_client env of
                     ClientFailed e \<Rightarrow> abortApply now (mc_ID r) actor e (badRequest ((''Kubernetes '' @ utf8 [0xC5F0, 0xACB0, 0x20, 0xC900, 0xBE44, 0x20, 0xC2E4, 0xD328] @ '': '') @ e) ''k8s_client_failed'') w1
                   | ApplierMissing \<Rightarrow> abortApply now (mc_ID r) actor ''applier unsupported''
                       (writeOpenAIError 501 (utf8 [0xC774, 0x20, 0xD074, 0xB7EC, 0xC2A4, 0xD130, 0x20, 0xD074, 0xB77C, 0xC774, 0xC5B8, 0xD2B8, 0xB294] @ '' apply'' @ utf8 [0xB97C, 0x20, 0xC9C0, 0xC6D0, 0xD558, 0xC9C0, 0x20, 0xC54A, 0xC2B5, 0xB2C8, 0xB2E4] @ ''.'') ''applier_unsupported'') w1
                   | ApplierReady \<Rightarrow> (Inr (commandOf r), w1\<lparr>mw_sent := mw_sent w @ [commandOf r]\<rparr>)))))"

text \<open>The second half: \<open>answer\<close> is the error of the call, with whether it was cut off.\<close>

definition applyFinish ::
  "string \<Rightarrow> string \<Rightarrow> drift_guard \<Rightarrow> (string \<times> bool) option \<Rightarrow> K8sManifestChangeRequest \<Rightarrow> change_world \<Rightarrow>
     (http_error + string) \<times> change_world" where
  "applyFinish now actor guard answer r w =
     (let drift = (''drift_guard'', GMap [(''status'', GStr (dg_status guard))]);
          (status, res, msg) = (case answer of
              None \<Rightarrow> (''applied'', [(''status'', GStr ''applied''), (''field_manager'', GStr ''clustara''), (''applied_at'', GStr now), drift],
                        ''SSA apply succeeded'')
            | Some (e, interrupted) \<Rightarrow>
                (''failed'', [(''status'', GStr ''failed''), (''error'', GStr e), (''field_manager'', GStr ''clustara''), drift] @
                   (if interrupted then [(''outcome'', GStr ''ambiguous''), (''outcome_ambiguous'', GBool True),
                      (''reconciliation_required'', GBool True)] else []),
                 if interrupted then ''SSA apply outcome is unknown: '' @ e else e)) in
      (case UpdateK8sManifestChangeApplyResult now (mc_ID r) status actor res msg (mw_changes w) of
         (Inl _, _) \<Rightarrow> (Inl (writeOpenAIError 500 [] ''k8s_manifest_change_finalize_failed''), w)
       | (Inr _, t) \<Rightarrow> (Inr status,
           w\<lparr>mw_changes := t, mw_audit := (if answer = None then auditAdmin actor ''k8s.manifest_change.apply'' (mc_ID r) (mw_audit w)
                                          else mw_audit w)\<rparr>)))"

section \<open>Verification\<close>

record K8sEvent =
  ev_Namespace :: string
  ev_InvolvedKind :: string
  ev_InvolvedName :: string
  ev_Type :: string
  ev_LastSeen :: string
  ev_CreatedAt :: string

record K8sIncident =
  in_ClusterID :: string
  in_Namespace :: string
  in_Kind :: string
  in_Name :: string

text \<open>\<open>parse\<close> is the parser of RFC 3339 times, \<open>None\<close> the zero time; \<open>live\<close> is the direct read of the API
  server: no client that can read, an error, or the object.\<close>

datatype live_read = NoGetter | LiveFailed string | LiveObject gmap

record verify_env =
  ve_items :: "K8sInventoryItem list"
  ve_events :: "K8sEvent list"
  ve_incidents :: "K8sIncident list"
  ve_live :: live_read
  ve_parse :: "string \<Rightarrow> int option"

definition timeBefore :: "int option \<Rightarrow> int option \<Rightarrow> bool" where
  "timeBefore a b \<longleftrightarrow> (case b of None \<Rightarrow> False | Some y \<Rightarrow> (case a of None \<Rightarrow> True | Some x \<Rightarrow> x < y))"

definition anyInt :: "gval \<Rightarrow> int" where
  "anyInt v = (case v of GInt n \<Rightarrow> n | GInt64 n \<Rightarrow> n | GFloat q \<Rightarrow> truncInt q | _ \<Rightarrow> 0)"

definition truthy :: "(gval \<Rightarrow> string) \<Rightarrow> gval \<Rightarrow> bool" where
  "truthy sprint v \<longleftrightarrow> asBool v \<or> equalFold (sprint v) ''true''"

fun jobConditionVerdict :: "(gval \<Rightarrow> string) \<Rightarrow> gval list \<Rightarrow> (bool \<times> string \<times> string list) option" where
  "jobConditionVerdict sprint [] = None"
| "jobConditionVerdict sprint (raw # rest) =
     (let c = asAnyMap raw; typ = sprint (gget c ''type''); reason = sprint (gget c ''reason'') in
      if \<not> equalFold (sprint (gget c ''status'')) ''True'' then jobConditionVerdict sprint rest
      else if equalFold typ ''Failed''
      then Some (True, ''failed'', [if reason \<noteq> [] then ''job_'' @ toLower reason else ''job_failed''])
      else if equalFold typ ''Complete'' then Some (False, ''succeeded'', [''job_complete''])
      else jobConditionVerdict sprint rest)"

definition configChangeJobHealth :: "(gval \<Rightarrow> string) \<Rightarrow> K8sInventoryItem \<Rightarrow> bool \<times> string \<times> string list" where
  "configChangeJobHealth sprint it =
     (let status = (case iv_StatusObject it of None \<Rightarrow> [] | Some m \<Rightarrow> m);
          succeeded = anyInt (gget status ''succeeded''); active = anyInt (gget status ''active'');
          completions = anyInt (gget (iv_Spec it) ''completions'') in
      case jobConditionVerdict sprint (asAnySlice (gget status ''conditions'')) of
        Some v \<Rightarrow> v
      | None \<Rightarrow>
          if contains (toLower (iv_Status it)) ''fail'' then (True, ''failed'', [''job_failed''])
          else if succeeded > 0 \<and> (completions = 0 \<or> succeeded \<ge> completions) then (False, ''succeeded'', [''job_succeeded''])
          else if active > 0 \<or> equalFold (iv_Status it) ''Running'' then (False, ''active'', [''job_active''])
          else if truthy sprint (gget status ''suspended'') then (False, ''suspended'', [''job_suspended''])
          else (False, ''pending'', [''job_pending'']))"

definition unhealthyMarkers :: "string list" where
  "unhealthyMarkers = [''crash'', ''error'', ''fail'', ''unavail'', ''pending'', ''backoff'', ''oom'', ''imagepull'']"

definition configChangeHealth :: "(gval \<Rightarrow> string) \<Rightarrow> K8sInventoryItem \<Rightarrow> bool \<times> string \<times> string list" where
  "configChangeHealth sprint it =
     (if equalFold (iv_Kind it) ''Job'' then configChangeJobHealth sprint it
      else if iv_HealthScore it > 0 \<and> iv_HealthScore it < 80 then (True, ''unhealthy'', [''health_score_below_80''])
      else if toLower (iv_RiskLevel it) \<in> set [''medium'', ''high'', ''critical'']
      then (True, ''unhealthy'', [''risk_level_'' @ toLower (iv_RiskLevel it)])
      else (case find (\<lambda>marker. contains (toLower (iv_Status it)) marker) unhealthyMarkers of
          Some marker \<Rightarrow> (True, ''unhealthy'', [''status_'' @ marker])
        | None \<Rightarrow> (False, ''healthy'', [])))"

fun jobLiveStatus :: "gval list \<Rightarrow> string option" where
  "jobLiveStatus [] = None"
| "jobLiveStatus (raw # rest) =
     (let c = asAnyMap raw in
      if equalFold (asString (gget c ''status'')) ''True''
      then (if equalFold (asString (gget c ''type'')) ''Failed'' then Some ''Failed''
            else if equalFold (asString (gget c ''type'')) ''Complete'' then Some ''Succeeded''
            else jobLiveStatus rest)
      else jobLiveStatus rest)"

definition manifestLiveStatus :: "string \<Rightarrow> gmap \<Rightarrow> string" where
  "manifestLiveStatus kind status =
     (if \<not> equalFold kind ''Job'' then firstNonEmpty [asString (gget status ''phase''), ''Observed'']
      else (case jobLiveStatus (asAnySlice (gget status ''conditions'')) of
          Some st \<Rightarrow> st
        | None \<Rightarrow> if anyInt (gget status ''active'') > 0 then ''Running'' else ''Pending''))"

definition manifestInventoryFromLive :: "K8sManifestChangeRequest \<Rightarrow> gmap \<Rightarrow> K8sInventoryItem" where
  "manifestInventoryFromLive r live =
     (let metadata = asAnyMap (gget live ''metadata''); status = asAnyMap (gget live ''status'') in
      emptyItem\<lparr>iv_ClusterID := mc_ClusterID r, iv_Kind := firstNonEmpty [asString (gget live ''kind''), mc_Kind r],
        iv_APIVersion := firstNonEmpty [asString (gget live ''apiVersion''), mc_APIVersion r],
        iv_Namespace := firstNonEmpty [asString (gget metadata ''namespace''), mc_Namespace r],
        iv_Name := firstNonEmpty [asString (gget metadata ''name''), mc_Name r],
        iv_Spec := asAnyMap (gget live ''spec''), iv_StatusObject := Some status, iv_Status := manifestLiveStatus (mc_Kind r) status\<rparr>)"

definition warningEvent :: "int option \<Rightarrow> (string \<Rightarrow> int option) \<Rightarrow> K8sManifestChangeRequest \<Rightarrow> K8sEvent \<Rightarrow> bool" where
  "warningEvent appliedAt parse r ev \<longleftrightarrow>
     \<not> (appliedAt \<noteq> None \<and> timeBefore (parse (trimSpace (firstNonEmpty [ev_LastSeen ev, ev_CreatedAt ev]))) appliedAt) \<and>
     equalFold (ev_Type ev) ''Warning'' \<and> manifestNamespaceEqual (ev_Namespace ev) (mc_Namespace r) \<and>
     (equalFold (ev_InvolvedKind ev) (mc_Kind r) \<and> ev_InvolvedName ev = mc_Name r \<or>
      equalFold (mc_Kind r) ''Job'' \<and> equalFold (ev_InvolvedKind ev) ''Pod'' \<and> hasPrefix (ev_InvolvedName ev) (mc_Name r @ ''-''))"

definition incidentOf :: "K8sManifestChangeRequest \<Rightarrow> K8sIncident \<Rightarrow> bool" where
  "incidentOf r inc \<longleftrightarrow> in_ClusterID inc = mc_ClusterID r \<and> manifestNamespaceEqual (in_Namespace inc) (mc_Namespace r) \<and>
     equalFold (in_Kind inc) (mc_Kind r) \<and> in_Name inc = mc_Name r"

record observation =
  ob_found :: bool
  ob_refreshed :: bool
  ob_unhealthy :: bool
  ob_state :: string
  ob_reasons :: "string list"
  ob_source :: string

definition observeChange :: "(gval \<Rightarrow> string) \<Rightarrow> verify_env \<Rightarrow> int option \<Rightarrow> K8sManifestChangeRequest \<Rightarrow> observation" where
  "observeChange sprint env appliedAt r =
     (let mk = (\<lambda>found refreshed source h. \<lparr>ob_found = found, ob_refreshed = refreshed, ob_unhealthy = fst h, ob_state = fst (snd h),
             ob_reasons = snd (snd h), ob_source = source\<rparr>);
          stored = (case find (\<lambda>it. equalFold (iv_Kind it) (mc_Kind r) \<and> manifestNamespaceEqual (iv_Namespace it) (mc_Namespace r) \<and>
                               iv_Name it = mc_Name r) (ve_items env) of
              Some it \<Rightarrow> mk True (appliedAt \<noteq> None \<and>
                  \<not> timeBefore (ve_parse env (trimSpace (firstNonEmpty [iv_ObservedAt it, iv_UpdatedAt it]))) appliedAt)
                ''inventory'' (configChangeHealth sprint it)
            | None \<Rightarrow> mk False False ''inventory'' (False, ''unknown'', [])) in
      case ve_live env of
        LiveObject live \<Rightarrow> mk True True ''api_server'' (configChangeHealth sprint (manifestInventoryFromLive r live))
      | _ \<Rightarrow> stored)"

definition verifyOutcome :: "observation \<Rightarrow> nat \<Rightarrow> nat \<Rightarrow> string \<times> string \<times> string list" where
  "verifyOutcome ob incidents warnings =
     (if ob_refreshed ob \<and> (\<not> ob_found ob \<or> ob_unhealthy ob) then (''verify_failed'', ''execution_failed'', ob_reasons ob)
      else if incidents > 0 then (''verify_failed'', ''incident_detected'', ob_reasons ob)
      else if \<not> ob_refreshed ob then (''verified'', ''observation_pending'', ob_reasons ob @ [''inventory_not_refreshed''])
      else if warnings > 0 then (''verified'', ''verified_with_warning'', ob_reasons ob @ [''warning_events_present''])
      else (''verified'', ''passed'', ob_reasons ob))"

text \<open>The end of a verification: the result is stored and audited.\<close>

definition persistVerification ::
  "string \<Rightarrow> string \<Rightarrow> string \<Rightarrow> string \<Rightarrow> string \<Rightarrow> gmap \<Rightarrow> change_world \<Rightarrow> (http_error + string) \<times> change_world" where
  "persistVerification now adminID i verifyStatus resultStatus result w =
     (case UpdateK8sManifestChangeVerifyResult now i verifyStatus adminID result (''verification: '' @ resultStatus) (mw_changes w) of
        (Inl ErrInvalidTransition, _) \<Rightarrow> (Inl changeBadState, w)
      | (Inl _, _) \<Rightarrow> (Inl (writeOpenAIError 500 [] ''k8s_manifest_change_verify_failed''), w)
      | (Inr _, t) \<Rightarrow> (Inr resultStatus,
          w\<lparr>mw_changes := t, mw_audit := auditAdmin adminID ''k8s.manifest_change.verify'' i (mw_audit w)\<rparr>))"

definition verifyK8sManifestChange ::
  "codec \<Rightarrow> verify_env \<Rightarrow> string \<Rightarrow> string \<Rightarrow> K8sManifestChangeRequest \<Rightarrow> change_world \<Rightarrow> (http_error + string) \<times> change_world" where
  "verifyK8sManifestChange cd env now adminID r w =
     (if mc_Status r \<noteq> ''applied'' \<and> mc_Status r \<noteq> ''verify_failed''
      then (Inl (writeOpenAIError 409 (''manifest change must be applied before verification (current: '' @ mc_Status r @ '')'') ''manifest_change_not_applied''), w)
      else
        let appliedAt = ve_parse env (trimSpace (firstNonEmpty [mc_AppliedAt r, mc_UpdatedAt r, mc_CreatedAt r]));
            ob = observeChange (cd_sprint cd) env appliedAt r;
            warnings = length (filter (warningEvent appliedAt (ve_parse env) r) (ve_events env));
            incidents = length (filter (incidentOf r) (ve_incidents env));
            (verifyStatus, resultStatus, reasons) = verifyOutcome ob incidents warnings;
            result = [(''status'', GStr resultStatus), (''resource_found'', GBool (ob_found ob)),
              (''refreshed_after_apply'', GBool (ob_refreshed ob)), (''unhealthy'', GBool (ob_unhealthy ob)),
              (''warning_events'', GInt (int warnings)), (''open_incidents'', GInt (int incidents)), (''resource_state'', GStr (ob_state ob)),
              (''reason_codes'', GList (map GStr reasons)), (''verification_source'', GStr (ob_source ob))] @
              (case ve_live env of LiveFailed e \<Rightarrow> if e \<noteq> [] then [(''live_read_error'', GStr e)] else [] | _ \<Rightarrow> []) in
        persistVerification now adminID (mc_ID r) verifyStatus resultStatus result w)"

section \<open>Rollback\<close>

definition rollbackOf :: "codec \<Rightarrow> string \<Rightarrow> string \<Rightarrow> K8sManifestChangeRequest \<Rightarrow> K8sManifestChangeRequest" where
  "rollbackOf cd freshID adminID r =
     draftRequest\<lparr>mc_ID := freshID, mc_ClusterID := mc_ClusterID r, mc_Namespace := mc_Namespace r, mc_Kind := mc_Kind r,
       mc_APIVersion := mc_APIVersion r, mc_Name := mc_Name r, mc_RiskLevel := mc_RiskLevel r, mc_RequiresApproval := True,
       mc_Reason := ''rollback request from '' @ mc_ID r, mc_BeforeYAML := mc_AfterYAML r, mc_AfterYAML := mc_BeforeYAML r,
       mc_BeforeHash := mc_AfterHash r, mc_AfterHash := mc_BeforeHash r,
       mc_Diffs := diffYAMLText (cd_num cd) (cd_decode cd) (mc_AfterYAML r) (mc_BeforeYAML r),
       mc_Impact := [(''rollback_from'', GStr (mc_ID r)), (''rollback_candidate'', GStr ''before_yaml'')],
       mc_CreatedBy := adminID, mc_TargetUID := mc_TargetUID r, mc_TargetResourceVersion := mc_TargetResourceVersion r,
       mc_Result := (''Rollback '' @ utf8 [0xD6C4, 0xBCF4, 0x20, 0xC694, 0xCCAD, 0x20, 0xC0DD, 0xC131, 0xB428] @ ''. validate '' @ utf8 [0xD6C4, 0x20, 0xC2B9, 0xC778] @ ''/'' @ utf8 [0xC801, 0xC6A9, 0xD558, 0xC138, 0xC694] @ ''.'')\<rparr>"

definition rollbackK8sManifestChange ::
  "codec \<Rightarrow> string \<Rightarrow> string \<Rightarrow> string \<Rightarrow> K8sManifestChangeRequest \<Rightarrow> change_world \<Rightarrow>
     (http_error + K8sManifestChangeRequest) \<times> change_world" where
  "rollbackK8sManifestChange cd now freshID adminID r w =
     (let rb = rollbackOf cd freshID adminID r in
      case CreateK8sManifestRollbackRequest now (mc_ID r) (''rollback request: '' @ freshID) rb (mw_changes w) of
        (Inl ErrNotFound, _) \<Rightarrow> (Inl (changeNotFound (mc_ID r)), w)
      | (Inl ErrInvalidTransition, _) \<Rightarrow>
          (Inl (writeOpenAIError 409 ''this manifest change cannot be rolled back in its current state'' ''manifest_rollback_bad_state''), w)
      | (Inl _, _) \<Rightarrow> (Inl (writeOpenAIError 500 [] ''k8s_manifest_rollback_save_failed''), w)
      | (Inr _, t) \<Rightarrow> (Inr rb,
          w\<lparr>mw_changes := t, mw_audit := auditAdmin adminID ''k8s.manifest_change.rollback'' (mc_ID r) (mw_audit w)\<rparr>))"

end
