(* ===== verification/Manifest_Workflow.thy ===== *)
theory Manifest_Workflow
  imports Manifest_Change
begin

text \<open>
  The manifest change workflow as a whole: \<open>changeStep\<close> interleaves the handlers of \<open>Manifest_Change\<close>, each
  working on any request read earlier, and \<open>changeInv\<close> is the invariant that carries the
  authorisation of every command sent to a cluster.
\<close>

section \<open>The workflow\<close>

text \<open>The requests that handlers have read so far, and the steps of all handlers.\<close>

type_synonym change_state = "change_world \<times> K8sManifestChangeRequest list"

inductive changeStep :: "change_state \<Rightarrow> change_state \<Rightarrow> bool" where
  step_read: "GetK8sManifestChangeRequest i (mw_changes w) = Inr r \<Longrightarrow> changeStep (w, rs) (w, r # rs)"
| step_create: "changeStep (w, rs) (snd (createK8sManifestChange cd env now freshID adminID headerKey body w), rs)"
| step_validate: "r \<in> set rs \<Longrightarrow> changeStep (w, rs) (snd (validateK8sManifestChange cd env now adminID r w), rs)"
| step_decide: "command = ''approve'' \<or> command = ''reject'' \<Longrightarrow>
    changeStep (w, rs) (snd (decideK8sManifestChange now adminID i command result msg auditErr w), rs)"
| step_apply: "r \<in> set rs \<Longrightarrow> changeStep (w, rs) (snd (applyBegin cd env now adminID force r w), rs)"
| step_finish: "r \<in> set rs \<Longrightarrow> changeStep (w, rs) (snd (applyFinish now adminID guard answer r w), rs)"
| step_verify: "r \<in> set rs \<Longrightarrow> changeStep (w, rs) (snd (verifyK8sManifestChange cd venv now adminID r w), rs)"
| step_rollback: "r \<in> set rs \<Longrightarrow> changeStep (w, rs) (snd (rollbackK8sManifestChange cd now freshID adminID r w), rs)"

definition emptyWorld :: change_world where
  "emptyWorld = \<lparr>mw_changes = [], mw_audit = [], mw_sent = []\<rparr>"

text \<open>A change whose fields or kind are above low risk.\<close>

definition sensitiveChange :: "K8sManifestChangeRequest \<Rightarrow> bool" where
  "sensitiveChange r \<longleftrightarrow> list_ex (\<lambda>d. fd_Risk d \<noteq> ''low'') (mc_Diffs r) \<or>
     toLower (mc_Kind r) \<in> set (criticalKinds @ highKinds @ mediumKinds)"

definition approvedIn :: "AdminAuditLog list \<Rightarrow> K8sManifestChangeRequest \<Rightarrow> bool" where
  "approvedIn entries r \<longleftrightarrow>
     list_ex (\<lambda>e. au_Action e = ''k8s.manifest_change.approve'' \<and> au_BeforeValue e = mc_ID r \<and> au_AdminID e = mc_ApprovedBy r) entries"

definition authorisedChange :: "AdminAuditLog list \<Rightarrow> K8sManifestChangeRequest \<Rightarrow> bool" where
  "authorisedChange entries r \<longleftrightarrow> approvedIn entries r \<or> (\<not> mc_RequiresApproval r \<and> \<not> sensitiveChange r)"

definition launched :: "string \<Rightarrow> bool" where
  "launched st \<longleftrightarrow> st \<in> set [''running'', ''applied'', ''verified'', ''verify_failed'', ''rollback_requested'', ''rolled_back'']"

definition rowOK :: "AdminAuditLog list \<Rightarrow> K8sManifestChangeRequest \<Rightarrow> bool" where
  "rowOK entries r \<longleftrightarrow>
     (sensitiveChange r \<longrightarrow> mc_RequiresApproval r) \<and> (mc_Status r = ''validated'' \<longrightarrow> \<not> mc_RequiresApproval r) \<and>
     (mc_Status r = ''approved'' \<longrightarrow> approvedIn entries r) \<and> (launched (mc_Status r) \<longrightarrow> authorisedChange entries r)"

definition closedOrLaunched :: "string \<Rightarrow> bool" where
  "closedOrLaunched st \<longleftrightarrow> launched st \<or> st = ''failed''"

definition changeInv :: "change_state \<Rightarrow> bool" where
  "changeInv s \<longleftrightarrow> (case s of (w, rs) \<Rightarrow>
     (\<forall>k r. map_of (mw_changes w) k = Some r \<longrightarrow> mc_ID r = k \<and> rowOK (mw_audit w) r) \<and>
     (\<forall>r \<in> set rs. (sensitiveChange r \<longrightarrow> mc_RequiresApproval r) \<and> (\<exists>r'. map_of (mw_changes w) (mc_ID r) = Some r' \<and> sameChange r r')) \<and>
     (\<forall>c \<in> set (mw_sent w). \<exists>r. map_of (mw_changes w) (cmd_ID c) = Some r \<and> c = commandOf r \<and>
        authorisedChange (mw_audit w) r \<and> closedOrLaunched (mc_Status r)) \<and>
     distinct (map cmd_ID (mw_sent w)))"

text \<open>How a row may change without losing what it promises.\<close>

definition keeps :: "AdminAuditLog list \<Rightarrow> AdminAuditLog list \<Rightarrow> K8sManifestChangeRequest \<Rightarrow> K8sManifestChangeRequest \<Rightarrow> bool" where
  "keeps entries entries' r r' \<longleftrightarrow> sameChange r r' \<and> (rowOK entries r \<longrightarrow> rowOK entries' r') \<and>
     (closedOrLaunched (mc_Status r) \<longrightarrow>
        closedOrLaunched (mc_Status r') \<and> mc_RequiresApproval r' = mc_RequiresApproval r \<and> mc_ApprovedBy r' = mc_ApprovedBy r)"

lemma sensitive_same: "sameChange r r' \<Longrightarrow> sensitiveChange r' = sensitiveChange r"
  by (simp add: sameChange_def sensitiveChange_def)

lemma command_same: "sameChange r r' \<Longrightarrow> commandOf r' = commandOf r"
  by (simp add: sameChange_def commandOf_def)

lemma approvedIn_mono: "approvedIn entries r \<Longrightarrow> set entries \<subseteq> set entries' \<Longrightarrow> mc_ID r' = mc_ID r \<Longrightarrow> mc_ApprovedBy r' = mc_ApprovedBy r \<Longrightarrow>
    approvedIn entries' r'"
  by (auto simp: approvedIn_def list_ex_iff)

lemma authorised_mono:
  assumes "authorisedChange entries r" and "set entries \<subseteq> set entries'" and "sameChange r r'"
    and "mc_RequiresApproval r' = mc_RequiresApproval r" and "mc_ApprovedBy r' = mc_ApprovedBy r"
  shows "authorisedChange entries' r'"
proof -
  have "mc_ID r' = mc_ID r" using assms(3) by (simp add: sameChange_def)
  then show ?thesis
    using assms(1,2,4,5) sensitive_same [OF assms(3)] by (auto simp: authorisedChange_def intro: approvedIn_mono)
qed

lemma rowOK_mono: "rowOK entries r \<Longrightarrow> set entries \<subseteq> set entries' \<Longrightarrow> rowOK entries' r"
  by (auto simp: rowOK_def intro: approvedIn_mono authorised_mono)

lemma keeps_refl: "set entries \<subseteq> set entries' \<Longrightarrow> keeps entries entries' r r"
  by (auto simp: keeps_def intro: rowOK_mono)

text \<open>The invariant survives a step that keeps every row, adds acceptable rows and logs, and sends
  nothing.\<close>

lemma changeInv_step:
  assumes inv: "changeInv (w, rs)" and more: "set (mw_audit w) \<subseteq> set (mw_audit w')" and sent: "mw_sent w' = mw_sent w"
    and old: "\<And>k r. map_of (mw_changes w) k = Some r \<Longrightarrow> mc_ID r = k \<Longrightarrow>
      \<exists>r'. map_of (mw_changes w') k = Some r' \<and> keeps (mw_audit w) (mw_audit w') r r'"
    and new: "\<And>k r. map_of (mw_changes w) k = None \<Longrightarrow> map_of (mw_changes w') k = Some r \<Longrightarrow> mc_ID r = k \<and> rowOK (mw_audit w') r"
  shows "changeInv (w', rs)"
proof -
  have rows: "mc_ID r = k \<and> rowOK (mw_audit w) r" if "map_of (mw_changes w) k = Some r" for k r
    using inv that by (simp add: changeInv_def)
  have 1: "mc_ID r = k \<and> rowOK (mw_audit w') r" if "map_of (mw_changes w') k = Some r" for k r
  proof (cases "map_of (mw_changes w) k")
    case None
    with new that show ?thesis by simp
  next
    case (Some q)
    with old [OF Some] rows [OF Some] that show ?thesis by (auto simp: keeps_def sameChange_def)
  qed
  have 2: "\<exists>r'. map_of (mw_changes w') k = Some r' \<and> sameChange r r'"
    if "map_of (mw_changes w) k = Some q" "sameChange r q" for r k q
    using old [OF that(1)] rows [OF that(1)] that(2) by (auto simp: keeps_def intro: sameChange_trans)
  have 3: "\<exists>r'. map_of (mw_changes w') k = Some r' \<and> commandOf r = commandOf r' \<and> authorisedChange (mw_audit w') r' \<and> closedOrLaunched (mc_Status r')"
    if row: "map_of (mw_changes w) k = Some r" and auth: "authorisedChange (mw_audit w) r" "closedOrLaunched (mc_Status r)" for k r
  proof -
    obtain r' where r': "map_of (mw_changes w') k = Some r'" "keeps (mw_audit w) (mw_audit w') r r'"
      using old [OF row] rows [OF row] by blast
    with auth more show ?thesis by (auto simp: keeps_def command_same intro: authorised_mono)
  qed
  show ?thesis
    unfolding changeInv_def sent prod.case
  proof (intro conjI ballI allI impI)
    fix k r
    assume "map_of (mw_changes w') k = Some r"
    then show "mc_ID r = k" "rowOK (mw_audit w') r" using 1 by auto
  next
    fix r
    assume r: "r \<in> set rs"
    with inv show "sensitiveChange r \<Longrightarrow> mc_RequiresApproval r" by (auto simp: changeInv_def)
    from r inv obtain q where "map_of (mw_changes w) (mc_ID r) = Some q" "sameChange r q" by (auto simp: changeInv_def)
    then show "\<exists>r'. map_of (mw_changes w') (mc_ID r) = Some r' \<and> sameChange r r'" by (rule 2)
  next
    fix c
    assume "c \<in> set (mw_sent w)"
    with inv obtain r where r: "map_of (mw_changes w) (cmd_ID c) = Some r" "c = commandOf r" "authorisedChange (mw_audit w) r"
      "closedOrLaunched (mc_Status r)" by (auto simp: changeInv_def)
    with 3 [OF r(1,3,4)] show "\<exists>r. map_of (mw_changes w') (cmd_ID c) = Some r \<and> c = commandOf r \<and>
        authorisedChange (mw_audit w') r \<and> closedOrLaunched (mc_Status r)" by auto
  next
    from inv show "distinct (map cmd_ID (mw_sent w))" by (simp add: changeInv_def)
  qed
qed


text \<open>An update of the one row under \<open>i\<close>.\<close>

lemma changeInv_update:
  assumes inv: "changeInv (w, rs)" and more: "set (mw_audit w) \<subseteq> set entries"
    and t: "\<And>k. map_of t k = (if k = i then map_option (\<lambda>r. if guard r then f r else r) (map_of (mw_changes w) i) else map_of (mw_changes w) k)"
    and keep: "\<And>r. map_of (mw_changes w) i = Some r \<Longrightarrow> mc_ID r = i \<Longrightarrow> guard r \<Longrightarrow> keeps (mw_audit w) entries r (f r)"
  shows "changeInv (w\<lparr>mw_changes := t, mw_audit := entries\<rparr>, rs)"
proof (rule changeInv_step [OF inv])
  fix k r
  assume row: "map_of (mw_changes w) k = Some r" "mc_ID r = k"
  show "\<exists>r'. map_of (mw_changes (w\<lparr>mw_changes := t, mw_audit := entries\<rparr>)) k = Some r' \<and>
      keeps (mw_audit w) (mw_audit (w\<lparr>mw_changes := t, mw_audit := entries\<rparr>)) r r'"
    using row keep keeps_refl [OF more] by (cases "k = i"; cases "guard r") (auto simp: t)
next
  fix k r
  assume "map_of (mw_changes w) k = None" "map_of (mw_changes (w\<lparr>mw_changes := t, mw_audit := entries\<rparr>)) k = Some r"
  then show "mc_ID r = k \<and> rowOK (mw_audit (w\<lparr>mw_changes := t, mw_audit := entries\<rparr>)) r" by (auto simp: t split: if_splits)
qed (simp_all add: more)

lemma audit_more: "set entries \<subseteq> set (auditAdmin adminID action before entries)"
  by (auto simp: auditAdmin_def)

text \<open>What the store operations do to one row.\<close>

lemma rowOK_content: "rowOK entries r \<Longrightarrow> sensitiveChange r \<Longrightarrow> mc_RequiresApproval r"
  by (simp add: rowOK_def)

lemma analysis_keeps:
  assumes "sensitiveChange q \<Longrightarrow> mc_RequiresApproval q" and "sameChange q r" and "mc_RequiresApproval q \<Longrightarrow> approval"
    and "status = ''validated'' \<Longrightarrow> \<not> approval" and "mc_Status r \<in> set (analysisFrom status)" and "set entries \<subseteq> set entries'"
  shows "keeps entries entries' r (r\<lparr>mc_Status := status, mc_RiskLevel := risk, mc_RequiresApproval := approval,
           mc_Impact := impact, mc_Validation := validation, mc_Result := result, mc_UpdatedAt := now\<rparr>)"
    (is "keeps _ _ _ ?r")
proof -
  have same: "sameChange r ?r" by (simp add: sameChange_def)
  have "sensitiveChange ?r \<Longrightarrow> approval"
    using assms(1,3) sensitive_same [OF assms(2)] sensitive_same [OF same] by blast
  moreover have "\<not> launched status \<and> status \<noteq> ''approved'' \<and> \<not> closedOrLaunched (mc_Status r)"
    using assms(5) by (auto simp: analysisFrom_def launched_def closedOrLaunched_def split: if_splits)
  ultimately show ?thesis using same assms(4) by (auto simp: keeps_def rowOK_def)
qed

text \<open>Any other move of the state machine keeps content and approval.\<close>

lemma move_keeps:
  assumes "sameChange r r'" and "mc_RequiresApproval r' = mc_RequiresApproval r" and "mc_ApprovedBy r' = mc_ApprovedBy r"
    and "mc_Status r' \<noteq> ''validated''" "mc_Status r' \<noteq> ''approved''"
    and launch: "launched (mc_Status r') \<Longrightarrow> launched (mc_Status r) \<or> mc_Status r \<in> set [''validated'', ''approved'']"
    and closed: "closedOrLaunched (mc_Status r) \<Longrightarrow> closedOrLaunched (mc_Status r')" and "set entries \<subseteq> set entries'"
  shows "keeps entries entries' r r'"
proof -
  have "rowOK entries' r'" if ok: "rowOK entries r"
  proof -
    have "authorisedChange entries' r'" if "launched (mc_Status r')"
    proof -
      have "authorisedChange entries r"
        using launch [OF that] ok by (auto simp: rowOK_def authorisedChange_def)
      then show ?thesis using assms(1,2,3,8) by (blast intro: authorised_mono)
    qed
    with ok assms(2,4,5) sensitive_same [OF assms(1)] show ?thesis by (simp add: rowOK_def)
  qed
  with assms show ?thesis by (simp add: keeps_def)
qed

lemma setChangeStatus_fields [simp]:
  "sameChange r (setChangeStatus now status actor result r)" "mc_Status (setChangeStatus now status actor result r) = status"
  "mc_RequiresApproval (setChangeStatus now status actor result r) = mc_RequiresApproval r"
  "mc_ApprovedBy (setChangeStatus now status actor result r) = (if status = ''approved'' then actor else mc_ApprovedBy r)"
  by (simp_all add: setChangeStatus_def sameChange_def Let_def)

lemma launch_table [simp]:
  "launched ''running''" "launched ''applied''" "launched ''verified''" "launched ''verify_failed''" "launched ''rollback_requested''"
  "\<not> launched ''draft''" "\<not> launched ''validated''" "\<not> launched ''approval_required''" "\<not> launched ''approved''"
  "\<not> launched ''rejected''" "\<not> launched ''failed''" "closedOrLaunched ''failed''" "launched st \<Longrightarrow> closedOrLaunched st"
  "\<not> launched st \<Longrightarrow> closedOrLaunched st \<longleftrightarrow> st = ''failed''"
  by (simp_all add: launched_def closedOrLaunched_def)

lemma reject_keeps:
  assumes "mc_Status r \<in> set (statusFrom ''rejected'')" and "set entries \<subseteq> set entries'"
  shows "keeps entries entries' r (setChangeStatus now ''rejected'' actor result r)"
  using assms(1) by (intro move_keeps [OF _ _ _ _ _ _ _ assms(2)]) (auto simp: statusFrom_def)

lemma running_keeps:
  assumes "mc_Status r \<in> set (statusFrom ''running'')" and "set entries \<subseteq> set entries'"
  shows "keeps entries entries' r (setChangeStatus now ''running'' actor result r)"
  using assms(1) by (intro move_keeps [OF _ _ _ _ _ _ _ assms(2)]) (auto simp: statusFrom_def)

lemma applyResult_keeps:
  assumes "mc_Status r = ''running''" and "status = ''applied'' \<or> status = ''failed''" and "set entries \<subseteq> set entries'"
  shows "keeps entries entries' r (r\<lparr>mc_Status := status, mc_ApplyResult := res, mc_Result := result, mc_AppliedBy := actor,
           mc_AppliedAt := now, mc_UpdatedAt := now\<rparr>)"
  using assms(1,2) by (intro move_keeps [OF _ _ _ _ _ _ _ assms(3)]) (auto simp: sameChange_def)

lemma verifyResult_keeps:
  assumes "mc_Status r \<in> set [''applied'', ''verify_failed'']" and "status = ''verified'' \<or> status = ''verify_failed''"
    and "set entries \<subseteq> set entries'"
  shows "keeps entries entries' r (r\<lparr>mc_Status := status, mc_VerifyResult := res, mc_Result := result, mc_VerifiedBy := actor,
           mc_VerifiedAt := now, mc_UpdatedAt := now\<rparr>)"
  using assms(1,2) by (intro move_keeps [OF _ _ _ _ _ _ _ assms(3)]) (auto simp: sameChange_def)

lemma rollback_keeps:
  assumes "rollbackable (mc_Status r)" and "set entries \<subseteq> set entries'"
  shows "keeps entries entries' r (markRollback now result r)"
  using assms(1) by (intro move_keeps [OF _ _ _ _ _ _ _ assms(2)])
    (auto simp: sameChange_def markRollback_def rollbackable_def)

lemma approve_keeps:
  assumes "mc_Status r \<in> set [''validated'', ''approval_required'']" and "mc_ID r = i"
  shows "keeps entries (entries @ [\<lparr>au_AdminID = actor, au_Action = ''k8s.manifest_change.approve'', au_BeforeValue = i\<rparr>]) r
           (r\<lparr>mc_Status := ''approved'', mc_UpdatedAt := now, mc_Result := result, mc_ApprovedBy := actor, mc_ApprovedAt := now\<rparr>)"
    (is "keeps _ _ _ ?r")
proof -
  have same: "sameChange r ?r" by (simp add: sameChange_def)
  from assms have "\<not> closedOrLaunched (mc_Status r)" by auto
  then show ?thesis
    using assms same sensitive_same [OF same] by (auto simp: keeps_def rowOK_def approvedIn_def launched_def)
qed

text \<open>New rows.\<close>

lemma changeInv_insert:
  assumes inv: "changeInv (w, rs)" and more: "set (mw_audit w) \<subseteq> set entries" and none: "map_of (mw_changes w) (mc_ID r) = None"
    and draft: "mc_Status r = ''draft''" and content: "sensitiveChange r \<Longrightarrow> mc_RequiresApproval r"
  shows "changeInv (w\<lparr>mw_changes := mw_changes w @ [(mc_ID r, changeDefaults now r)], mw_audit := entries\<rparr>, rs)"
proof (rule changeInv_step [OF inv])
  fix k q
  assume "map_of (mw_changes w) k = Some q" "mc_ID q = k"
  then show "\<exists>q'. map_of (mw_changes (w\<lparr>mw_changes := mw_changes w @ [(mc_ID r, changeDefaults now r)], mw_audit := entries\<rparr>)) k = Some q' \<and>
      keeps (mw_audit w) (mw_audit (w\<lparr>mw_changes := mw_changes w @ [(mc_ID r, changeDefaults now r)], mw_audit := entries\<rparr>)) q q'"
    using keeps_refl [OF more] by (simp add: map_add_def)
next
  fix k q
  assume "map_of (mw_changes w) k = None"
    "map_of (mw_changes (w\<lparr>mw_changes := mw_changes w @ [(mc_ID r, changeDefaults now r)], mw_audit := entries\<rparr>)) k = Some q"
  then have "k = mc_ID r" "q = changeDefaults now r" by (simp_all add: map_add_def split: if_splits)
  moreover have "rowOK entries (changeDefaults now r)"
    using draft content by (simp add: rowOK_def changeDefaults_def sensitiveChange_def launched_def)
  ultimately show "mc_ID q = k \<and>
      rowOK (mw_audit (w\<lparr>mw_changes := mw_changes w @ [(mc_ID r, changeDefaults now r)], mw_audit := entries\<rparr>)) q" by simp
qed (simp_all add: more)

text \<open>A sensitive change is built with approval required.\<close>

lemma needs_content:
  assumes "mc_Diffs r = diffManifestDocs num before after" and "sensitiveChange r"
  shows "changeNeedsApproval (mc_Kind r) (mc_Diffs r) plan"
proof -
  have "fd_Risk d \<noteq> ''low'' \<Longrightarrow> diffReason d \<noteq> []" if "d \<in> set (mc_Diffs r)" for d
    using that assms(1) diffs_risk diffReason_low by metis
  then show ?thesis using assms(2) by (auto simp: sensitiveChange_def changeNeedsApproval_def list_ex_iff)
qed

lemma secretGuard_approval: "snd (snd a) \<Longrightarrow> snd (snd (secretGuard kind operation doc a))"
  by (auto simp: secretGuard_def Let_def split: prod.splits)

lemma buildUpdate_fields:
  fixes cd freshID actor clusterID namespace kind apiVersion reason idemKey policies item afterDoc
  defines "r \<equiv> buildUpdate cd freshID actor clusterID namespace kind apiVersion reason idemKey policies item afterDoc"
  shows "mc_ID r = freshID" "mc_Status r = ''draft''" "sensitiveChange r \<Longrightarrow> mc_RequiresApproval r"
proof -
  let ?before = "sanitizeManifestDocForLedger (assembleManifest (cd_maskText cd) item)"
  let ?ds = "diffManifestDocs (cd_num cd) ?before (sanitizeManifestDocForLedger afterDoc)"
  let ?plan = "AnalyzeStackManifest [afterDoc] (toAnalyzerPolicies policies)"
  have ds: "mc_Diffs r = ?ds" and kind: "mc_Kind r = iv_Kind item"
    and ap: "mc_RequiresApproval r = snd (snd (secretGuard kind ''update'' afterDoc (manifestChangeImpact item ?ds ?plan)))"
    by (simp_all add: r_def buildUpdate_def Let_def split: prod.splits)
  show "mc_RequiresApproval r" if "sensitiveChange r"
    unfolding ap by (rule secretGuard_approval) (use needs_content [OF ds that, of ?plan] in \<open>simp add: manifestChangeImpact_def kind ds\<close>)
  show "mc_ID r = freshID" "mc_Status r = ''draft''"
    by (simp_all add: r_def buildUpdate_def draftRequest_def Let_def split: prod.splits)
qed

lemma buildCreate_fields:
  fixes cd freshID actor clusterID namespace kind apiVersion name reason idemKey policies afterDoc
  defines "r \<equiv> buildCreate cd freshID actor clusterID namespace kind apiVersion name reason idemKey policies afterDoc"
  shows "mc_ID r = freshID" "mc_Status r = ''draft''" "mc_RequiresApproval r"
proof -
  have "snd (snd (secretGuard kind ''create'' afterDoc (manifestCreateImpact item ds plan)))" for item ds plan
    by (rule secretGuard_approval) (simp add: manifestCreateImpact_def Let_def split: prod.splits)
  then show "mc_RequiresApproval r" by (simp add: r_def buildCreate_def Let_def case_prod_beta)
  show "mc_ID r = freshID" "mc_Status r = ''draft''"
    by (simp_all add: r_def buildCreate_def draftRequest_def Let_def split: prod.splits)
qed

text \<open>A creation adds a request to the ledger or leaves it alone.\<close>

definition addsRequest :: "string \<Rightarrow> change_table \<Rightarrow> change_table \<Rightarrow> bool" where
  "addsRequest now t t' \<longleftrightarrow> t' = t \<or>
     (\<exists>r. t' = t @ [(mc_ID r, changeDefaults now r)] \<and> map_of t (mc_ID r) = None \<and> mc_Status r = ''draft'' \<and>
        (sensitiveChange r \<longrightarrow> mc_RequiresApproval r))"

lemma save_adds:
  "mc_Status r = ''draft'' \<Longrightarrow> sensitiveChange r \<longrightarrow> mc_RequiresApproval r \<Longrightarrow> addsRequest now t (snd (saveChange now code r t))"
  using insertChange_cases [of now r t] by (auto simp: saveChange_def CreateK8sManifestChangeRequest_def addsRequest_def)

lemma adds_refl: "addsRequest now t t"
  by (simp add: addsRequest_def)

lemma prepareCreate_adds: "addsRequest now t (snd (prepareCreate cd env now freshID actor clusterID tg reason idemKey t))"
  by (auto simp: prepareCreate_def adds_refl buildCreate_fields intro!: save_adds split: option.split store_error.split sum.split)

lemma prepareUpdate_adds: "addsRequest now t (snd (prepareUpdate cd env now freshID actor clusterID tg reason idemKey t))"
  by (auto simp: prepareUpdate_def adds_refl buildUpdate_fields intro!: save_adds split: option.split store_error.split sum.split)

lemma prepare_adds: "addsRequest now t (snd (prepareK8sManifestChangeRequest cd env now freshID actor inp t))"
  by (simp add: prepareK8sManifestChangeRequest_def Let_def adds_refl prepareCreate_adds prepareUpdate_adds split: option.split sum.split)

lemma changeInv_same: "changeInv (w, rs) \<Longrightarrow> set (mw_audit w) \<subseteq> set entries \<Longrightarrow> changeInv (w\<lparr>mw_audit := entries\<rparr>, rs)"
  by (rule changeInv_step [where w = w]) (auto intro: keeps_refl)

lemma changeInv_adds:
  assumes "changeInv (w, rs)" and "set (mw_audit w) \<subseteq> set entries" and "addsRequest now (mw_changes w) t"
  shows "changeInv (w\<lparr>mw_changes := t, mw_audit := entries\<rparr>, rs)"
proof (cases "t = mw_changes w")
  case True
  with changeInv_same [OF assms(1,2)] show ?thesis by simp
next
  case False
  with assms(3) show ?thesis using changeInv_insert [OF assms(1,2)] by (auto simp: addsRequest_def)
qed

lemma create_inv:
  assumes "changeInv (w, rs)"
  shows "changeInv (snd (createK8sManifestChange cd env now freshID adminID headerKey body w), rs)"
proof (cases body)
  case None
  with assms show ?thesis by (simp add: createK8sManifestChange_def)
next
  case (Some inp)
  obtain res t where p: "prepareK8sManifestChangeRequest cd env now freshID adminID
      (inp\<lparr>ci_IdempotencyKey := firstNonEmpty [ci_IdempotencyKey inp, headerKey]\<rparr>) (mw_changes w) = (res, t)" by fastforce
  with prepare_adds have "addsRequest now (mw_changes w) t" by (metis snd_conv)
  with changeInv_adds [OF assms audit_more] assms show ?thesis
    by (cases res) (simp_all add: createK8sManifestChange_def Some p)
qed

text \<open>The other handlers.\<close>

lemma changeInv_guarded:
  assumes "changeInv (w, rs)" and "set (mw_audit w) \<subseteq> set entries" and "guardedUpdate i guard f (mw_changes w) = (res, t)"
    and "\<And>r. map_of (mw_changes w) i = Some r \<Longrightarrow> mc_ID r = i \<Longrightarrow> guard r \<Longrightarrow> keeps (mw_audit w) entries r (f r)"
  shows "changeInv (w\<lparr>mw_changes := t, mw_audit := entries\<rparr>, rs)"
proof (rule changeInv_update [OF assms(1,2) _ assms(4)])
  show "map_of t k = (if k = i then map_option (\<lambda>r. if guard r then f r else r) (map_of (mw_changes w) i) else map_of (mw_changes w) k)" for k
    using guardedUpdate_table [of i guard f "mw_changes w" k] by (simp add: assms(3))
qed

lemma read_row:
  assumes "changeInv (w, rs)" and "r \<in> set rs"
  obtains r' where "map_of (mw_changes w) (mc_ID r) = Some r'" "sameChange r r'" "sensitiveChange r \<Longrightarrow> mc_RequiresApproval r"
  using assms by (auto simp: changeInv_def)

lemma persist_inv:
  assumes inv: "changeInv (w, rs)" and r: "r \<in> set rs" and ap: "mc_RequiresApproval r \<Longrightarrow> vd_approval v"
    and ok: "vd_status v = ''validated'' \<Longrightarrow> \<not> vd_approval v"
  shows "changeInv (snd (persistAnalysis now adminID r v validation http w), rs)"
proof -
  obtain q where q: "map_of (mw_changes w) (mc_ID r) = Some q" "sameChange r q" "sensitiveChange r \<Longrightarrow> mc_RequiresApproval r"
    using read_row [OF inv r] by metis
  obtain res t where u: "UpdateK8sManifestChangeAnalysis now (mc_ID r) (vd_status v) (vd_risk v) (vd_approval v) (mc_Impact r)
      validation (vd_result v) (mw_changes w) = (res, t)" by fastforce
  show ?thesis
  proof (cases res)
    case (Inl e)
    with inv show ?thesis by (cases e) (simp_all add: persistAnalysis_def u)
  next
    case (Inr x)
    with u have "guardedUpdate (mc_ID r) (\<lambda>r. mc_Status r \<in> set (analysisFrom (vd_status v)))
        (\<lambda>x. x\<lparr>mc_Status := vd_status v, mc_RiskLevel := firstStoreNonEmpty [vd_risk v, ''low''], mc_RequiresApproval := vd_approval v,
               mc_Impact := mc_Impact r, mc_Validation := validation, mc_Result := vd_result v, mc_UpdatedAt := now\<rparr>) (mw_changes w) = (res, t)"
      by (simp add: UpdateK8sManifestChangeAnalysis_def split: if_splits)
    then have "changeInv (w\<lparr>mw_changes := t, mw_audit := auditAdmin adminID ''k8s.manifest_change.validate'' (mc_ID r) (mw_audit w)\<rparr>, rs)"
    proof (rule changeInv_guarded [OF inv audit_more])
      fix x
      assume x: "map_of (mw_changes w) (mc_ID r) = Some x" and st: "mc_Status x \<in> set (analysisFrom (vd_status v))"
      from x q(1,2) have "sameChange r x" by simp
      from analysis_keeps [OF q(3) this ap ok st audit_more]
      show "keeps (mw_audit w) (auditAdmin adminID ''k8s.manifest_change.validate'' (mc_ID r) (mw_audit w)) x
          (x\<lparr>mc_Status := vd_status v, mc_RiskLevel := firstStoreNonEmpty [vd_risk v, ''low''], mc_RequiresApproval := vd_approval v,
             mc_Impact := mc_Impact r, mc_Validation := validation, mc_Result := vd_result v, mc_UpdatedAt := now\<rparr>)" by blast
    qed
    with Inr show ?thesis by (simp add: persistAnalysis_def u)
  qed
qed

lemma verdict_sound:
  "mc_RequiresApproval r \<Longrightarrow> vd_approval (validateVerdict env policies r doc)"
  "vd_status (validateVerdict env policies r doc) = ''validated'' \<Longrightarrow> \<not> vd_approval (validateVerdict env policies r doc)"
  by (auto simp: validateVerdict_def Let_def split: prod.splits option.splits if_splits)

lemma validate_inv:
  assumes "changeInv (w, rs)" and "r \<in> set rs"
  shows "changeInv (snd (validateK8sManifestChange cd env now adminID r w), rs)"
proof -
  have "changeInv (snd (persistAnalysis now adminID r (policyUnavailable cause) (unavailableMap cause) 503 w), rs)" for cause
    by (rule persist_inv [OF assms]) (simp_all add: policyUnavailable_def)
  moreover have "changeInv (snd (persistAnalysis now adminID r (validateVerdict env policies r doc) validation 200 w), rs)" for policies doc validation
    by (rule persist_inv [OF assms]) (auto dest: verdict_sound)
  ultimately show ?thesis using assms(1)
    by (simp add: validateK8sManifestChange_def Let_def split: option.split list.split sum.split)
qed

lemma decide_inv:
  assumes inv: "changeInv (w, rs)" and command: "command = ''approve'' \<or> command = ''reject''"
  shows "changeInv (snd (decideK8sManifestChange now adminID i command result msg auditErr w), rs)"
proof (cases "command = ''reject''")
  case True
  obtain res t where u: "UpdateK8sManifestChangeStatus now i ''rejected'' adminID (trimSpace (firstNonEmpty [result, msg])) (mw_changes w) = (res, t)"
    by fastforce
  then have "guardedUpdate i (\<lambda>r. mc_Status r \<in> set (statusFrom ''rejected''))
      (setChangeStatus now ''rejected'' adminID (trimSpace (firstNonEmpty [result, msg]))) (mw_changes w) = (res, t)"
    by (simp add: UpdateK8sManifestChangeStatus_def statusFrom_def)
  from changeInv_guarded [OF inv audit_more this] reject_keeps [OF _ audit_more] inv True show ?thesis
    by (cases res) (simp_all add: decideK8sManifestChange_def Let_def u)
next
  case False
  with command have c: "command = ''approve''" by simp
  have "changeInv (w\<lparr>mw_changes := updateWhere i (\<lambda>r. mc_Status r \<in> set [''validated'', ''approval_required''])
        (\<lambda>r. r\<lparr>mc_Status := ''approved'', mc_UpdatedAt := now, mc_Result := comment, mc_ApprovedBy := adminID, mc_ApprovedAt := now\<rparr>) (mw_changes w),
      mw_audit := mw_audit w @ [\<lparr>au_AdminID = adminID, au_Action = ''k8s.manifest_change.approve'', au_BeforeValue = i\<rparr>]\<rparr>, rs)" for comment
    by (rule changeInv_update [OF inv _ map_of_updateWhere]) (auto intro!: approve_keeps)
  with inv show ?thesis
    by (simp add: decideK8sManifestChange_def ApproveK8sManifestChangeWithAudit_def c Let_def split: option.split)
qed

lemma applyResult_inv:
  assumes inv: "changeInv (w, rs)" and u: "UpdateK8sManifestChangeApplyResult now i status actor res msg (mw_changes w) = (x, t)"
    and "status = ''applied'' \<or> status = ''failed''" and "set (mw_audit w) \<subseteq> set entries"
  shows "changeInv (w\<lparr>mw_changes := t, mw_audit := entries\<rparr>, rs)"
  using changeInv_guarded [OF inv assms(4) u [unfolded UpdateK8sManifestChangeApplyResult_def]] applyResult_keeps [OF _ assms(3,4)] by blast

lemma abort_inv:
  assumes "changeInv (w, rs)"
  shows "changeInv (snd (abortApply now i actor err reply w), rs)"
proof -
  obtain x t where u: "UpdateK8sManifestChangeApplyResult now i ''failed'' actor [(''error'', GStr err), (''status'', GStr ''failed'')] err (mw_changes w) = (x, t)"
    by fastforce
  from applyResult_inv [OF assms u, of "mw_audit w"] assms show ?thesis
    by (cases x) (simp_all add: abortApply_def finishManifestApplyFailure_def u)
qed

lemma finish_inv:
  assumes inv: "changeInv (w, rs)"
  shows "changeInv (snd (applyFinish now actor guard answer r w), rs)"
proof -
  have "changeInv (w\<lparr>mw_changes := t, mw_audit := auditAdmin actor ''k8s.manifest_change.apply'' (mc_ID r) (mw_audit w)\<rparr>, rs)"
    if "UpdateK8sManifestChangeApplyResult now (mc_ID r) ''applied'' actor res msg (mw_changes w) = (x, t)" for res msg x t
    using applyResult_inv [OF inv that _ audit_more] by simp
  moreover have "changeInv (w\<lparr>mw_changes := t\<rparr>, rs)"
    if "UpdateK8sManifestChangeApplyResult now (mc_ID r) ''failed'' actor res msg (mw_changes w) = (x, t)" for res msg x t
    using applyResult_inv [OF inv that, of "mw_audit w"] by simp
  ultimately show ?thesis using inv
    by (auto simp: applyFinish_def Let_def split: option.split prod.split sum.split)
qed

lemma persistVerification_inv:
  assumes inv: "changeInv (w, rs)" and st: "status = ''verified'' \<or> status = ''verify_failed''"
  shows "changeInv (snd (persistVerification now adminID i status resultStatus result w), rs)"
proof -
  obtain x t where u: "UpdateK8sManifestChangeVerifyResult now i status adminID result (''verification: '' @ resultStatus) (mw_changes w) = (x, t)"
    by fastforce
  from changeInv_guarded [OF inv audit_more u [unfolded UpdateK8sManifestChangeVerifyResult_def]] verifyResult_keeps [OF _ st audit_more]
  have new: "changeInv (w\<lparr>mw_changes := t, mw_audit := auditAdmin adminID ''k8s.manifest_change.verify'' i (mw_audit w)\<rparr>, rs)" by blast
  show ?thesis
  proof (cases x)
    case (Inl e)
    with inv show ?thesis unfolding persistVerification_def u by (cases e) simp_all
  next
    case (Inr y)
    with new show ?thesis unfolding persistVerification_def u by simp
  qed
qed

lemma verifyOutcome_status: "fst (verifyOutcome ob n m) = ''verified'' \<or> fst (verifyOutcome ob n m) = ''verify_failed''"
  by (simp add: verifyOutcome_def)

lemma verify_inv: "changeInv (w, rs) \<Longrightarrow> changeInv (snd (verifyK8sManifestChange cd venv now adminID r w), rs)"
  by (simp add: verifyK8sManifestChange_def Let_def case_prod_beta persistVerification_inv [OF _ verifyOutcome_status])

lemma rollback_inv:
  assumes inv: "changeInv (w, rs)"
  shows "changeInv (snd (rollbackK8sManifestChange cd now freshID adminID r w), rs)"
proof -
  let ?rb = "rollbackOf cd freshID adminID r"
  let ?result = "''rollback request: '' @ freshID"
  let ?entries = "auditAdmin adminID ''k8s.manifest_change.rollback'' (mc_ID r) (mw_audit w)"
  let ?t1 = "updateWhere (mc_ID r) (\<lambda>x. rollbackable (mc_Status x)) (markRollback now ?result) (mw_changes w)"
  have marked: "changeInv (w\<lparr>mw_changes := ?t1, mw_audit := ?entries\<rparr>, rs)"
    by (rule changeInv_update [OF inv audit_more map_of_updateWhere]) (rule rollback_keeps [OF _ audit_more])
  have none: "map_of ?t1 (mc_ID ?rb) = None" if "map_of (mw_changes w) (mc_ID ?rb) = None"
    using that by (auto simp: map_of_updateWhere)
  have "changeInv (w\<lparr>mw_changes := ?t1 @ [(mc_ID ?rb, changeDefaults now ?rb)], mw_audit := ?entries\<rparr>, rs)"
    if "map_of (mw_changes w) (mc_ID ?rb) = None"
    using changeInv_insert [OF marked, of ?entries ?rb now] none [OF that] by (simp add: rollbackOf_def draftRequest_def)
  with inv rollback_cases [of now "mc_ID r" ?result ?rb "mw_changes w"] show ?thesis
    by (auto simp: rollbackK8sManifestChange_def Let_def missReason_def)
qed

text \<open>Sending: the row was claimed, so the command is that of an authorised row.\<close>

lemma claim_row:
  assumes "UpdateK8sManifestChangeStatus now i ''running'' actor result t = (Inr x, t')"
  shows "\<exists>q. map_of t i = Some q \<and> mc_Status q \<in> set (statusFrom ''running'') \<and>
     map_of t' i = Some (setChangeStatus now ''running'' actor result q)"
proof -
  have g: "guardedUpdate i (\<lambda>r. mc_Status r \<in> set (statusFrom ''running'')) (setChangeStatus now ''running'' actor result) t = (Inr x, t')"
    using assms by (simp add: UpdateK8sManifestChangeStatus_def statusFrom_def)
  from g guardedUpdate_ok [of i "\<lambda>r. mc_Status r \<in> set (statusFrom ''running'')" "setChangeStatus now ''running'' actor result" t x]
  obtain q where q: "map_of t i = Some q" "mc_Status q \<in> set (statusFrom ''running'')" by auto
  with g guardedUpdate_table [of i "\<lambda>r. mc_Status r \<in> set (statusFrom ''running'')" "setChangeStatus now ''running'' actor result" t i]
  show ?thesis by simp
qed

lemma send_inv:
  assumes "changeInv (w, rs)" and "map_of (mw_changes w) (mc_ID r) = Some q" and "sameChange r q" and "mc_Status q = ''running''"
    and "mc_ID r \<notin> cmd_ID ` set (mw_sent w)"
  shows "changeInv (w\<lparr>mw_sent := mw_sent w @ [commandOf r]\<rparr>, rs)"
proof -
  from assms(1,2) have "rowOK (mw_audit w) q" by (simp add: changeInv_def)
  with assms(4) have "authorisedChange (mw_audit w) q" "closedOrLaunched (mc_Status q)" by (simp_all add: rowOK_def)
  moreover have "commandOf r = commandOf q" "cmd_ID (commandOf r) = mc_ID r" using command_same [OF assms(3)] by (simp_all add: commandOf_def)
  ultimately show ?thesis using assms(1,2,5) by (auto simp: changeInv_def)
qed

lemma unsent:
  assumes "changeInv (w, rs)" and "map_of (mw_changes w) i = Some q" and "mc_Status q \<in> set (statusFrom ''running'')"
  shows "i \<notin> cmd_ID ` set (mw_sent w)"
proof
  assume "i \<in> cmd_ID ` set (mw_sent w)"
  then obtain c where c: "c \<in> set (mw_sent w)" "cmd_ID c = i" by blast
  with assms(1,2) have "closedOrLaunched (mc_Status q)" by (auto simp: changeInv_def)
  with assms(3) show False by (auto simp: statusFrom_def)
qed

lemma apply_inv:
  assumes inv: "changeInv (w, rs)" and r: "r \<in> set rs"
  shows "changeInv (snd (applyBegin cd env now adminID force r w), rs)"
proof -
  obtain x t where u: "UpdateK8sManifestChangeStatus now (mc_ID r) ''running'' adminID ''SSA apply running'' (mw_changes w) = (x, t)"
    by fastforce
  show ?thesis
  proof (cases "applyChecks r = None \<and> \<not> manifestChangeDriftBlocks (manifestChangeDriftGuard cd env r) force \<and> (\<exists>y. x = Inr y)")
    case False
    with inv show ?thesis by (auto simp: applyBegin_def u split: option.split sum.split store_error.split)
  next
    case True
    then obtain y where x: "x = Inr y" by blast
    have "guardedUpdate (mc_ID r) (\<lambda>r. mc_Status r \<in> set (statusFrom ''running''))
        (setChangeStatus now ''running'' adminID ''SSA apply running'') (mw_changes w) = (x, t)"
      using u by (simp add: UpdateK8sManifestChangeStatus_def statusFrom_def)
    from changeInv_guarded [OF inv subset_refl this] running_keeps [OF _ subset_refl]
    have run: "changeInv (w\<lparr>mw_changes := t\<rparr>, rs)" by simp
    obtain q where q: "map_of (mw_changes w) (mc_ID r) = Some q" "mc_Status q \<in> set (statusFrom ''running'')" "map_of t (mc_ID r) = Some (setChangeStatus now ''running'' adminID ''SSA apply running'' q)"
      using claim_row u x by metis
    obtain q' where "map_of (mw_changes w) (mc_ID r) = Some q'" "sameChange r q'" using read_row [OF inv r] by metis
    with q(1) have "sameChange r (setChangeStatus now ''running'' adminID ''SSA apply running'' q)"
      using sameChange_trans setChangeStatus_fields(1) by auto
    with send_inv [OF run] q(3) unsent [OF inv q(1,2)] have "changeInv (w\<lparr>mw_changes := t, mw_sent := mw_sent w @ [commandOf r]\<rparr>, rs)" by simp
    with True x run abort_inv [OF run] show ?thesis
      by (simp add: applyBegin_def u Let_def split: option.split client_state.split)
  qed
qed

lemma read_inv:
  assumes "changeInv (w, rs)" and "GetK8sManifestChangeRequest i (mw_changes w) = Inr r"
  shows "changeInv (w, r # rs)"
proof -
  have "map_of (mw_changes w) i = Some r"
    using assms(2) by (auto simp: GetK8sManifestChangeRequest_def getRow_def split: option.splits)
  with assms(1) show ?thesis by (auto simp: changeInv_def rowOK_def)
qed

lemma changeStep_inv: "changeStep s s' \<Longrightarrow> changeInv s \<Longrightarrow> changeInv s'"
  by (induction rule: changeStep.induct)
    (auto intro: read_inv create_inv validate_inv decide_inv apply_inv finish_inv verify_inv rollback_inv)

lemma changeSteps_inv: "changeStep\<^sup>*\<^sup>* s s' \<Longrightarrow> changeInv s \<Longrightarrow> changeInv s'"
  by (induction rule: rtranclp_induct) (auto intro: changeStep_inv)

lemma emptyWorld_inv: "changeInv (emptyWorld, [])"
  by (simp add: changeInv_def emptyWorld_def)

section \<open>Completion\<close>

text \<open>One administrator takes a request through the handlers, reading it again before each.\<close>

definition readChange :: "string \<Rightarrow> change_world \<Rightarrow> K8sManifestChangeRequest option" where
  "readChange i w = map_of (mw_changes w) i"

definition reviewChange :: "codec \<Rightarrow> change_env \<Rightarrow> string \<Rightarrow> string \<Rightarrow> string \<Rightarrow> change_world \<Rightarrow> change_world" where
  "reviewChange cd env now adminID i w =
     (case readChange i w of None \<Rightarrow> w
      | Some r \<Rightarrow>
          let w' = snd (validateK8sManifestChange cd env now adminID r w) in
          (case readChange i w' of
             Some r' \<Rightarrow> if mc_Status r' = ''approval_required'' then snd (decideK8sManifestChange now adminID i ''approve'' [] [] None w') else w'
           | None \<Rightarrow> w'))"

definition rolloutChange :: "codec \<Rightarrow> change_env \<Rightarrow> string \<Rightarrow> string \<Rightarrow> string \<Rightarrow> change_world \<Rightarrow> change_world" where
  "rolloutChange cd env now adminID i w =
     (case readChange i w of None \<Rightarrow> w
      | Some r \<Rightarrow>
          (case applyBegin cd env now adminID False r w of
             (Inl _, w') \<Rightarrow> w'
           | (Inr _, w') \<Rightarrow> snd (applyFinish now adminID (manifestChangeDriftGuard cd env r) None r w')))"

definition confirmChange :: "codec \<Rightarrow> verify_env \<Rightarrow> string \<Rightarrow> string \<Rightarrow> string \<Rightarrow> change_world \<Rightarrow> change_world" where
  "confirmChange cd venv now adminID i w =
     (case readChange i w of None \<Rightarrow> w | Some r \<Rightarrow> snd (verifyK8sManifestChange cd venv now adminID r w))"

definition completeChange :: "codec \<Rightarrow> change_env \<Rightarrow> verify_env \<Rightarrow> string \<Rightarrow> string \<Rightarrow> string \<Rightarrow> change_world \<Rightarrow> change_world" where
  "completeChange cd env venv now adminID i w =
     confirmChange cd venv now adminID i (rolloutChange cd env now adminID i (reviewChange cd env now adminID i w))"

text \<open>The gates that let a request pass: it parses, no policy denies it, it is no Secret payload, the
  dry run succeeds, the target is as it was, and afterwards it is healthy without incidents.\<close>

definition gatesPass :: "codec \<Rightarrow> change_env \<Rightarrow> K8sPolicy list \<Rightarrow> gmap \<Rightarrow> K8sManifestChangeRequest \<Rightarrow> bool" where
  "gatesPass cd env policies doc r \<longleftrightarrow>
     cd_decode cd (mc_AfterYAML r) = Some [doc] \<and> ce_policies env = Inr policies \<and>
     \<not> (equalFold (mc_Kind r) ''Secret'' \<and> manifestContainsSecretPayload doc) \<and>
     \<not> sp_Denied (AnalyzeStackManifest [doc] (toAnalyzerPolicies policies)) \<and>
     ce_cluster env (mc_ClusterID r) = None \<and> ce_client env = ApplierReady \<and> ce_dryRun env (commandOf r) = None \<and>
     dg_status (manifestChangeDriftGuard cd env r) = ''passed''"

definition settles :: "codec \<Rightarrow> verify_env \<Rightarrow> gmap \<Rightarrow> K8sManifestChangeRequest \<Rightarrow> bool" where
  "settles cd venv live r \<longleftrightarrow> ve_live venv = LiveObject live \<and>
     \<not> fst (configChangeHealth (cd_sprint cd) (manifestInventoryFromLive r live)) \<and> \<not> list_ex (incidentOf r) (ve_incidents venv)"

lemma guarded_pass:
  assumes "map_of t i = Some r" and "guard r"
  obtains t' where "guardedUpdate i guard f t = (Inr (f r), t')" "map_of t' i = Some (f r)"
proof
  show "guardedUpdate i guard f t = (Inr (f r), snd (guardedUpdate i guard f t))"
    using guardedUpdate_ok [of i guard f t "f r"] assms by (metis prod.collapse)
  show "map_of (snd (guardedUpdate i guard f t)) i = Some (f r)" using assms by (simp add: guardedUpdate_table)
qed

lemma drift_same: "sameChange r r' \<Longrightarrow> mc_Impact r' = mc_Impact r \<Longrightarrow> manifestChangeDriftGuard cd env r' = manifestChangeDriftGuard cd env r"
  by (simp add: manifestChangeDriftGuard_def manifestChangeOperation_def sameChange_def Let_def split: sum.split store_error.split)

lemma passed_proceeds: "dg_status (manifestChangeDriftGuard cd env r) = ''passed'' \<Longrightarrow> \<not> manifestChangeDriftBlocks (manifestChangeDriftGuard cd env r) force"
proof -
  have "toLower (trimSpace ''passed'') = ''passed''" by code_simp
  moreover assume "dg_status (manifestChangeDriftGuard cd env r) = ''passed''"
  moreover from this have "\<not> dg_hard_block (manifestChangeDriftGuard cd env r)"
    by (auto simp: manifestChangeDriftGuard_def mkGuard_def Let_def split: if_splits sum.splits store_error.splits)
  ultimately show ?thesis by (simp add: manifestChangeDriftBlocks_def)
qed

lemma proceeds_inventory:
  assumes "\<not> manifestChangeDriftBlocks (manifestChangeDriftGuard cd env r) force"
  shows "case ce_inventory env (mc_ClusterID r) (mc_Kind r) (mc_Namespace r) (mc_Name r) of
       Inl ErrNotFound \<Rightarrow> manifestChangeOperation r = ''create''
     | Inl _ \<Rightarrow> force
     | Inr item \<Rightarrow> manifestChangeOperation r = ''update'' \<and>
         (mc_TargetUID r = [] \<or> iv_UID item = [] \<or> mc_TargetUID r = iv_UID item) \<and>
         (force \<or> mc_BeforeHash r = [] \<or> liveHash cd item = [] \<or> mc_BeforeHash r = liveHash cd item)"
proof -
  have op: "manifestChangeOperation r = ''create'' \<or> manifestChangeOperation r = ''update''" by (simp add: manifestChangeOperation_def)
  have drift: "manifestChangeDriftBlocks (mkGuard ''drift'' False m) force = (\<not> force)"
    "manifestChangeDriftBlocks (mkGuard ''unknown'' False m) force = (\<not> force)" "manifestChangeDriftBlocks (mkGuard st True m) force" for m st
  proof -
    have "toLower (trimSpace ''drift'') = ''drift''" "toLower (trimSpace ''unknown'') = ''unknown''" by code_simp+
    then show "manifestChangeDriftBlocks (mkGuard ''drift'' False m) force = (\<not> force)"
      "manifestChangeDriftBlocks (mkGuard ''unknown'' False m) force = (\<not> force)" "manifestChangeDriftBlocks (mkGuard st True m) force"
      by (simp_all add: manifestChangeDriftBlocks_def mkGuard_def)
  qed
  show ?thesis using assms op
    by (auto simp: manifestChangeDriftGuard_def drift Let_def split: sum.splits store_error.splits if_splits)
qed

lemma verdict_pass:
  assumes "gatesPass cd env policies doc r"
  shows "vd_status (validateVerdict env policies r doc) =
    (if vd_approval (validateVerdict env policies r doc) then ''approval_required'' else ''validated'')"
  using assms unfolding gatesPass_def validateVerdict_def dryRunOf_def Let_def by simp

lemma validate_pass:
  assumes row: "map_of (mw_changes w) (mc_ID r) = Some r" and draft: "mc_Status r = ''draft''" and gates: "gatesPass cd env policies doc r"
  obtains r' where "map_of (mw_changes (snd (validateK8sManifestChange cd env now adminID r w))) (mc_ID r) = Some r'" "sameChange r r'"
    "mc_Impact r' = mc_Impact r" "mc_Status r' = (if mc_RequiresApproval r' then ''approval_required'' else ''validated'')"
    "mw_sent (snd (validateK8sManifestChange cd env now adminID r w)) = mw_sent w"
proof -
  define v where "v = validateVerdict env policies r doc"
  define f :: "K8sManifestChangeRequest \<Rightarrow> K8sManifestChangeRequest" where "f = (\<lambda>x. x\<lparr>mc_Status := vd_status v, mc_RiskLevel := firstStoreNonEmpty [vd_risk v, ''low''], mc_RequiresApproval := vd_approval v,
    mc_Impact := mc_Impact r, mc_Validation := validationMap v, mc_Result := vd_result v, mc_UpdatedAt := now\<rparr>)"
  have st: "vd_status v = (if vd_approval v then ''approval_required'' else ''validated'')" using verdict_pass [OF gates] by (simp add: v_def)
  then have src: "mc_Status r \<in> set (analysisFrom (vd_status v))" by (simp add: draft analysisFrom_def)
  obtain t where t: "guardedUpdate (mc_ID r) (\<lambda>x. mc_Status x \<in> set (analysisFrom (vd_status v))) f (mw_changes w) = (Inr (f r), t)"
    "map_of t (mc_ID r) = Some (f r)"
    using guarded_pass [where guard = "\<lambda>x. mc_Status x \<in> set (analysisFrom (vd_status v))", OF row src] by blast
  have u: "UpdateK8sManifestChangeAnalysis now (mc_ID r) (vd_status v) (vd_risk v) (vd_approval v) (mc_Impact r) (validationMap v) (vd_result v)
      (mw_changes w) = (Inr (f r), t)"
    using t(1) st by (simp add: UpdateK8sManifestChangeAnalysis_def f_def)
  have "snd (validateK8sManifestChange cd env now adminID r w) =
      w\<lparr>mw_changes := t, mw_audit := auditAdmin adminID ''k8s.manifest_change.validate'' (mc_ID r) (mw_audit w)\<rparr>"
    using gates by (simp add: gatesPass_def validateK8sManifestChange_def persistAnalysis_def u flip: v_def)
  with t(2) show thesis using that [of "f r"] by (simp add: f_def sameChange_def st)
qed

lemma approve_pass:
  assumes row: "map_of (mw_changes w) i = Some r" and st: "mc_Status r = ''approval_required''"
  shows "\<exists>r'. map_of (mw_changes (snd (decideK8sManifestChange now adminID i ''approve'' [] [] None w))) i = Some r' \<and> sameChange r r' \<and>
     mc_Impact r' = mc_Impact r \<and> mc_Status r' = ''approved'' \<and> mw_sent (snd (decideK8sManifestChange now adminID i ''approve'' [] [] None w)) = mw_sent w"
proof -
  have "affected i (\<lambda>r. mc_Status r = ''validated'' \<or> mc_Status r = ''approval_required'') (mw_changes w)"
    using assms by (simp add: affected_def)
  then show ?thesis
    using assms by (simp add: decideK8sManifestChange_def ApproveK8sManifestChangeWithAudit_def Let_def map_of_updateWhere sameChange_def)
qed

lemma review_pass:
  assumes row: "map_of (mw_changes w) (mc_ID r) = Some r" and draft: "mc_Status r = ''draft''" and gates: "gatesPass cd env policies doc r"
  obtains r' where "map_of (mw_changes (reviewChange cd env now adminID (mc_ID r) w)) (mc_ID r) = Some r'" "sameChange r r'"
    "mc_Impact r' = mc_Impact r" "applyChecks r' = None" "mc_Status r' \<in> set (statusFrom ''running'')"
    "mw_sent (reviewChange cd env now adminID (mc_ID r) w) = mw_sent w"
proof -
  obtain r1 where r1: "map_of (mw_changes (snd (validateK8sManifestChange cd env now adminID r w))) (mc_ID r) = Some r1" "sameChange r r1"
    "mc_Impact r1 = mc_Impact r" "mc_Status r1 = (if mc_RequiresApproval r1 then ''approval_required'' else ''validated'')"
    "mw_sent (snd (validateK8sManifestChange cd env now adminID r w)) = mw_sent w"
    using validate_pass [OF assms, of now adminID] by metis
  let ?w1 = "snd (validateK8sManifestChange cd env now adminID r w)"
  show thesis
  proof (cases "mc_RequiresApproval r1")
    case False
    then have "reviewChange cd env now adminID (mc_ID r) w = ?w1" using row r1(1,4) by (simp add: reviewChange_def readChange_def)
    with r1 False show thesis by (intro that [of r1]) (simp_all add: applyChecks_def statusFrom_def)
  next
    case True
    with r1(4) have st: "mc_Status r1 = ''approval_required''" by simp
    have eq: "reviewChange cd env now adminID (mc_ID r) w = snd (decideK8sManifestChange now adminID (mc_ID r) ''approve'' [] [] None ?w1)"
      using row r1(1) st by (simp add: reviewChange_def readChange_def)
    from approve_pass [OF r1(1) st, of now adminID] obtain r2 where
      "map_of (mw_changes (reviewChange cd env now adminID (mc_ID r) w)) (mc_ID r) = Some r2" "sameChange r1 r2" "mc_Impact r2 = mc_Impact r1"
      "mc_Status r2 = ''approved''" "mw_sent (reviewChange cd env now adminID (mc_ID r) w) = mw_sent ?w1" unfolding eq by blast
    with r1 show thesis by (intro that [of r2]) (auto simp: applyChecks_def statusFrom_def intro: sameChange_trans)
  qed
qed

lemma rollout_pass:
  assumes row: "map_of (mw_changes w) (mc_ID r) = Some r" and ok: "applyChecks r = None" and st: "mc_Status r \<in> set (statusFrom ''running'')"
    and free: "\<not> manifestChangeDriftBlocks (manifestChangeDriftGuard cd env r) False" and env: "ce_cluster env (mc_ClusterID r) = None" "ce_client env = ApplierReady"
  obtains r' where "map_of (mw_changes (rolloutChange cd env now adminID (mc_ID r) w)) (mc_ID r) = Some r'" "sameChange r r'"
    "mc_Status r' = ''applied''" "mw_sent (rolloutChange cd env now adminID (mc_ID r) w) = mw_sent w @ [commandOf r]"
proof -
  let ?f = "setChangeStatus now ''running'' adminID ''SSA apply running''"
  obtain t where t: "guardedUpdate (mc_ID r) (\<lambda>x. mc_Status x \<in> set (statusFrom ''running'')) ?f (mw_changes w) = (Inr (?f r), t)"
    "map_of t (mc_ID r) = Some (?f r)"
    using guarded_pass [where guard = "\<lambda>x. mc_Status x \<in> set (statusFrom ''running'')", OF row st] by blast
  then have u: "UpdateK8sManifestChangeStatus now (mc_ID r) ''running'' adminID ''SSA apply running'' (mw_changes w) = (Inr (?f r), t)"
    by (simp add: UpdateK8sManifestChangeStatus_def statusFrom_def)
  have b: "applyBegin cd env now adminID False r w = (Inr (commandOf r), w\<lparr>mw_changes := t, mw_sent := mw_sent w @ [commandOf r]\<rparr>)"
    by (simp add: applyBegin_def ok free u env)
  define res where "res = [(''status'', GStr ''applied''), (''field_manager'', GStr ''clustara''), (''applied_at'', GStr now),
    (''drift_guard'', GMap [(''status'', GStr (dg_status (manifestChangeDriftGuard cd env r)))])]"
  define g :: "K8sManifestChangeRequest \<Rightarrow> K8sManifestChangeRequest" where "g = (\<lambda>x. x\<lparr>mc_Status := ''applied'', mc_ApplyResult := res, mc_Result := ''SSA apply succeeded'', mc_AppliedBy := adminID,
    mc_AppliedAt := now, mc_UpdatedAt := now\<rparr>)"
  have run: "mc_Status (?f r) = ''running''" by simp
  obtain t' where t': "guardedUpdate (mc_ID r) (\<lambda>x. mc_Status x = ''running'') g t = (Inr (g (?f r)), t')" "map_of t' (mc_ID r) = Some (g (?f r))"
    using guarded_pass [where guard = "\<lambda>x. mc_Status x = ''running''", OF t(2) run] by blast
  then have u': "UpdateK8sManifestChangeApplyResult now (mc_ID r) ''applied'' adminID res ''SSA apply succeeded'' t = (Inr (g (?f r)), t')"
    by (simp add: UpdateK8sManifestChangeApplyResult_def g_def)
  have eq: "rolloutChange cd env now adminID (mc_ID r) w = w\<lparr>mw_changes := t', mw_sent := mw_sent w @ [commandOf r],
      mw_audit := auditAdmin adminID ''k8s.manifest_change.apply'' (mc_ID r) (mw_audit w)\<rparr>"
    using row by (simp add: rolloutChange_def readChange_def b applyFinish_def Let_def u' flip: res_def)
  have "sameChange r (g (?f r))" by (simp add: g_def setChangeStatus_def sameChange_def Let_def)
  then show thesis using that [of "g (?f r)"] t'(2) by (simp add: eq) (simp add: g_def)
qed

lemma settles_same: "sameChange r r' \<Longrightarrow> settles cd venv live r' = settles cd venv live r"
  by (simp add: settles_def sameChange_def manifestInventoryFromLive_def incidentOf_def [abs_def] Let_def)

lemma confirm_pass:
  assumes row: "map_of (mw_changes w) (mc_ID r) = Some r" and st: "mc_Status r = ''applied''" and ok: "settles cd venv live r"
  shows "\<exists>r'. map_of (mw_changes (confirmChange cd venv now adminID (mc_ID r) w)) (mc_ID r) = Some r' \<and> sameChange r r' \<and>
     mc_Status r' = ''verified'' \<and> mw_sent (confirmChange cd venv now adminID (mc_ID r) w) = mw_sent w"
proof -
  have persist: "\<exists>r'. map_of (mw_changes (snd (persistVerification now adminID (mc_ID r) ''verified'' rst result w))) (mc_ID r) = Some r' \<and> sameChange r r' \<and>
     mc_Status r' = ''verified'' \<and> mw_sent (snd (persistVerification now adminID (mc_ID r) ''verified'' rst result w)) = mw_sent w" for rst result
  proof -
    define f :: "K8sManifestChangeRequest \<Rightarrow> K8sManifestChangeRequest" where "f = (\<lambda>x. x\<lparr>mc_Status := ''verified'', mc_VerifyResult := result, mc_Result := ''verification: '' @ rst, mc_VerifiedBy := adminID,
      mc_VerifiedAt := now, mc_UpdatedAt := now\<rparr>)"
    have guard: "mc_Status r \<in> set [''applied'', ''verify_failed'']" by (simp add: st)
    obtain t where t: "guardedUpdate (mc_ID r) (\<lambda>x. mc_Status x \<in> set [''applied'', ''verify_failed'']) f (mw_changes w) = (Inr (f r), t)"
      "map_of t (mc_ID r) = Some (f r)"
      using guarded_pass [where guard = "\<lambda>x. mc_Status x \<in> set [''applied'', ''verify_failed'']", OF row guard] by blast
    have u: "UpdateK8sManifestChangeVerifyResult now (mc_ID r) ''verified'' adminID result (''verification: '' @ rst) (mw_changes w) = (Inr (f r), t)"
      unfolding UpdateK8sManifestChangeVerifyResult_def f_def [symmetric] by (rule t(1))
    show ?thesis unfolding persistVerification_def u using t(2) by (simp add: f_def sameChange_def)
  qed
  have "ob_refreshed ob \<and> ob_found ob \<and> \<not> ob_unhealthy ob" if "ob = observeChange (cd_sprint cd) venv appliedAt r" for ob appliedAt
    using ok that by (simp add: observeChange_def settles_def Let_def)
  moreover have "filter (incidentOf r) (ve_incidents venv) = []" using ok by (simp add: settles_def list_ex_iff filter_empty_conv)
  ultimately have "fst (verifyOutcome (observeChange (cd_sprint cd) venv appliedAt r) (length (filter (incidentOf r) (ve_incidents venv))) n) = ''verified''"
    for appliedAt n by (auto simp: verifyOutcome_def)
  then show ?thesis using row st persist
    by (simp add: confirmChange_def readChange_def verifyK8sManifestChange_def Let_def case_prod_beta)
qed

section \<open>Where the workflow does not do what it means to\<close>

text \<open>What is applied is the ledger's masked text: two edits that set different values of an
  environment variable send the same manifest, with the mask as the value.\<close>

lemma applied_manifest_is_masked:
  "cmd_YAML (commandOf (buildUpdate cd freshID actor clusterID namespace kind apiVersion reason idemKey policies item afterDoc)) =
     cd_encode cd (sanitizeManifestDocForLedger afterDoc)"
  "cmd_YAML (commandOf (buildUpdate cd freshID actor clusterID namespace kind apiVersion reason idemKey policies item (exampleDeployment ''debug''))) =
   cmd_YAML (commandOf (buildUpdate cd freshID actor clusterID namespace kind apiVersion reason idemKey policies item (exampleDeployment ''info'')))"
proof -
  show sends: "cmd_YAML (commandOf (buildUpdate cd freshID actor clusterID namespace kind apiVersion reason idemKey policies item afterDoc)) =
     cd_encode cd (sanitizeManifestDocForLedger afterDoc)" for afterDoc
    by (simp add: buildUpdate_def commandOf_def Let_def split: prod.splits)
  have "sanitizeManifestDocForLedger (exampleDeployment ''debug'') = sanitizeManifestDocForLedger (exampleDeployment ''info'')" by code_simp
  then show "cmd_YAML (commandOf (buildUpdate cd freshID actor clusterID namespace kind apiVersion reason idemKey policies item (exampleDeployment ''debug''))) =
   cmd_YAML (commandOf (buildUpdate cd freshID actor clusterID namespace kind apiVersion reason idemKey policies item (exampleDeployment ''info'')))"
    unfolding sends by simp
qed

text \<open>A creation has no earlier manifest, so a rollback of it holds an empty one: where the YAML
  decoder finds no document in an empty text, no such rollback can be validated.\<close>

lemma rollback_of_create_cannot_validate:
  assumes "cd_decode cd [] = Some []"
    and "r = buildCreate cd freshID actor clusterID namespace kind apiVersion name reason idemKey policies afterDoc"
  shows "validateK8sManifestChange cd env now adminID (rollbackOf cd freshID' adminID' r) w =
    (Inl (badRequest ''stored manifest parse error'' ''manifest_parse_failed''), w)"
proof -
  have "mc_AfterYAML (rollbackOf cd freshID' adminID' r) = []"
    by (simp add: assms(2) rollbackOf_def buildCreate_def draftRequest_def Let_def split: prod.splits)
  then show ?thesis by (simp add: validateK8sManifestChange_def assms(1))
qed

section \<open>An example request\<close>

definition demoDoc :: gmap where
  "demoDoc = [(''apiVersion'', GStr ''v1''), (''kind'', GStr ''ServiceAccount''), (''metadata'', GMap [(''name'', GStr ''ci''), (''namespace'', GStr ''dev'')])]"

definition demoCodec :: codec where
  "demoCodec = \<lparr>cd_decode = (\<lambda>_. Some [demoDoc]), cd_encode = (\<lambda>_. ''y''), cd_hash = (\<lambda>x. ''h'' @ x), cd_num = (\<lambda>_. []),
     cd_maskText = (\<lambda>x. x), cd_sprint = (\<lambda>_. [])\<rparr>"

definition demoEnv :: change_env where
  "demoEnv = \<lparr>ce_policies = Inr [], ce_inventory = (\<lambda>_ _ _ _. Inl ErrNotFound), ce_cluster = (\<lambda>_. None), ce_client = ApplierReady,
     ce_dryRun = (\<lambda>_. None)\<rparr>"

definition demoInput :: manifestChangeCreateInput where
  "demoInput = \<lparr>ci_ClusterID = ''c'', ci_Namespace = [], ci_Kind = [], ci_APIVersion = [], ci_Name = [], ci_Operation = ''create'',
     ci_AfterYAML = ''y'', ci_Reason = [], ci_IdempotencyKey = []\<rparr>"

definition demoCreated :: change_world where
  "demoCreated = snd (createK8sManifestChange demoCodec demoEnv ''1'' ''m'' ''ann'' [] (Some demoInput) emptyWorld)"

definition firstChange :: "change_world \<Rightarrow> K8sManifestChangeRequest" where
  "firstChange w = (case mw_changes w of (_, r) # _ \<Rightarrow> r | [] \<Rightarrow> draftRequest)"

definition demoValidated :: change_world where
  "demoValidated = (let w = demoCreated in snd (validateK8sManifestChange demoCodec demoEnv ''2'' ''ann'' (firstChange w) w))"

definition demoApproved :: change_world where
  "demoApproved = snd (decideK8sManifestChange ''3'' ''bob'' ''m'' ''approve'' [] [] None demoValidated)"

definition demoApply :: "(http_error + apply_command) \<times> change_world" where
  "demoApply = (let w = demoApproved in applyBegin demoCodec demoEnv ''4'' ''ann'' False (firstChange w) w)"

definition demoVerify :: verify_env where
  "demoVerify = \<lparr>ve_items = [], ve_events = [], ve_incidents = [], ve_live = LiveObject demoDoc, ve_parse = (\<lambda>_. None)\<rparr>"

lemma demo_first:
  assumes "mw_changes w = [(''m'', r)]"
  shows "GetK8sManifestChangeRequest ''m'' (mw_changes w) = Inr (firstChange w)"
  by (simp add: assms firstChange_def GetK8sManifestChangeRequest_def getRow_def)

lemma demo_read: "length (mw_changes w) = 1 \<Longrightarrow> map fst (mw_changes w) = [''m''] \<Longrightarrow> changeStep (w, rs) (w, firstChange w # rs)"
  by (rule step_read [where i = "''m''"]) (auto simp: length_Suc_conv intro: demo_first)

lemma demo_facts:
  "length (mw_changes demoCreated) = 1" "map fst (mw_changes demoCreated) = [''m'']"
  "length (mw_changes demoApproved) = 1" "map fst (mw_changes demoApproved) = [''m'']" "map cmd_ID (mw_sent (snd demoApply)) = [''m'']" "\<not> isl (fst demoApply)"
proof -
  have "map fst (mw_changes demoCreated) = [''m''] \<and> map fst (mw_changes demoApproved) = [''m''] \<and> map cmd_ID (mw_sent (snd demoApply)) = [''m''] \<and> \<not> isl (fst demoApply)"
    by code_simp
  then show "length (mw_changes demoCreated) = 1" "map fst (mw_changes demoCreated) = [''m'']"
    "length (mw_changes demoApproved) = 1" "map fst (mw_changes demoApproved) = [''m'']" "map cmd_ID (mw_sent (snd demoApply)) = [''m'']" "\<not> isl (fst demoApply)"
    by (auto simp: Cons_eq_map_conv map_eq_Cons_conv)
qed

lemma demo_reachable: "changeStep\<^sup>*\<^sup>* (emptyWorld, []) (snd demoApply, [firstChange demoApproved, firstChange demoCreated])"
proof -
  have "changeStep (emptyWorld, []) (demoCreated, [])" unfolding demoCreated_def by (rule step_create)
  moreover have "changeStep (demoCreated, []) (demoCreated, [firstChange demoCreated])" by (rule demo_read) (rule demo_facts)+
  moreover have "changeStep (demoCreated, [firstChange demoCreated]) (demoValidated, [firstChange demoCreated])"
    unfolding demoValidated_def Let_def by (rule step_validate) simp
  moreover have "changeStep (demoValidated, [firstChange demoCreated]) (demoApproved, [firstChange demoCreated])"
    unfolding demoApproved_def by (rule step_decide) simp
  moreover have "changeStep (demoApproved, [firstChange demoCreated]) (demoApproved, [firstChange demoApproved, firstChange demoCreated])"
    by (rule demo_read) (rule demo_facts)+
  moreover have "changeStep (demoApproved, [firstChange demoApproved, firstChange demoCreated]) (snd demoApply, [firstChange demoApproved, firstChange demoCreated])"
    unfolding demoApply_def Let_def by (rule step_apply) simp
  ultimately show ?thesis by (meson rtranclp.rtrancl_into_rtrancl rtranclp.rtrancl_refl)
qed

section \<open>Properties\<close>





text \<open>
  C40. A draft that passes its gates is carried through to verified. When the stored manifest
  parses, no policy denies it, it holds no Secret payload, the dry run passes, the drift guard
  passes and the applied object is healthy and without incident, then validating, approving
  where required, applying and verifying it ends in \<^verbatim>\<open>verified\<close>, with the content unchanged and
  exactly its one command sent.
\<close>

theorem passing_change_completes:
  assumes "map_of (mw_changes w) (mc_ID r) = Some r" and "mc_Status r = ''draft''"
    and "gatesPass cd env policies doc r" and "settles cd venv live r"
  shows "\<exists>r'. map_of (mw_changes (completeChange cd env venv now adminID (mc_ID r) w)) (mc_ID r) = Some r' \<and>
    mc_Status r' = ''verified'' \<and> sameChange r r' \<and> mw_sent (completeChange cd env venv now adminID (mc_ID r) w) = mw_sent w @ [commandOf r]"
proof -
  let ?w1 = "reviewChange cd env now adminID (mc_ID r) w"
  obtain r1 where r1: "map_of (mw_changes ?w1) (mc_ID r) = Some r1" "sameChange r r1" "mc_Impact r1 = mc_Impact r" "applyChecks r1 = None"
    "mc_Status r1 \<in> set (statusFrom ''running'')" "mw_sent ?w1 = mw_sent w"
    using review_pass [OF assms(1-3)] by metis
  have i1: "mc_ID r1 = mc_ID r" "mc_ClusterID r1 = mc_ClusterID r" using r1(2) by (simp_all add: sameChange_def)
  have "\<not> manifestChangeDriftBlocks (manifestChangeDriftGuard cd env r1) False"
    using assms(3) drift_same [OF r1(2,3), of cd env] passed_proceeds by (simp add: gatesPass_def)
  moreover have "ce_cluster env (mc_ClusterID r1) = None" "ce_client env = ApplierReady" using assms(3) i1 by (simp_all add: gatesPass_def)
  ultimately obtain r2 where r2: "map_of (mw_changes (rolloutChange cd env now adminID (mc_ID r) ?w1)) (mc_ID r) = Some r2" "sameChange r1 r2"
    "mc_Status r2 = ''applied''" "mw_sent (rolloutChange cd env now adminID (mc_ID r) ?w1) = mw_sent w @ [commandOf r1]"
    using rollout_pass [of ?w1 r1] r1 i1(1) by metis
  have same: "sameChange r r2" using r1(2) r2(2) by (rule sameChange_trans)
  then have i2: "mc_ID r2 = mc_ID r" by (simp add: sameChange_def)
  have "settles cd venv live r2" using assms(4) settles_same [OF same] by simp
  from confirm_pass [OF _ r2(3) this, of "rolloutChange cd env now adminID (mc_ID r) ?w1" now adminID] r2(1) i2
  obtain r3 where "map_of (mw_changes (completeChange cd env venv now adminID (mc_ID r) w)) (mc_ID r) = Some r3" "sameChange r2 r3"
    "mc_Status r3 = ''verified''" "mw_sent (completeChange cd env venv now adminID (mc_ID r) w) = mw_sent w @ [commandOf r1]"
    unfolding completeChange_def using r2(4) by auto
  then show ?thesis using same command_same [OF r1(2)] by (auto intro: sameChange_trans)
qed

theorem passing_change_completes_witness:
  "mc_Status (firstChange demoCreated) = ''draft'' \<and>
   (\<exists>r'. map_of (mw_changes (completeChange demoCodec demoEnv demoVerify ''5'' ''ann'' (mc_ID (firstChange demoCreated)) demoCreated))
       (mc_ID (firstChange demoCreated)) = Some r' \<and> mc_Status r' = ''verified'')"
proof -
  have "map_of (mw_changes demoCreated) (mc_ID (firstChange demoCreated)) = Some (firstChange demoCreated)" by code_simp
  moreover have draft: "mc_Status (firstChange demoCreated) = ''draft''" by code_simp
  moreover have "gatesPass demoCodec demoEnv [] demoDoc (firstChange demoCreated)" by code_simp
  moreover have "settles demoCodec demoVerify demoDoc (firstChange demoCreated)" by code_simp
  ultimately show ?thesis using passing_change_completes [where now = "''5''" and adminID = "''ann''"] draft by blast
qed

end
