(* ===== verification/Rollout_Store.thy ===== *)
theory Rollout_Store
  imports Action_Center
begin

text \<open>
  The rollout ledger of \<^verbatim>\<open>internal/store/k8s_rollout.go\<close>: the rows of the tables
  \<^verbatim>\<open>k8s_rollout_actions\<close>, \<^verbatim>\<open>k8s_rollout_events\<close>, \<^verbatim>\<open>k8s_rollout_pod_transitions\<close> and
  \<^verbatim>\<open>k8s_rollout_reconcile_leases\<close> beside the action requests they are linked to, every
  operation that changes them, and the migration that installs the lock on a rollout's target.
  A statement that would break a unique index fails as a whole; a transaction is a function
  \<open>rollout_db \<Rightarrow> store_error + rollout_db\<close>, and \<open>commit\<close> keeps the old state when it fails.
  The clock is an argument. Instants of a lease are integers (nanoseconds): the text the code
  writes and the SQL comparison that reads it back are taken to be exact.
\<close>

section \<open>Rows\<close>

record K8sRolloutAction =
  ro_ID :: string
  ro_ActionRequestID :: string
  ro_ClusterID :: string
  ro_Namespace :: string
  ro_ResourceKind :: string
  ro_ResourceName :: string
  ro_ResourceUID :: string
  ro_RequestedBy :: string
  ro_RequestedAt :: string
  ro_ApprovedBy :: string
  ro_ApprovedAt :: string
  ro_StartedAt :: string
  ro_CompletedAt :: string
  ro_Reason :: string
  ro_TicketNo :: string
  ro_ExecutionMode :: string
  ro_Status :: string
  ro_RiskLevel :: string
  ro_PreviousRevision :: string
  ro_TargetRevision :: string
  ro_PreviousSpecHash :: string
  ro_TargetSpecHash :: string
  ro_AutoRollback :: bool
  ro_TimeoutSeconds :: int
  ro_FailureReason :: string
  ro_DurationMS :: int
  ro_DesiredReplicas :: int
  ro_UpdatedReplicas :: int
  ro_ReadyReplicas :: int
  ro_AvailableReplicas :: int
  ro_UnavailableReplicas :: int
  ro_Precheck :: gmap
  ro_PreviousTemplate :: gmap
  ro_RollbackStatus :: string
  ro_RollbackStartedAt :: string
  ro_RollbackCompletedAt :: string
  ro_RollbackFailureReason :: string
  ro_CreatedAt :: string
  ro_UpdatedAt :: string

record K8sRolloutEvent =
  rv_ID :: string
  rv_ActionID :: string
  rv_SequenceNo :: nat
  rv_Status :: string
  rv_Stage :: string
  rv_Message :: string
  rv_Evidence :: gmap
  rv_ObservedAt :: string

record K8sRolloutPodTransition =
  rp_ID :: string
  rp_ActionID :: string
  rp_PodUID :: string
  rp_PodName :: string
  rp_NodeName :: string
  rp_Revision :: string
  rp_CreatedAt :: string
  rp_ScheduledAt :: string
  rp_ContainerStartedAt :: string
  rp_ReadyAt :: string
  rp_TerminatingAt :: string
  rp_DeletedAt :: string
  rp_Result :: string
  rp_FailureReason :: string
  rp_ObservedAt :: string

record rollout_lease =
  le_OwnerID :: string
  le_AcquiredAt :: int
  le_ExpiresAt :: int

type_synonym rollout_table = "K8sRolloutAction table"

record rollout_db =
  rd_actions :: action_table
  rd_rollouts :: rollout_table
  rd_events :: "K8sRolloutEvent table"
  rd_pods :: "K8sRolloutPodTransition table"
  rd_leases :: "rollout_lease table"

section \<open>The indexes\<close>

definition rollbackInFlight :: "string \<Rightarrow> bool" where
  "rollbackInFlight rs \<longleftrightarrow> rs \<in> set [''requested'', ''monitoring'', ''running'']"

definition primaryInFlight :: "string \<Rightarrow> bool" where
  "primaryInFlight st \<longleftrightarrow>
     st \<in> set [''requested'', ''pending'', ''approval_required'', ''approved'', ''running'', ''monitoring'', ''rollback_running'']"

definition rollbackOwed :: "K8sRolloutAction \<Rightarrow> bool" where
  "rollbackOwed r \<longleftrightarrow> ro_Status r \<in> set [''failed'', ''timed_out''] \<and> ro_AutoRollback r \<and> ro_RollbackStatus r = []"

definition k8sRolloutActiveTargetPredicate :: "K8sRolloutAction \<Rightarrow> bool" where
  "k8sRolloutActiveTargetPredicate r \<longleftrightarrow>
     ro_ResourceUID r \<noteq> [] \<and> (primaryInFlight (ro_Status r) \<or> rollbackInFlight (ro_RollbackStatus r) \<or> rollbackOwed r)"

definition targetKey :: "K8sRolloutAction \<Rightarrow> string \<times> string" where
  "targetKey r = (ro_ClusterID r, ro_ResourceUID r)"

text \<open>At most one active rollout per target, the index \<^verbatim>\<open>idx_k8s_rollout_one_active_target_v2\<close>, and
  at most one rollout per action request, \<^verbatim>\<open>idx_k8s_rollout_action_request\<close>.\<close>

definition oneActivePerTarget :: "rollout_table \<Rightarrow> bool" where
  "oneActivePerTarget t \<longleftrightarrow> distinct (map targetKey (filter k8sRolloutActiveTargetPredicate (map snd t)))"

definition rolloutIndexes :: "rollout_table \<Rightarrow> bool" where
  "rolloutIndexes t \<longleftrightarrow> oneActivePerTarget t \<and> uniqueBy ro_ActionRequestID t"

section \<open>Transactions\<close>

type_synonym rollout_tx = "rollout_db \<Rightarrow> store_error + rollout_db"

definition andThen :: "rollout_tx \<Rightarrow> rollout_tx \<Rightarrow> rollout_tx" where
  "andThen f g db = (case f db of Inl e \<Rightarrow> Inl e | Inr db' \<Rightarrow> g db')"

definition commit :: "rollout_tx \<Rightarrow> rollout_db \<Rightarrow> (store_error + unit) \<times> rollout_db" where
  "commit f db = (case f db of Inl e \<Rightarrow> (Inl e, db) | Inr db' \<Rightarrow> (Inr (), db'))"

definition storeRollouts :: "rollout_table \<Rightarrow> rollout_tx" where
  "storeRollouts t db = (if rolloutIndexes t then Inr (db\<lparr>rd_rollouts := t\<rparr>) else Inl ErrDuplicateKey)"

text \<open>An update of one row and the error for \<^verbatim>\<open>RowsAffected() != 1\<close>.\<close>

definition updateActionRow ::
  "(action_table \<Rightarrow> store_error) \<Rightarrow> string \<Rightarrow> (K8sActionRequest \<Rightarrow> bool) \<Rightarrow> (K8sActionRequest \<Rightarrow> K8sActionRequest) \<Rightarrow> rollout_tx" where
  "updateActionRow missed k guard f db =
     (if affected k guard (rd_actions db) then Inr (db\<lparr>rd_actions := updateWhere k guard f (rd_actions db)\<rparr>)
      else Inl (missed (rd_actions db)))"

definition updateRolloutRow ::
  "(rollout_table \<Rightarrow> store_error) \<Rightarrow> string \<Rightarrow> (K8sRolloutAction \<Rightarrow> bool) \<Rightarrow> (K8sRolloutAction \<Rightarrow> K8sRolloutAction) \<Rightarrow> rollout_tx" where
  "updateRolloutRow missed k guard f db =
     (if affected k guard (rd_rollouts db) then storeRollouts (updateWhere k guard f (rd_rollouts db)) db
      else Inl (missed (rd_rollouts db)))"

definition invalidTransition :: "'r table \<Rightarrow> store_error" where
  "invalidTransition t = ErrInvalidTransition"

definition notFoundOrInvalid :: "string \<Rightarrow> 'r table \<Rightarrow> store_error" where
  "notFoundOrInvalid k t = (if map_of t k = None then ErrNotFound else ErrInvalidTransition)"

section \<open>Requests\<close>

definition orElse :: "string \<Rightarrow> string \<Rightarrow> string" where
  "orElse s d = (if s = [] then d else s)"

definition rolloutDefaults :: "string \<Rightarrow> K8sRolloutAction \<Rightarrow> K8sRolloutAction" where
  "rolloutDefaults now a =
     a\<lparr>ro_RequestedAt := orElse (ro_RequestedAt a) now, ro_CreatedAt := orElse (ro_CreatedAt a) now,
       ro_UpdatedAt := orElse (ro_UpdatedAt a) now, ro_Status := orElse (ro_Status a) ''requested'',
       ro_ExecutionMode := orElse (ro_ExecutionMode a) ''IMMEDIATE'',
       ro_TimeoutSeconds := (if ro_TimeoutSeconds a \<le> 0 then 600 else ro_TimeoutSeconds a)\<rparr>"

definition insertK8sRolloutAction :: "string \<Rightarrow> K8sRolloutAction \<Rightarrow> rollout_tx" where
  "insertK8sRolloutAction now a0 db =
     (let a = rolloutDefaults now a0 in
      case insertRow (ro_ID a) a (rd_rollouts db) of
        (Inl e, _) \<Rightarrow> Inl e
      | (Inr _, t) \<Rightarrow> storeRollouts t db)"

definition InsertK8sRolloutAction :: "string \<Rightarrow> K8sRolloutAction \<Rightarrow> rollout_db \<Rightarrow> (store_error + unit) \<times> rollout_db" where
  "InsertK8sRolloutAction now a = commit (insertK8sRolloutAction now a)"

text \<open>The number of a new event is one more than the highest number of its rollout.\<close>

definition nextSequenceNo :: "string \<Rightarrow> K8sRolloutEvent table \<Rightarrow> nat" where
  "nextSequenceNo i t = Suc (foldr max (map rv_SequenceNo (filter (\<lambda>e. rv_ActionID e = i) (map snd t))) 0)"

definition appendK8sRolloutEvent :: "string \<Rightarrow> K8sRolloutEvent \<Rightarrow> rollout_tx" where
  "appendK8sRolloutEvent now e0 db =
     (let e = e0\<lparr>rv_SequenceNo := nextSequenceNo (rv_ActionID e0) (rd_events db), rv_ObservedAt := orElse (rv_ObservedAt e0) now\<rparr> in
      case insertRow (rv_ID e) e (rd_events db) of
        (Inl err, _) \<Rightarrow> Inl err
      | (Inr _, t) \<Rightarrow> Inr (db\<lparr>rd_events := t\<rparr>))"

definition AppendK8sRolloutEvent :: "string \<Rightarrow> K8sRolloutEvent \<Rightarrow> rollout_db \<Rightarrow> (store_error + unit) \<times> rollout_db" where
  "AppendK8sRolloutEvent now e = commit (appendK8sRolloutEvent now e)"

definition insertActionTx :: "string \<Rightarrow> K8sActionRequest \<Rightarrow> rollout_tx" where
  "insertActionTx now a db =
     (case insertK8sActionRequest now a (rd_actions db) of (Inl e, _) \<Rightarrow> Inl e | (Inr _, t) \<Rightarrow> Inr (db\<lparr>rd_actions := t\<rparr>))"

definition InsertK8sRolloutRequest ::
  "string \<Rightarrow> K8sActionRequest \<Rightarrow> K8sRolloutAction \<Rightarrow> K8sRolloutEvent \<Rightarrow> rollout_db \<Rightarrow> (store_error + unit) \<times> rollout_db" where
  "InsertK8sRolloutRequest now action rollout event =
     commit (andThen (insertActionTx now action) (andThen (insertK8sRolloutAction now rollout)
       (if rv_ID event \<noteq> []
        then appendK8sRolloutEvent now (event\<lparr>rv_ActionID := orElse (rv_ActionID event) (ro_ID rollout)\<rparr>)
        else Inr)))"

section \<open>Execution\<close>

definition startAction :: "string \<Rightarrow> string \<Rightarrow> K8sActionRequest \<Rightarrow> K8sActionRequest" where
  "startAction now actor a =
     a\<lparr>ac_Status := ''running'', ac_ExecutedBy := actor, ac_ExecutedAt := now,
       ac_Result := ''rollout mutation in progress'', ac_UpdatedAt := now\<rparr>"

definition startRollout :: "string \<Rightarrow> string \<Rightarrow> K8sRolloutAction \<Rightarrow> K8sRolloutAction" where
  "startRollout now actor r =
     r\<lparr>ro_Status := ''running'', ro_ApprovedBy := orElse (ro_ApprovedBy r) actor, ro_ApprovedAt := orElse (ro_ApprovedAt r) now,
       ro_StartedAt := orElse (ro_StartedAt r) now, ro_CompletedAt := [], ro_FailureReason := [], ro_UpdatedAt := now\<rparr>"

definition StartK8sRolloutExecution ::
  "string \<Rightarrow> string \<Rightarrow> string \<Rightarrow> string \<Rightarrow> rollout_db \<Rightarrow> (store_error + unit) \<times> rollout_db" where
  "StartK8sRolloutExecution now actionID rolloutID actor =
     commit (andThen
       (updateActionRow invalidTransition actionID (\<lambda>a. ac_Status a = ''approved'') (startAction now actor))
       (updateRolloutRow invalidTransition rolloutID
         (\<lambda>r. ro_ActionRequestID r = actionID \<and> ro_StartedAt r = [] \<and> ro_Status r \<in> set [''approved'', ''approval_required''])
         (startRollout now actor)))"

definition finalizeAction :: "string \<Rightarrow> string \<Rightarrow> string \<Rightarrow> string \<Rightarrow> K8sActionRequest \<Rightarrow> K8sActionRequest" where
  "finalizeAction now status actor result a =
     (let b = a\<lparr>ac_Result := result, ac_UpdatedAt := now\<rparr> in
      if status \<noteq> ''running'' then b\<lparr>ac_Status := status, ac_ExecutedBy := actor, ac_ExecutedAt := now\<rparr> else b)"

definition finalizeRollout :: "string \<Rightarrow> string \<Rightarrow> string \<Rightarrow> string \<Rightarrow> string \<Rightarrow> K8sRolloutAction \<Rightarrow> K8sRolloutAction" where
  "finalizeRollout now status failureReason rollbackStatus rollbackReason r =
     (let completedAt = (if status = ''failed'' then now else []);
          rollbackAt = (if rollbackStatus = ''failed'' then now else []) in
      r\<lparr>ro_Status := status, ro_CompletedAt := completedAt, ro_FailureReason := failureReason,
        ro_RollbackStatus := rollbackStatus, ro_RollbackStartedAt := rollbackAt, ro_RollbackCompletedAt := rollbackAt,
        ro_RollbackFailureReason := rollbackReason, ro_UpdatedAt := now\<rparr>)"

definition FinalizeK8sRolloutMutation ::
  "string \<Rightarrow> string \<Rightarrow> string \<Rightarrow> string \<Rightarrow> string \<Rightarrow> string \<Rightarrow> string \<Rightarrow> string \<Rightarrow> string \<Rightarrow> string \<Rightarrow> rollout_db \<Rightarrow>
     (store_error + unit) \<times> rollout_db" where
  "FinalizeK8sRolloutMutation now actionID rolloutID actionStatus rolloutStatus actor result failureReason rollbackStatus rollbackReason db =
     (if actionStatus \<notin> set [''running'', ''executed'', ''failed''] then (Inl ErrInvalidTransition, db)
      else if rolloutStatus \<notin> set [''monitoring'', ''failed''] then (Inl ErrInvalidTransition, db)
      else if rollbackStatus \<noteq> [] \<and> rollbackStatus \<noteq> ''failed'' then (Inl ErrInvalidTransition, db)
      else commit (andThen
        (updateActionRow invalidTransition actionID (\<lambda>a. ac_Status a = ''running'') (finalizeAction now actionStatus actor result))
        (updateRolloutRow invalidTransition rolloutID
          (\<lambda>r. ro_ActionRequestID r = actionID \<and> ro_Status r = ''running'' \<and> ro_StartedAt r \<noteq> [])
          (finalizeRollout now rolloutStatus failureReason rollbackStatus rollbackReason))) db)"

section \<open>Reading\<close>

definition GetK8sRolloutAction :: "string \<Rightarrow> rollout_db \<Rightarrow> store_error + K8sRolloutAction" where
  "GetK8sRolloutAction i db = getRow i (rd_rollouts db)"

definition GetK8sRolloutByActionRequest :: "string \<Rightarrow> rollout_db \<Rightarrow> store_error + K8sRolloutAction" where
  "GetK8sRolloutByActionRequest i db =
     (case find (\<lambda>(_, r). ro_ActionRequestID r = i) (rd_rollouts db) of None \<Rightarrow> Inl ErrNotFound | Some (_, r) \<Rightarrow> Inr r)"

section \<open>Progress\<close>

definition rolloutClosed :: "string \<Rightarrow> bool" where
  "rolloutClosed st \<longleftrightarrow> st \<in> set [''succeeded'', ''failed'', ''timed_out'', ''rejected'']"

definition setProgress :: "string \<Rightarrow> K8sRolloutAction \<Rightarrow> K8sRolloutAction \<Rightarrow> K8sRolloutAction" where
  "setProgress now a r =
     r\<lparr>ro_Status := ro_Status a, ro_ApprovedBy := ro_ApprovedBy a, ro_ApprovedAt := ro_ApprovedAt a, ro_StartedAt := ro_StartedAt a,
       ro_CompletedAt := ro_CompletedAt a, ro_TargetRevision := ro_TargetRevision a, ro_TargetSpecHash := ro_TargetSpecHash a,
       ro_FailureReason := ro_FailureReason a, ro_DurationMS := ro_DurationMS a, ro_DesiredReplicas := ro_DesiredReplicas a,
       ro_UpdatedReplicas := ro_UpdatedReplicas a, ro_ReadyReplicas := ro_ReadyReplicas a,
       ro_AvailableReplicas := ro_AvailableReplicas a, ro_UnavailableReplicas := ro_UnavailableReplicas a,
       ro_RollbackStatus := ro_RollbackStatus a, ro_RollbackStartedAt := ro_RollbackStartedAt a,
       ro_RollbackCompletedAt := ro_RollbackCompletedAt a, ro_RollbackFailureReason := ro_RollbackFailureReason a,
       ro_UpdatedAt := now\<rparr>"

definition UpdateK8sRolloutProgress :: "string \<Rightarrow> K8sRolloutAction \<Rightarrow> rollout_db \<Rightarrow> (store_error + unit) \<times> rollout_db" where
  "UpdateK8sRolloutProgress now a =
     commit (updateRolloutRow (notFoundOrInvalid (ro_ID a)) (ro_ID a)
       (\<lambda>r. \<not> rolloutClosed (ro_Status r) \<or> ro_Status r = ro_Status a) (setProgress now a))"

definition casGuard :: "K8sRolloutAction \<Rightarrow> string \<Rightarrow> string \<Rightarrow> string \<Rightarrow> K8sRolloutAction \<Rightarrow> bool" where
  "casGuard a expStatus expRollback expUpdated r \<longleftrightarrow>
     ro_Status r = expStatus \<and> ro_RollbackStatus r = expRollback \<and> ro_UpdatedAt r = expUpdated \<and>
     (\<not> rolloutClosed (ro_Status r) \<or> ro_Status r = ro_Status a)"

definition UpdateK8sRolloutProgressCAS ::
  "string \<Rightarrow> K8sRolloutAction \<Rightarrow> string \<Rightarrow> string \<Rightarrow> string \<Rightarrow> rollout_db \<Rightarrow> (store_error + bool) \<times> rollout_db" where
  "UpdateK8sRolloutProgressCAS now a expStatus expRollback expUpdated db =
     (let guard = casGuard a expStatus expRollback expUpdated in
      if affected (ro_ID a) guard (rd_rollouts db)
      then (case storeRollouts (updateWhere (ro_ID a) guard (setProgress now a) (rd_rollouts db)) db of
              Inl e \<Rightarrow> (Inl e, db)
            | Inr db' \<Rightarrow> (Inr True, db'))
      else (Inr False, db))"

definition rejectRollout :: "string \<Rightarrow> string \<Rightarrow> K8sRolloutAction \<Rightarrow> K8sRolloutAction" where
  "rejectRollout now reason r =
     r\<lparr>ro_Status := ''rejected'', ro_CompletedAt := now, ro_FailureReason := reason, ro_UpdatedAt := now\<rparr>"

definition RejectK8sRolloutWithAction ::
  "string \<Rightarrow> string \<Rightarrow> string \<Rightarrow> string \<Rightarrow> string \<Rightarrow> string \<Rightarrow> string \<Rightarrow> rollout_db \<Rightarrow> (store_error + unit) \<times> rollout_db" where
  "RejectK8sRolloutWithAction now rolloutID actionID reason expStatus expRollback expUpdated =
     commit (andThen
       (updateActionRow (notFoundOrInvalid actionID) actionID (\<lambda>a. awaitingDecision (ac_Status a))
         (\<lambda>a. a\<lparr>ac_Status := ''rejected'', ac_UpdatedAt := now, ac_Result := reason\<rparr>))
       (updateRolloutRow (notFoundOrInvalid rolloutID) rolloutID
         (\<lambda>r. ro_Status r = expStatus \<and> ro_RollbackStatus r = expRollback \<and> ro_UpdatedAt r = expUpdated)
         (rejectRollout now reason)))"

section \<open>Work lists\<close>

definition ListK8sRolloutActions :: "string \<Rightarrow> string \<Rightarrow> int \<Rightarrow> rollout_db \<Rightarrow> K8sRolloutAction list" where
  "ListK8sRolloutActions clusterID resourceUID limit db =
     take (nat (boundedLimit limit 100 500)) (rev (sort_key ro_RequestedAt
       (filter (\<lambda>r. (clusterID = [] \<or> ro_ClusterID r = clusterID) \<and> (resourceUID = [] \<or> ro_ResourceUID r = resourceUID))
         (map snd (rd_rollouts db)))))"

definition activeRow :: "K8sRolloutAction \<Rightarrow> bool" where
  "activeRow r \<longleftrightarrow> primaryInFlight (ro_Status r) \<or> rollbackInFlight (ro_RollbackStatus r) \<or> rollbackOwed r"

definition ListActiveK8sRolloutActions :: "int \<Rightarrow> rollout_db \<Rightarrow> K8sRolloutAction list" where
  "ListActiveK8sRolloutActions limit db =
     take (nat (boundedLimit limit 100 1000))
       (sort_key ro_UpdatedAt (sort_key ro_RequestedAt (filter activeRow (map snd (rd_rollouts db)))))"

definition actionInStatus :: "string \<Rightarrow> string \<Rightarrow> action_table \<Rightarrow> bool" where
  "actionInStatus i st t \<longleftrightarrow> affected i (\<lambda>a. ac_Status a = st) t"

definition awaitingStart :: "K8sRolloutAction \<Rightarrow> bool" where
  "awaitingStart r \<longleftrightarrow> ro_StartedAt r = [] \<and> ro_Status r \<in> set [''approved'', ''approval_required'']"

definition dueRow :: "action_table \<Rightarrow> K8sRolloutAction \<Rightarrow> bool" where
  "dueRow acts r \<longleftrightarrow>
     (ro_Status r \<in> set [''running'', ''monitoring'', ''rollback_running''] \<and> ro_StartedAt r \<noteq> []) \<or>
     rollbackInFlight (ro_RollbackStatus r) \<or> rollbackOwed r \<or>
     (awaitingStart r \<and> ro_ActionRequestID r \<noteq> [] \<and> actionInStatus (ro_ActionRequestID r) ''approved'' acts) \<or>
     (ro_Status r \<in> set [''succeeded'', ''failed'', ''timed_out''] \<and> ro_ActionRequestID r \<noteq> [] \<and>
       actionInStatus (ro_ActionRequestID r) ''running'' acts)"

definition dueRank :: "K8sRolloutAction \<Rightarrow> nat" where
  "dueRank r = (if awaitingStart r then 0 else if ro_Status r \<in> set [''succeeded'', ''failed'', ''timed_out''] then 0
     else if ro_RollbackStatus r = ''running'' then 2 else 1)"

definition ListK8sRolloutActionsDue :: "int \<Rightarrow> rollout_db \<Rightarrow> K8sRolloutAction list" where
  "ListK8sRolloutActionsDue limit db =
     take (nat (boundedLimit limit 100 1000))
       (sort_key dueRank (sort_key ro_UpdatedAt (sort_key ro_RequestedAt
         (filter (dueRow (rd_actions db)) (map snd (rd_rollouts db))))))"

definition ListK8sRolloutEvents :: "string \<Rightarrow> rollout_db \<Rightarrow> K8sRolloutEvent list" where
  "ListK8sRolloutEvents i db = sort_key rv_SequenceNo (filter (\<lambda>e. rv_ActionID e = i) (map snd (rd_events db)))"

section \<open>Leases\<close>

definition minuteNs :: int where
  "minuteNs = 60 * 1000000000"

definition TryAcquireK8sRolloutReconcileLease :: "string \<Rightarrow> string \<Rightarrow> int \<Rightarrow> int \<Rightarrow> rollout_lease table \<Rightarrow> bool \<times> rollout_lease table" where
  "TryAcquireK8sRolloutReconcileLease rolloutID ownerID now ttl0 t =
     (let ttl = (if ttl0 \<le> 0 then minuteNs else ttl0);
          lease = \<lparr>le_OwnerID = ownerID, le_AcquiredAt = now, le_ExpiresAt = now + ttl\<rparr>;
          takeover = (\<lambda>l. le_ExpiresAt l < now \<or> le_OwnerID l = ownerID) in
      if map_of t rolloutID = None then (True, t @ [(rolloutID, lease)])
      else if affected rolloutID takeover t then (True, updateWhere rolloutID takeover (\<lambda>_. lease) t)
      else (False, t))"

definition ReleaseK8sRolloutReconcileLease :: "string \<Rightarrow> string \<Rightarrow> rollout_lease table \<Rightarrow> rollout_lease table" where
  "ReleaseK8sRolloutReconcileLease rolloutID ownerID t = filter (\<lambda>(k, l). \<not> (k = rolloutID \<and> le_OwnerID l = ownerID)) t"

section \<open>Pods of a rollout\<close>

definition mergeTransition :: "K8sRolloutPodTransition \<Rightarrow> K8sRolloutPodTransition \<Rightarrow> K8sRolloutPodTransition" where
  "mergeTransition p q = p\<lparr>rp_ID := rp_ID q, rp_ActionID := rp_ActionID q, rp_PodUID := rp_PodUID q\<rparr>"

definition UpsertK8sRolloutPodTransition :: "string \<Rightarrow> K8sRolloutPodTransition \<Rightarrow> rollout_tx" where
  "UpsertK8sRolloutPodTransition now p0 db =
     (let p = p0\<lparr>rp_ObservedAt := orElse (rp_ObservedAt p0) now\<rparr>;
          samePod = (\<lambda>q. rp_ActionID q = rp_ActionID p \<and> rp_PodUID q = rp_PodUID p) in
      case find (\<lambda>(_, q). samePod q) (rd_pods db) of
        Some (k, _) \<Rightarrow> Inr (db\<lparr>rd_pods := updateWhere k samePod (mergeTransition p) (rd_pods db)\<rparr>)
      | None \<Rightarrow>
          (case insertRow (rp_ID p) p (rd_pods db) of
             (Inl e, _) \<Rightarrow> Inl e
           | (Inr _, t) \<Rightarrow> Inr (db\<lparr>rd_pods := t\<rparr>)))"

definition ListK8sRolloutPodTransitions :: "string \<Rightarrow> rollout_db \<Rightarrow> K8sRolloutPodTransition list" where
  "ListK8sRolloutPodTransitions i db =
     sort_key rp_CreatedAt (sort_key rp_PodName (filter (\<lambda>p. rp_ActionID p = i) (map snd (rd_pods db))))"

section \<open>Migration of the target lock\<close>

definition k8sRolloutTargetLockMigrationReason :: string where
  "k8sRolloutTargetLockMigrationReason = ''superseded during rollout recovery lock migration''"

text \<open>The order of \<^verbatim>\<open>ROW_NUMBER()\<close> within one target: rollouts with a rollback in flight first, then
  by request time, then by id.\<close>

definition conflictBefore :: "K8sRolloutAction \<Rightarrow> K8sRolloutAction \<Rightarrow> bool" where
  "conflictBefore a b \<longleftrightarrow>
     (let ka = (if rollbackInFlight (ro_RollbackStatus a) then 0 else 1 :: nat);
          kb = (if rollbackInFlight (ro_RollbackStatus b) then 0 else 1 :: nat) in
      ka < kb \<or> (ka = kb \<and> (ro_RequestedAt a < ro_RequestedAt b \<or>
        (ro_RequestedAt a = ro_RequestedAt b \<and> ro_ID a < ro_ID b))))"

definition conflictRank :: "rollout_table \<Rightarrow> K8sRolloutAction \<Rightarrow> nat" where
  "conflictRank t r =
     Suc (length (filter (\<lambda>q. k8sRolloutActiveTargetPredicate q \<and> targetKey q = targetKey r \<and> conflictBefore q r) (map snd t)))"

definition rankedVictims :: "rollout_table \<Rightarrow> K8sRolloutAction list" where
  "rankedVictims t = filter (\<lambda>r. k8sRolloutActiveTargetPredicate r \<and> conflictRank t r > 1) (map snd t)"

definition supersedeAction :: "string \<Rightarrow> K8sActionRequest \<Rightarrow> K8sActionRequest" where
  "supersedeAction now a =
     a\<lparr>ac_Status := ''failed'', ac_Result := orElse (ac_Result a) k8sRolloutTargetLockMigrationReason, ac_UpdatedAt := now\<rparr>"

definition supersedeRollout :: "string \<Rightarrow> K8sRolloutAction \<Rightarrow> K8sRolloutAction" where
  "supersedeRollout now r =
     r\<lparr>ro_Status := ''failed'', ro_CompletedAt := orElse (ro_CompletedAt r) now,
       ro_FailureReason := orElse (ro_FailureReason r) k8sRolloutTargetLockMigrationReason, ro_RollbackStatus := ''failed'',
       ro_RollbackCompletedAt := orElse (ro_RollbackCompletedAt r) now,
       ro_RollbackFailureReason := orElse (ro_RollbackFailureReason r) k8sRolloutTargetLockMigrationReason, ro_UpdatedAt := now\<rparr>"

definition updateAll :: "('r \<Rightarrow> bool) \<Rightarrow> ('r \<Rightarrow> 'r) \<Rightarrow> 'r table \<Rightarrow> 'r table" where
  "updateAll guard f t = map (\<lambda>(k, r). (k, if guard r then f r else r)) t"

definition migrateK8sRolloutTargetLockAttempt :: "string \<Rightarrow> rollout_tx" where
  "migrateK8sRolloutTargetLockAttempt now db =
     (let victims = rankedVictims (rd_rollouts db);
          requests = filter (\<lambda>i. i \<noteq> []) (map ro_ActionRequestID victims);
          acts = updateAll (\<lambda>a. ac_ID a \<in> set requests \<and>
              ac_Status a \<in> set [''pending'', ''pending_approval'', ''approval_required'', ''approved'', ''running''])
            (supersedeAction now) (rd_actions db);
          rolls = updateAll (\<lambda>r. ro_ID r \<in> set (map ro_ID victims)) (supersedeRollout now) (rd_rollouts db) in
      if oneActivePerTarget rolls then Inr (db\<lparr>rd_actions := acts, rd_rollouts := rolls\<rparr>) else Inl ErrDuplicateKey)"

definition retryableLockMigrationError :: "string \<Rightarrow> bool" where
  "retryableLockMigrationError err \<longleftrightarrow>
     list_ex (contains (toLower err))
       [''unique constraint'', ''duplicate key'', ''database is locked'', ''database table is locked'',
        ''sqlite_busy'', ''sqlite_locked'', ''deadlock'', ''serialization'']"

text \<open>The retry loop. \<open>fault n\<close> is the error the driver raises in attempt \<open>n\<close>, if any, before the
  transaction commits; \<open>cancelled n\<close> says that the context ends while the loop waits after it.\<close>

definition migrationMessage :: "string \<Rightarrow> string" where
  "migrationMessage e = ''migrate Kubernetes rollout target lock: '' @ e"

definition attemptMigration :: "string \<Rightarrow> string option \<Rightarrow> rollout_db \<Rightarrow> string + rollout_db" where
  "attemptMigration now fault db =
     (case fault of
        Some e \<Rightarrow> Inl e
      | None \<Rightarrow> (case migrateK8sRolloutTargetLockAttempt now db of Inl _ \<Rightarrow> Inl ''UNIQUE constraint failed'' | Inr db' \<Rightarrow> Inr db'))"

fun migrateLoop :: "nat \<Rightarrow> nat \<Rightarrow> string \<Rightarrow> (nat \<Rightarrow> string option) \<Rightarrow> (nat \<Rightarrow> bool) \<Rightarrow> rollout_db \<Rightarrow> string + rollout_db" where
  "migrateLoop 0 attempt now fault cancelled db = Inl (migrationMessage [])"
| "migrateLoop (Suc left) attempt now fault cancelled db =
     (case attemptMigration now (fault attempt) db of
        Inr db' \<Rightarrow> Inr db'
      | Inl e \<Rightarrow>
          if \<not> retryableLockMigrationError e \<or> left = 0 then Inl (migrationMessage e)
          else if cancelled attempt then Inl ''context canceled''
          else migrateLoop left (Suc attempt) now fault cancelled db)"

definition migrateK8sRolloutTargetLock :: "string \<Rightarrow> (nat \<Rightarrow> string option) \<Rightarrow> (nat \<Rightarrow> bool) \<Rightarrow> rollout_db \<Rightarrow> string + rollout_db" where
  "migrateK8sRolloutTargetLock now fault cancelled db = migrateLoop 5 0 now fault cancelled db"

section \<open>Well-formed ledgers\<close>

definition keyedBy :: "('r \<Rightarrow> string) \<Rightarrow> 'r table \<Rightarrow> bool" where
  "keyedBy key t \<longleftrightarrow> distinct (map fst t) \<and> (\<forall>(k, r) \<in> set t. key r = k)"

definition numberedEvents :: "K8sRolloutEvent table \<Rightarrow> bool" where
  "numberedEvents t \<longleftrightarrow>
     (\<forall>i. let es = filter (\<lambda>e. rv_ActionID e = i) (map snd t) in map rv_SequenceNo es = [1..<Suc (length es)])"

definition podsDistinct :: "K8sRolloutPodTransition table \<Rightarrow> bool" where
  "podsDistinct t \<longleftrightarrow> distinct (map (\<lambda>(_, p). (rp_ActionID p, rp_PodUID p)) t)"

definition rollout_db_wf :: "rollout_db \<Rightarrow> bool" where
  "rollout_db_wf db \<longleftrightarrow>
     keyedBy ac_ID (rd_actions db) \<and> uniqueBy ac_IdempotencyKey (rd_actions db) \<and>
     keyedBy ro_ID (rd_rollouts db) \<and> rolloutIndexes (rd_rollouts db) \<and>
     keyedBy rv_ID (rd_events db) \<and> numberedEvents (rd_events db) \<and>
     keyedBy rp_ID (rd_pods db) \<and> podsDistinct (rd_pods db) \<and> distinct (map fst (rd_leases db))"

subsection \<open>Tables\<close>

lemma keys_updateWhere [simp]: "map fst (updateWhere k guard f t) = map fst t"
  by (induction k guard f t rule: updateWhere.induct) auto

lemma keyedBy_updateWhere: "(\<And>r. key (f r) = key r) \<Longrightarrow> keyedBy key t \<Longrightarrow> keyedBy key (updateWhere k guard f t)"
proof (induction k guard f t rule: updateWhere.induct)
  case (1 k guard f)
  then show ?case by simp
next
  case (2 k guard f i r t)
  then show ?case by (auto simp: keyedBy_def)
qed

lemma keyedBy_insertRow: "keyedBy key t \<Longrightarrow> keyedBy key (snd (insertRow (key r) r t))"
  by (auto simp: keyedBy_def insertRow_def map_of_eq_None_iff)

lemma keyedBy_map_of: "keyedBy key t \<Longrightarrow> map_of t k = Some r \<longleftrightarrow> (k, r) \<in> set t"
  by (simp add: keyedBy_def)

lemma keyedBy_key: "keyedBy key t \<Longrightarrow> map_of t k = Some r \<Longrightarrow> key r = k"
  by (auto simp: keyedBy_def dest!: map_of_SomeD)

lemma insertRow_ok: "insertRow k r t = (Inr x, t') \<longleftrightarrow> x = r \<and> map_of t k = None \<and> t' = t @ [(k, r)]"
  by (auto simp: insertRow_def)

lemma insertRow_err: "insertRow k r t = (Inl e, t') \<longleftrightarrow> e = ErrDuplicateKey \<and> map_of t k \<noteq> None \<and> t' = t"
  by (auto simp: insertRow_def)

subsection \<open>Transactions\<close>

lemma commit_err: "fst (commit f db) = Inl e \<Longrightarrow> snd (commit f db) = db"
  by (simp add: commit_def split: sum.splits)

lemma commit_ok: "fst (commit f db) = Inr u \<longleftrightarrow> (\<exists>db'. f db = Inr db')"
  by (cases "f db") (simp_all add: commit_def)

lemma commit_cases: "(\<exists>e. f db = Inl e \<and> commit f db = (Inl e, db)) \<or> (\<exists>db'. f db = Inr db' \<and> commit f db = (Inr (), db'))"
  by (cases "f db") (simp_all add: commit_def)

lemma andThen_ok: "andThen f g db = Inr db'' \<longleftrightarrow> (\<exists>db'. f db = Inr db' \<and> g db' = Inr db'')"
  by (cases "f db") (simp_all add: andThen_def)

lemma storeRollouts_ok: "storeRollouts t db = Inr db' \<longleftrightarrow> rolloutIndexes t \<and> db' = db\<lparr>rd_rollouts := t\<rparr>"
  by (auto simp: storeRollouts_def)

lemma updateActionRow_ok:
  "updateActionRow missed k guard f db = Inr db' \<longleftrightarrow>
     (\<exists>a. map_of (rd_actions db) k = Some a \<and> guard a) \<and> db' = db\<lparr>rd_actions := updateWhere k guard f (rd_actions db)\<rparr>"
  by (auto simp: updateActionRow_def affected_iff)

lemma updateRolloutRow_ok:
  "updateRolloutRow missed k guard f db = Inr db' \<longleftrightarrow>
     (\<exists>r. map_of (rd_rollouts db) k = Some r \<and> guard r) \<and> rolloutIndexes (updateWhere k guard f (rd_rollouts db)) \<and>
     db' = db\<lparr>rd_rollouts := updateWhere k guard f (rd_rollouts db)\<rparr>"
  by (auto simp: updateRolloutRow_def affected_iff storeRollouts_ok)

text \<open>A well-formed state is kept by every transaction whose statements keep it.\<close>

definition keepsWf :: "rollout_tx \<Rightarrow> bool" where
  "keepsWf f \<longleftrightarrow> (\<forall>db db'. rollout_db_wf db \<longrightarrow> f db = Inr db' \<longrightarrow> rollout_db_wf db')"

lemma keepsWf_andThen [intro]: "keepsWf f \<Longrightarrow> keepsWf g \<Longrightarrow> keepsWf (andThen f g)"
  unfolding keepsWf_def andThen_ok by blast

lemma keepsWf_commit: "keepsWf f \<Longrightarrow> rollout_db_wf db \<Longrightarrow> rollout_db_wf (snd (commit f db))"
  using commit_cases [of f db] unfolding keepsWf_def by auto

lemma keepsWf_updateActionRow [intro]:
  "(\<And>a. ac_ID (f a) = ac_ID a) \<Longrightarrow> (\<And>a. ac_IdempotencyKey (f a) = ac_IdempotencyKey a) \<Longrightarrow>
     keepsWf (updateActionRow missed k guard f)"
  by (auto simp: keepsWf_def updateActionRow_ok rollout_db_wf_def keyedBy_updateWhere uniqueBy_updateWhere)

lemma keepsWf_updateRolloutRow [intro]: "(\<And>r. ro_ID (f r) = ro_ID r) \<Longrightarrow> keepsWf (updateRolloutRow missed k guard f)"
  by (auto simp: keepsWf_def updateRolloutRow_ok rollout_db_wf_def keyedBy_updateWhere)

lemma keepsWf_insertActionTx [intro]: "keepsWf (insertActionTx now a)"
proof -
  have "rollout_db_wf db'" if wf: "rollout_db_wf db" and ok: "insertActionTx now a db = Inr db'" for db db'
  proof -
    define b where "b = actionDefaults now a"
    have ins: "insertKeyed ac_IdempotencyKey (ac_ID b) b (rd_actions db) = (Inr b, rd_actions db')"
      and same: "db' = db\<lparr>rd_actions := rd_actions db'\<rparr>"
      and new: "map_of (rd_actions db) (ac_ID b) = None" and tab: "rd_actions db' = rd_actions db @ [(ac_ID b, b)]"
      using ok insertKeyed_cases [of ac_IdempotencyKey "ac_ID b" b "rd_actions db"]
      by (auto simp: insertActionTx_def insertK8sActionRequest_def Let_def b_def [symmetric])
    have "uniqueBy ac_IdempotencyKey (rd_actions db')"
      using uniqueBy_insertKeyed [of ac_IdempotencyKey "rd_actions db" "ac_ID b" b] wf ins by (simp add: rollout_db_wf_def)
    moreover have "keyedBy ac_ID (rd_actions db')"
      using keyedBy_insertRow [of ac_ID "rd_actions db" b] wf new tab by (simp add: rollout_db_wf_def insertRow_def)
    ultimately show ?thesis using wf by (subst same) (simp add: rollout_db_wf_def)
  qed
  then show ?thesis by (auto simp: keepsWf_def)
qed

lemma keepsWf_insertK8sRolloutAction [intro]: "keepsWf (insertK8sRolloutAction now a)"
proof -
  have "rollout_db_wf db'" if wf: "rollout_db_wf db" and ok: "insertK8sRolloutAction now a db = Inr db'" for db db'
  proof -
    define b where "b = rolloutDefaults now a"
    have new: "map_of (rd_rollouts db) (ro_ID b) = None" and ix: "rolloutIndexes (rd_rollouts db @ [(ro_ID b, b)])"
      and same: "db' = db\<lparr>rd_rollouts := rd_rollouts db @ [(ro_ID b, b)]\<rparr>"
      using ok by (auto simp: insertK8sRolloutAction_def Let_def b_def [symmetric] storeRollouts_ok insertRow_def split: if_splits)
    have "keyedBy ro_ID (rd_rollouts db @ [(ro_ID b, b)])"
      using keyedBy_insertRow [of ro_ID "rd_rollouts db" b] wf new by (simp add: rollout_db_wf_def insertRow_def)
    then show ?thesis using wf ix by (simp add: same rollout_db_wf_def)
  qed
  then show ?thesis by (auto simp: keepsWf_def)
qed

subsection \<open>Events\<close>

lemma foldr_max_start: "foldr max xs (m::nat) = max m (foldr max xs 0)"
  by (induction xs) auto

lemma foldr_max_upt: "foldr max [1..<Suc n] (0::nat) = n"
proof (induction n)
  case 0
  then show ?case by simp
next
  case (Suc n)
  have "foldr max [1..<Suc (Suc n)] 0 = foldr max [1..<Suc n] (Suc n)" by simp
  also have "\<dots> = Suc n" using Suc foldr_max_start [of "[1..<Suc n]" "Suc n"] by simp
  finally show ?case .
qed

lemma nextSequenceNo_numbered:
  "numberedEvents t \<Longrightarrow> nextSequenceNo i t = Suc (length (filter (\<lambda>e. rv_ActionID e = i) (map snd t)))"
  unfolding nextSequenceNo_def numberedEvents_def Let_def by (simp only: foldr_max_upt)

lemma keepsWf_appendK8sRolloutEvent [intro]: "keepsWf (appendK8sRolloutEvent now e)"
proof -
  have "rollout_db_wf db'" if wf: "rollout_db_wf db" and ok: "appendK8sRolloutEvent now e db = Inr db'" for db db'
  proof -
    define b where "b = e\<lparr>rv_SequenceNo := nextSequenceNo (rv_ActionID e) (rd_events db), rv_ObservedAt := orElse (rv_ObservedAt e) now\<rparr>"
    have new: "map_of (rd_events db) (rv_ID b) = None" and same: "db' = db\<lparr>rd_events := rd_events db @ [(rv_ID b, b)]\<rparr>"
      using ok by (auto simp: appendK8sRolloutEvent_def Let_def b_def [symmetric] insertRow_def split: if_splits)
    have num: "numberedEvents (rd_events db)" using wf by (simp add: rollout_db_wf_def)
    have "rv_SequenceNo b = Suc (length (filter (\<lambda>x. rv_ActionID x = rv_ActionID b) (map snd (rd_events db))))"
      using nextSequenceNo_numbered [OF num] by (simp add: b_def)
    then have "numberedEvents (rd_events db @ [(rv_ID b, b)])" using num by (simp add: numberedEvents_def Let_def)
    moreover have "keyedBy rv_ID (rd_events db @ [(rv_ID b, b)])"
      using keyedBy_insertRow [of rv_ID "rd_events db" b] wf new by (simp add: rollout_db_wf_def insertRow_def)
    ultimately show ?thesis using wf by (simp add: same rollout_db_wf_def)
  qed
  then show ?thesis by (auto simp: keepsWf_def)
qed

subsection \<open>Pods\<close>

lemma updateWhere_pairs:
  "(\<And>p. rp_ActionID (f p) = rp_ActionID p) \<Longrightarrow> (\<And>p. rp_PodUID (f p) = rp_PodUID p) \<Longrightarrow>
     podsDistinct (updateWhere k guard f t) = podsDistinct t"
  using updateWhere_map [of "\<lambda>p. (rp_ActionID p, rp_PodUID p)" f k guard t] by (simp add: podsDistinct_def)

lemma keepsWf_UpsertK8sRolloutPodTransition [intro]: "keepsWf (UpsertK8sRolloutPodTransition now p)"
proof -
  have "rollout_db_wf db'" if wf: "rollout_db_wf db" and ok: "UpsertK8sRolloutPodTransition now p db = Inr db'" for db db'
  proof -
    define q where "q = p\<lparr>rp_ObservedAt := orElse (rp_ObservedAt p) now\<rparr>"
    define samePod :: "K8sRolloutPodTransition \<Rightarrow> bool" where "samePod = (\<lambda>x. rp_ActionID x = rp_ActionID q \<and> rp_PodUID x = rp_PodUID q)"
    show ?thesis
    proof (cases "find (\<lambda>(_, x). samePod x) (rd_pods db)")
      case None
      then have fresh: "\<And>k x. (k, x) \<in> set (rd_pods db) \<Longrightarrow> \<not> samePod x" by (auto simp: find_None_iff)
      from ok None have new: "map_of (rd_pods db) (rp_ID q) = None" and same: "db' = db\<lparr>rd_pods := rd_pods db @ [(rp_ID q, q)]\<rparr>"
        unfolding UpsertK8sRolloutPodTransition_def Let_def q_def [symmetric] samePod_def [symmetric]
        by (auto simp: insertRow_def split: if_splits)
      have "keyedBy rp_ID (rd_pods db @ [(rp_ID q, q)])"
        using keyedBy_insertRow [of rp_ID "rd_pods db" q] wf new by (simp add: rollout_db_wf_def insertRow_def)
      moreover have "podsDistinct (rd_pods db @ [(rp_ID q, q)])"
        using wf fresh by (fastforce simp: rollout_db_wf_def podsDistinct_def samePod_def)
      ultimately show ?thesis using wf by (simp add: same rollout_db_wf_def)
    next
      case (Some kx)
      then obtain k x where kx: "find (\<lambda>(_, x). samePod x) (rd_pods db) = Some (k, x)" by (cases kx) auto
      from ok kx have same: "db' = db\<lparr>rd_pods := updateWhere k samePod (mergeTransition q) (rd_pods db)\<rparr>"
        unfolding UpsertK8sRolloutPodTransition_def Let_def q_def [symmetric] samePod_def [symmetric] by simp
      show ?thesis using wf
        by (simp add: same rollout_db_wf_def updateWhere_pairs mergeTransition_def keyedBy_updateWhere)
    qed
  qed
  then show ?thesis by (auto simp: keepsWf_def)
qed

subsection \<open>The lease as a lock\<close>

text \<open>What a client of the lease may rely on: who holds it and until when decides alone whether an
  attempt is granted.\<close>

datatype lease_op = LAcquire string string int int | LRelease string string

fun leaseOwner :: "lease_op \<Rightarrow> string" where
  "leaseOwner (LAcquire k u now ttl) = u"
| "leaseOwner (LRelease k u) = u"

fun leaseClock :: "lease_op \<Rightarrow> int option" where
  "leaseClock (LAcquire k u now ttl) = Some now"
| "leaseClock (LRelease k u) = None"

locale lease_lock =
  fixes acquire :: "string \<Rightarrow> string \<Rightarrow> int \<Rightarrow> int \<Rightarrow> 's \<Rightarrow> bool \<times> 's"
    and release :: "string \<Rightarrow> string \<Rightarrow> 's \<Rightarrow> 's"
    and holder :: "'s \<Rightarrow> string \<Rightarrow> (string \<times> int) option"
    and valid :: "'s \<Rightarrow> bool"
  assumes granted: "fst (acquire k u now ttl s) \<longleftrightarrow> (case holder s k of None \<Rightarrow> True | Some (v, e) \<Rightarrow> e < now \<or> v = u)"
    and held: "fst (acquire k u now ttl s) \<Longrightarrow>
      holder (snd (acquire k u now ttl s)) k = Some (u, now + (if ttl \<le> 0 then minuteNs else ttl))"
    and refused: "\<not> fst (acquire k u now ttl s) \<Longrightarrow> snd (acquire k u now ttl s) = s"
    and elsewhere: "j \<noteq> k \<Longrightarrow> holder (snd (acquire k u now ttl s)) j = holder s j"
    and released: "valid s \<Longrightarrow>
      holder (release k u s) j = (case holder s j of None \<Rightarrow> None | Some (v, e) \<Rightarrow> if j = k \<and> v = u then None else Some (v, e))"
    and valid_acquire: "valid s \<Longrightarrow> valid (snd (acquire k u now ttl s))"
    and valid_release: "valid s \<Longrightarrow> valid (release k u s)"
begin

fun lease_exec :: "lease_op \<Rightarrow> 's \<Rightarrow> 's" where
  "lease_exec (LAcquire k u now ttl) s = snd (acquire k u now ttl s)"
| "lease_exec (LRelease k u) s = release k u s"

lemma valid_exec: "valid s \<Longrightarrow> valid (lease_exec op s)"
  by (cases op) (simp_all add: valid_acquire valid_release)

lemma holder_kept:
  assumes "valid s" and "holder s k = Some (u, e)" and "leaseOwner op \<noteq> u" and "\<And>now. leaseClock op = Some now \<Longrightarrow> now \<le> e"
  shows "holder (lease_exec op s) k = Some (u, e)"
proof (cases op)
  case (LAcquire j v now ttl)
  show ?thesis
  proof (cases "j = k")
    case True
    have "\<not> fst (acquire k v now ttl s)" using assms LAcquire True by (auto simp: granted)
    then show ?thesis using LAcquire True assms(2) by (simp add: refused)
  next
    case False
    then show ?thesis using LAcquire assms(2) by (simp add: elsewhere)
  qed
next
  case (LRelease j v)
  then show ?thesis using assms by (simp add: released)
qed

lemma holder_run:
  assumes "valid s" and "holder s k = Some (u, e)" and "\<forall>op \<in> set ops. leaseOwner op \<noteq> u"
    and "\<forall>op \<in> set ops. \<forall>now. leaseClock op = Some now \<longrightarrow> now \<le> e"
  shows "holder (fold lease_exec ops s) k = Some (u, e)"
  using assms by (induction ops arbitrary: s) (auto simp: holder_kept valid_exec)

text \<open>While nobody of the holder's own acts and no clock is past the expiry, every attempt of
  another owner is refused; past the expiry it is granted.\<close>

lemma exclusive:
  assumes "valid s" and "fst (acquire k u t0 ttl0 s)" and "e = t0 + (if ttl0 \<le> 0 then minuteNs else ttl0)"
    and "\<forall>op \<in> set ops. leaseOwner op \<noteq> u" and "\<forall>op \<in> set ops. \<forall>now. leaseClock op = Some now \<longrightarrow> now \<le> e" and "v \<noteq> u"
  shows "fst (acquire k v now ttl (fold lease_exec ops (snd (acquire k u t0 ttl0 s)))) \<longleftrightarrow> e < now"
proof -
  have "holder (fold lease_exec ops (snd (acquire k u t0 ttl0 s))) k = Some (u, e)"
    using held [OF assms(2)] assms(1,3-5) by (intro holder_run) (auto simp: valid_acquire)
  with assms(6) show ?thesis by (simp add: granted)
qed

lemma released_is_free: "valid s \<Longrightarrow> holder s k = Some (u, e) \<Longrightarrow> fst (acquire k v now ttl (release k u s))"
  by (simp add: granted released)

end

definition leaseHolder :: "rollout_lease table \<Rightarrow> string \<Rightarrow> (string \<times> int) option" where
  "leaseHolder t k = map_option (\<lambda>l. (le_OwnerID l, le_ExpiresAt l)) (map_of t k)"

lemma map_of_release:
  assumes "distinct (map fst t)"
  shows "map_of (ReleaseK8sRolloutReconcileLease k u t) j =
    (case map_of t j of None \<Rightarrow> None | Some l \<Rightarrow> if j = k \<and> le_OwnerID l = u then None else Some l)"
  using assms
proof (induction t)
  case Nil
  then show ?case by (simp add: ReleaseK8sRolloutReconcileLease_def)
next
  case (Cons p t)
  have gone: "map_of t (fst p) = None" using Cons.prems by (simp add: map_of_eq_None_iff)
  show ?case using Cons gone by (cases p) (auto simp: ReleaseK8sRolloutReconcileLease_def split: option.splits)
qed

interpretation lease: lease_lock TryAcquireK8sRolloutReconcileLease ReleaseK8sRolloutReconcileLease leaseHolder
  "\<lambda>t. distinct (map fst t)"
proof unfold_locales
  fix k u :: string and now ttl :: int and s :: "rollout_lease table"
  show "fst (TryAcquireK8sRolloutReconcileLease k u now ttl s) =
      (case leaseHolder s k of None \<Rightarrow> True | Some (v, e) \<Rightarrow> e < now \<or> v = u)"
    by (auto simp: TryAcquireK8sRolloutReconcileLease_def Let_def leaseHolder_def affected_iff split: option.splits)
  show "\<not> fst (TryAcquireK8sRolloutReconcileLease k u now ttl s) \<Longrightarrow> snd (TryAcquireK8sRolloutReconcileLease k u now ttl s) = s"
    by (auto simp: TryAcquireK8sRolloutReconcileLease_def Let_def split: if_splits)
  show "fst (TryAcquireK8sRolloutReconcileLease k u now ttl s) \<Longrightarrow>
      leaseHolder (snd (TryAcquireK8sRolloutReconcileLease k u now ttl s)) k = Some (u, now + (if ttl \<le> 0 then minuteNs else ttl))"
    by (auto simp: TryAcquireK8sRolloutReconcileLease_def Let_def leaseHolder_def map_of_updateWhere map_add_def affected_iff split: if_splits)
  show "leaseHolder (snd (TryAcquireK8sRolloutReconcileLease k u now ttl s)) j = leaseHolder s j" if "j \<noteq> k" for j
    using that by (auto simp: TryAcquireK8sRolloutReconcileLease_def Let_def leaseHolder_def map_of_updateWhere map_add_def split: option.splits)
  show "distinct (map fst s) \<Longrightarrow> distinct (map fst (snd (TryAcquireK8sRolloutReconcileLease k u now ttl s)))"
    by (auto simp: TryAcquireK8sRolloutReconcileLease_def Let_def map_of_eq_None_iff)
  show "distinct (map fst s) \<Longrightarrow> distinct (map fst (ReleaseK8sRolloutReconcileLease k u s))"
    by (simp add: ReleaseK8sRolloutReconcileLease_def distinct_map_filter)
  show "leaseHolder (ReleaseK8sRolloutReconcileLease k u s) j =
      (case leaseHolder s j of None \<Rightarrow> None | Some (v, e) \<Rightarrow> if j = k \<and> v = u then None else Some (v, e))"
    if "distinct (map fst s)" for j
    using map_of_release [OF that, of k u j] by (auto simp: leaseHolder_def split: option.splits)
qed

subsection \<open>The migration\<close>

lemma conflictBefore_total: "ro_ID a \<noteq> ro_ID b \<Longrightarrow> conflictBefore a b \<or> conflictBefore b a"
  by (auto simp: conflictBefore_def Let_def)

lemma conflictBefore_irrefl: "\<not> conflictBefore a a"
  by (simp add: conflictBefore_def Let_def)

lemma conflictBefore_trans: "conflictBefore a b \<Longrightarrow> conflictBefore b c \<Longrightarrow> conflictBefore a c"
  by (auto simp: conflictBefore_def Let_def split: if_splits)

text \<open>The rollout that keeps the lock: no active rollout of the target comes before it.\<close>

definition lockSurvivor :: "rollout_table \<Rightarrow> K8sRolloutAction \<Rightarrow> bool" where
  "lockSurvivor t r \<longleftrightarrow> k8sRolloutActiveTargetPredicate r \<and>
     (\<forall>q \<in> set (map snd t). k8sRolloutActiveTargetPredicate q \<and> targetKey q = targetKey r \<longrightarrow> \<not> conflictBefore q r)"

lemma conflictRank_one:
  "conflictRank t r > 1 \<longleftrightarrow> (\<exists>q \<in> set (map snd t). k8sRolloutActiveTargetPredicate q \<and> targetKey q = targetKey r \<and> conflictBefore q r)"
  by (auto simp: conflictRank_def filter_empty_conv)

lemma victim_iff: "r \<in> set (rankedVictims t) \<longleftrightarrow> r \<in> set (map snd t) \<and> k8sRolloutActiveTargetPredicate r \<and> \<not> lockSurvivor t r"
  unfolding rankedVictims_def lockSurvivor_def set_filter conflictRank_one by blast

lemma conflictRank_less:
  assumes "q \<in> set (map snd t)" and "k8sRolloutActiveTargetPredicate q" and "targetKey q = targetKey r" and "conflictBefore q r"
  shows "conflictRank t q < conflictRank t r"
proof -
  define P where "P = (\<lambda>r x. k8sRolloutActiveTargetPredicate x \<and> targetKey x = targetKey r \<and> conflictBefore x r)"
  have sub: "filter (P q) xs = filter (P q) (filter (P r) xs)" for xs
  proof -
    have "P q x \<Longrightarrow> P r x" for x using assms by (auto simp: P_def intro: conflictBefore_trans)
    then show ?thesis by (simp add: filter_filter) (metis (lifting) filter_cong)
  qed
  have "length (filter (P q) (filter (P r) (map snd t))) < length (filter (P r) (map snd t))"
    by (rule length_filter_less [of q]) (use assms in \<open>auto simp: P_def conflictBefore_irrefl\<close>)
  then show ?thesis using sub [of "map snd t"] by (simp add: conflictRank_def P_def)
qed

lemma survivor_exists:
  "r \<in> set (map snd t) \<Longrightarrow> k8sRolloutActiveTargetPredicate r \<Longrightarrow>
     \<exists>q \<in> set (map snd t). lockSurvivor t q \<and> targetKey q = targetKey r"
proof (induction "conflictRank t r" arbitrary: r rule: less_induct)
  case less
  show ?case
  proof (cases "lockSurvivor t r")
    case True
    with less.prems show ?thesis by blast
  next
    case False
    then obtain q where q: "q \<in> set (map snd t)" "k8sRolloutActiveTargetPredicate q" "targetKey q = targetKey r" "conflictBefore q r"
      using less.prems by (auto simp: lockSurvivor_def)
    from less.hyps [OF conflictRank_less [OF q] q(1,2)] q(3) show ?thesis by simp
  qed
qed

lemma keyedBy_ids: "keyedBy key t \<Longrightarrow> x \<in> set (map snd t) \<Longrightarrow> y \<in> set (map snd t) \<Longrightarrow> key x = key y \<Longrightarrow> x = y"
proof -
  assume t: "keyedBy key t" and "x \<in> set (map snd t)" "y \<in> set (map snd t)" and eq: "key x = key y"
  then obtain i j where ij: "(i, x) \<in> set t" "(j, y) \<in> set t" by auto
  have "key r = k" if "(k, r) \<in> set t" for k r using t that unfolding keyedBy_def by blast
  from this [OF ij(1)] this [OF ij(2)] eq have "i = j" by simp
  with ij t show "x = y" unfolding keyedBy_def by (blast intro: eq_key_imp_eq_value)
qed

lemma keyedBy_distinct_rows: "keyedBy key t \<Longrightarrow> distinct (map snd t)"
proof (induction t)
  case Nil
  then show ?case by simp
next
  case (Cons p t)
  have "snd p \<notin> set (map snd t)" using Cons.prems by (cases p) (force simp: keyedBy_def)
  moreover have "keyedBy key t" using Cons.prems by (simp add: keyedBy_def)
  ultimately show ?case using Cons.IH by simp
qed

lemma survivor_unique:
  "keyedBy ro_ID t \<Longrightarrow> a \<in> set (map snd t) \<Longrightarrow> b \<in> set (map snd t) \<Longrightarrow> lockSurvivor t a \<Longrightarrow> lockSurvivor t b \<Longrightarrow>
     targetKey a = targetKey b \<Longrightarrow> a = b"
  using conflictBefore_total [of a b] keyedBy_ids [of ro_ID t a b] unfolding lockSurvivor_def by metis

lemma superseded_inactive: "\<not> k8sRolloutActiveTargetPredicate (supersedeRollout now r)"
  by (simp add: k8sRolloutActiveTargetPredicate_def supersedeRollout_def primaryInFlight_def rollbackInFlight_def rollbackOwed_def)

lemma victim_ids:
  assumes t: "keyedBy ro_ID t" and r: "r \<in> set (map snd t)"
  shows "ro_ID r \<in> set (map ro_ID (rankedVictims t)) \<longleftrightarrow> k8sRolloutActiveTargetPredicate r \<and> \<not> lockSurvivor t r"
proof
  assume "ro_ID r \<in> set (map ro_ID (rankedVictims t))"
  then obtain v where v: "v \<in> set (rankedVictims t)" "ro_ID r = ro_ID v" by auto
  then have "v \<in> set (map snd t)" by (simp only: victim_iff)
  from keyedBy_ids [OF t r this v(2)] v(1) show "k8sRolloutActiveTargetPredicate r \<and> \<not> lockSurvivor t r"
    by (simp only: victim_iff simp_thms)
next
  assume "k8sRolloutActiveTargetPredicate r \<and> \<not> lockSurvivor t r"
  with r have "r \<in> set (rankedVictims t)" by (simp only: victim_iff simp_thms)
  then show "ro_ID r \<in> set (map ro_ID (rankedVictims t))" by simp
qed

lemma migrated_active:
  assumes "keyedBy ro_ID t"
  shows "filter k8sRolloutActiveTargetPredicate (map snd (updateAll (\<lambda>r. ro_ID r \<in> set (map ro_ID (rankedVictims t))) (supersedeRollout now) t))
    = filter (lockSurvivor t) (map snd t)"
proof -
  have survivors: "filter k8sRolloutActiveTargetPredicate (map snd (updateAll g (supersedeRollout now) xs)) = filter (lockSurvivor t) (map snd xs)"
    if "\<And>r. r \<in> set (map snd xs) \<Longrightarrow> g r \<longleftrightarrow> k8sRolloutActiveTargetPredicate r \<and> \<not> lockSurvivor t r" for xs g
    using that
  proof (induction xs)
    case Nil
    then show ?case by (simp add: updateAll_def)
  next
    case (Cons p xs)
    have "lockSurvivor t r \<Longrightarrow> k8sRolloutActiveTargetPredicate r" for r by (simp add: lockSurvivor_def)
    with Cons show ?case by (cases p) (auto simp: updateAll_def superseded_inactive)
  qed
  show ?thesis by (rule survivors) (rule victim_ids [OF assms])
qed

lemma migrated_unique:
  assumes "keyedBy ro_ID t"
  shows "oneActivePerTarget (updateAll (\<lambda>r. ro_ID r \<in> set (map ro_ID (rankedVictims t))) (supersedeRollout now) t)"
  unfolding oneActivePerTarget_def migrated_active [OF assms]
  unfolding distinct_map inj_on_def set_filter
  using keyedBy_distinct_rows [OF assms] survivor_unique [OF assms] by simp

lemma migrate_attempt:
  assumes "keyedBy ro_ID (rd_rollouts db)"
  obtains db' where "migrateK8sRolloutTargetLockAttempt now db = Inr db'"
    and "rd_rollouts db' = updateAll (\<lambda>r. ro_ID r \<in> set (map ro_ID (rankedVictims (rd_rollouts db)))) (supersedeRollout now) (rd_rollouts db)"
    and "oneActivePerTarget (rd_rollouts db')"
  using migrated_unique [OF assms, of now] by (simp add: migrateK8sRolloutTargetLockAttempt_def Let_def)

lemma map_of_updateAll: "map_of (updateAll guard f t) k = map_option (\<lambda>r. if guard r then f r else r) (map_of t k)"
  by (induction t) (auto simp: updateAll_def)

text \<open>Where the index already holds nothing is superseded.\<close>

lemma no_victims: "keyedBy ro_ID t \<Longrightarrow> oneActivePerTarget t \<Longrightarrow> rankedVictims t = []"
proof -
  assume k: "keyedBy ro_ID t" and u: "oneActivePerTarget t"
  have "lockSurvivor t r" if "r \<in> set (map snd t)" "k8sRolloutActiveTargetPredicate r" for r
  proof -
    have "q = r" if "q \<in> set (map snd t)" "k8sRolloutActiveTargetPredicate q" "targetKey q = targetKey r" for q
      using u that \<open>r \<in> set (map snd t)\<close> \<open>k8sRolloutActiveTargetPredicate r\<close>
      unfolding oneActivePerTarget_def distinct_map inj_on_def set_filter by simp
    then show ?thesis using that(2) conflictBefore_irrefl [of r] unfolding lockSurvivor_def by blast
  qed
  then show ?thesis using victim_iff [of _ t] by (metis last_in_set)
qed

lemma migrate_idle:
  assumes "keyedBy ro_ID (rd_rollouts db)" and "oneActivePerTarget (rd_rollouts db)"
  shows "migrateK8sRolloutTargetLockAttempt now db = Inr db"
proof -
  have idle: "updateAll (\<lambda>_. False) f t = t" for f :: "'r \<Rightarrow> 'r" and t by (induction t) (auto simp: updateAll_def)
  show ?thesis using assms by (simp add: migrateK8sRolloutTargetLockAttempt_def no_victims idle [of "supersedeRollout now"] idle [of "supersedeAction now"])
qed

lemma migrateLoop_first_success:
  assumes "n < left" and "fault (attempt + n) = None" and "keyedBy ro_ID (rd_rollouts db)"
    and "\<And>i. i < n \<Longrightarrow> \<exists>e. fault (attempt + i) = Some e \<and> retryableLockMigrationError e \<and> \<not> cancelled (attempt + i)"
  shows "\<exists>db'. migrateK8sRolloutTargetLockAttempt now db = Inr db' \<and> migrateLoop left attempt now fault cancelled db = Inr db'"
  using assms
proof (induction n arbitrary: left attempt)
  case 0
  then obtain l where l: "left = Suc l" by (cases left) auto
  from migrate_attempt [OF 0(3)] obtain db' where "migrateK8sRolloutTargetLockAttempt now db = Inr db'" by blast
  with 0 l show ?case by (simp add: attemptMigration_def)
next
  case (Suc n)
  then obtain l where l: "left = Suc l" "n < l" by (cases left) auto
  from Suc.prems(4) [of 0] obtain e where e: "fault attempt = Some e" "retryableLockMigrationError e" "\<not> cancelled attempt" by auto
  have "\<exists>e. fault (Suc attempt + i) = Some e \<and> retryableLockMigrationError e \<and> \<not> cancelled (Suc attempt + i)" if "i < n" for i
    using Suc.prems(4) [of "Suc i"] that by simp
  with Suc.IH [of l "Suc attempt"] l Suc.prems(2,3) e show ?case by (simp add: attemptMigration_def)
qed

end
