(* ===== verification/Rollout_Observe.thy ===== *)
theory Rollout_Observe
  imports Rollout_Store Manifest_Change
begin

text \<open>
  What \<^verbatim>\<open>internal/proxy/admin_k8s_rollout.go\<close> reads off an inventory item and decides without
  writing: the readers of a workload's replica counts, the precheck of a request, the budget
  check, the guard before an execution, the observation of a running rollout, and
  \<open>advanceRollout\<close>, the part of \<^verbatim>\<open>reconcileRolloutContext\<close> between its read of the inventory
  and its write of the row. Parsing and printing of times, the hash of a JSON text and
  \<^verbatim>\<open>fmt.Sprint\<close> are given; instants are integers (nanoseconds). The JSON round trip of
  \<^verbatim>\<open>normalizeRolloutTemplate\<close> copies the template and is the identity here.
\<close>

section \<open>Readers\<close>

record rollout_env =
  en_parse :: "string \<Rightarrow> int option"
  en_format :: "int \<Rightarrow> string"
  en_hash :: "gmap \<Rightarrow> string"
  en_commandHash :: "string \<Rightarrow> string \<Rightarrow> string \<Rightarrow> string \<Rightarrow> string \<Rightarrow> gmap \<Rightarrow> string"
  en_sprint :: "gval \<Rightarrow> string"
  en_item :: "string \<Rightarrow> string \<Rightarrow> string \<Rightarrow> string \<Rightarrow> store_error + K8sInventoryItem"
  en_inventory :: "string \<Rightarrow> string + K8sInventoryItem list"
  en_pods :: "string \<Rightarrow> string \<Rightarrow> K8sInventoryItem list"
  en_lifecycle :: "K8sInventoryItem \<Rightarrow> string \<times> string \<times> string"

text \<open>\<^verbatim>\<open>intAny\<close> ignores the error of \<^verbatim>\<open>strconv.Atoi\<close>, whose value is then the nearest bound for a number
  out of range and 0 for anything else.\<close>

definition atoiValue :: "string \<Rightarrow> int" where
  "atoiValue s =
     (let (neg, ds) = (case s of c # cs \<Rightarrow> if c = CHR ''-'' then (True, cs) else if c = CHR ''+'' then (False, cs) else (False, s)
                               | [] \<Rightarrow> (False, []))
      in if ds = [] then 0
         else (case digitsValue 0 ds of
                 None \<Rightarrow> 0
               | Some n \<Rightarrow> let v = (if neg then - n else n) in max (- (2 ^ 63)) (min v (2 ^ 63 - 1))))"

definition intAny :: "gval \<Rightarrow> int" where
  "intAny v = (case v of GInt n \<Rightarrow> n | GInt64 n \<Rightarrow> n | GFloat q \<Rightarrow> truncInt q | GStr s \<Rightarrow> atoiValue s | _ \<Rightarrow> 0)"

definition parseBool :: "string \<Rightarrow> bool" where
  "parseBool raw \<longleftrightarrow> toLower (trimSpace raw) \<in> set [''1'', ''true'', ''yes'', ''y'', ''on'']"

definition boolAny :: "gval \<Rightarrow> bool" where
  "boolAny v = (case v of GBool b \<Rightarrow> b | GStr s \<Rightarrow> parseBool s | _ \<Rightarrow> False)"

definition firstAny :: "gval list \<Rightarrow> gval" where
  "firstAny vs = (case filter (\<lambda>v. v \<noteq> GNil) vs of [] \<Rightarrow> GNil | v # _ \<Rightarrow> v)"

definition textMap :: "gmap \<Rightarrow> string \<Rightarrow> string" where
  "textMap m k = asString (gget m k)"

definition statusOf :: "K8sInventoryItem \<Rightarrow> gmap" where
  "statusOf it = (case iv_StatusObject it of None \<Rightarrow> [] | Some st \<Rightarrow> st)"

definition strGet :: "(string \<times> string) list \<Rightarrow> string \<Rightarrow> string" where
  "strGet m k = (case map_of m k of None \<Rightarrow> [] | Some v \<Rightarrow> v)"

definition canonicalRolloutKind :: "string \<Rightarrow> string" where
  "canonicalRolloutKind kind =
     (let k = toLower (trimSpace kind) in
      if k \<in> set [''deployment'', ''deployments''] then ''Deployment''
      else if k \<in> set [''statefulset'', ''statefulsets''] then ''StatefulSet''
      else if k \<in> set [''daemonset'', ''daemonsets''] then ''DaemonSet''
      else [])"

definition rolloutDesired :: "K8sInventoryItem \<Rightarrow> int" where
  "rolloutDesired it =
     (if iv_Kind it = ''DaemonSet'' then intAny (gget (statusOf it) ''desiredNumberScheduled'')
      else intAny (firstAny [gget (iv_Spec it) ''replicas'', gget (statusOf it) ''replicas'']))"

definition rolloutAvailable :: "K8sInventoryItem \<Rightarrow> int" where
  "rolloutAvailable it =
     intAny (gget (statusOf it) (if iv_Kind it = ''DaemonSet'' then ''numberAvailable'' else ''availableReplicas''))"

definition rolloutUpdated :: "K8sInventoryItem \<Rightarrow> int" where
  "rolloutUpdated it =
     intAny (gget (statusOf it) (if iv_Kind it = ''DaemonSet'' then ''updatedNumberScheduled'' else ''updatedReplicas''))"

definition rolloutStrategy :: "K8sInventoryItem \<Rightarrow> string" where
  "rolloutStrategy it =
     firstNonEmpty [textMap (asAnyMap (gget (iv_Spec it) (if iv_Kind it = ''Deployment'' then ''strategy'' else ''updateStrategy''))) ''type'',
       ''RollingUpdate'']"

definition rolloutRevision :: "K8sInventoryItem \<Rightarrow> string" where
  "rolloutRevision it =
     firstNonEmpty [strGet (iv_Annotations it) ''deployment.kubernetes.io/revision'', textMap (statusOf it) ''currentRevision'',
       textMap (statusOf it) ''updateRevision'']"

definition rolloutImages :: "K8sInventoryItem \<Rightarrow> string list" where
  "rolloutImages it =
     filter (\<lambda>v. v \<noteq> []) (map (\<lambda>raw. textMap (asAnyMap raw) ''image'')
       (asAnySlice (gget (asAnyMap (gget (asAnyMap (gget (iv_Spec it) ''template'')) ''spec'')) ''containers'')))"

definition rolloutInProgress :: "K8sInventoryItem \<Rightarrow> bool" where
  "rolloutInProgress it \<longleftrightarrow> rolloutUpdated it < rolloutDesired it \<or> rolloutAvailable it < rolloutDesired it"

definition rolloutTemplateRolloutInFlight :: "K8sInventoryItem \<Rightarrow> bool" where
  "rolloutTemplateRolloutInFlight it \<longleftrightarrow> rolloutUpdated it < rolloutDesired it"

definition rolloutConditionFailed :: "K8sInventoryItem \<Rightarrow> bool" where
  "rolloutConditionFailed it \<longleftrightarrow>
     list_ex (\<lambda>raw. let m = asAnyMap raw; t = textMap m ''type''; r = textMap m ''reason'' in
         (t = ''Progressing'' \<and> r = ''ProgressDeadlineExceeded'') \<or> t = ''ReplicaFailure'')
       (asAnySlice (gget (statusOf it) ''conditions''))"

definition readyReplicas :: "string \<Rightarrow> K8sInventoryItem \<Rightarrow> int" where
  "readyReplicas kind it = intAny (gget (statusOf it) (if kind = ''DaemonSet'' then ''numberReady'' else ''readyReplicas''))"

section \<open>Pods, nodes, claims and budgets\<close>

definition hasNotReadyNode :: "K8sInventoryItem list \<Rightarrow> bool" where
  "hasNotReadyNode xs \<longleftrightarrow> list_ex (\<lambda>it. iv_Kind it = ''Node'' \<and> iv_Status it \<noteq> ''Ready'' \<and> iv_Status it \<noteq> ''ready'') xs"

definition hasBadPVC :: "string \<Rightarrow> K8sInventoryItem list \<Rightarrow> bool" where
  "hasBadPVC ns xs \<longleftrightarrow> list_ex (\<lambda>it. iv_Kind it = ''PersistentVolumeClaim'' \<and> iv_Namespace it = ns \<and>
     (iv_Status it = ''Pending'' \<or> iv_Status it = ''Lost'')) xs"

definition matchLabelsOf :: "K8sInventoryItem \<Rightarrow> gmap" where
  "matchLabelsOf it = asAnyMap (gget (asAnyMap (gget (iv_Spec it) ''selector'')) ''matchLabels'')"

definition podOwnedByWorkload :: "rollout_env \<Rightarrow> K8sInventoryItem \<Rightarrow> K8sInventoryItem \<Rightarrow> bool" where
  "podOwnedByWorkload env pod target \<longleftrightarrow>
     (let m = matchLabelsOf target in m \<noteq> [] \<and> list_all (\<lambda>(k, v). strGet (iv_Labels pod) k = en_sprint env v) m)"

definition waitingReason :: "gval \<Rightarrow> string" where
  "waitingReason raw = textMap (asAnyMap (gget (asAnyMap (gget (asAnyMap raw) ''state'')) ''waiting'')) ''reason''"

definition hasBadOwnedPod :: "rollout_env \<Rightarrow> K8sInventoryItem \<Rightarrow> K8sInventoryItem list \<Rightarrow> bool" where
  "hasBadOwnedPod env target xs \<longleftrightarrow>
     list_ex (\<lambda>p. iv_Kind p = ''Pod'' \<and> podOwnedByWorkload env p target \<and>
       list_ex (\<lambda>raw. waitingReason raw \<in> set [''CrashLoopBackOff'', ''ImagePullBackOff'', ''ErrImagePull''])
         (asAnySlice (gget (statusOf p) ''containerStatuses''))) xs"

record pdbVerdict =
  pv_Found :: bool
  pv_Blocked :: bool
  pv_Reason :: string

definition pdbMatches :: "rollout_env \<Rightarrow> K8sInventoryItem \<Rightarrow> K8sInventoryItem \<Rightarrow> bool" where
  "pdbMatches env target it \<longleftrightarrow>
     iv_Kind it = ''PodDisruptionBudget'' \<and> iv_Namespace it = iv_Namespace target \<and> matchLabelsOf it \<noteq> [] \<and>
     list_all (\<lambda>(k, v). en_sprint env (gget (matchLabelsOf target) k) = en_sprint env v) (matchLabelsOf it)"

definition pdbRefusal :: "K8sInventoryItem \<Rightarrow> string option" where
  "pdbRefusal it =
     (if \<not> ghas (statusOf it) ''disruptionsAllowed''
      then Some (''PodDisruptionBudget '' @ iv_Name it @ '' has not reported disruptionsAllowed yet'')
      else if intAny (gget (statusOf it) ''disruptionsAllowed'') = 0
      then Some (''PodDisruptionBudget '' @ iv_Name it @ '' allows no disruptions (disruptionsAllowed=0)'')
      else None)"

fun pdbScan :: "rollout_env \<Rightarrow> K8sInventoryItem \<Rightarrow> pdbVerdict \<Rightarrow> K8sInventoryItem list \<Rightarrow> pdbVerdict" where
  "pdbScan env target v [] = v"
| "pdbScan env target v (it # xs) =
     (if \<not> pdbMatches env target it then pdbScan env target v xs
      else (case pdbRefusal it of
              Some reason \<Rightarrow> \<lparr>pv_Found = True, pv_Blocked = True, pv_Reason = reason\<rparr>
            | None \<Rightarrow> pdbScan env target (v\<lparr>pv_Found := True\<rparr>) xs))"

definition pdbSafety :: "rollout_env \<Rightarrow> K8sInventoryItem \<Rightarrow> K8sInventoryItem list \<Rightarrow> pdbVerdict" where
  "pdbSafety env target xs = pdbScan env target \<lparr>pv_Found = False, pv_Blocked = False, pv_Reason = []\<rparr> xs"

section \<open>Precheck\<close>

record rolloutRequestInput =
  ri_ClusterID :: string
  ri_Namespace :: string
  ri_Kind :: string
  ri_Name :: string
  ri_Reason :: string
  ri_TicketNo :: string
  ri_ExecutionMode :: string
  ri_AutoRollback :: bool
  ri_TimeoutSeconds :: int

record rolloutCheck =
  rc_Code :: string
  rc_Status :: string
  rc_Message :: string

record rollout_precheck =
  pc_Allowed :: bool
  pc_RiskLevel :: string
  pc_RequiresApproval :: bool
  pc_Healthy :: bool
  pc_Desired :: int
  pc_Ready :: int
  pc_Available :: int
  pc_Updated :: int
  pc_Strategy :: string
  pc_Images :: "string list"
  pc_Checks :: "rolloutCheck list"
  pc_Blockers :: "string list"
  pc_Warnings :: "string list"
  pc_SuperAdminDirect :: bool

definition check :: "string \<Rightarrow> string \<Rightarrow> string \<Rightarrow> rolloutCheck" where
  "check code st msg = \<lparr>rc_Code = code, rc_Status = st, rc_Message = msg\<rparr>"

definition messagesOf :: "string \<Rightarrow> rolloutCheck list \<Rightarrow> string list" where
  "messagesOf st cs = map rc_Message (filter (\<lambda>c. rc_Status c = st) cs)"

definition wrapLookup :: "string \<Rightarrow> store_error \<Rightarrow> store_error" where
  "wrapLookup lead e = (case e of ErrStore m \<Rightarrow> ErrStore (lead @ m) | _ \<Rightarrow> e)"

definition resolvePodRolloutTarget :: "rollout_env \<Rightarrow> rolloutRequestInput \<Rightarrow> store_error + K8sInventoryItem" where
  "resolvePodRolloutTarget env i =
     (let look = (\<lambda>kind name. en_item env (ri_ClusterID i) kind (ri_Namespace i) name) in
      case look ''Pod'' (ri_Name i) of
        Inl e \<Rightarrow> Inl e
      | Inr pod \<Rightarrow>
          let (kind, name) = PodOwnerReference (iv_Spec pod) in
          (case (if equalFold kind ''ReplicaSet''
                 then (case look ''ReplicaSet'' name of
                         Inl e \<Rightarrow> Inl (wrapLookup (''Pod owner ReplicaSet '' @ goQuote name @ '' could not be resolved: '') e)
                       | Inr rs \<Rightarrow> Inr (PodOwnerReference (iv_Spec rs)))
                 else Inr (kind, name)) of
             Inl e \<Rightarrow> Inl e
           | Inr (kind2, name2) \<Rightarrow>
               let k = canonicalRolloutKind kind2 in
               if k = [] \<or> trimSpace name2 = []
               then Inl (ErrStore (''Pod '' @ ri_Namespace i @ ''/'' @ ri_Name i @ '' is not owned by a Deployment, StatefulSet, or DaemonSet''))
               else look k name2))"

definition workloadHealthy :: "string \<Rightarrow> K8sInventoryItem \<Rightarrow> bool" where
  "workloadHealthy kind target \<longleftrightarrow>
     rolloutDesired target > 0 \<and> readyReplicas kind target = rolloutDesired target \<and>
     rolloutAvailable target = rolloutDesired target \<and> \<not> rolloutConditionFailed target \<and> iv_DeletionTimestamp target = []"

definition healthMessage :: "string \<Rightarrow> K8sInventoryItem \<Rightarrow> string" where
  "healthMessage kind target =
     (let d = itoa (rolloutDesired target) in
      (utf8 [0xC815, 0xC0C1, 0x20, 0xAE30, 0xC900, 0x20, 0xBBF8, 0xCDA9, 0xC871] @ '': Ready '') @ itoa (readyReplicas kind target) @ ''/'' @ d @ '', Available '' @ itoa (rolloutAvailable target) @ ''/'' @ d)"

definition workloadChecks :: "string \<Rightarrow> K8sInventoryItem \<Rightarrow> rolloutCheck list" where
  "workloadChecks kind target =
     [if iv_DeletionTimestamp target \<noteq> [] then check ''deleting'' ''blocked'' (utf8 [0xB9AC, 0xC18C, 0xC2A4, 0xAC00, 0x20, 0xC0AD, 0xC81C, 0x20, 0xCC98, 0xB9AC, 0x20, 0xC911, 0xC785, 0xB2C8, 0xB2E4] @ ''.'')
      else check ''deleting'' ''passed'' (utf8 [0xC0AD, 0xC81C, 0x20, 0xCC98, 0xB9AC, 0x20, 0xC911, 0xC774, 0x20, 0xC544, 0xB2D9, 0xB2C8, 0xB2E4] @ ''.''),
      if rolloutInProgress target then check ''in_progress'' ''blocked'' (utf8 [0xAE30, 0xC874] @ '' Kubernetes rollout'' @ utf8 [0xC774, 0x20, 0xC9C4, 0xD589, 0x20, 0xC911, 0xC785, 0xB2C8, 0xB2E4] @ ''.'')
      else check ''in_progress'' ''passed'' (utf8 [0xC9C4, 0xD589, 0x20, 0xC911, 0xC778] @ '' rollout'' @ utf8 [0xC774, 0x20, 0xC5C6, 0xC2B5, 0xB2C8, 0xB2E4] @ ''.''),
      if \<not> workloadHealthy kind target then check ''healthy'' ''blocked'' (healthMessage kind target)
      else check ''healthy'' ''passed'' (''Ready'' @ utf8 [0xB7] @ ''Available replica'' @ utf8 [0xAC00, 0x20, 0xBAA9, 0xD45C, 0xAC12, 0xACFC, 0x20, 0xC77C, 0xCE58, 0xD569, 0xB2C8, 0xB2E4] @ ''.'')] @
     (if rolloutDesired target = 1 then [check ''single_replica'' ''warning'' (''Replica 1'' @ utf8 [0xC740, 0x20, 0xC11C, 0xBE44, 0xC2A4, 0x20, 0xC911, 0xB2E8, 0x20, 0xC704, 0xD5D8, 0xC774, 0x20, 0xC788, 0xC2B5, 0xB2C8, 0xB2E4] @ ''.'')] else []) @
     (if rolloutDesired target = 0 then [check ''zero_replica'' ''warning'' (''Replica 0 '' @ utf8 [0xC0C1, 0xD0DC, 0xC774, 0xBA70, 0x20, 0xAD50, 0xCCB4, 0xD560] @ '' Pod'' @ utf8 [0xAC00, 0x20, 0xC5C6, 0xC2B5, 0xB2C8, 0xB2E4] @ ''.'')] else []) @
     (if equalFold kind ''Deployment'' \<and> boolAny (gget (iv_Spec target) ''paused'')
      then [check ''paused'' ''blocked'' (utf8 [0xC77C, 0xC2DC, 0xC815, 0xC9C0, 0xB41C] @ '' Deployment'' @ utf8 [0xC785, 0xB2C8, 0xB2E4] @ ''.'')] else []) @
     (if (kind = ''StatefulSet'' \<or> kind = ''DaemonSet'') \<and> equalFold (rolloutStrategy target) ''OnDelete''
      then [check ''on_delete'' (if kind = ''DaemonSet'' then ''blocked'' else ''warning'')
              (kind @ ('' OnDelete '' @ utf8 [0xC804, 0xB7B5, 0xC740, 0x20, 0xC790, 0xB3D9] @ '' Pod '' @ utf8 [0xAD50, 0xCCB4, 0xAC00, 0x20, 0xBCF4, 0xC7A5, 0xB418, 0xC9C0, 0x20, 0xC54A, 0xC2B5, 0xB2C8, 0xB2E4] @ ''.''))] else [])"

definition inventoryChecks :: "rollout_env \<Rightarrow> string \<Rightarrow> string \<Rightarrow> string \<Rightarrow> K8sInventoryItem \<Rightarrow> rolloutCheck list" where
  "inventoryChecks env clusterID ns kind target =
     (case en_inventory env clusterID of
        Inl e \<Rightarrow> [check ''inventory'' ''blocked''
          ((utf8 [0xD074, 0xB7EC, 0xC2A4, 0xD130, 0x20, 0xC778, 0xBCA4, 0xD1A0, 0xB9AC, 0xB97C, 0x20, 0xC870, 0xD68C, 0xD560, 0x20, 0xC218, 0x20, 0xC5C6, 0xC5B4] @ '' Pod'' @ utf8 [0xB7, 0xB178, 0xB4DC, 0xB7] @ ''PVC'' @ utf8 [0xB7] @ ''PodDisruptionBudget '' @ utf8 [0xC548, 0xC804, 0x20, 0xC810, 0xAC80, 0xC744, 0x20, 0xC218, 0xD589, 0xD558, 0xC9C0, 0x20, 0xBABB, 0xD588, 0xC2B5, 0xB2C8, 0xB2E4] @ '': '') @ e)]
      | Inr xs \<Rightarrow>
          [if hasBadOwnedPod env target xs
           then check ''pod_health'' ''blocked'' (utf8 [0xC18C, 0xC720] @ '' Pod'' @ utf8 [0xC5D0] @ '' CrashLoopBackOff '' @ utf8 [0xB610, 0xB294] @ '' ImagePullBackOff'' @ utf8 [0xAC00, 0x20, 0xC788, 0xC2B5, 0xB2C8, 0xB2E4] @ ''.'')
           else check ''pod_health'' ''passed'' (utf8 [0xCC28, 0xB2E8, 0x20, 0xB300, 0xC0C1] @ '' Pod '' @ utf8 [0xC624, 0xB958, 0xAC00, 0x20, 0xC5C6, 0xC2B5, 0xB2C8, 0xB2E4] @ ''.'')] @
          (if hasNotReadyNode xs
           then [check ''node_health'' ''warning'' (''NotReady '' @ utf8 [0xB178, 0xB4DC, 0xAC00, 0x20, 0xC788, 0xC5B4, 0x20, 0xC2E0, 0xADDC] @ '' Pod '' @ utf8 [0xBC30, 0xCE58, 0xAC00, 0x20, 0xC9C0, 0xC5F0, 0xB420, 0x20, 0xC218, 0x20, 0xC788, 0xC2B5, 0xB2C8, 0xB2E4] @ ''.'')] else []) @
          (if kind = ''StatefulSet'' \<and> hasBadPVC ns xs
           then [check ''pvc'' ''blocked'' (''Pending '' @ utf8 [0xB610, 0xB294] @ '' Lost PVC'' @ utf8 [0xAC00, 0x20, 0xC788, 0xC5B4] @ '' StatefulSet rollout'' @ utf8 [0xC744, 0x20, 0xCC28, 0xB2E8, 0xD569, 0xB2C8, 0xB2E4] @ ''.'')] else []) @
          [let pdb = pdbSafety env target xs in
           if pv_Blocked pdb then check ''pdb'' ''blocked'' (pv_Reason pdb)
           else if pv_Found pdb then check ''pdb'' ''passed'' (''PodDisruptionBudget'' @ utf8 [0xC774, 0x20, 0xC911, 0xB2E8, 0xC744, 0x20, 0xD5C8, 0xC6A9, 0xD569, 0xB2C8, 0xB2E4] @ ''.'')
           else check ''pdb'' ''warning'' (utf8 [0xC77C, 0xCE58, 0xD558, 0xB294] @ '' PodDisruptionBudget'' @ utf8 [0xC744, 0x20, 0xD655, 0xC778, 0xD560, 0x20, 0xC218, 0x20, 0xC5C6, 0xC2B5, 0xB2C8, 0xB2E4] @ ''.'')])"

definition precheckOf :: "rollout_env \<Rightarrow> bool \<Rightarrow> string \<Rightarrow> string \<Rightarrow> string \<Rightarrow> K8sInventoryItem \<Rightarrow> rollout_precheck" where
  "precheckOf env superAdmin clusterID ns kind target =
     (let checks = workloadChecks kind target @ inventoryChecks env clusterID ns kind target;
          blockers = messagesOf ''blocked'' checks; warnings = messagesOf ''warning'' checks;
          risk = (if rolloutDesired target \<le> 1 \<or> kind \<noteq> ''Deployment'' \<or> length warnings > 1 then ''high''
                  else if contains (toLower clusterID) ''prod'' \<or> contains (toLower ns) ''prod'' then ''medium'' else ''low'') in
      \<lparr>pc_Allowed = (blockers = []), pc_RiskLevel = risk, pc_RequiresApproval = (risk \<noteq> ''low''),
        pc_Healthy = workloadHealthy kind target, pc_Desired = rolloutDesired target, pc_Ready = readyReplicas kind target,
        pc_Available = rolloutAvailable target, pc_Updated = rolloutUpdated target, pc_Strategy = rolloutStrategy target,
        pc_Images = rolloutImages target, pc_Checks = checks, pc_Blockers = blockers, pc_Warnings = warnings,
        pc_SuperAdminDirect = (superAdmin \<and> blockers = [])\<rparr>)"

definition rolloutPrecheck ::
  "rollout_env \<Rightarrow> bool \<Rightarrow> rolloutRequestInput \<Rightarrow> store_error + rollout_precheck \<times> K8sInventoryItem" where
  "rolloutPrecheck env superAdmin i0 =
     (case (if equalFold (trimSpace (ri_Kind i0)) ''pod'' \<or> equalFold (trimSpace (ri_Kind i0)) ''pods''
            then (case resolvePodRolloutTarget env i0 of
                    Inl e \<Rightarrow> Inl e
                  | Inr t \<Rightarrow> Inr (i0\<lparr>ri_Namespace := iv_Namespace t, ri_Kind := iv_Kind t, ri_Name := iv_Name t\<rparr>))
            else Inr i0) of
        Inl e \<Rightarrow> Inl e
      | Inr i \<Rightarrow>
          let kind = canonicalRolloutKind (ri_Kind i) in
          if kind = [] then Inl (ErrStore ''unsupported rollout kind'')
          else (case en_item env (ri_ClusterID i) kind (ri_Namespace i) (ri_Name i) of
                  Inl e \<Rightarrow> Inl e
                | Inr target \<Rightarrow> Inr (precheckOf env superAdmin (ri_ClusterID i) (ri_Namespace i) kind target, target)))"

section \<open>The guard before an execution\<close>

definition rolloutExecutionHazard :: "rollout_env \<Rightarrow> K8sRolloutAction \<Rightarrow> K8sInventoryItem \<Rightarrow> string" where
  "rolloutExecutionHazard env roll target =
     (if iv_DeletionTimestamp target \<noteq> [] then ''target is being deleted''
      else if rolloutTemplateRolloutInFlight target then ''another Kubernetes rollout is already in progress on the target''
      else (case en_inventory env (ro_ClusterID roll) of
              Inl e \<Rightarrow> ''PodDisruptionBudget safety could not be verified: '' @ e
            | Inr xs \<Rightarrow> let pdb = pdbSafety env target xs in if pv_Blocked pdb then pv_Reason pdb else []))"

definition storeErrorText :: "store_error \<Rightarrow> string" where
  "storeErrorText e = (case e of ErrNotFound \<Rightarrow> ''not found'' | ErrInvalidTransition \<Rightarrow> ''invalid state transition''
     | ErrDuplicateKey \<Rightarrow> ''UNIQUE constraint failed'' | ErrStore m \<Rightarrow> m)"

definition validateRolloutExecutionTarget :: "rollout_env \<Rightarrow> K8sRolloutAction \<Rightarrow> string option" where
  "validateRolloutExecutionTarget env roll =
     (case en_item env (ro_ClusterID roll) (ro_ResourceKind roll) (ro_Namespace roll) (ro_ResourceName roll) of
        Inl e \<Rightarrow> Some (''reload rollout target: '' @ storeErrorText e)
      | Inr target \<Rightarrow>
          if ro_ResourceUID roll \<noteq> [] \<and> iv_UID target \<noteq> ro_ResourceUID roll
          then Some (''target UID drifted from '' @ ro_ResourceUID roll @ '' to '' @ iv_UID target)
          else let currentHash = en_hash env (iv_Spec target) in
            if ro_PreviousSpecHash roll \<noteq> [] \<and> currentHash \<noteq> ro_PreviousSpecHash roll
            then Some (''target spec drifted from '' @ ro_PreviousSpecHash roll @ '' to '' @ currentHash)
            else let hazard = rolloutExecutionHazard env roll target in if hazard \<noteq> [] then Some hazard else None)"

section \<open>Observation\<close>

definition parseRolloutTime :: "rollout_env \<Rightarrow> string \<Rightarrow> int option" where
  "parseRolloutTime env raw = (let value = trimSpace raw in if value = [] then None else en_parse env value)"

definition rolloutTemplate :: "gmap \<Rightarrow> gmap" where
  "rolloutTemplate spec = asAnyMap (gget spec ''template'')"

definition rolloutTemplateAnnotation :: "rollout_env \<Rightarrow> gmap \<Rightarrow> string \<Rightarrow> string" where
  "rolloutTemplateAnnotation env spec key =
     (case gget (asAnyMap (gget (rolloutTemplate spec) ''metadata'')) ''annotations'' of
        GMap annotations \<Rightarrow>
          (let value = gget annotations key in if value = GNil then [] else trimSpace (en_sprint env value))
      | _ \<Rightarrow> [])"

definition gdel :: "gmap \<Rightarrow> string \<Rightarrow> gmap" where
  "gdel m k = filter (\<lambda>(j, _). j \<noteq> k) m"

definition gset :: "gmap \<Rightarrow> string \<Rightarrow> gval \<Rightarrow> gmap" where
  "gset m k v = map (\<lambda>(j, x). (j, if j = k then v else x)) m"

definition managedAnnotations :: "string list" where
  "managedAnnotations = [''clustara.io/restartedAt'', ''kubectl.kubernetes.io/restartedAt'', ''clustara.io/restartedBy'',
     ''clustara.io/reason'', ''clustara.io/actionId'', ''clustara.io/rollbackAt'', ''clustara.io/rollbackBy'']"

definition normalizeRolloutTemplate :: "gmap \<Rightarrow> gmap" where
  "normalizeRolloutTemplate template =
     (case gget template ''metadata'' of
        GMap metadata \<Rightarrow>
          (let annotations = filter (\<lambda>(k, _). k \<notin> set managedAnnotations) (asAnyMap (gget metadata ''annotations''));
               metadata2 = (if annotations = [] then gdel metadata ''annotations'' else gset metadata ''annotations'' (GMap annotations)) in
           gset template ''metadata'' (GMap metadata2))
      | _ \<Rightarrow> template)"

definition rolloutTemplatesEquivalent :: "rollout_env \<Rightarrow> gmap \<Rightarrow> gmap \<Rightarrow> bool" where
  "rolloutTemplatesEquivalent env left right \<longleftrightarrow>
     left \<noteq> [] \<and> right \<noteq> [] \<and> en_hash env (normalizeRolloutTemplate left) = en_hash env (normalizeRolloutTemplate right)"

fun observedSince :: "rollout_env \<Rightarrow> int \<Rightarrow> string list \<Rightarrow> bool" where
  "observedSince env start [] = False"
| "observedSince env start (raw # raws) =
     (case parseRolloutTime env raw of Some observed \<Rightarrow> start \<le> observed | None \<Rightarrow> observedSince env start raws)"

definition inventoryObservedAtOrAfter :: "rollout_env \<Rightarrow> K8sInventoryItem \<Rightarrow> string \<Rightarrow> bool" where
  "inventoryObservedAtOrAfter env target since =
     (case parseRolloutTime env since of None \<Rightarrow> False | Some start \<Rightarrow> observedSince env start [iv_ObservedAt target, iv_UpdatedAt target])"

definition rolloutHealthy :: "K8sRolloutAction \<Rightarrow> bool" where
  "rolloutHealthy roll \<longleftrightarrow> ro_DesiredReplicas roll > 0 \<and> ro_UpdatedReplicas roll \<ge> ro_DesiredReplicas roll \<and>
     ro_ReadyReplicas roll \<ge> ro_DesiredReplicas roll \<and> ro_AvailableReplicas roll \<ge> ro_DesiredReplicas roll"

record rolloutObservation =
  ob_Fresh :: bool
  ob_ActionAnnotation :: bool
  ob_SpecChanged :: bool
  ob_RevisionChanged :: bool
  ob_GenerationAdvanced :: bool
  ob_MutationObserved :: bool
  ob_ControllerObserved :: bool
  ob_ExecutionObserved :: bool
  ob_Healthy :: bool
  ob_RollbackMutationObserved :: bool
  ob_RollbackControllerObserved :: bool
  ob_RollbackObserved :: bool

definition noObservation :: rolloutObservation where
  "noObservation = \<lparr>ob_Fresh = False, ob_ActionAnnotation = False, ob_SpecChanged = False, ob_RevisionChanged = False,
     ob_GenerationAdvanced = False, ob_MutationObserved = False, ob_ControllerObserved = False, ob_ExecutionObserved = False,
     ob_Healthy = False, ob_RollbackMutationObserved = False, ob_RollbackControllerObserved = False, ob_RollbackObserved = False\<rparr>"

definition observeRollout :: "rollout_env \<Rightarrow> K8sRolloutAction \<Rightarrow> K8sInventoryItem \<Rightarrow> rolloutObservation" where
  "observeRollout env roll target =
     (let fresh = inventoryObservedAtOrAfter env target (ro_StartedAt roll);
          actionID = rolloutTemplateAnnotation env (iv_Spec target) ''clustara.io/actionId'';
          actionAnnotation = (actionID \<noteq> [] \<and> (actionID = ro_ActionRequestID roll \<or> actionID = ro_ID roll));
          specHash = en_hash env (iv_Spec target);
          specChanged = (ro_PreviousSpecHash roll \<noteq> [] \<and> specHash \<noteq> ro_PreviousSpecHash roll);
          revision = rolloutRevision target;
          revisionChanged = (ro_PreviousRevision roll \<noteq> [] \<and> revision \<noteq> [] \<and> revision \<noteq> ro_PreviousRevision roll);
          previousGeneration = intAny (gget (ro_Precheck roll) ''observed_generation'');
          currentGeneration = intAny (gget (statusOf target) ''observedGeneration'');
          generationAdvanced = (previousGeneration > 0 \<and> currentGeneration > previousGeneration);
          rollbackFresh = inventoryObservedAtOrAfter env target (ro_RollbackStartedAt roll);
          rollbackAction = (actionID = ro_ID roll \<and> rolloutTemplateAnnotation env (iv_Spec target) ''clustara.io/rollbackAt'' \<noteq> []);
          rollbackRestored = rolloutTemplatesEquivalent env (ro_PreviousTemplate roll) (rolloutTemplate (iv_Spec target));
          rollbackControllerObserved = (rollbackFresh \<and> ro_TargetRevision roll \<noteq> [] \<and> revision \<noteq> [] \<and> revision \<noteq> ro_TargetRevision roll);
          rollbackMutationObserved = (rollbackFresh \<and> (rollbackAction \<or> rollbackRestored) \<and>
            (ro_TargetSpecHash roll = [] \<or> specHash \<noteq> ro_TargetSpecHash roll));
          mutationObserved = (fresh \<and> (actionAnnotation \<or> specChanged));
          controllerObserved = (fresh \<and> (revisionChanged \<or> generationAdvanced)) in
      \<lparr>ob_Fresh = fresh, ob_ActionAnnotation = actionAnnotation, ob_SpecChanged = specChanged, ob_RevisionChanged = revisionChanged,
        ob_GenerationAdvanced = generationAdvanced, ob_MutationObserved = mutationObserved, ob_ControllerObserved = controllerObserved,
        ob_ExecutionObserved = (mutationObserved \<and> controllerObserved), ob_Healthy = rolloutHealthy roll,
        ob_RollbackMutationObserved = rollbackMutationObserved, ob_RollbackControllerObserved = rollbackControllerObserved,
        ob_RollbackObserved = (rollbackMutationObserved \<and> rollbackControllerObserved)\<rparr>)"

definition evidence :: "rollout_env \<Rightarrow> rolloutObservation \<Rightarrow> K8sRolloutAction \<Rightarrow> K8sInventoryItem \<Rightarrow> gmap" where
  "evidence env ob roll target =
     [(''desired'', GInt (ro_DesiredReplicas roll)), (''updated'', GInt (ro_UpdatedReplicas roll)), (''ready'', GInt (ro_ReadyReplicas roll)),
      (''available'', GInt (ro_AvailableReplicas roll)), (''fresh_snapshot'', GBool (ob_Fresh ob)),
      (''action_annotation'', GBool (ob_ActionAnnotation ob)), (''spec_changed'', GBool (ob_SpecChanged ob)),
      (''revision_changed'', GBool (ob_RevisionChanged ob)), (''generation_advanced'', GBool (ob_GenerationAdvanced ob)),
      (''mutation_observed'', GBool (ob_MutationObserved ob)), (''controller_observed'', GBool (ob_ControllerObserved ob)),
      (''execution_observed'', GBool (ob_ExecutionObserved ob)),
      (''rollback_mutation_observed'', GBool (ob_RollbackMutationObserved ob)),
      (''rollback_controller_observed'', GBool (ob_RollbackControllerObserved ob)),
      (''rollback_observed'', GBool (ob_RollbackObserved ob)), (''target_uid'', GStr (iv_UID target)),
      (''target_revision'', GStr (rolloutRevision target)), (''target_spec_hash'', GStr (en_hash env (iv_Spec target))),
      (''observed_at'', GStr (firstNonEmpty [iv_ObservedAt target, iv_UpdatedAt target]))]"

section \<open>Status predicates\<close>

definition rolloutTerminal :: "string \<Rightarrow> bool" where
  "rolloutTerminal st \<longleftrightarrow> st \<in> set [''succeeded'', ''failed'', ''timed_out'', ''rejected'', ''cancelled'']"

definition rolloutActive :: "string \<Rightarrow> bool" where
  "rolloutActive st \<longleftrightarrow> st \<in> set [''requested'', ''pending'', ''approval_required'', ''approved'', ''running'', ''monitoring'']"

definition rolloutNeedsReconcile :: "K8sRolloutAction \<Rightarrow> bool" where
  "rolloutNeedsReconcile roll \<longleftrightarrow>
     (if rolloutActive (ro_Status roll) \<or> ro_Status roll = ''rollback_running'' then True
      else if ro_RollbackStatus roll \<in> set [''requested'', ''monitoring'', ''running''] then True
      else (ro_Status roll = ''failed'' \<or> ro_Status roll = ''timed_out'') \<and> ro_AutoRollback roll \<and> ro_RollbackStatus roll = [])"

definition rolloutReconcileDue :: "K8sRolloutAction \<Rightarrow> bool" where
  "rolloutReconcileDue roll \<longleftrightarrow>
     (if ro_RollbackStatus roll \<in> set [''requested'', ''monitoring'', ''running''] then True
      else if (ro_Status roll = ''failed'' \<or> ro_Status roll = ''timed_out'') \<and> ro_AutoRollback roll \<and> ro_RollbackStatus roll = [] then True
      else ro_StartedAt roll \<noteq> [] \<and> \<not> rolloutTerminal (ro_Status roll))"

definition rolloutProgress :: "K8sRolloutAction \<Rightarrow> int" where
  "rolloutProgress a =
     (if ro_DesiredReplicas a \<le> 0 then 0
      else let v = (sgn (ro_UpdatedReplicas a)) * ((\<bar>ro_UpdatedReplicas a\<bar> * 100) div ro_DesiredReplicas a) in if v > 100 then 100 else v)"

definition rolloutEventStage :: "string \<Rightarrow> string" where
  "rolloutEventStage st =
     (if st = ''succeeded'' then ''completed'' else if st = ''failed'' \<or> st = ''timed_out'' then ''failed''
      else if st = ''monitoring'' then ''pod_replacement'' else st)"

section \<open>One reconciliation\<close>

text \<open>The products of the request's timeout are \<^verbatim>\<open>int64\<close> and wrap around.\<close>

definition wrap64 :: "int \<Rightarrow> int" where
  "wrap64 x = (x + 2 ^ 63) mod 2 ^ 64 - 2 ^ 63"

definition secondNs :: int where "secondNs = 1000000000"
definition rolloutRollbackClaimGrace :: int where "rolloutRollbackClaimGrace = 2 * 60 * secondNs"
definition rolloutRollbackMinimumTimeout :: int where "rolloutRollbackMinimumTimeout = 3 * 60 * secondNs"

text \<open>A claim that is still young is left alone; an abandoned one is opened again.\<close>

definition reopenClaim :: "rollout_env \<Rightarrow> int \<Rightarrow> K8sRolloutAction \<Rightarrow> K8sRolloutAction option" where
  "reopenClaim env now roll =
     (case (if ro_RollbackStatus roll = ''running''
            then (case (case parseRolloutTime env (ro_UpdatedAt roll) of Some t \<Rightarrow> Some t | None \<Rightarrow> parseRolloutTime env (ro_RollbackStartedAt roll)) of
                    None \<Rightarrow> None
                  | Some claimedAt \<Rightarrow> if now - claimedAt < rolloutRollbackClaimGrace then None else Some (roll\<lparr>ro_RollbackStatus := ''requested''\<rparr>))
            else Some roll) of
        None \<Rightarrow> None
      | Some r \<Rightarrow> Some (if ro_RollbackStatus r = ''requested'' then r\<lparr>ro_RollbackCompletedAt := []\<rparr> else r))"

definition measureTarget :: "rollout_env \<Rightarrow> K8sInventoryItem \<Rightarrow> K8sRolloutAction \<Rightarrow> K8sRolloutAction \<times> rolloutObservation" where
  "measureTarget env target roll =
     (let r = roll\<lparr>ro_DesiredReplicas := rolloutDesired target, ro_UpdatedReplicas := rolloutUpdated target,
            ro_ReadyReplicas := readyReplicas (iv_Kind target) target, ro_AvailableReplicas := rolloutAvailable target,
            ro_UnavailableReplicas := max 0 (rolloutDesired target - rolloutAvailable target)\<rparr>;
          ob = observeRollout env r target in
      (if ro_RollbackStatus r = [] \<and> (ob_MutationObserved ob \<or> ob_ControllerObserved ob)
       then r\<lparr>ro_TargetRevision := rolloutRevision target, ro_TargetSpecHash := en_hash env (iv_Spec target)\<rparr> else r, ob))"

definition measureDuration :: "rollout_env \<Rightarrow> int \<Rightarrow> K8sRolloutAction \<Rightarrow> K8sRolloutAction" where
  "measureDuration env now roll =
     (case parseRolloutTime env (ro_StartedAt roll) of
        None \<Rightarrow> roll
      | Some start \<Rightarrow> roll\<lparr>ro_DurationMS := max 0 (sgn (now - start) * (\<bar>now - start\<bar> div 1000000))\<rparr>)"

definition closeWith :: "rollout_env \<Rightarrow> int \<Rightarrow> string \<Rightarrow> string \<Rightarrow> K8sRolloutAction \<Rightarrow> K8sRolloutAction" where
  "closeWith env now st reason roll = roll\<lparr>ro_Status := st, ro_FailureReason := reason, ro_CompletedAt := en_format env now\<rparr>"

definition rolloutTimedOut :: "K8sRolloutAction \<Rightarrow> bool" where
  "rolloutTimedOut roll \<longleftrightarrow> ro_TimeoutSeconds roll > 0 \<and> ro_DurationMS roll > wrap64 (ro_TimeoutSeconds roll * 1000)"

definition closeRollout ::
  "rollout_env \<Rightarrow> int \<Rightarrow> K8sInventoryItem option \<Rightarrow> rolloutObservation \<Rightarrow> K8sRolloutAction \<Rightarrow> K8sRolloutAction" where
  "closeRollout env now target ob roll =
     (if \<not> rolloutTerminal (ro_Status roll) \<and> parseRolloutTime env (ro_StartedAt roll) \<noteq> None
      then (let found = (\<lambda>P. case target of None \<Rightarrow> False | Some t \<Rightarrow> P t) in
            if found (\<lambda>t. ob_Fresh ob \<and> ro_ResourceUID roll \<noteq> [] \<and> iv_UID t \<noteq> ro_ResourceUID roll)
            then closeWith env now ''failed'' ''rollout target UID changed'' roll
            else if found (\<lambda>t. ob_ExecutionObserved ob \<and> rolloutConditionFailed t)
            then closeWith env now ''failed'' (''ProgressDeadlineExceeded '' @ utf8 [0xB610, 0xB294] @ '' ReplicaFailure'') roll
            else if rolloutTimedOut roll then closeWith env now ''timed_out'' ''rollout timeout'' roll
            else if found (\<lambda>t. ob_ExecutionObserved ob \<and> ob_Healthy ob) then closeWith env now ''succeeded'' [] roll
            else roll)
      else roll)"

definition endRollback :: "rollout_env \<Rightarrow> int \<Rightarrow> string \<Rightarrow> string \<Rightarrow> K8sRolloutAction \<Rightarrow> K8sRolloutAction" where
  "endRollback env now st reason roll =
     roll\<lparr>ro_RollbackStatus := st, ro_RollbackFailureReason := reason, ro_RollbackCompletedAt := en_format env now\<rparr>"

definition planRollback :: "rollout_env \<Rightarrow> int \<Rightarrow> K8sInventoryItem option \<Rightarrow> K8sRolloutAction \<Rightarrow> K8sRolloutAction" where
  "planRollback env now target roll =
     (if (ro_Status roll = ''failed'' \<or> ro_Status roll = ''timed_out'') \<and> ro_AutoRollback roll \<and> ro_RollbackStatus roll = []
      then (let r = (case target of None \<Rightarrow> roll
                     | Some t \<Rightarrow> roll\<lparr>ro_TargetRevision := rolloutRevision t, ro_TargetSpecHash := en_hash env (iv_Spec t)\<rparr>);
                r1 = r\<lparr>ro_RollbackStartedAt := en_format env now, ro_RollbackCompletedAt := [], ro_RollbackFailureReason := []\<rparr> in
            if (case target of None \<Rightarrow> False | Some t \<Rightarrow> ro_ResourceUID roll \<noteq> [] \<and> iv_UID t \<noteq> ro_ResourceUID roll)
            then endRollback env now ''failed'' ''rollout target UID changed; rollback was not applied to the replacement object'' r1
            else if \<not> equalFold (ro_ResourceKind roll) ''Deployment''
            then endRollback env now ''failed'' (''StatefulSet'' @ utf8 [0xB7] @ ''DaemonSet '' @ utf8 [0xC790, 0xB3D9, 0x20, 0xB864, 0xBC31, 0xC740, 0x20, 0xC548, 0xC804, 0x20, 0xC815, 0xCC45, 0xC0C1, 0x20, 0xC9C0, 0xC6D0, 0xD558, 0xC9C0, 0x20, 0xC54A, 0xC2B5, 0xB2C8, 0xB2E4] @ ''.'') r1
            else if ro_PreviousTemplate roll = [] then endRollback env now ''failed'' (utf8 [0xC800, 0xC7A5, 0xB41C, 0x20, 0xC774, 0xC804] @ '' Pod Template'' @ utf8 [0xC774, 0x20, 0xC5C6, 0xC2B5, 0xB2C8, 0xB2E4] @ ''.'') r1
            else r1\<lparr>ro_RollbackStatus := ''requested''\<rparr>)
      else roll)"

definition rollbackTimedOut :: "rollout_env \<Rightarrow> int \<Rightarrow> K8sRolloutAction \<Rightarrow> bool" where
  "rollbackTimedOut env now roll \<longleftrightarrow>
     (case parseRolloutTime env (ro_RollbackStartedAt roll) of
        None \<Rightarrow> False
      | Some start \<Rightarrow> now - start > max (wrap64 (ro_TimeoutSeconds roll * secondNs)) rolloutRollbackMinimumTimeout)"

definition watchRollback ::
  "rollout_env \<Rightarrow> int \<Rightarrow> K8sInventoryItem option \<Rightarrow> rolloutObservation \<Rightarrow> K8sRolloutAction \<Rightarrow> K8sRolloutAction" where
  "watchRollback env now target ob roll =
     (if ro_RollbackStatus roll = ''monitoring''
      then (let found = (\<lambda>P. case target of None \<Rightarrow> False | Some t \<Rightarrow> P t) in
            if found (\<lambda>t. ob_RollbackObserved ob \<and> rolloutConditionFailed t)
            then endRollback env now ''failed'' (''rollback controller reported ProgressDeadlineExceeded '' @ utf8 [0xB610, 0xB294] @ '' ReplicaFailure'') roll
            else if found (\<lambda>t. ob_RollbackObserved ob \<and> ob_Healthy ob) then endRollback env now ''succeeded'' [] roll
            else if rollbackTimedOut env now roll then endRollback env now ''failed'' ''rollback timeout'' roll
            else roll)
      else roll)"

definition advanceRollout ::
  "rollout_env \<Rightarrow> int \<Rightarrow> K8sInventoryItem option \<Rightarrow> K8sRolloutAction \<Rightarrow> K8sRolloutAction \<times> rolloutObservation" where
  "advanceRollout env now target roll =
     (let (r1, ob) = (case target of None \<Rightarrow> (roll, noObservation) | Some t \<Rightarrow> measureTarget env t roll);
          r2 = closeRollout env now target ob (measureDuration env now r1);
          r3 = planRollback env now target r2 in
      (watchRollback env now target ob r3, ob))"

section \<open>Lemmas\<close>

lemma needsReconcile_iff:
  "rolloutNeedsReconcile r \<longleftrightarrow> primaryInFlight (ro_Status r) \<or> rollbackInFlight (ro_RollbackStatus r) \<or> rollbackOwed r"
  unfolding rolloutNeedsReconcile_def primaryInFlight_def rollbackInFlight_def rollbackOwed_def rolloutActive_def by auto

lemma reconcileDue_iff:
  "rolloutReconcileDue r \<longleftrightarrow>
     rollbackInFlight (ro_RollbackStatus r) \<or> rollbackOwed r \<or> (ro_StartedAt r \<noteq> [] \<and> \<not> rolloutTerminal (ro_Status r))"
  unfolding rolloutReconcileDue_def rollbackInFlight_def rollbackOwed_def by auto

lemma rolloutTerminal_closed: "rolloutClosed st \<Longrightarrow> rolloutTerminal st"
  by (auto simp: rolloutClosed_def rolloutTerminal_def)

subsection \<open>Budgets and the guard\<close>

lemma pdbScan_spec:
  "pv_Blocked (pdbScan env target v xs) \<longleftrightarrow> pv_Blocked v \<or> (\<exists>it \<in> set xs. pdbMatches env target it \<and> pdbRefusal it \<noteq> None)"
  "pv_Found (pdbScan env target v xs) \<longleftrightarrow> pv_Found v \<or> (\<exists>it \<in> set xs. pdbMatches env target it)"
  by (induction env target v xs rule: pdbScan.induct) (auto split: option.split)

lemma pdbSafety_blocked: "pv_Blocked (pdbSafety env target xs) \<longleftrightarrow> (\<exists>it \<in> set xs. pdbMatches env target it \<and> pdbRefusal it \<noteq> None)"
  by (simp add: pdbSafety_def pdbScan_spec)

lemma pdbSafety_found: "pv_Found (pdbSafety env target xs) \<longleftrightarrow> (\<exists>it \<in> set xs. pdbMatches env target it)"
  by (simp add: pdbSafety_def pdbScan_spec)

lemma pdbRefusal_nonempty: "pdbRefusal it = Some m \<Longrightarrow> m \<noteq> []"
  by (auto simp: pdbRefusal_def split: if_splits)

lemma pdbScan_reason: "pv_Blocked (pdbScan env target v xs) \<Longrightarrow> pv_Reason v \<noteq> [] \<or> \<not> pv_Blocked v \<Longrightarrow> pv_Reason (pdbScan env target v xs) \<noteq> []"
  by (induction env target v xs rule: pdbScan.induct) (auto split: option.splits if_splits dest: pdbRefusal_nonempty)

lemma pdbSafety_reason: "pv_Blocked (pdbSafety env target xs) \<Longrightarrow> pv_Reason (pdbSafety env target xs) \<noteq> []"
  by (simp add: pdbSafety_def pdbScan_reason)

lemma hazard_none:
  "rolloutExecutionHazard env roll target = [] \<longleftrightarrow>
     iv_DeletionTimestamp target = [] \<and> \<not> rolloutTemplateRolloutInFlight target \<and>
     (\<exists>xs. en_inventory env (ro_ClusterID roll) = Inr xs \<and> \<not> (\<exists>it \<in> set xs. pdbMatches env target it \<and> pdbRefusal it \<noteq> None))"
proof (cases "en_inventory env (ro_ClusterID roll)")
  case (Inl e)
  then show ?thesis by (simp add: rolloutExecutionHazard_def)
next
  case (Inr xs)
  show ?thesis unfolding pdbSafety_blocked [symmetric]
    using Inr pdbSafety_reason [of env target xs] by (simp add: rolloutExecutionHazard_def Let_def)
qed

lemma validate_none:
  "validateRolloutExecutionTarget env roll = None \<longleftrightarrow>
     (\<exists>target. en_item env (ro_ClusterID roll) (ro_ResourceKind roll) (ro_Namespace roll) (ro_ResourceName roll) = Inr target \<and>
        (ro_ResourceUID roll = [] \<or> iv_UID target = ro_ResourceUID roll) \<and>
        (ro_PreviousSpecHash roll = [] \<or> en_hash env (iv_Spec target) = ro_PreviousSpecHash roll) \<and>
        rolloutExecutionHazard env roll target = [])"
  by (cases "en_item env (ro_ClusterID roll) (ro_ResourceKind roll) (ro_Namespace roll) (ro_ResourceName roll)")
     (auto simp: validateRolloutExecutionTarget_def Let_def)

subsection \<open>The precheck\<close>

lemma messagesOf_Nil: "messagesOf st cs = [] \<longleftrightarrow> list_all (\<lambda>c. rc_Status c \<noteq> st) cs"
  by (simp add: messagesOf_def filter_empty_conv list_all_iff)

lemma rc_Status_check [simp]: "rc_Status (check a b c) = b"
  by (simp add: check_def)

lemma workloadChecks_pass:
  "list_all (\<lambda>c. rc_Status c \<noteq> ''blocked'') (workloadChecks kind target) \<longleftrightarrow>
     iv_DeletionTimestamp target = [] \<and> \<not> rolloutInProgress target \<and> workloadHealthy kind target \<and>
     \<not> (equalFold kind ''Deployment'' \<and> boolAny (gget (iv_Spec target) ''paused'')) \<and>
     \<not> (kind = ''DaemonSet'' \<and> equalFold (rolloutStrategy target) ''OnDelete'')"
  by (simp add: workloadChecks_def)

lemma inventoryChecks_pass:
  "list_all (\<lambda>c. rc_Status c \<noteq> ''blocked'') (inventoryChecks env clusterID ns kind target) \<longleftrightarrow>
     (\<exists>xs. en_inventory env clusterID = Inr xs \<and> \<not> hasBadOwnedPod env target xs \<and> \<not> (kind = ''StatefulSet'' \<and> hasBadPVC ns xs) \<and>
        \<not> (\<exists>it \<in> set xs. pdbMatches env target it \<and> pdbRefusal it \<noteq> None))"
  unfolding pdbSafety_blocked [symmetric] by (cases "en_inventory env clusterID") (simp_all add: inventoryChecks_def Let_def)

lemma precheck_allowed:
  "pc_Allowed (precheckOf env sa clusterID ns kind target) \<longleftrightarrow>
     list_all (\<lambda>c. rc_Status c \<noteq> ''blocked'') (workloadChecks kind target) \<and>
     list_all (\<lambda>c. rc_Status c \<noteq> ''blocked'') (inventoryChecks env clusterID ns kind target)"
  by (simp add: precheckOf_def Let_def messagesOf_Nil)

subsection \<open>One reconciliation\<close>

text \<open>What a reconciliation never touches.\<close>

definition identityOf :: "K8sRolloutAction \<Rightarrow> string \<times> string \<times> string \<times> string \<times> string \<times> string \<times> string \<times> gmap \<times> bool \<times> string \<times> int" where
  "identityOf r = (ro_ID r, ro_ActionRequestID r, ro_ClusterID r, ro_Namespace r, ro_ResourceKind r, ro_ResourceName r, ro_ResourceUID r,
     ro_PreviousTemplate r, ro_AutoRollback r, ro_StartedAt r, ro_TimeoutSeconds r)"

lemma identityOf_update [simp]:
  "identityOf (r\<lparr>ro_TargetRevision := x\<rparr>) = identityOf r" "identityOf (r\<lparr>ro_TargetSpecHash := x\<rparr>) = identityOf r"
  "identityOf (r\<lparr>ro_RollbackStatus := x\<rparr>) = identityOf r" "identityOf (r\<lparr>ro_RollbackStartedAt := x\<rparr>) = identityOf r"
  "identityOf (r\<lparr>ro_RollbackCompletedAt := x\<rparr>) = identityOf r" "identityOf (r\<lparr>ro_RollbackFailureReason := x\<rparr>) = identityOf r"
  by (simp_all add: identityOf_def)

lemma measureTarget_facts:
  "identityOf (fst (measureTarget env t r)) = identityOf r" "ro_Status (fst (measureTarget env t r)) = ro_Status r"
  "ro_RollbackStatus (fst (measureTarget env t r)) = ro_RollbackStatus r"
  by (simp_all add: measureTarget_def Let_def identityOf_def)

lemma measureDuration_facts:
  "identityOf (measureDuration env now r) = identityOf r" "ro_Status (measureDuration env now r) = ro_Status r"
  "ro_RollbackStatus (measureDuration env now r) = ro_RollbackStatus r"
  by (simp_all add: measureDuration_def identityOf_def split: option.split)

lemma closeWith_facts [simp]:
  "identityOf (closeWith env now st reason r) = identityOf r" "ro_Status (closeWith env now st reason r) = st"
  "ro_RollbackStatus (closeWith env now st reason r) = ro_RollbackStatus r"
  by (simp_all add: closeWith_def identityOf_def)

lemma closeRollout_facts:
  "identityOf (closeRollout env now target ob r) = identityOf r"
  "ro_RollbackStatus (closeRollout env now target ob r) = ro_RollbackStatus r"
  "ro_Status (closeRollout env now target ob r) = ro_Status r \<or>
     \<not> rolloutTerminal (ro_Status r) \<and> ro_Status (closeRollout env now target ob r) \<in> {''failed'', ''timed_out'', ''succeeded''}"
  by (simp_all add: closeRollout_def Let_def)

lemma endRollback_facts [simp]:
  "identityOf (endRollback env now st reason r) = identityOf r" "ro_Status (endRollback env now st reason r) = ro_Status r"
  "ro_RollbackStatus (endRollback env now st reason r) = st"
  by (simp_all add: endRollback_def identityOf_def)

lemma planRollback_facts:
  "identityOf (planRollback env now target r) = identityOf r" "ro_Status (planRollback env now target r) = ro_Status r"
  by (simp_all add: planRollback_def Let_def split: option.split)

lemma planRollback_status:
  "ro_RollbackStatus (planRollback env now target r) = ro_RollbackStatus r \<and> \<not> rollbackOwed r \<or>
   rollbackOwed r \<and> (ro_RollbackStatus (planRollback env now target r) = ''failed'' \<or>
     ro_RollbackStatus (planRollback env now target r) = ''requested'' \<and> equalFold (ro_ResourceKind r) ''Deployment'' \<and> ro_PreviousTemplate r \<noteq> [])"
  by (auto simp: planRollback_def Let_def rollbackOwed_def split: option.split)

lemma watchRollback_facts:
  "identityOf (watchRollback env now target ob r) = identityOf r" "ro_Status (watchRollback env now target ob r) = ro_Status r"
  "ro_RollbackStatus (watchRollback env now target ob r) = ro_RollbackStatus r \<or>
     ro_RollbackStatus r = ''monitoring'' \<and> ro_RollbackStatus (watchRollback env now target ob r) \<in> {''failed'', ''succeeded''}"
  by (simp_all add: watchRollback_def Let_def)

lemma reopenClaim_facts:
  assumes "reopenClaim env now r = Some r0"
  shows "identityOf r0 = identityOf r" "ro_Status r0 = ro_Status r"
    "ro_RollbackStatus r0 = (if ro_RollbackStatus r = ''running'' then ''requested'' else ro_RollbackStatus r)"
  using assms by (auto simp: reopenClaim_def identityOf_def split: option.splits if_splits)

lemmas advance_parts = measureTarget_facts measureDuration_facts closeRollout_facts(1,2) planRollback_facts watchRollback_facts(1,2)

lemma advance_unfold:
  obtains r2 ob where "advanceRollout env now target r0 = (watchRollback env now target ob (planRollback env now target r2), ob)"
    and "identityOf r2 = identityOf r0" and "ro_RollbackStatus r2 = ro_RollbackStatus r0"
    and "ro_Status r2 = ro_Status r0 \<or> \<not> rolloutTerminal (ro_Status r0) \<and> ro_Status r2 \<in> {''failed'', ''timed_out'', ''succeeded''}"
proof -
  obtain r1 ob where r1: "(case target of None \<Rightarrow> (r0, noObservation) | Some t \<Rightarrow> measureTarget env t r0) = (r1, ob)"
    by (cases "case target of None \<Rightarrow> (r0, noObservation) | Some t \<Rightarrow> measureTarget env t r0")
  then have "r1 = r0 \<or> (\<exists>t. r1 = fst (measureTarget env t r0))" by (cases target) (auto simp: eq_fst_iff)
  then have "identityOf r1 = identityOf r0" "ro_RollbackStatus r1 = ro_RollbackStatus r0" "ro_Status r1 = ro_Status r0"
    using measureTarget_facts [of env _ r0] by auto
  with closeRollout_facts [of env now target ob "measureDuration env now r1"] measureDuration_facts [of env now r1] r1 that
  show thesis by (simp add: advanceRollout_def)
qed

text \<open>The steps the two status columns can take in one reconciliation.\<close>

definition rollbackEdge :: "string \<Rightarrow> string \<Rightarrow> bool" where
  "rollbackEdge x y \<longleftrightarrow>
     (x = [] \<and> y \<in> {''requested'', ''failed''}) \<or> (x = ''running'' \<and> y \<in> {''requested'', ''monitoring'', ''failed''}) \<or>
     (x = ''requested'' \<and> y = ''running'') \<or> (x = ''monitoring'' \<and> y \<in> {''succeeded'', ''failed''})"

definition progressMove :: "K8sRolloutAction \<Rightarrow> K8sRolloutAction \<Rightarrow> bool" where
  "progressMove r r' \<longleftrightarrow> identityOf r' = identityOf r \<and>
     (ro_Status r' = ro_Status r \<or> \<not> rolloutTerminal (ro_Status r) \<and> ro_Status r' \<in> {''failed'', ''timed_out'', ''succeeded''}) \<and>
     (ro_RollbackStatus r' = ro_RollbackStatus r \<or> rollbackEdge (ro_RollbackStatus r) (ro_RollbackStatus r')) \<and>
     (ro_RollbackStatus r = [] \<and> ro_RollbackStatus r' \<noteq> [] \<longrightarrow> ro_Status r' \<in> {''failed'', ''timed_out''} \<and> ro_AutoRollback r') \<and>
     (ro_RollbackStatus r = [] \<and> ro_RollbackStatus r' = ''requested'' \<longrightarrow> equalFold (ro_ResourceKind r') ''Deployment'' \<and> ro_PreviousTemplate r' \<noteq> [])"

lemma advance_moves:
  assumes "reopenClaim env now r = Some r0"
  shows "progressMove r (fst (advanceRollout env now target r0))"
proof -
  note opn = reopenClaim_facts [OF assms]
  obtain r2 ob where adv: "advanceRollout env now target r0 = (watchRollback env now target ob (planRollback env now target r2), ob)"
    and i2: "identityOf r2 = identityOf r0" and b2: "ro_RollbackStatus r2 = ro_RollbackStatus r0"
    and s2: "ro_Status r2 = ro_Status r0 \<or> \<not> rolloutTerminal (ro_Status r0) \<and> ro_Status r2 \<in> {''failed'', ''timed_out'', ''succeeded''}"
    by (rule advance_unfold)
  define r3 where "r3 = planRollback env now target r2"
  define r4 where "r4 = watchRollback env now target ob r3"
  have id4: "identityOf r4 = identityOf r" "ro_Status r4 = ro_Status r2"
    unfolding r4_def r3_def using i2 opn by (simp_all add: advance_parts)
  have parts: "ro_AutoRollback r4 = ro_AutoRollback r2" "ro_ResourceKind r4 = ro_ResourceKind r2" "ro_PreviousTemplate r4 = ro_PreviousTemplate r2"
    using id4(1) i2 opn(1) by (simp_all add: identityOf_def)
  have b3: "ro_RollbackStatus r3 = ro_RollbackStatus r2 \<and> \<not> rollbackOwed r2 \<or> rollbackOwed r2 \<and> (ro_RollbackStatus r3 = ''failed'' \<or>
      ro_RollbackStatus r3 = ''requested'' \<and> equalFold (ro_ResourceKind r2) ''Deployment'' \<and> ro_PreviousTemplate r2 \<noteq> [])"
    unfolding r3_def by (rule planRollback_status)
  have b4: "ro_RollbackStatus r4 = ro_RollbackStatus r3 \<or> ro_RollbackStatus r3 = ''monitoring'' \<and> ro_RollbackStatus r4 \<in> {''failed'', ''succeeded''}"
    unfolding r4_def by (rule watchRollback_facts)
  have "ro_RollbackStatus r4 = ro_RollbackStatus r \<or> rollbackEdge (ro_RollbackStatus r) (ro_RollbackStatus r4)"
    using b3 b4 b2 opn(3) by (cases "ro_RollbackStatus r = ''running''") (auto simp: rollbackEdge_def rollbackOwed_def)
  moreover have "ro_Status r4 \<in> {''failed'', ''timed_out''} \<and> ro_AutoRollback r4" if "ro_RollbackStatus r = []" "ro_RollbackStatus r4 \<noteq> []"
    using that b3 b4 b2 opn(3) id4(2) parts(1) by (auto simp: rollbackOwed_def)
  moreover have "equalFold (ro_ResourceKind r4) ''Deployment'' \<and> ro_PreviousTemplate r4 \<noteq> []"
    if "ro_RollbackStatus r = []" "ro_RollbackStatus r4 = ''requested''"
    using that b3 b4 b2 opn(3) parts(2,3) by (auto simp: rollbackOwed_def)
  ultimately show ?thesis using id4 s2 opn(2) unfolding progressMove_def adv r4_def r3_def by auto
qed

end
