(* ===== verification/Rollout_Flow.thy ===== *)
theory Rollout_Flow
  imports Rollout_Observe
begin

text \<open>
  The handlers of \<^verbatim>\<open>internal/proxy/admin_k8s_rollout.go\<close>, the rollout branch of
  \<^verbatim>\<open>runApprovedK8sAction\<close> in \<^verbatim>\<open>admin_k8s.go\<close> and the worker of
  \<^verbatim>\<open>admin_k8s_rollout_reconciler.go\<close>. A handler is cut where it calls the cluster, so that
  the answer, or a crash that swallows it, can come at any later time. What a pass draws from
  outside (its clock, the stamps of its database writes, fresh identifiers, the cluster's client
  and its answers) is the record \<open>pass_input\<close>. Notifications, the event stream, the JSON of
  the replies and the end of a batch by cancellation are left out.
\<close>

record rollout_world =
  rw_db :: rollout_db
  rw_services :: "service_op list"
  rw_audit :: "AdminAuditLog list"

definition centerOf :: "rollout_world \<Rightarrow> action_world" where
  "centerOf w = \<lparr>aw_actions = rd_actions (rw_db w), aw_services = rw_services w, aw_audit = rw_audit w\<rparr>"

definition withCenter :: "action_world \<Rightarrow> rollout_world \<Rightarrow> rollout_world" where
  "withCenter c w = w\<lparr>rw_db := (rw_db w)\<lparr>rd_actions := aw_actions c\<rparr>, rw_services := aw_services c, rw_audit := aw_audit c\<rparr>"

record rollback_patch =
  rb_ClusterID :: string
  rb_Namespace :: string
  rb_Name :: string
  rb_Template :: gmap
  rb_RestartedBy :: string
  rb_ActionID :: string

text \<open>An error of the cluster with its text and whether the deadline or a cancellation caused it.\<close>

type_synonym cluster_error = "string \<times> bool"

record cluster_access =
  ca_cluster :: "cluster_error option"
  ca_client :: "cluster_error option"
  ca_canReadLive :: bool
  ca_live :: "cluster_error + gmap"
  ca_canRollback :: bool

record pass_input =
  pi_now :: int
  pi_stamp :: "nat \<Rightarrow> string"
  pi_id :: "nat \<Rightarrow> string"
  pi_client :: "http_error option"
  pi_exec :: "cluster_command \<Rightarrow> cluster_error option"
  pi_access :: cluster_access
  pi_patch :: "rollback_patch \<Rightarrow> cluster_error option"

section \<open>Identities\<close>

record rollout_identity =
  id_mcp :: "(string \<times> string list) option"
  id_claims :: "(string \<times> string list) option"
  id_open :: bool

definition hasScope :: "string list \<Rightarrow> string \<Rightarrow> bool" where
  "hasScope scopes scope \<longleftrightarrow> scope \<in> set scopes"

definition rolloutSuperAdmin :: "rollout_identity \<Rightarrow> bool" where
  "rolloutSuperAdmin who =
     (case id_mcp who of
        Some (role, _) \<Rightarrow> equalFold role ''super_admin''
      | None \<Rightarrow> (case id_claims who of Some (role, _) \<Rightarrow> equalFold role ''super_admin'' | None \<Rightarrow> id_open who))"

definition rolloutScopeAllowed :: "rollout_identity \<Rightarrow> string \<Rightarrow> bool" where
  "rolloutScopeAllowed who scope =
     (case id_mcp who of
        Some (role, scopes) \<Rightarrow> equalFold role ''super_admin'' \<or> hasScope scopes scope
      | None \<Rightarrow>
          (case id_claims who of
             Some (role, scopes) \<Rightarrow> equalFold role ''super_admin'' \<or> hasScope scopes scope \<or> id_open who
           | None \<Rightarrow> id_open who))"

definition insufficientScope :: "string \<Rightarrow> http_error" where
  "insufficientScope scope = writeOpenAIError 403 (''missing required scope: '' @ scope) ''insufficient_scope''"

definition rolloutLookupError :: "store_error \<Rightarrow> http_error" where
  "rolloutLookupError e =
     (case e of ErrNotFound \<Rightarrow> writeOpenAIError 404 ''rollout target not found'' ''rollout_target_not_found''
      | _ \<Rightarrow> writeOpenAIError 400 (storeErrorText e) ''rollout_invalid'')"

section \<open>Events and pods\<close>

definition rolloutEvent :: "string \<Rightarrow> string \<Rightarrow> string \<Rightarrow> string \<Rightarrow> string \<Rightarrow> gmap \<Rightarrow> K8sRolloutEvent" where
  "rolloutEvent i actionID st stage msg ev =
     \<lparr>rv_ID = i, rv_ActionID = actionID, rv_SequenceNo = 0, rv_Status = st, rv_Stage = stage, rv_Message = msg, rv_Evidence = ev,
      rv_ObservedAt = []\<rparr>"

text \<open>A write whose error the caller drops.\<close>

definition dropErr :: "rollout_tx \<Rightarrow> rollout_db \<Rightarrow> rollout_db" where
  "dropErr f db = (case f db of Inl _ \<Rightarrow> db | Inr db' \<Rightarrow> db')"

definition logEvent :: "string \<Rightarrow> K8sRolloutEvent \<Rightarrow> rollout_db \<Rightarrow> rollout_db" where
  "logEvent ts e = dropErr (appendK8sRolloutEvent ts e)"

definition firstContainerStarted :: "gmap \<Rightarrow> string" where
  "firstContainerStarted status =
     firstNonEmpty (map (\<lambda>raw. textMap (asAnyMap (gget (asAnyMap (gget (asAnyMap raw) ''state'')) ''running'')) ''startedAt'')
       (asAnySlice (gget status ''containerStatuses'')))"

definition podTransition :: "rollout_env \<Rightarrow> K8sRolloutAction \<Rightarrow> K8sInventoryItem \<Rightarrow> K8sRolloutPodTransition" where
  "podTransition env roll pod =
     (let (created, scheduled, ready) = en_lifecycle env pod in
      \<lparr>rp_ID = ''rollpod_'' @ ro_ID roll @ ''_'' @ iv_UID pod, rp_ActionID = ro_ID roll, rp_PodUID = iv_UID pod, rp_PodName = iv_Name pod,
       rp_NodeName = textMap (iv_Spec pod) ''nodeName'',
       rp_Revision = firstNonEmpty [strGet (iv_Labels pod) ''pod-template-hash'', strGet (iv_Labels pod) ''controller-revision-hash''],
       rp_CreatedAt = created, rp_ScheduledAt = scheduled, rp_ContainerStartedAt = firstContainerStarted (statusOf pod), rp_ReadyAt = ready,
       rp_TerminatingAt = iv_DeletionTimestamp pod, rp_DeletedAt = [], rp_Result = iv_Status pod,
       rp_FailureReason = textMap (statusOf pod) ''reason'', rp_ObservedAt = iv_ObservedAt pod\<rparr>)"

definition recordRolloutPods :: "rollout_env \<Rightarrow> string \<Rightarrow> K8sRolloutAction \<Rightarrow> K8sInventoryItem \<Rightarrow> rollout_db \<Rightarrow> rollout_db" where
  "recordRolloutPods env ts roll target db =
     fold (\<lambda>pod. dropErr (UpsertK8sRolloutPodTransition ts (podTransition env roll pod)))
       (filter (\<lambda>pod. podOwnedByWorkload env pod target) (en_pods env (ro_ClusterID roll) (ro_Namespace roll))) db"

section \<open>Execution of an approved action\<close>

definition linkedRollout :: "K8sActionRequest \<Rightarrow> rollout_db \<Rightarrow> K8sRolloutAction option" where
  "linkedRollout act db =
     (if equalFold (ac_Action act) ''rollout_restart''
      then (case GetK8sRolloutByActionRequest (ac_ID act) db of Inr r \<Rightarrow> Some r | Inl _ \<Rightarrow> None) else None)"

text \<open>The guard refused: claim the pair, close it as failed, and say so.\<close>

definition refuseDrifted ::
  "pass_input \<Rightarrow> string \<Rightarrow> K8sActionRequest \<Rightarrow> K8sRolloutAction \<Rightarrow> string \<Rightarrow> rollout_world \<Rightarrow> http_error \<times> rollout_world" where
  "refuseDrifted inp actor act roll drift w =
     (case StartK8sRolloutExecution (pi_stamp inp 0) (ac_ID act) (ro_ID roll) actor (rw_db w) of
        (Inl e, _) \<Rightarrow> (writeOpenAIError 409 (''rollout drift check could not claim the action: '' @ storeErrorText e) ''action_bad_state'', w)
      | (Inr _, db1) \<Rightarrow>
          let failureReason = ''execution blocked by target drift: '' @ drift;
              rollbackStatus = (if ro_AutoRollback roll then ''failed'' else []);
              rollbackReason = (if ro_AutoRollback roll then ''rollout mutation was not applied; rollback was not required'' else []) in
          (case FinalizeK8sRolloutMutation (pi_stamp inp 1) (ac_ID act) (ro_ID roll) ''failed'' ''failed'' actor
                  ((utf8 [0xC2E4, 0xD589, 0x20, 0xCC28, 0xB2E8] @ '': '') @ drift) failureReason rollbackStatus rollbackReason db1 of
             (Inl e, _) \<Rightarrow> (writeOpenAIError 500 (''rollout drift result could not be finalized: '' @ storeErrorText e) ''rollout_finalize_failed'',
               w\<lparr>rw_db := db1\<rparr>)
           | (Inr _, db2) \<Rightarrow>
               (writeOpenAIError 409 failureReason ''rollout_target_drift'',
                w\<lparr>rw_db := logEvent (pi_stamp inp 1) (rolloutEvent (pi_id inp 0) (ro_ID roll) ''failed'' ''drift_guard'' failureReason
                  [(''target_uid'', GStr (ac_TargetUID act)), (''target_resource_version'', GStr (ac_TargetResourceVersion act))]) db2\<rparr>)))"

definition claimRollout ::
  "pass_input \<Rightarrow> string \<Rightarrow> K8sActionRequest \<Rightarrow> K8sRolloutAction \<Rightarrow> rollout_world \<Rightarrow> (http_error + string + cluster_command) \<times> rollout_world" where
  "claimRollout inp actor act roll w =
     (case pi_client inp of
        Some e \<Rightarrow> (Inl e, w)
      | None \<Rightarrow>
          if \<not> k8sActionExecutable (ac_Action act)
          then (Inl (writeOpenAIError 400 ((utf8 [0xC2E4, 0xD589, 0x20, 0xAC00, 0xB2A5, 0xD55C, 0x20, 0xC561, 0xC158, 0xC774, 0x20, 0xC544, 0xB2D9, 0xB2C8, 0xB2E4] @ '': '') @ ac_Action act @ ('' (drain '' @ utf8 [0xB4F1, 0xC740, 0x20, 0xC218, 0xB3D9, 0x20, 0xCC98, 0xB9AC] @ '')'')) ''action_not_executable''), w)
          else (case StartK8sRolloutExecution (pi_stamp inp 0) (ac_ID act) (ro_ID roll) actor (rw_db w) of
                  (Inl ErrInvalidTransition, _) \<Rightarrow> (Inl (writeOpenAIError 409 ''action is already running or closed'' ''action_bad_state''), w)
                | (Inl ErrNotFound, _) \<Rightarrow> (Inl (actionNotFound (ac_ID act)), w)
                | (Inl e, _) \<Rightarrow> (Inl (writeOpenAIError 500 (storeErrorText e) ''k8s_action_running_failed''), w)
                | (Inr _, db1) \<Rightarrow>
                    (Inr (dispatchAction act),
                     w\<lparr>rw_db := logEvent (pi_stamp inp 1) (rolloutEvent (pi_id inp 0) (ro_ID roll) ''running'' ''mutation_running''
                         ''Kubernetes mutation execution claimed'' [(''action_request_id'', GStr (ac_ID act))]) db1,
                       rw_services := UpdateK8sServiceOperationsByRequestID (pi_stamp inp 1) (ac_ID act) ''running''
                         ''Action Center execution in progress'' (rw_services w)\<rparr>)))"

definition runApprovedBegin ::
  "rollout_env \<Rightarrow> pass_input \<Rightarrow> string \<Rightarrow> K8sActionRequest \<Rightarrow> rollout_world \<Rightarrow>
     (http_error + K8sRolloutAction option \<times> (string + cluster_command)) \<times> rollout_world" where
  "runApprovedBegin env inp actor act w =
     (if ac_Status act \<noteq> ''approved''
      then (Inl (writeOpenAIError 409 (''action must be approved before execution (current: '' @ ac_Status act @ '')'') ''action_not_approved''), w)
      else (case linkedRollout act (rw_db w) of
        None \<Rightarrow>
          (case actionBegin (pi_stamp inp 0) actor (pi_client inp) act (centerOf w) of
             (Inl e, _) \<Rightarrow> (Inl e, w)
           | (Inr c, aw) \<Rightarrow> (Inr (None, c), withCenter aw w))
      | Some roll \<Rightarrow>
          (case validateRolloutExecutionTarget env roll of
             Some drift \<Rightarrow> (let (e, w') = refuseDrifted inp actor act roll drift w in (Inl e, w'))
           | None \<Rightarrow>
               (case claimRollout inp actor act roll w of
                  (Inl e, w') \<Rightarrow> (Inl e, w')
                | (Inr c, w') \<Rightarrow> (Inr (Some roll, c), w')))))"

text \<open>The outcome of the restart: the status and message of the request and the error handed on. An interrupted call leaves the action running: the reconciler
  settles it from what the inventory shows.\<close>

definition runApprovedFinish ::
  "pass_input \<Rightarrow> string \<Rightarrow> cluster_error option \<Rightarrow> K8sActionRequest \<Rightarrow> K8sRolloutAction option \<Rightarrow> rollout_world \<Rightarrow>
     (http_error + string \<times> string \<times> string option) \<times> rollout_world" where
  "runApprovedFinish inp actor execErr act linked w =
     (case linked of
        None \<Rightarrow>
          (case actionFinish (pi_stamp inp 2) actor execErr act (centerOf w) of
             (Inl e, _) \<Rightarrow> (Inl e, w)
           | (Inr (st, msg), aw) \<Rightarrow> (Inr (st, msg, map_option fst execErr), withCenter aw w))
      | Some roll \<Rightarrow>
          let (actionStatus, rolloutStatus, resultMsg, failureReason, rollbackStatus, rollbackReason) =
            (case execErr of
               None \<Rightarrow> (''executed'', ''monitoring'', (utf8 [0xC2E4, 0xD589, 0x20, 0xC644, 0xB8CC]), [], [], [])
             | Some (e, interrupted) \<Rightarrow>
                 if interrupted
                 then (let m = (utf8 [0xC2E4, 0xD589, 0x20, 0xACB0, 0xACFC, 0x20, 0xBD88, 0xBA85, 0xD655] @ '': Kubernetes '' @ utf8 [0xC751, 0xB2F5, 0xC774, 0x20, 0xC911, 0xB2E8, 0xB418, 0xC5B4, 0x20, 0xC778, 0xBCA4, 0xD1A0, 0xB9AC, 0x20, 0xC99D, 0xAC70, 0xB85C, 0x20, 0xD655, 0xC778, 0x20, 0xC911]) in (''running'', ''monitoring'', m, m, [], []))
                 else (''failed'', ''failed'', (utf8 [0xC2E4, 0xD589, 0x20, 0xC2E4, 0xD328] @ '': '') @ e, e, if ro_AutoRollback roll then ''failed'' else [],
                       if ro_AutoRollback roll then ''rollout mutation was rejected; rollback was not required'' else [])) in
          (case FinalizeK8sRolloutMutation (pi_stamp inp 2) (ac_ID act) (ro_ID roll) actionStatus rolloutStatus actor
                  resultMsg failureReason rollbackStatus rollbackReason (rw_db w) of
             (Inl e, _) \<Rightarrow> (Inl (writeOpenAIError 500 (storeErrorText e) ''k8s_action_finalize_failed''), w)
           | (Inr _, db1) \<Rightarrow>
               (Inr (actionStatus, resultMsg, if actionStatus = ''running'' then None else map_option fst execErr),
                w\<lparr>rw_db := db1, rw_services := UpdateK8sServiceOperationsByRequestID (pi_stamp inp 2) (ac_ID act) actionStatus resultMsg (rw_services w)\<rparr>)))"

definition runApprovedK8sAction ::
  "rollout_env \<Rightarrow> pass_input \<Rightarrow> string \<Rightarrow> K8sActionRequest \<Rightarrow> rollout_world \<Rightarrow> (http_error + string \<times> string \<times> string option) \<times> rollout_world" where
  "runApprovedK8sAction env inp actor act w =
     (case runApprovedBegin env inp actor act w of
        (Inl e, w1) \<Rightarrow> (Inl e, w1)
      | (Inr (linked, c), w1) \<Rightarrow>
          runApprovedFinish inp actor (case c of Inl issue \<Rightarrow> Some (issue, False) | Inr cmd \<Rightarrow> pi_exec inp cmd) act linked w1)"

section \<open>Requests\<close>

definition checkValue :: "rolloutCheck \<Rightarrow> gval" where
  "checkValue c = GMap [(''code'', GStr (rc_Code c)), (''status'', GStr (rc_Status c)), (''message'', GStr (rc_Message c))]"

definition precheckValue :: "rollout_precheck \<Rightarrow> gval" where
  "precheckValue c =
     GMap [(''allowed'', GBool (pc_Allowed c)), (''risk_level'', GStr (pc_RiskLevel c)), (''requires_approval'', GBool (pc_RequiresApproval c)),
       (''healthy'', GBool (pc_Healthy c)), (''desired'', GInt (pc_Desired c)), (''ready'', GInt (pc_Ready c)),
       (''available'', GInt (pc_Available c)), (''updated'', GInt (pc_Updated c)), (''strategy'', GStr (pc_Strategy c)),
       (''images'', GList (map GStr (pc_Images c))), (''checks'', GList (map checkValue (pc_Checks c))),
       (''blockers'', GList (map GStr (pc_Blockers c))), (''warnings'', GList (map GStr (pc_Warnings c))),
       (''super_admin_direct'', GBool (pc_SuperAdminDirect c))]"

definition stableParams :: "rolloutRequestInput \<Rightarrow> gmap" where
  "stableParams i =
     [(''reason'', GStr (ri_Reason i)), (''ticket_no'', GStr (ri_TicketNo i)), (''auto_rollback'', GBool (ri_AutoRollback i)),
      (''timeout_seconds'', GInt (ri_TimeoutSeconds i)), (''execution_mode'', GStr (toUpper (ri_ExecutionMode i)))]"

definition rolloutCommandHash :: "rollout_env \<Rightarrow> rolloutRequestInput \<Rightarrow> string" where
  "rolloutCommandHash env i =
     en_commandHash env (ri_ClusterID i) (ri_Namespace i) (ri_Kind i) (ri_Name i) ''rollout_restart'' (stableParams i)"

definition requestDefaults :: "rolloutRequestInput \<Rightarrow> rolloutRequestInput" where
  "requestDefaults i =
     i\<lparr>ri_Reason := trimSpace (ri_Reason i), ri_TimeoutSeconds := (if ri_TimeoutSeconds i \<le> 0 then 600 else ri_TimeoutSeconds i),
       ri_ExecutionMode := orElse (ri_ExecutionMode i) ''IMMEDIATE''\<rparr>"

definition directBySuperAdmin :: "rollout_precheck \<Rightarrow> rolloutRequestInput \<Rightarrow> bool" where
  "directBySuperAdmin c i \<longleftrightarrow> pc_SuperAdminDirect c \<and> equalFold (ri_ExecutionMode i) ''IMMEDIATE''"

definition requestStatus :: "rollout_identity \<Rightarrow> rollout_precheck \<Rightarrow> rolloutRequestInput \<Rightarrow> string" where
  "requestStatus who c i =
     (if (\<not> pc_RequiresApproval c \<or> directBySuperAdmin c i) \<and> rolloutScopeAllowed who ''rollout:execute'' \<and>
         equalFold (ri_ExecutionMode i) ''IMMEDIATE'' then ''approved'' else ''approval_required'')"

definition rolloutAction ::
  "rollout_env \<Rightarrow> pass_input \<Rightarrow> rollout_identity \<Rightarrow> string \<Rightarrow> string \<Rightarrow> rollout_precheck \<Rightarrow> K8sInventoryItem \<Rightarrow> rolloutRequestInput \<Rightarrow> K8sActionRequest" where
  "rolloutAction env inp who adminID idemKey c target i =
     (let direct = directBySuperAdmin c i in
      \<lparr>ac_ID = pi_id inp 0, ac_ClusterID = ri_ClusterID i, ac_Namespace = ri_Namespace i, ac_ResourceKind = ri_Kind i,
       ac_ResourceName = ri_Name i, ac_Action = ''rollout_restart'',
       ac_Parameters = [(''reason'', GStr (ri_Reason i)), (''ticket_no'', GStr (ri_TicketNo i)), (''rollout_id'', GStr (pi_id inp 1)),
         (''auto_rollback'', GBool (ri_AutoRollback i)), (''timeout_seconds'', GInt (ri_TimeoutSeconds i)),
         (''execution_mode'', GStr (toUpper (ri_ExecutionMode i)))],
       ac_RiskLevel = pc_RiskLevel c, ac_Status = requestStatus who c i, ac_RequestedBy = adminID,
       ac_ApprovedBy = (if direct then adminID else []), ac_ExecutedBy = [], ac_Result = [],
       ac_DryRunDiff = (utf8 [0xB864, 0xC544, 0xC6C3, 0x20, 0xC0AC, 0xC804, 0xAC80, 0xC0AC, 0x20, 0xD1B5, 0xACFC] @ '': Ready '') @ itoa (pc_Ready c) @ ''/'' @ itoa (pc_Desired c) @ ('' '' @ utf8 [0xB7] @ '' Available '') @
         itoa (pc_Available c) @ ('' '' @ utf8 [0xB7, 0x20, 0xC804, 0xB7B5] @ '' '') @ pc_Strategy c @
         (if direct then [newlineC] @ (utf8 [0xCD5C, 0xACE0, 0x20, 0xAD00, 0xB9AC, 0xC790, 0x20, 0xC989, 0xC2DC, 0x20, 0xC2E4, 0xD589] @ '': '' @ utf8 [0xACBD, 0xACE0, 0xB7, 0xC77C, 0xBC18, 0x20, 0xC2B9, 0xC778, 0x20, 0xB2E8, 0xACC4, 0xB97C, 0x20, 0xC6B0, 0xD68C, 0xD588, 0xC73C, 0xBA70, 0x20, 0xCC28, 0xB2E8, 0x20, 0xD56D, 0xBAA9, 0xC740, 0x20, 0xC5C6, 0xC2B5, 0xB2C8, 0xB2E4] @ ''.'') else []),
       ac_IdempotencyKey = idemKey, ac_TargetUID = iv_UID target,
       ac_TargetResourceVersion = k8sActionTargetResourceVersion (en_sprint env) target, ac_CommandHash = rolloutCommandHash env i,
       ac_CreatedAt = [], ac_UpdatedAt = [], ac_ApprovedAt = (if direct then en_format env (pi_now inp) else []), ac_ExecutedAt = []\<rparr>)"

definition rolloutRow ::
  "rollout_env \<Rightarrow> pass_input \<Rightarrow> rollout_identity \<Rightarrow> string \<Rightarrow> rollout_precheck \<Rightarrow> K8sInventoryItem \<Rightarrow> rolloutRequestInput \<Rightarrow> K8sRolloutAction" where
  "rolloutRow env inp who adminID c target i =
     (let direct = directBySuperAdmin c i in
      \<lparr>ro_ID = pi_id inp 1, ro_ActionRequestID = pi_id inp 0, ro_ClusterID = ri_ClusterID i, ro_Namespace = ri_Namespace i,
       ro_ResourceKind = ri_Kind i, ro_ResourceName = ri_Name i, ro_ResourceUID = iv_UID target, ro_RequestedBy = adminID, ro_RequestedAt = [],
       ro_ApprovedBy = (if direct then adminID else []), ro_ApprovedAt = (if direct then en_format env (pi_now inp) else []),
       ro_StartedAt = [], ro_CompletedAt = [], ro_Reason = ri_Reason i, ro_TicketNo = ri_TicketNo i,
       ro_ExecutionMode = toUpper (ri_ExecutionMode i), ro_Status = requestStatus who c i, ro_RiskLevel = pc_RiskLevel c,
       ro_PreviousRevision = rolloutRevision target, ro_TargetRevision = [], ro_PreviousSpecHash = en_hash env (iv_Spec target),
       ro_TargetSpecHash = [], ro_AutoRollback = ri_AutoRollback i, ro_TimeoutSeconds = ri_TimeoutSeconds i, ro_FailureReason = [],
       ro_DurationMS = 0, ro_DesiredReplicas = pc_Desired c, ro_UpdatedReplicas = pc_Updated c, ro_ReadyReplicas = pc_Ready c,
       ro_AvailableReplicas = pc_Available c, ro_UnavailableReplicas = max 0 (pc_Desired c - pc_Available c),
       ro_Precheck = [(''checks'', GList (map checkValue (pc_Checks c))), (''warnings'', GList (map GStr (pc_Warnings c))),
         (''observed_generation'', GInt (intAny (gget (statusOf target) ''observedGeneration''))),
         (''target_observed_at'', GStr (firstNonEmpty [iv_ObservedAt target, iv_UpdatedAt target]))],
       ro_PreviousTemplate = asAnyMap (gget (iv_Spec target) ''template''), ro_RollbackStatus = [], ro_RollbackStartedAt = [],
       ro_RollbackCompletedAt = [], ro_RollbackFailureReason = [], ro_CreatedAt = [], ro_UpdatedAt = []\<rparr>)"

datatype rollout_reply =
    RolloutAccepted K8sRolloutAction K8sActionRequest rollout_precheck
  | RolloutReplayed K8sRolloutAction K8sActionRequest rollout_precheck

definition idempotencyConflict :: http_error where
  "idempotencyConflict = writeOpenAIError 409 ''idempotency key was already used for a different rollout request'' ''idempotency_conflict''"

definition storeRolloutRequest ::
  "rollout_env \<Rightarrow> pass_input \<Rightarrow> rollout_identity \<Rightarrow> string \<Rightarrow> string \<Rightarrow> rollout_precheck \<Rightarrow> K8sInventoryItem \<Rightarrow> rolloutRequestInput \<Rightarrow>
     rollout_world \<Rightarrow> (http_error + rollout_reply) \<times> rollout_world" where
  "storeRolloutRequest env inp who adminID idemKey c target i w =
     (let act = rolloutAction env inp who adminID idemKey c target i; roll = rolloutRow env inp who adminID c target i;
          event = rolloutEvent (pi_id inp 2) (ro_ID roll) (ro_Status roll) ''requested'' (utf8 [0xB864, 0xC544, 0xC6C3, 0x20, 0xC694, 0xCCAD, 0x20, 0xC811, 0xC218])
            [(''precheck'', precheckValue c), (''requested_by'', GStr adminID)] in
      case InsertK8sRolloutRequest (pi_stamp inp 0) act roll event (rw_db w) of
        (Inl e, _) \<Rightarrow>
          (case GetK8sActionRequestByIdempotencyKey idemKey (rd_actions (rw_db w)) of
             Inr old \<Rightarrow>
               (case (if ac_CommandHash old = rolloutCommandHash env i then GetK8sRolloutByActionRequest (ac_ID old) (rw_db w) else Inl ErrNotFound) of
                  Inr oldRoll \<Rightarrow> (Inr (RolloutReplayed oldRoll old c), w)
                | Inl _ \<Rightarrow> (Inl idempotencyConflict, w))
           | Inl _ \<Rightarrow>
               if e = ErrDuplicateKey then (Inl (writeOpenAIError 409 ''rollout already in progress'' ''rollout_in_progress''), w)
               else (Inl (writeOpenAIError 500 (storeErrorText e) ''rollout_save_failed''), w))
      | (Inr _, db1) \<Rightarrow>
          (case (GetK8sRolloutAction (ro_ID roll) db1, GetK8sActionRequest (ac_ID act) (rd_actions db1)) of
             (Inr r, Inr a) \<Rightarrow>
               (Inr (RolloutAccepted r a c), w\<lparr>rw_db := db1, rw_audit := auditAdmin adminID ''k8s.rollout.request'' (ro_ID roll) (rw_audit w)\<rparr>)
           | _ \<Rightarrow> (Inr (RolloutAccepted roll act c), w\<lparr>rw_db := db1, rw_audit := auditAdmin adminID ''k8s.rollout.request'' (ro_ID roll) (rw_audit w)\<rparr>)))"

definition postWorkloadRollout ::
  "rollout_env \<Rightarrow> pass_input \<Rightarrow> bool \<Rightarrow> rollout_identity \<Rightarrow> string \<Rightarrow> string \<Rightarrow> rolloutRequestInput option \<Rightarrow> rollout_world \<Rightarrow>
     (http_error + rollout_reply) \<times> rollout_world" where
  "postWorkloadRollout env inp authorized who adminID headerKey body w =
     (if \<not> authorized then (Inl invalidAdminToken, w)
      else if \<not> rolloutScopeAllowed who ''rollout:request'' then (Inl (insufficientScope ''rollout:request''), w)
      else (case body of
        None \<Rightarrow> (Inl invalidBody, w)
      | Some i0 \<Rightarrow>
          let i1 = requestDefaults i0 in
          if ri_Reason i1 = [] then (Inl (writeOpenAIError 400 ''reason is required'' ''rollout_reason_required''), w)
          else (case rolloutPrecheck env (rolloutSuperAdmin who) i1 of
            Inl e \<Rightarrow> (Inl (rolloutLookupError e), w)
          | Inr (c, target) \<Rightarrow>
              if \<not> pc_Allowed c then (Inl (writeOpenAIError 409 ''rollout precheck blocked'' []), w)
              else
                let i = i1\<lparr>ri_Namespace := iv_Namespace target, ri_Kind := iv_Kind target, ri_Name := iv_Name target\<rparr>;
                    key = trimSpace headerKey in
                (case (if key \<noteq> [] then GetK8sActionRequestByIdempotencyKey key (rd_actions (rw_db w)) else Inl ErrNotFound) of
                   Inr old \<Rightarrow>
                     if ac_CommandHash old \<noteq> rolloutCommandHash env i then (Inl idempotencyConflict, w)
                     else (case GetK8sRolloutByActionRequest (ac_ID old) (rw_db w) of
                             Inl _ \<Rightarrow> (Inl (writeOpenAIError 500 ''idempotent rollout ledger is incomplete'' ''rollout_ledger_incomplete''), w)
                           | Inr oldRoll \<Rightarrow> (Inr (RolloutReplayed oldRoll old c), w))
                 | Inl _ \<Rightarrow>
                     if list_ex rolloutNeedsReconcile (ListK8sRolloutActions (ri_ClusterID i) (iv_UID target) 20 (rw_db w))
                     then (Inl (writeOpenAIError 409 ''rollout already in progress'' []), w)
                     else storeRolloutRequest env inp who adminID (if key \<noteq> [] then key else pi_id inp 3) c target i w))))"

text \<open>The commands of \<^verbatim>\<open>handleRolloutByID\<close>. The row was read at the start of the request.\<close>

definition approveRollout ::
  "pass_input \<Rightarrow> rollout_identity \<Rightarrow> string \<Rightarrow> K8sRolloutAction \<Rightarrow> rollout_world \<Rightarrow> (http_error + K8sActionRequest) \<times> rollout_world" where
  "approveRollout inp who adminID roll w =
     (if \<not> rolloutScopeAllowed who ''rollout:approve'' then (Inl (insufficientScope ''rollout:approve''), w)
      else if \<not> rolloutScopeAllowed who ''rollout:execute'' then (Inl (insufficientScope ''rollout:execute''), w)
      else if ro_Status roll \<noteq> ''approval_required'' then (Inl (writeOpenAIError 409 ''rollout is not awaiting approval'' ''rollout_bad_state''), w)
      else (case UpdateK8sActionStatus (pi_stamp inp 0) (ro_ActionRequestID roll) ''approved'' adminID ''rollout approved'' (rd_actions (rw_db w)) of
              (Inl e, _) \<Rightarrow> (Inl (writeOpenAIError 409 (storeErrorText e) ''rollout_approve_failed''), w)
            | (Inr act, t) \<Rightarrow> (Inr act, w\<lparr>rw_db := (rw_db w)\<lparr>rd_actions := t\<rparr>\<rparr>)))"

definition rejectRolloutByID ::
  "pass_input \<Rightarrow> rollout_identity \<Rightarrow> K8sRolloutAction \<Rightarrow> rollout_world \<Rightarrow> (http_error + unit) \<times> rollout_world" where
  "rejectRolloutByID inp who roll w =
     (if \<not> rolloutScopeAllowed who ''rollout:approve'' then (Inl (insufficientScope ''rollout:approve''), w)
      else (case RejectK8sRolloutWithAction (pi_stamp inp 0) (ro_ID roll) (ro_ActionRequestID roll) ''rollout rejected''
                   (ro_Status roll) (ro_RollbackStatus roll) (ro_UpdatedAt roll) (rw_db w) of
              (Inl e, _) \<Rightarrow> (Inl (writeOpenAIError (if e = ErrNotFound then 404 else 409) (storeErrorText e) ''rollout_reject_failed''), w)
            | (Inr _, db1) \<Rightarrow> (Inr (), w\<lparr>rw_db := db1\<rparr>)))"

section \<open>Reconciliation\<close>

definition persistRolloutCAS :: "string \<Rightarrow> K8sRolloutAction \<Rightarrow> K8sRolloutAction \<Rightarrow> rollout_db \<Rightarrow> (store_error + bool) \<times> rollout_db" where
  "persistRolloutCAS ts prev after db =
     (if ro_UpdatedAt prev = []
      then (case GetK8sRolloutAction (ro_ID prev) db of
              Inl e \<Rightarrow> (Inl e, db)
            | Inr current \<Rightarrow>
                if ro_Status current \<noteq> ro_Status prev \<or> ro_RollbackStatus current \<noteq> ro_RollbackStatus prev then (Inr False, db)
                else UpdateK8sRolloutProgressCAS ts after (ro_Status prev) (ro_RollbackStatus prev) (ro_UpdatedAt current) db)
      else UpdateK8sRolloutProgressCAS ts after (ro_Status prev) (ro_RollbackStatus prev) (ro_UpdatedAt prev) db)"

definition logTransitions ::
  "rollout_env \<Rightarrow> pass_input \<Rightarrow> rolloutObservation \<Rightarrow> K8sInventoryItem \<Rightarrow> K8sRolloutAction \<Rightarrow> K8sRolloutAction \<Rightarrow> rollout_db \<Rightarrow> rollout_db" where
  "logTransitions env inp ob target prev current db =
     (let ev = evidence env ob current target;
          db1 = (if ro_Status current \<noteq> ro_Status prev
                 then logEvent (pi_stamp inp 2) (rolloutEvent (pi_id inp 0) (ro_ID current) (ro_Status current) (rolloutEventStage (ro_Status current))
                   (firstNonEmpty [ro_FailureReason current, (utf8 [0xB864, 0xC544, 0xC6C3, 0x20, 0xC0C1, 0xD0DC, 0x20, 0xC804, 0xD658])]) ev) db else db) in
      if ro_RollbackStatus current \<noteq> ro_RollbackStatus prev
      then logEvent (pi_stamp inp 2) (rolloutEvent (pi_id inp 1) (ro_ID current) (ro_Status current) (''rollback_'' @ ro_RollbackStatus current)
        (firstNonEmpty [ro_RollbackFailureReason current, (utf8 [0xC790, 0xB3D9, 0x20, 0xB864, 0xBC31, 0x20, 0xC0C1, 0xD0DC, 0x20, 0xC804, 0xD658])]) ev) db1
      else db1)"

text \<open>The row as the pass leaves it, and whether the rollback patch is due and this pass may send it.\<close>

definition reconcileRolloutContext ::
  "rollout_env \<Rightarrow> pass_input \<Rightarrow> K8sRolloutAction \<Rightarrow> bool \<Rightarrow> rollout_db \<Rightarrow> (store_error + K8sRolloutAction \<times> bool) \<times> rollout_db" where
  "reconcileRolloutContext env inp roll initiateRollback db =
     (if \<not> rolloutReconcileDue roll then (Inr (roll, False), db)
      else (case reopenClaim env (pi_now inp) roll of
        None \<Rightarrow> (Inr (roll, False), db)
      | Some r0 \<Rightarrow>
          (case (case en_item env (ro_ClusterID roll) (ro_ResourceKind roll) (ro_Namespace roll) (ro_ResourceName roll) of
                   Inr t \<Rightarrow> Inr (Some t) | Inl ErrNotFound \<Rightarrow> Inr None | Inl e \<Rightarrow> Inl e) of
             Inl e \<Rightarrow> (Inl e, db)
           | Inr target \<Rightarrow>
               let (r, ob) = advanceRollout env (pi_now inp) target r0;
                   db1 = (case target of None \<Rightarrow> db | Some t \<Rightarrow> recordRolloutPods env (pi_stamp inp 0) r0 t db) in
               (case persistRolloutCAS (pi_stamp inp 1) roll r db1 of
                  (Inl e, _) \<Rightarrow> (Inl e, db1)
                | (Inr False, _) \<Rightarrow>
                    (case GetK8sRolloutAction (ro_ID roll) db1 of Inl e \<Rightarrow> (Inl e, db1) | Inr cur \<Rightarrow> (Inr (cur, False), db1))
                | (Inr True, db2) \<Rightarrow>
                    (case GetK8sRolloutAction (ro_ID roll) db2 of
                       Inl e \<Rightarrow> (Inl e, db2)
                     | Inr cur \<Rightarrow>
                         (Inr (cur, initiateRollback \<and>
                            ((ro_RollbackStatus r0 = [] \<and> ro_RollbackStatus r = ''requested'') \<or> ro_RollbackStatus cur = ''requested'')),
                          logTransitions env inp ob (case target of None \<Rightarrow> emptyItem | Some t \<Rightarrow> t) roll cur db2))))))"

text \<open>\<^verbatim>\<open>requestAutoRollback\<close>: the claim, the patch it sends, and the record of its outcome.\<close>

definition claimRollback ::
  "pass_input \<Rightarrow> K8sRolloutAction \<Rightarrow> rollout_db \<Rightarrow> (store_error + K8sRolloutAction \<times> bool) \<times> rollout_db" where
  "claimRollback inp roll db =
     (if ro_RollbackStatus roll \<noteq> ''requested'' then (Inr (roll, False), db)
      else (case persistRolloutCAS (pi_stamp inp 3) roll (roll\<lparr>ro_RollbackStatus := ''running'', ro_RollbackCompletedAt := []\<rparr>) db of
        (Inl e, _) \<Rightarrow> (Inl e, db)
      | (Inr False, _) \<Rightarrow> (case GetK8sRolloutAction (ro_ID roll) db of Inl e \<Rightarrow> (Inl e, db) | Inr cur \<Rightarrow> (Inr (cur, False), db))
      | (Inr True, db1) \<Rightarrow>
          (case GetK8sRolloutAction (ro_ID roll) db1 of
             Inl e \<Rightarrow> (Inl e, db1)
           | Inr cur \<Rightarrow>
               (Inr (cur, True),
                logEvent (pi_stamp inp 4) (rolloutEvent (pi_id inp 2) (ro_ID cur) (ro_Status cur) ''rollback_running''
                  (utf8 [0xC790, 0xB3D9, 0x20, 0xB864, 0xBC31, 0x20, 0xC2E4, 0xD589, 0x20, 0xC18C, 0xC720, 0xAD8C, 0x20, 0xD68D, 0xB4DD]) [(''rollback_status'', GStr (ro_RollbackStatus cur))]) db1))))"

definition rollbackCommand :: "cluster_access \<Rightarrow> string \<Rightarrow> K8sRolloutAction \<Rightarrow> cluster_error + rollback_patch" where
  "rollbackCommand acc actor roll =
     (case ca_cluster acc of Some e \<Rightarrow> Inl e | None \<Rightarrow>
      (case ca_client acc of Some e \<Rightarrow> Inl e | None \<Rightarrow>
       if \<not> ca_canReadLive acc then Inl (''cluster client cannot verify the live rollout target UID'', False)
       else (case ca_live acc of Inl e \<Rightarrow> Inl e | Inr live \<Rightarrow>
         let liveUID = textMap (asAnyMap (gget live ''metadata'')) ''uid'' in
         if ro_ResourceUID roll \<noteq> [] \<and> liveUID \<noteq> ro_ResourceUID roll
         then Inl (''rollout target UID changed from '' @ ro_ResourceUID roll @ '' to '' @ firstNonEmpty [liveUID, ''<missing>''] @
                   ''; refusing rollback'', False)
         else if \<not> ca_canRollback acc then Inl (''cluster client does not support rollout rollback'', False)
         else Inr \<lparr>rb_ClusterID = ro_ClusterID roll, rb_Namespace = ro_Namespace roll, rb_Name = ro_ResourceName roll,
                rb_Template = ro_PreviousTemplate roll, rb_RestartedBy = actor, rb_ActionID = ro_ID roll\<rparr>)))"

definition rollbackPatchOutcomeAmbiguous :: "cluster_error \<Rightarrow> bool" where
  "rollbackPatchOutcomeAmbiguous e = snd e"

definition rollbackResult :: "rollout_env \<Rightarrow> int \<Rightarrow> cluster_error option \<Rightarrow> K8sRolloutAction \<Rightarrow> K8sRolloutAction" where
  "rollbackResult env now err roll =
     (case err of
        None \<Rightarrow> roll\<lparr>ro_RollbackStatus := ''monitoring'', ro_RollbackFailureReason := [], ro_RollbackCompletedAt := []\<rparr>
      | Some e \<Rightarrow>
          if rollbackPatchOutcomeAmbiguous e
          then roll\<lparr>ro_RollbackStatus := ''monitoring'', ro_RollbackFailureReason := ''rollback request outcome is unknown: '' @ fst e,
                 ro_RollbackCompletedAt := []\<rparr>
          else roll\<lparr>ro_RollbackStatus := ''failed'', ro_RollbackFailureReason := fst e, ro_RollbackCompletedAt := en_format env now\<rparr>)"

definition finishRollback ::
  "rollout_env \<Rightarrow> pass_input \<Rightarrow> cluster_error option \<Rightarrow> K8sRolloutAction \<Rightarrow> rollout_db \<Rightarrow> (store_error + K8sRolloutAction) \<times> rollout_db" where
  "finishRollback env inp err claimed db =
     (case persistRolloutCAS (pi_stamp inp 5) claimed (rollbackResult env (pi_now inp) err claimed) db of
        (Inl e, _) \<Rightarrow> (Inl e, db)
      | (Inr False, _) \<Rightarrow> (GetK8sRolloutAction (ro_ID claimed) db, db)
      | (Inr True, db1) \<Rightarrow>
          (case GetK8sRolloutAction (ro_ID claimed) db1 of
             Inl e \<Rightarrow> (Inl e, db1)
           | Inr cur \<Rightarrow>
               (Inr cur,
                logEvent (pi_stamp inp 6) (rolloutEvent (pi_id inp 3) (ro_ID cur) (ro_Status cur) (''rollback_'' @ ro_RollbackStatus cur)
                  (firstNonEmpty [ro_RollbackFailureReason cur, (utf8 [0xC774, 0xC804] @ '' Pod Template '' @ utf8 [0xBCF5, 0xC6D0, 0x20, 0xC694, 0xCCAD, 0x20, 0xC644, 0xB8CC])])
                  [(''rollback_status'', GStr (ro_RollbackStatus cur))]) db1)))"

definition requestAutoRollback ::
  "rollout_env \<Rightarrow> pass_input \<Rightarrow> string \<Rightarrow> K8sRolloutAction \<Rightarrow> rollout_db \<Rightarrow> (store_error + K8sRolloutAction) \<times> rollout_db" where
  "requestAutoRollback env inp actor roll db =
     (case claimRollback inp roll db of
        (Inl e, db1) \<Rightarrow> (Inl e, db1)
      | (Inr (cur, False), db1) \<Rightarrow> (Inr cur, db1)
      | (Inr (cur, True), db1) \<Rightarrow>
          finishRollback env inp (case rollbackCommand (pi_access inp) actor cur of Inl e \<Rightarrow> Some e | Inr p \<Rightarrow> pi_patch inp p) cur db1)"

definition mutationConfirmed :: "rollout_env \<Rightarrow> K8sRolloutAction \<Rightarrow> store_error + bool" where
  "mutationConfirmed env roll =
     (let recorded = (ro_Status roll = ''succeeded'' \<or> ro_TargetSpecHash roll \<noteq> []) in
      case en_item env (ro_ClusterID roll) (ro_ResourceKind roll) (ro_Namespace roll) (ro_ResourceName roll) of
        Inr t \<Rightarrow> Inr (recorded \<or> ob_MutationObserved (observeRollout env roll t))
      | Inl ErrNotFound \<Rightarrow> Inr recorded
      | Inl e \<Rightarrow> Inl e)"

definition settleAction ::
  "string \<Rightarrow> K8sRolloutAction \<Rightarrow> string \<Rightarrow> bool \<Rightarrow> rollout_world \<Rightarrow> store_error option \<times> rollout_world" where
  "settleAction ts roll actionID seen w =
     (let status = (if seen then ''executed'' else ''failed'');
          result = (if seen then ''rollout mutation confirmed by inventory/controller evidence ('' @ ro_Status roll @ '')''
                    else ''rollout mutation could not be confirmed: '' @ firstNonEmpty [ro_FailureReason roll, ro_Status roll]) in
      case UpdateK8sActionStatus ts actionID status ''system:rollout-reconciler'' result (rd_actions (rw_db w)) of
        (Inl e, _) \<Rightarrow>
          (if e = ErrInvalidTransition \<and>
              (case GetK8sActionRequest actionID (rd_actions (rw_db w)) of Inr latest \<Rightarrow> ac_Status latest \<noteq> ''running'' | Inl _ \<Rightarrow> False)
           then None else Some e, w)
      | (Inr _, t) \<Rightarrow>
          (None, w\<lparr>rw_db := (rw_db w)\<lparr>rd_actions := t\<rparr>,
            rw_services := UpdateK8sServiceOperationsByRequestID ts actionID status result (rw_services w)\<rparr>))"

definition syncRolloutActionRequest ::
  "rollout_env \<Rightarrow> string \<Rightarrow> K8sRolloutAction \<Rightarrow> rollout_world \<Rightarrow> store_error option \<times> rollout_world" where
  "syncRolloutActionRequest env ts roll w =
     (if ro_ActionRequestID roll = [] \<or> \<not> rolloutTerminal (ro_Status roll) then (None, w)
      else (case GetK8sActionRequest (ro_ActionRequestID roll) (rd_actions (rw_db w)) of
        Inl _ \<Rightarrow> (None, w)
      | Inr action \<Rightarrow>
          if ac_Status action \<noteq> ''running'' then (None, w)
          else (case mutationConfirmed env roll of
                  Inl e \<Rightarrow> (Some e, w)
                | Inr seen \<Rightarrow> settleAction ts roll (ac_ID action) seen w)))"

section \<open>The worker\<close>

definition reconcileLeased ::
  "rollout_env \<Rightarrow> pass_input \<Rightarrow> string \<Rightarrow> string \<Rightarrow> rollout_world \<Rightarrow> string option \<times> rollout_world" where
  "reconcileLeased env inp ownerID rolloutID w =
     (case GetK8sRolloutAction rolloutID (rw_db w) of
        Inl _ \<Rightarrow> (None, w)
      | Inr current \<Rightarrow>
          let actor = ''system:'' @ ownerID;
              reconcile = (\<lambda>w. if \<not> rolloutNeedsReconcile current
                then (let (e, w') = syncRolloutActionRequest env (pi_stamp inp 7) current w in (map_option storeErrorText e, w'))
                else (case reconcileRolloutContext env inp current True (rw_db w) of
                        (Inl e, db1) \<Rightarrow> (Some (storeErrorText e), w\<lparr>rw_db := db1\<rparr>)
                      | (Inr (cur, patchDue), db1) \<Rightarrow>
                          (case (if patchDue then requestAutoRollback env inp actor cur db1 else (Inr cur, db1)) of
                             (Inl e, db2) \<Rightarrow> (Some (storeErrorText e), w\<lparr>rw_db := db2\<rparr>)
                           | (Inr fin, db2) \<Rightarrow>
                               (let (e, w') = syncRolloutActionRequest env (pi_stamp inp 7) fin (w\<lparr>rw_db := db2\<rparr>) in
                                (map_option storeErrorText e, w'))))) in
          if awaitingStart current \<and> ro_ActionRequestID current \<noteq> []
          then (case GetK8sActionRequest (ro_ActionRequestID current) (rd_actions (rw_db w)) of
                  Inl e \<Rightarrow> (Some (storeErrorText e), w)
                | Inr action \<Rightarrow>
                    if ac_Status action = ''approved''
                    then (case runApprovedK8sAction env inp actor action w of
                            (Inl e, w') \<Rightarrow> (Some (he_message e), w')
                          | (Inr (_, _, err), w') \<Rightarrow> (err, w'))
                    else reconcile w)
          else reconcile w)"

definition reconcileOne ::
  "rollout_env \<Rightarrow> pass_input \<Rightarrow> string \<Rightarrow> int \<Rightarrow> string \<Rightarrow> rollout_world \<Rightarrow> string option \<times> rollout_world" where
  "reconcileOne env inp ownerID leaseTTL rolloutID w =
     (let (acquired, t) = TryAcquireK8sRolloutReconcileLease rolloutID ownerID (pi_now inp) leaseTTL (rd_leases (rw_db w)) in
      if \<not> acquired then (None, w)
      else (let (e, w') = reconcileLeased env inp ownerID rolloutID (w\<lparr>rw_db := (rw_db w)\<lparr>rd_leases := t\<rparr>\<rparr>) in
            (e, w'\<lparr>rw_db := (rw_db w')\<lparr>rd_leases := ReleaseK8sRolloutReconcileLease rolloutID ownerID (rd_leases (rw_db w'))\<rparr>\<rparr>)))"

fun reconcileItems ::
  "rollout_env \<Rightarrow> (string \<Rightarrow> pass_input) \<Rightarrow> string \<Rightarrow> int \<Rightarrow> string list \<Rightarrow> nat \<Rightarrow> string list \<Rightarrow> rollout_world \<Rightarrow> (nat \<times> string list) \<times> rollout_world" where
  "reconcileItems env inputs ownerID leaseTTL [] n failures w = ((n, failures), w)"
| "reconcileItems env inputs ownerID leaseTTL (i # items) n failures w =
     (case reconcileOne env (inputs i) ownerID leaseTTL i w of
        (Some e, w') \<Rightarrow> reconcileItems env inputs ownerID leaseTTL items n (failures @ [''rollout '' @ i @ '': '' @ e]) w'
      | (None, w') \<Rightarrow> reconcileItems env inputs ownerID leaseTTL items (Suc n) failures w')"

definition reconcileBatch ::
  "rollout_env \<Rightarrow> (string \<Rightarrow> pass_input) \<Rightarrow> string \<Rightarrow> int \<Rightarrow> int \<Rightarrow> rollout_world \<Rightarrow> (nat \<times> string list) \<times> rollout_world" where
  "reconcileBatch env inputs ownerID leaseTTL batchSize w =
     reconcileItems env inputs ownerID leaseTTL (map ro_ID (ListK8sRolloutActionsDue batchSize (rw_db w))) 0 [] w"

section \<open>The handlers in one run\<close>

text \<open>A request, a command or a page view that nothing interrupts. A page view reconciles but never
  sends the rollback patch.\<close>

definition refreshRollout :: "rollout_env \<Rightarrow> pass_input \<Rightarrow> K8sRolloutAction \<Rightarrow> rollout_world \<Rightarrow> (store_error + K8sRolloutAction) \<times> rollout_world" where
  "refreshRollout env inp roll w =
     (case reconcileRolloutContext env inp roll False (rw_db w) of
        (Inl e, db1) \<Rightarrow> (Inl e, w\<lparr>rw_db := db1\<rparr>)
      | (Inr (cur, _), db1) \<Rightarrow> (Inr cur, w\<lparr>rw_db := db1\<rparr>))"

definition runError :: "http_error + string \<times> string \<times> string option \<Rightarrow> http_error option" where
  "runError res =
     (case res of
        Inl e \<Rightarrow> Some e
      | Inr (_, msg, Some _) \<Rightarrow> Some (writeOpenAIError 502 msg [])
      | Inr (_, _, None) \<Rightarrow> None)"

definition handleWorkloadRollout ::
  "rollout_env \<Rightarrow> pass_input \<Rightarrow> pass_input \<Rightarrow> pass_input \<Rightarrow> bool \<Rightarrow> rollout_identity \<Rightarrow> string \<Rightarrow> string \<Rightarrow> rolloutRequestInput option \<Rightarrow>
     rollout_world \<Rightarrow> (http_error + rollout_reply) \<times> rollout_world" where
  "handleWorkloadRollout env inp runInp viewInp authorized who adminID headerKey body w =
     (case postWorkloadRollout env inp authorized who adminID headerKey body w of
        (Inl e, w1) \<Rightarrow> (Inl e, w1)
      | (Inr (RolloutReplayed r a c), w1) \<Rightarrow> (Inr (RolloutReplayed r a c), w1)
      | (Inr (RolloutAccepted r a c), w1) \<Rightarrow>
          if ro_Status r \<noteq> ''approved'' then (Inr (RolloutAccepted r a c), w1)
          else (case runApprovedK8sAction env runInp adminID a w1 of
            (res, w2) \<Rightarrow>
              (case runError res of
                 Some e \<Rightarrow> (Inl e, w2)
               | None \<Rightarrow>
                   (case GetK8sRolloutAction (ro_ID r) (rw_db w2) of
                      Inl _ \<Rightarrow> (Inr (RolloutAccepted r a c), w2)
                    | Inr r2 \<Rightarrow>
                        (case refreshRollout env viewInp r2 w2 of
                           (Inl _, w3) \<Rightarrow> (Inr (RolloutAccepted r2 a c), w3)
                         | (Inr r3, w3) \<Rightarrow> (Inr (RolloutAccepted r3 a c), w3))))))"

definition rolloutCommandStep ::
  "rollout_env \<Rightarrow> pass_input \<Rightarrow> pass_input \<Rightarrow> rollout_identity \<Rightarrow> string \<Rightarrow> string option \<Rightarrow> K8sRolloutAction \<Rightarrow> rollout_world \<Rightarrow>
     (http_error + K8sRolloutAction) \<times> rollout_world" where
  "rolloutCommandStep env inp runInp who adminID command roll w =
     (case command of
        None \<Rightarrow> if rolloutScopeAllowed who ''rollout:view'' then (Inr roll, w) else (Inl (insufficientScope ''rollout:view''), w)
      | Some c \<Rightarrow>
          if c = ''approve''
          then (case approveRollout inp who adminID roll w of
                  (Inl e, w1) \<Rightarrow> (Inl e, w1)
                | (Inr act, w1) \<Rightarrow>
                    (case runApprovedK8sAction env runInp adminID act w1 of
                       (res, w2) \<Rightarrow> (case runError res of Some e \<Rightarrow> (Inl e, w2) | None \<Rightarrow> (Inr roll, w2))))
          else if c = ''reject''
          then (case rejectRolloutByID inp who roll w of
                  (Inl e, w1) \<Rightarrow> (Inl e, w1)
                | (Inr _, w1) \<Rightarrow> (Inr (roll\<lparr>ro_Status := ''rejected''\<rparr>), w1))
          else (Inl (writeOpenAIError 501 ''pause/resume/rollback is not supported in this release'' ''rollout_command_unsupported''), w))"

definition handleRolloutByID ::
  "rollout_env \<Rightarrow> pass_input \<Rightarrow> pass_input \<Rightarrow> pass_input \<Rightarrow> bool \<Rightarrow> rollout_identity \<Rightarrow> string \<Rightarrow> string \<Rightarrow> string option \<Rightarrow> rollout_world \<Rightarrow>
     (http_error + K8sRolloutAction) \<times> rollout_world" where
  "handleRolloutByID env inp runInp viewInp authorized who adminID i command w =
     (if \<not> authorized then (Inl invalidAdminToken, w)
      else if i = [] then (Inl (writeOpenAIError 400 ''rollout id required'' ''rollout_id_required''), w)
      else (case GetK8sRolloutAction i (rw_db w) of
        Inl e \<Rightarrow> (Inl (rolloutLookupError e), w)
      | Inr roll \<Rightarrow>
          (case rolloutCommandStep env inp runInp who adminID command roll w of
             (Inl e, w1) \<Rightarrow> (Inl e, w1)
           | (Inr r1, w1) \<Rightarrow>
               (case refreshRollout env viewInp r1 w1 of
                  (Inl e, w2) \<Rightarrow> (Inl (writeOpenAIError 500 (storeErrorText e) ''rollout_reconcile_failed''), w2)
                | (Inr r2, w2) \<Rightarrow> (Inr r2, w2)))))"

end
