(* ===== verification/Rollout_Machine.thy ===== *)
theory Rollout_Machine
  imports Rollout_Flow
begin

text \<open>
  What any interleaving of the rollout handlers, the Action Center and any number of workers does
  to the two ledgers. The state of \<open>rollout_step\<close> holds, beside the database, what the handlers
  carry between their calls: rows and requests they have read, runs and rollback claims whose
  call into the cluster is still open. A handler that crashes never takes its next step. The
  ledger invariant \<open>ledgerInv\<close> relates each rollout to its action request; \<open>goodStep\<close>
  says that a change of the database keeps it and moves every row along its lifecycle.
\<close>

section \<open>Rows and pairs\<close>

definition rolloutStatuses :: "string list" where
  "rolloutStatuses = [''approval_required'', ''approved'', ''running'', ''monitoring'', ''succeeded'', ''failed'', ''timed_out'', ''rejected'']"

definition rollbackStatuses :: "string list" where
  "rollbackStatuses = [[], ''requested'', ''running'', ''monitoring'', ''succeeded'', ''failed'']"

definition rolloutRowOk :: "K8sRolloutAction \<Rightarrow> bool" where
  "rolloutRowOk r \<longleftrightarrow>
     ro_Status r \<in> set rolloutStatuses \<and> ro_RollbackStatus r \<in> set rollbackStatuses \<and> ro_ActionRequestID r \<noteq> [] \<and>
     (ro_StartedAt r = [] \<longleftrightarrow> ro_Status r \<in> set [''approval_required'', ''approved'', ''rejected'']) \<and>
     (ro_RollbackStatus r \<noteq> [] \<longrightarrow> ro_Status r \<in> set [''failed'', ''timed_out''] \<and> ro_AutoRollback r) \<and>
     (rollbackInFlight (ro_RollbackStatus r) \<longrightarrow> equalFold (ro_ResourceKind r) ''Deployment'' \<and> ro_PreviousTemplate r \<noteq> [])"

definition pairStatus :: "string \<Rightarrow> string \<Rightarrow> bool" where
  "pairStatus act roll \<longleftrightarrow>
     (if roll = ''approval_required'' \<or> roll = ''approved'' then act \<in> set [''approval_required'', ''approved'', ''rejected'']
      else if roll = ''running'' then act = ''running''
      else if roll = ''monitoring'' then act \<in> set [''running'', ''executed'']
      else if roll = ''rejected'' then act = ''rejected''
      else act \<in> set [''running'', ''executed'', ''failed''])"

definition linkedOk :: "action_table \<Rightarrow> K8sRolloutAction \<Rightarrow> bool" where
  "linkedOk acts r \<longleftrightarrow>
     (\<exists>a. map_of acts (ro_ActionRequestID r) = Some a \<and> ac_Action a = ''rollout_restart'' \<and> pairStatus (ac_Status a) (ro_Status r))"

definition ledgerInv :: "rollout_db \<Rightarrow> bool" where
  "ledgerInv db \<longleftrightarrow> rollout_db_wf db \<and>
     (\<forall>k r. map_of (rd_rollouts db) k = Some r \<longrightarrow> rolloutRowOk r \<and> linkedOk (rd_actions db) r)"

definition linkOf :: "K8sRolloutAction \<Rightarrow> string \<times> string \<times> string \<times> string \<times> string \<times> string \<times> string \<times> gmap \<times> bool \<times> int" where
  "linkOf r = (ro_ID r, ro_ActionRequestID r, ro_ClusterID r, ro_Namespace r, ro_ResourceKind r, ro_ResourceName r, ro_ResourceUID r,
     ro_PreviousTemplate r, ro_AutoRollback r, ro_TimeoutSeconds r)"

definition statusEdge :: "string \<Rightarrow> string \<Rightarrow> bool" where
  "statusEdge x y \<longleftrightarrow>
     (x \<in> {''approval_required'', ''approved''} \<and> y \<in> {''running'', ''rejected''}) \<or>
     (x = ''running'' \<and> y \<in> {''monitoring'', ''failed'', ''timed_out'', ''succeeded''}) \<or>
     (x = ''monitoring'' \<and> y \<in> {''failed'', ''timed_out'', ''succeeded''})"

definition rowMove :: "K8sRolloutAction \<Rightarrow> K8sRolloutAction \<Rightarrow> bool" where
  "rowMove r r' \<longleftrightarrow> linkOf r' = linkOf r \<and> (ro_Status r' = ro_Status r \<or> statusEdge (ro_Status r) (ro_Status r')) \<and>
     (ro_RollbackStatus r' = ro_RollbackStatus r \<or> rollbackEdge (ro_RollbackStatus r) (ro_RollbackStatus r')) \<and>
     (ro_StartedAt r \<noteq> [] \<longrightarrow> ro_StartedAt r' \<noteq> [])"

definition goodStep :: "rollout_db \<Rightarrow> rollout_db \<Rightarrow> bool" where
  "goodStep db db' \<longleftrightarrow> ledgerInv db' \<and>
     (\<forall>k r. map_of (rd_rollouts db) k = Some r \<longrightarrow> (\<exists>r'. map_of (rd_rollouts db') k = Some r' \<and> rowMove\<^sup>*\<^sup>* r r')) \<and>
     (\<forall>i a. map_of (rd_actions db) i = Some a \<longrightarrow> (\<exists>a'. map_of (rd_actions db') i = Some a' \<and> ac_Action a' = ac_Action a)) \<and>
     (\<forall>k r'. map_of (rd_rollouts db) k = None \<longrightarrow> map_of (rd_rollouts db') k = Some r' \<longrightarrow> map_of (rd_actions db) (ro_ActionRequestID r') = None)"

lemma rowMove_refl [simp]: "rowMove r r"
  by (simp add: rowMove_def)

lemma rowMoves_link: "rowMove\<^sup>*\<^sup>* r r' \<Longrightarrow> linkOf r' = linkOf r"
  by (induction rule: rtranclp_induct) (auto simp: rowMove_def)

lemma rowMoves_started: "rowMove\<^sup>*\<^sup>* r r' \<Longrightarrow> ro_StartedAt r \<noteq> [] \<Longrightarrow> ro_StartedAt r' \<noteq> []"
  by (induction rule: rtranclp_induct) (auto simp: rowMove_def)

lemma statusEdge_open: "statusEdge x y \<Longrightarrow> \<not> rolloutClosed x"
  by (auto simp: statusEdge_def rolloutClosed_def)

lemma rowMoves_closed: "rowMove\<^sup>*\<^sup>* r r' \<Longrightarrow> rolloutClosed (ro_Status r) \<Longrightarrow> ro_Status r' = ro_Status r"
  by (induction rule: rtranclp_induct) (auto simp: rowMove_def dest: statusEdge_open)

lemma goodStep_refl: "ledgerInv db \<Longrightarrow> goodStep db db"
  by (auto simp: goodStep_def)

lemma goodStep_inv: "goodStep db db' \<Longrightarrow> ledgerInv db'"
  by (simp add: goodStep_def)

lemma goodStep_row: "goodStep db db' \<Longrightarrow> map_of (rd_rollouts db) k = Some r \<Longrightarrow> \<exists>r'. map_of (rd_rollouts db') k = Some r' \<and> rowMove\<^sup>*\<^sup>* r r'"
  by (simp add: goodStep_def)

lemma goodStep_action: "goodStep db db' \<Longrightarrow> map_of (rd_actions db) i = Some a \<Longrightarrow> \<exists>a'. map_of (rd_actions db') i = Some a' \<and> ac_Action a' = ac_Action a"
  by (simp add: goodStep_def)

lemma goodStep_new:
  "goodStep db db' \<Longrightarrow> map_of (rd_rollouts db) k = None \<Longrightarrow> map_of (rd_rollouts db') k = Some r' \<Longrightarrow>
     map_of (rd_actions db) (ro_ActionRequestID r') = None"
  by (simp add: goodStep_def)

lemma goodStep_trans:
  assumes "goodStep a b" and "goodStep b c"
  shows "goodStep a c"
  unfolding goodStep_def
proof (intro conjI allI impI)
  show "ledgerInv c" using assms(2) by (rule goodStep_inv)
next
  fix k r assume "map_of (rd_rollouts a) k = Some r"
  from goodStep_row [OF assms(1) this] obtain r1 where r1: "map_of (rd_rollouts b) k = Some r1" "rowMove\<^sup>*\<^sup>* r r1" by blast
  from goodStep_row [OF assms(2) r1(1)] r1(2) show "\<exists>r'. map_of (rd_rollouts c) k = Some r' \<and> rowMove\<^sup>*\<^sup>* r r'" by force
next
  fix i x assume "map_of (rd_actions a) i = Some x"
  from goodStep_action [OF assms(1) this] obtain x1 where x1: "map_of (rd_actions b) i = Some x1" "ac_Action x1 = ac_Action x" by blast
  from goodStep_action [OF assms(2) x1(1)] x1(2) show "\<exists>a'. map_of (rd_actions c) i = Some a' \<and> ac_Action a' = ac_Action x" by auto
next
  fix k r' assume none: "map_of (rd_rollouts a) k = None" and c: "map_of (rd_rollouts c) k = Some r'"
  show "map_of (rd_actions a) (ro_ActionRequestID r') = None"
  proof (cases "map_of (rd_rollouts b) k")
    case None
    from goodStep_new [OF assms(2) None c] goodStep_action [OF assms(1)] show ?thesis
      by (metis not_None_eq)
  next
    case (Some r1)
    from goodStep_row [OF assms(2) Some] c have "linkOf r' = linkOf r1" by (auto dest: rowMoves_link)
    with goodStep_new [OF assms(1) none Some] show ?thesis by (simp add: linkOf_def)
  qed
qed

section \<open>Updates of the two ledgers\<close>

lemma ledger_row: "ledgerInv db \<Longrightarrow> map_of (rd_rollouts db) k = Some r \<Longrightarrow> rolloutRowOk r \<and> linkedOk (rd_actions db) r \<and> ro_ID r = k"
  using keyedBy_key [of ro_ID "rd_rollouts db" k r] by (simp add: ledgerInv_def rollout_db_wf_def)

lemma ledger_wf: "ledgerInv db \<Longrightarrow> rollout_db_wf db"
  by (simp add: ledgerInv_def)

lemma request_unique:
  assumes "ledgerInv db" and "map_of (rd_rollouts db) k = Some r" and "map_of (rd_rollouts db) j = Some q"
    and "ro_ActionRequestID q = ro_ActionRequestID r"
  shows "j = k"
proof -
  have u: "uniqueBy ro_ActionRequestID (rd_rollouts db)" using assms(1) by (simp add: ledgerInv_def rollout_db_wf_def rolloutIndexes_def)
  have "ro_ActionRequestID r \<noteq> []" "ro_ActionRequestID q \<noteq> []"
    using ledger_row [OF assms(1)] assms(2,3) by (auto simp: rolloutRowOk_def)
  from uniqueBy_find [OF u assms(2) this(1)] uniqueBy_find [OF u assms(3) this(2)] assms(4) show ?thesis by simp
qed

lemma ledger_by_request:
  assumes "ledgerInv db" and "map_of (rd_rollouts db) k = Some r"
  shows "GetK8sRolloutByActionRequest (ro_ActionRequestID r) db = Inr r"
  using uniqueBy_find [OF _ assms(2)] assms ledger_row [OF assms]
  by (simp add: ledgerInv_def rollout_db_wf_def rolloutIndexes_def GetK8sRolloutByActionRequest_def rolloutRowOk_def)

lemma by_request_row:
  assumes "ledgerInv db" and "GetK8sRolloutByActionRequest i db = Inr r"
  shows "map_of (rd_rollouts db) (ro_ID r) = Some r \<and> ro_ActionRequestID r = i"
proof -
  obtain k where f: "find (\<lambda>(_, r). ro_ActionRequestID r = i) (rd_rollouts db) = Some (k, r)"
    using assms(2) by (auto simp: GetK8sRolloutByActionRequest_def split: option.splits)
  then have "(k, r) \<in> set (rd_rollouts db)" "ro_ActionRequestID r = i" by (auto simp: find_Some_iff in_set_conv_nth)
  moreover have "keyedBy ro_ID (rd_rollouts db)" using assms(1) by (simp add: ledgerInv_def rollout_db_wf_def)
  ultimately show ?thesis by (auto simp: keyedBy_def)
qed

text \<open>A change of the action requests alone, a change of one rollout alone, and a change of a pair.\<close>

lemma good_action_update:
  assumes inv: "ledgerInv db" and wf: "rollout_db_wf (db\<lparr>rd_actions := updateWhere i g f (rd_actions db)\<rparr>)"
    and keep: "\<And>a. ac_Action (f a) = ac_Action a"
    and pair: "\<And>a k r. map_of (rd_actions db) i = Some a \<Longrightarrow> g a \<Longrightarrow> map_of (rd_rollouts db) k = Some r \<Longrightarrow> ro_ActionRequestID r = i \<Longrightarrow>
      pairStatus (ac_Status a) (ro_Status r) \<Longrightarrow> pairStatus (ac_Status (f a)) (ro_Status r)"
  shows "goodStep db (db\<lparr>rd_actions := updateWhere i g f (rd_actions db)\<rparr>)"
proof -
  have "linkedOk (updateWhere i g f (rd_actions db)) r" if r: "map_of (rd_rollouts db) k = Some r" for k r
  proof -
    from ledger_row [OF inv r] obtain a where a: "map_of (rd_actions db) (ro_ActionRequestID r) = Some a"
      "ac_Action a = ''rollout_restart''" "pairStatus (ac_Status a) (ro_Status r)" by (auto simp: linkedOk_def)
    then have "map_of (updateWhere i g f (rd_actions db)) (ro_ActionRequestID r) =
        Some (if ro_ActionRequestID r = i \<and> g a then f a else a)" by (auto simp: map_of_updateWhere)
    then show ?thesis using a pair [OF _ _ r] keep by (auto simp: linkedOk_def)
  qed
  then show ?thesis using wf inv keep by (auto simp: goodStep_def ledgerInv_def map_of_updateWhere)
qed

lemma good_rollout_update:
  assumes inv: "ledgerInv db" and wf: "rollout_db_wf (db\<lparr>rd_rollouts := updateWhere k g f (rd_rollouts db)\<rparr>)"
    and row: "\<And>r. map_of (rd_rollouts db) k = Some r \<Longrightarrow> g r \<Longrightarrow> rolloutRowOk (f r) \<and> linkedOk (rd_actions db) (f r) \<and> rowMove r (f r)"
  shows "goodStep db (db\<lparr>rd_rollouts := updateWhere k g f (rd_rollouts db)\<rparr>)"
  using wf inv row by (auto simp: goodStep_def ledgerInv_def map_of_updateWhere split: if_splits)

lemma good_pair_update:
  assumes inv: "ledgerInv db"
    and wf: "rollout_db_wf (db\<lparr>rd_actions := updateWhere i ga fa (rd_actions db), rd_rollouts := updateWhere k g f (rd_rollouts db)\<rparr>)"
    and a: "map_of (rd_actions db) i = Some a" "ga a" and r: "map_of (rd_rollouts db) k = Some r" "g r" "ro_ActionRequestID r = i"
    and keep: "\<And>a. ac_Action (fa a) = ac_Action a" and row: "rolloutRowOk (f r)" "rowMove r (f r)"
    and pair: "pairStatus (ac_Status (fa a)) (ro_Status (f r))"
  shows "goodStep db (db\<lparr>rd_actions := updateWhere i ga fa (rd_actions db), rd_rollouts := updateWhere k g f (rd_rollouts db)\<rparr>)"
proof -
  have restart: "ac_Action a = ''rollout_restart''" using ledger_row [OF inv r(1)] r(3) a(1) by (auto simp: linkedOk_def)
  have same: "ro_ActionRequestID (f r) = i" using row(2) r(3) by (simp add: rowMove_def linkOf_def)
  have "rolloutRowOk q' \<and> linkedOk (updateWhere i ga fa (rd_actions db)) q'"
    if q': "map_of (updateWhere k g f (rd_rollouts db)) j = Some q'" for j q'
  proof (cases "j = k")
    case True
    with q' r have "q' = f r" by (simp add: map_of_updateWhere)
    then show ?thesis using row(1) same a restart keep pair by (simp add: linkedOk_def map_of_updateWhere)
  next
    case False
    with q' have q: "map_of (rd_rollouts db) j = Some q'" by (simp add: map_of_updateWhere)
    with False request_unique [OF inv r(1) q] r(3) have "ro_ActionRequestID q' \<noteq> i" by auto
    with ledger_row [OF inv q] show ?thesis by (simp add: linkedOk_def map_of_updateWhere)
  qed
  then show ?thesis using wf inv row(2) r keep by (auto simp: goodStep_def ledgerInv_def map_of_updateWhere split: if_splits)
qed

text \<open>Writes that touch neither ledger.\<close>

lemma good_silent:
  "ledgerInv db \<Longrightarrow> rollout_db_wf db' \<Longrightarrow> rd_actions db' = rd_actions db \<Longrightarrow> rd_rollouts db' = rd_rollouts db \<Longrightarrow> goodStep db db'"
  by (auto simp: goodStep_def ledgerInv_def)

section \<open>The operations keep the ledgers\<close>

lemma rowOk_no_rollback: "rolloutRowOk r \<Longrightarrow> ro_Status r \<noteq> ''failed'' \<Longrightarrow> ro_Status r \<noteq> ''timed_out'' \<Longrightarrow> ro_RollbackStatus r = []"
  unfolding rolloutRowOk_def by fastforce

lemma rowOk_request: "rolloutRowOk r \<Longrightarrow> ro_ActionRequestID r \<noteq> []"
  by (simp add: rolloutRowOk_def)

lemma rowOk_started: "rolloutRowOk r \<Longrightarrow> ro_StartedAt r = [] \<longleftrightarrow> ro_Status r \<in> set [''approval_required'', ''approved'', ''rejected'']"
  by (simp add: rolloutRowOk_def)

lemma pairStatus_waiting: "pairStatus act roll \<Longrightarrow> awaitingDecision act \<Longrightarrow> roll = ''approval_required'' \<or> roll = ''approved''"
proof -
  assume p: "pairStatus act roll" and "awaitingDecision act"
  then consider "act = ''pending''" | "act = ''approval_required''" | "act = ''pending_approval''" by (auto simp: awaitingDecision_def)
  then show ?thesis using p by cases (simp_all add: pairStatus_def split: if_split_asm)
qed

lemma rowOk_waiting:
  "rolloutRowOk r \<Longrightarrow> ro_Status r = ''approval_required'' \<or> ro_Status r = ''approved'' \<Longrightarrow>
     ro_RollbackStatus r = [] \<and> ro_StartedAt r = [] \<and> ro_ActionRequestID r \<noteq> []"
  using rowOk_no_rollback [of r] rowOk_request [of r] rowOk_started [of r] by (elim disjE) simp_all

lemma commit_wf: "keepsWf f \<Longrightarrow> ledgerInv db \<Longrightarrow> f db = Inr db' \<Longrightarrow> rollout_db_wf db'"
  unfolding keepsWf_def ledgerInv_def by blast

lemma keepsWf_pair:
  "(\<And>a. ac_ID (fa a) = ac_ID a) \<Longrightarrow> (\<And>a. ac_IdempotencyKey (fa a) = ac_IdempotencyKey a) \<Longrightarrow> (\<And>r. ro_ID (f r) = ro_ID r) \<Longrightarrow>
     keepsWf (andThen (updateActionRow e1 i ga fa) (updateRolloutRow e2 k g f))"
  by (intro keepsWf_andThen keepsWf_updateActionRow keepsWf_updateRolloutRow)

lemma andThen_pair:
  assumes "andThen (updateActionRow e1 i ga fa) (updateRolloutRow e2 k g f) db = Inr db'"
  obtains a r where "map_of (rd_actions db) i = Some a" "ga a" "map_of (rd_rollouts db) k = Some r" "g r"
    and "db' = db\<lparr>rd_actions := updateWhere i ga fa (rd_actions db), rd_rollouts := updateWhere k g f (rd_rollouts db)\<rparr>"
  using assms by (auto simp: andThen_ok updateActionRow_ok updateRolloutRow_ok)

definition startTx :: "string \<Rightarrow> string \<Rightarrow> string \<Rightarrow> string \<Rightarrow> rollout_tx" where
  "startTx now actionID rolloutID actor =
     andThen (updateActionRow invalidTransition actionID (\<lambda>a. ac_Status a = ''approved'') (startAction now actor))
       (updateRolloutRow invalidTransition rolloutID
         (\<lambda>r. ro_ActionRequestID r = actionID \<and> ro_StartedAt r = [] \<and> ro_Status r \<in> set [''approved'', ''approval_required''])
         (startRollout now actor))"

lemma Start_commit: "StartK8sRolloutExecution now i k actor = commit (startTx now i k actor)"
  by (rule ext) (simp add: StartK8sRolloutExecution_def startTx_def)

lemma startTx_good:
  assumes inv: "ledgerInv db" and ts: "ts \<noteq> []" and ok: "startTx ts i k actor db = Inr db'"
  shows "goodStep db db' \<and> (\<exists>a r. map_of (rd_actions db) i = Some a \<and> ac_Status a = ''approved'' \<and> map_of (rd_rollouts db) k = Some r \<and>
    ro_ActionRequestID r = i \<and> ro_StartedAt r = [] \<and>
    map_of (rd_rollouts db') k = Some (startRollout ts actor r) \<and> map_of (rd_actions db') i = Some (startAction ts actor a))"
proof -
  have "keepsWf (startTx ts i k actor)" unfolding startTx_def by (rule keepsWf_pair) (simp_all add: startAction_def startRollout_def)
  then have wf: "rollout_db_wf db'" using inv ok by (rule commit_wf)
  from andThen_pair [OF ok [unfolded startTx_def]] obtain a r where a: "map_of (rd_actions db) i = Some a" "ac_Status a = ''approved''"
    and r: "map_of (rd_rollouts db) k = Some r" and g: "ro_ActionRequestID r = i \<and> ro_StartedAt r = [] \<and> ro_Status r \<in> set [''approved'', ''approval_required'']"
    and db': "db' = db\<lparr>rd_actions := updateWhere i (\<lambda>a. ac_Status a = ''approved'') (startAction ts actor) (rd_actions db),
      rd_rollouts := updateWhere k (\<lambda>r. ro_ActionRequestID r = i \<and> ro_StartedAt r = [] \<and> ro_Status r \<in> set [''approved'', ''approval_required''])
        (startRollout ts actor) (rd_rollouts db)\<rparr>" by blast
  have row: "rolloutRowOk r" using ledger_row [OF inv r] by simp
  have empty: "ro_RollbackStatus r = []" "ro_ActionRequestID r \<noteq> []" using row g by (auto simp: rolloutRowOk_def)
  have "rolloutRowOk (startRollout ts actor r)"
    unfolding rolloutRowOk_def startRollout_def using g ts empty
    by (simp add: rolloutStatuses_def rollbackStatuses_def orElse_def rollbackInFlight_def)
  moreover have "rowMove r (startRollout ts actor r)"
    using g ts by (auto simp: rowMove_def startRollout_def linkOf_def statusEdge_def orElse_def)
  ultimately have "goodStep db db'"
    unfolding db' using wf [unfolded db'] a r g
    by (intro good_pair_update [OF inv, where a = a and r = r]) (auto simp: startAction_def startRollout_def pairStatus_def)
  with a r g show ?thesis by (simp add: db' map_of_updateWhere)
qed

definition finalizeTx ::
  "string \<Rightarrow> string \<Rightarrow> string \<Rightarrow> string \<Rightarrow> string \<Rightarrow> string \<Rightarrow> string \<Rightarrow> string \<Rightarrow> string \<Rightarrow> string \<Rightarrow> rollout_tx" where
  "finalizeTx now actionID rolloutID actionStatus rolloutStatus actor result failureReason rollbackStatus rollbackReason =
     andThen
        (updateActionRow invalidTransition actionID (\<lambda>a. ac_Status a = ''running'') (finalizeAction now actionStatus actor result))
        (updateRolloutRow invalidTransition rolloutID
          (\<lambda>r. ro_ActionRequestID r = actionID \<and> ro_Status r = ''running'' \<and> ro_StartedAt r \<noteq> [])
          (finalizeRollout now rolloutStatus failureReason rollbackStatus rollbackReason))"

lemma Finalize_ok:
  "FinalizeK8sRolloutMutation now i k ast rst actor result fr bs br db = (Inr u, db') \<Longrightarrow>
     finalizeTx now i k ast rst actor result fr bs br db = Inr db' \<and> rst \<in> {''monitoring'', ''failed''} \<and> bs \<in> {[], ''failed''}"
  by (auto simp: FinalizeK8sRolloutMutation_def finalizeTx_def commit_def split: if_splits sum.splits)

lemma Finalize_err:
  "FinalizeK8sRolloutMutation now i k ast rst actor result fr bs br db = (Inl e, db') \<Longrightarrow> db' = db"
  by (auto simp: FinalizeK8sRolloutMutation_def commit_def split: if_splits sum.splits)

lemma finalize_good:
  assumes inv: "ledgerInv db" and ok: "FinalizeK8sRolloutMutation ts i k ast rst actor result fr bs br db = (Inr u, db')"
    and pair: "pairStatus ast rst" and auto: "\<And>r. map_of (rd_rollouts db) k = Some r \<Longrightarrow> bs \<noteq> [] \<Longrightarrow> rst = ''failed'' \<and> ro_AutoRollback r"
  shows "goodStep db db'"
proof -
  from Finalize_ok [OF ok] have tx: "finalizeTx ts i k ast rst actor result fr bs br db = Inr db'"
    and rst: "rst \<in> {''monitoring'', ''failed''}" and bs: "bs \<in> {[], ''failed''}" by auto
  have "keepsWf (finalizeTx ts i k ast rst actor result fr bs br)" unfolding finalizeTx_def
    by (rule keepsWf_pair) (simp_all add: finalizeAction_def finalizeRollout_def Let_def)
  then have wf: "rollout_db_wf db'" using inv tx by (rule commit_wf)
  let ?ga = "\<lambda>a. ac_Status a = ''running''"
  let ?g = "\<lambda>r. ro_ActionRequestID r = i \<and> ro_Status r = ''running'' \<and> ro_StartedAt r \<noteq> []"
  from andThen_pair [OF tx [unfolded finalizeTx_def]] obtain a r where a: "map_of (rd_actions db) i = Some a" "?ga a"
    and r: "map_of (rd_rollouts db) k = Some r" and g: "?g r"
    and db': "db' = db\<lparr>rd_actions := updateWhere i ?ga (finalizeAction ts ast actor result) (rd_actions db),
      rd_rollouts := updateWhere k ?g (finalizeRollout ts rst fr bs br) (rd_rollouts db)\<rparr>" by blast
  have row: "rolloutRowOk r" using ledger_row [OF inv r] by simp
  have empty: "ro_RollbackStatus r = []" using row g by (auto simp: rolloutRowOk_def)
  have "rolloutRowOk (finalizeRollout ts rst fr bs br r)"
    using row g rst bs auto [OF r] by (auto simp: rolloutRowOk_def finalizeRollout_def rolloutStatuses_def rollbackStatuses_def rollbackInFlight_def Let_def)
  moreover have "rowMove r (finalizeRollout ts rst fr bs br r)"
    using g rst bs empty by (auto simp: rowMove_def finalizeRollout_def linkOf_def statusEdge_def rollbackEdge_def Let_def)
  moreover have "pairStatus (ac_Status (finalizeAction ts ast actor result a)) (ro_Status (finalizeRollout ts rst fr bs br r))"
    using a(2) pair by (auto simp: finalizeAction_def finalizeRollout_def Let_def)
  ultimately show ?thesis
    unfolding db' using wf [unfolded db'] a r g
    by (intro good_pair_update [OF inv, where a = a and r = r]) (auto simp: finalizeAction_def Let_def)
qed

lemma reject_good:
  assumes inv: "ledgerInv db" and link: "\<And>c. map_of (rd_rollouts db) k = Some c \<Longrightarrow> ro_ActionRequestID c = i"
    and ok: "RejectK8sRolloutWithAction ts k i reason es eb eu db = (Inr u, db')"
  shows "goodStep db db' \<and> (\<exists>r'. map_of (rd_rollouts db') k = Some r' \<and> ro_Status r' = ''rejected'')"
proof -
  let ?ga = "\<lambda>a. awaitingDecision (ac_Status a)"
  let ?fa = "\<lambda>a. a\<lparr>ac_Status := ''rejected'', ac_UpdatedAt := ts, ac_Result := reason\<rparr> :: K8sActionRequest"
  let ?g = "\<lambda>r. ro_Status r = es \<and> ro_RollbackStatus r = eb \<and> ro_UpdatedAt r = eu"
  have tx: "andThen (updateActionRow (notFoundOrInvalid i) i ?ga ?fa) (updateRolloutRow (notFoundOrInvalid k) k ?g (rejectRollout ts reason)) db = Inr db'"
    using ok by (auto simp: RejectK8sRolloutWithAction_def commit_def split: sum.splits)
  have "keepsWf (andThen (updateActionRow (notFoundOrInvalid i) i ?ga ?fa) (updateRolloutRow (notFoundOrInvalid k) k ?g (rejectRollout ts reason)))"
    by (rule keepsWf_pair) (simp_all add: rejectRollout_def)
  then have wf: "rollout_db_wf db'" using inv tx by (rule commit_wf)
  from andThen_pair [OF tx] obtain a r where a: "map_of (rd_actions db) i = Some a" "?ga a"
    and r: "map_of (rd_rollouts db) k = Some r" and g: "?g r"
    and db': "db' = db\<lparr>rd_actions := updateWhere i ?ga ?fa (rd_actions db), rd_rollouts := updateWhere k ?g (rejectRollout ts reason) (rd_rollouts db)\<rparr>"
    by blast
  have row: "rolloutRowOk r" and pair: "linkedOk (rd_actions db) r" using ledger_row [OF inv r] by auto
  have i: "ro_ActionRequestID r = i" using link [OF r] .
  have waiting: "ro_Status r = ''approval_required'' \<or> ro_Status r = ''approved''"
    using pair i a pairStatus_waiting by (auto simp: linkedOk_def)
  have "rolloutRowOk (rejectRollout ts reason r)"
    using rowOk_waiting [OF row waiting] by (simp add: rolloutRowOk_def rejectRollout_def rolloutStatuses_def rollbackStatuses_def rollbackInFlight_def)
  moreover have "rowMove r (rejectRollout ts reason r)" using waiting by (auto simp: rowMove_def rejectRollout_def linkOf_def statusEdge_def)
  ultimately have "goodStep db db'"
    unfolding db' using wf [unfolded db'] a r g i
    by (intro good_pair_update [OF inv, where a = a and r = r]) (auto simp: rejectRollout_def pairStatus_def)
  with r g show ?thesis by (simp add: db' map_of_updateWhere rejectRollout_def)
qed

subsection \<open>Compare-and-swap\<close>

text \<open>The state a caller of the compare-and-swap relies on: the row it read, and what the pass makes
  of it.\<close>

definition snapshotOk :: "rollout_db \<Rightarrow> K8sRolloutAction \<Rightarrow> bool" where
  "snapshotOk db r \<longleftrightarrow> rolloutRowOk r \<and> (\<exists>c. map_of (rd_rollouts db) (ro_ID r) = Some c \<and> rowMove\<^sup>*\<^sup>* r c)"

lemma snapshot_mono: "goodStep db db' \<Longrightarrow> snapshotOk db r \<Longrightarrow> snapshotOk db' r"
  unfolding snapshotOk_def by (meson goodStep_row rtranclp_trans)

lemma snapshot_ok: "snapshotOk db r \<Longrightarrow> rolloutRowOk r"
  by (simp add: snapshotOk_def)

lemma snapshot_link: "snapshotOk db r \<Longrightarrow> map_of (rd_rollouts db) (ro_ID r) = Some c \<Longrightarrow> linkOf c = linkOf r"
  by (auto simp: snapshotOk_def dest: rowMoves_link)

lemma snapshot_closed:
  "snapshotOk db r \<Longrightarrow> rolloutClosed (ro_Status r) \<Longrightarrow> map_of (rd_rollouts db) (ro_ID r) = Some c \<Longrightarrow> ro_Status c = ro_Status r"
  by (auto simp: snapshotOk_def dest: rowMoves_closed)

lemma snapshot_current: "ledgerInv db \<Longrightarrow> map_of (rd_rollouts db) k = Some r \<Longrightarrow> snapshotOk db r"
  using ledger_row [of db k r] by (auto simp: snapshotOk_def)

lemma setProgress_facts [simp]:
  "linkOf (setProgress ts a r) = linkOf r" "ro_Status (setProgress ts a r) = ro_Status a" "ro_RollbackStatus (setProgress ts a r) = ro_RollbackStatus a"
  "ro_StartedAt (setProgress ts a r) = ro_StartedAt a" "ro_ID (setProgress ts a r) = ro_ID r" "ro_ActionRequestID (setProgress ts a r) = ro_ActionRequestID r"
  "ro_UpdatedAt (setProgress ts a r) = ts"
  by (simp_all add: setProgress_def linkOf_def)

lemma link_parts:
  assumes "linkOf a = linkOf b"
  shows "ro_ID a = ro_ID b" "ro_ActionRequestID a = ro_ActionRequestID b" "ro_ResourceKind a = ro_ResourceKind b" "ro_ResourceUID a = ro_ResourceUID b"
    "ro_ClusterID a = ro_ClusterID b" "ro_PreviousTemplate a = ro_PreviousTemplate b" "ro_AutoRollback a = ro_AutoRollback b"
    "ro_TimeoutSeconds a = ro_TimeoutSeconds b"
  using assms by (simp_all add: linkOf_def)

lemma identity_parts:
  assumes "identityOf a = identityOf b"
  shows "ro_ID a = ro_ID b" "ro_StartedAt a = ro_StartedAt b" "ro_ActionRequestID a = ro_ActionRequestID b" "linkOf a = linkOf b"
  using assms by (simp_all add: identityOf_def linkOf_def)

lemma rowOk_open_started:
  "rolloutRowOk r \<Longrightarrow> ro_StartedAt r \<noteq> [] \<Longrightarrow> \<not> rolloutTerminal (ro_Status r) \<Longrightarrow> ro_Status r = ''running'' \<or> ro_Status r = ''monitoring''"
  by (auto simp: rolloutRowOk_def rolloutStatuses_def rolloutTerminal_def)

lemma rollbackEdge_vocabulary: "rollbackEdge x y \<Longrightarrow> y \<in> set rollbackStatuses"
  by (auto simp: rollbackEdge_def rollbackStatuses_def)

lemma rollbackEdge_inflight: "rollbackEdge x y \<Longrightarrow> rollbackInFlight y \<Longrightarrow> rollbackInFlight x \<or> x = [] \<and> y = ''requested''"
  by (auto simp: rollbackEdge_def rollbackInFlight_def)

lemma progress_status:
  assumes ok: "rolloutRowOk b" and started: "ro_StartedAt b \<noteq> []" and move: "progressMove b a"
  shows "ro_Status a = ro_Status b \<or> statusEdge (ro_Status b) (ro_Status a) \<and> ro_Status a \<in> {''failed'', ''timed_out'', ''succeeded''}"
proof (cases "ro_Status a = ro_Status b")
  case False
  with move have nt: "\<not> rolloutTerminal (ro_Status b)" and a: "ro_Status a \<in> {''failed'', ''timed_out'', ''succeeded''}" by (auto simp: progressMove_def)
  from rowOk_open_started [OF ok started nt] a show ?thesis by (auto simp: statusEdge_def)
qed simp

lemma progress_row_ok:
  assumes ok: "rolloutRowOk b" and started: "ro_StartedAt b \<noteq> []" and move: "progressMove b a" and link: "linkOf n = linkOf b"
    and n: "ro_Status n = ro_Status a" "ro_RollbackStatus n = ro_RollbackStatus a" "ro_StartedAt n = ro_StartedAt a"
  shows "rolloutRowOk n"
proof -
  note status = progress_status [OF ok started move]
  have rb: "ro_RollbackStatus a = ro_RollbackStatus b \<or> rollbackEdge (ro_RollbackStatus b) (ro_RollbackStatus a)"
    using move by (simp add: progressMove_def)
  have started': "ro_StartedAt n \<noteq> []" using move n(3) started by (auto simp: progressMove_def identityOf_def)
  have b: "ro_Status b \<in> set rolloutStatuses" "ro_RollbackStatus b \<in> set rollbackStatuses" using ok by (simp_all add: rolloutRowOk_def)
  have "{''failed'', ''timed_out'', ''succeeded''} \<subseteq> set rolloutStatuses" by (simp add: rolloutStatuses_def)
  with status b(1) n(1) have voc: "ro_Status n \<in> set rolloutStatuses" by auto
  have rvoc: "ro_RollbackStatus n \<in> set rollbackStatuses" using rb b(2) n(2) rollbackEdge_vocabulary by auto
  have "ro_Status b \<notin> set [''approval_required'', ''approved'', ''rejected'']" using rowOk_started [OF ok] started by blast
  moreover have "{''failed'', ''timed_out'', ''succeeded''} \<inter> set [''approval_required'', ''approved'', ''rejected''] = {}" by simp
  ultimately have begun: "ro_Status n \<notin> set [''approval_required'', ''approved'', ''rejected'']" using status n(1) by auto
  have failed: "ro_Status n \<in> set [''failed'', ''timed_out''] \<and> ro_AutoRollback n" if "ro_RollbackStatus n \<noteq> []"
  proof (cases "ro_RollbackStatus b = []")
    case True
    with move that n have "ro_Status a \<in> {''failed'', ''timed_out''} \<and> ro_AutoRollback a" by (simp add: progressMove_def)
    moreover have "ro_AutoRollback n = ro_AutoRollback a"
      using link move by (simp add: progressMove_def identityOf_def linkOf_def)
    ultimately show ?thesis using n(1) by simp
  next
    case False
    with ok have b: "ro_Status b \<in> set [''failed'', ''timed_out'']" "ro_AutoRollback b" by (auto simp: rolloutRowOk_def)
    then have "rolloutTerminal (ro_Status b)" by (auto simp: rolloutTerminal_def)
    with move have "ro_Status a = ro_Status b" by (auto simp: progressMove_def)
    with b n(1) link_parts(7) [OF link] show ?thesis by simp
  qed
  have flight: "equalFold (ro_ResourceKind n) ''Deployment'' \<and> ro_PreviousTemplate n \<noteq> []" if fl: "rollbackInFlight (ro_RollbackStatus n)"
  proof (cases "rollbackInFlight (ro_RollbackStatus b)")
    case True
    with ok link_parts [OF link] show ?thesis by (simp add: rolloutRowOk_def)
  next
    case False
    with rb fl n(2) have "ro_RollbackStatus b = []" "ro_RollbackStatus a = ''requested''" by (auto dest: rollbackEdge_inflight)
    with move have "equalFold (ro_ResourceKind a) ''Deployment'' \<and> ro_PreviousTemplate a \<noteq> []" by (simp add: progressMove_def)
    moreover have "linkOf a = linkOf b" by (rule identity_parts) (use move in \<open>simp add: progressMove_def\<close>)
    ultimately show ?thesis using link_parts [OF link] link_parts [of a b] by simp
  qed
  show ?thesis unfolding rolloutRowOk_def
    using voc rvoc begun started' failed flight rowOk_request [OF ok] link_parts(2) [OF link] by simp
qed

lemma pairStatus_closing: "pairStatus act b \<Longrightarrow> b = ''running'' \<or> b = ''monitoring'' \<Longrightarrow> y \<in> {''failed'', ''timed_out'', ''succeeded''} \<Longrightarrow> pairStatus act y"
proof -
  assume p: "pairStatus act b" and "b = ''running'' \<or> b = ''monitoring''" and "y \<in> {''failed'', ''timed_out'', ''succeeded''}"
  then have "act = ''running'' \<or> act = ''executed''" and "y = ''failed'' \<or> y = ''timed_out'' \<or> y = ''succeeded''"
    by (auto simp: pairStatus_def)
  then show ?thesis by (elim disjE) (simp_all add: pairStatus_def)
qed

lemma persistCAS_ok:
  assumes "persistRolloutCAS ts b a db = (Inr True, db')"
  obtains c g where "map_of (rd_rollouts db) (ro_ID a) = Some c" "g c" "ro_Status c = ro_Status b" "ro_RollbackStatus c = ro_RollbackStatus b"
    and "db' = db\<lparr>rd_rollouts := updateWhere (ro_ID a) g (setProgress ts a) (rd_rollouts db)\<rparr>"
    and "rolloutIndexes (updateWhere (ro_ID a) g (setProgress ts a) (rd_rollouts db))"
proof -
  obtain u where "UpdateK8sRolloutProgressCAS ts a (ro_Status b) (ro_RollbackStatus b) u db = (Inr True, db')"
    using assms by (auto simp: persistRolloutCAS_def split: if_splits sum.splits)
  then have hit: "affected (ro_ID a) (casGuard a (ro_Status b) (ro_RollbackStatus b) u) (rd_rollouts db)"
    and st: "storeRollouts (updateWhere (ro_ID a) (casGuard a (ro_Status b) (ro_RollbackStatus b) u) (setProgress ts a) (rd_rollouts db)) db = Inr db'"
    by (auto simp: UpdateK8sRolloutProgressCAS_def Let_def split: if_splits sum.splits)
  from hit obtain c where c: "map_of (rd_rollouts db) (ro_ID a) = Some c" "casGuard a (ro_Status b) (ro_RollbackStatus b) u c" by (auto simp: affected_iff)
  show thesis by (rule that [of c "casGuard a (ro_Status b) (ro_RollbackStatus b) u", OF c]) (use c(2) st in \<open>simp_all add: storeRollouts_ok casGuard_def\<close>)
qed

lemma persistCAS_unchanged: "persistRolloutCAS ts b a db = (res, db') \<Longrightarrow> res \<noteq> Inr True \<Longrightarrow> db' = db"
  by (auto simp: persistRolloutCAS_def UpdateK8sRolloutProgressCAS_def Let_def storeRollouts_def split: if_splits sum.splits)

lemma cas_good:
  assumes inv: "ledgerInv db" and snap: "snapshotOk db b" and started: "ro_StartedAt b \<noteq> []" and move: "progressMove b a"
    and cas: "persistRolloutCAS ts b a db = (Inr True, db')"
  shows "goodStep db db' \<and> (\<exists>c. map_of (rd_rollouts db) (ro_ID b) = Some c \<and> map_of (rd_rollouts db') (ro_ID b) = Some (setProgress ts a c))"
proof -
  have ident: "identityOf a = identityOf b" using move by (simp add: progressMove_def)
  have id: "ro_ID a = ro_ID b" by (rule identity_parts [OF ident])
  obtain c g where c: "map_of (rd_rollouts db) (ro_ID b) = Some c" "g c" "ro_Status c = ro_Status b" "ro_RollbackStatus c = ro_RollbackStatus b"
    and db': "db' = db\<lparr>rd_rollouts := updateWhere (ro_ID b) g (setProgress ts a) (rd_rollouts db)\<rparr>"
    and ix: "rolloutIndexes (updateWhere (ro_ID b) g (setProgress ts a) (rd_rollouts db))"
    by (rule persistCAS_ok [OF cas, unfolded id])
  have ok: "rolloutRowOk b" and link: "linkOf c = linkOf b" using snapshot_ok [OF snap] snapshot_link [OF snap c(1)] by auto
  note status = progress_status [OF ok started move]
  have st: "ro_StartedAt a \<noteq> []" using move started by (simp add: progressMove_def identityOf_def)
  have "rolloutRowOk (setProgress ts a c)"
    by (rule progress_row_ok [OF ok started move]) (simp_all add: link)
  moreover have "rowMove c (setProgress ts a c)"
    using status c(3,4) st move by (auto simp: rowMove_def progressMove_def)
  moreover have "linkedOk (rd_actions db) (setProgress ts a c)"
  proof -
    from ledger_row [OF inv c(1)] obtain x where x: "map_of (rd_actions db) (ro_ActionRequestID c) = Some x" "ac_Action x = ''rollout_restart''"
      "pairStatus (ac_Status x) (ro_Status c)" by (auto simp: linkedOk_def)
    have "pairStatus (ac_Status x) (ro_Status a)"
    proof (cases "ro_Status a = ro_Status b")
      case True
      with x c(3) show ?thesis by simp
    next
      case False
      with move have "\<not> rolloutTerminal (ro_Status b)" "ro_Status a \<in> {''failed'', ''timed_out'', ''succeeded''}" by (auto simp: progressMove_def)
      with rowOk_open_started [OF ok started] x(3) c(3) show ?thesis by (metis pairStatus_closing)
    qed
    with x show ?thesis by (simp add: linkedOk_def)
  qed
  ultimately have "goodStep db db'" unfolding db'
    using c ix inv by (intro good_rollout_update [OF inv]) (auto simp: ledgerInv_def rollout_db_wf_def keyedBy_updateWhere)
  with c show ?thesis by (auto simp: db' map_of_updateWhere)
qed

subsection \<open>Status changes of an action request\<close>

lemma UpdateStatus_ok:
  assumes "UpdateK8sActionStatus ts i st actor result t = (Inr b, t')"
  obtains a where "map_of t i = Some a" "actionAllowedFrom st (ac_Status a)" "b = setActionStatus ts st actor result a"
    and "t' = updateWhere i (\<lambda>a. actionAllowedFrom st (ac_Status a)) (setActionStatus ts st actor result) t"
proof -
  let ?g = "\<lambda>a. actionAllowedFrom st (ac_Status a)"
  have g: "guardedUpdate i ?g (setActionStatus ts st actor result) t = (Inr b, t')"
    using assms by (auto simp: UpdateK8sActionStatus_def split: if_splits)
  then obtain a where "map_of t i = Some a" "?g a" "b = setActionStatus ts st actor result a"
    using guardedUpdate_ok [of i ?g "setActionStatus ts st actor result" t b] by auto
  moreover have "t' = updateWhere i ?g (setActionStatus ts st actor result) t"
    using g calculation(1,2) by (simp add: guardedUpdate_def affected_def Let_def)
  ultimately show thesis using that by blast
qed

lemma UpdateStatus_err: "UpdateK8sActionStatus ts i st actor result t = (Inl e, t') \<Longrightarrow> t' = t"
  using guardedUpdate_unchanged [of i "\<lambda>a. actionAllowedFrom st (ac_Status a)" "setActionStatus ts st actor result" t e]
  by (auto simp: UpdateK8sActionStatus_def split: if_splits)

lemma setActionStatus_facts [simp]:
  "ac_Action (setActionStatus ts st actor result a) = ac_Action a" "ac_Status (setActionStatus ts st actor result a) = st"
  "ac_ID (setActionStatus ts st actor result a) = ac_ID a" "ac_IdempotencyKey (setActionStatus ts st actor result a) = ac_IdempotencyKey a"
  by (simp_all add: setActionStatus_def Let_def)

lemma status_good:
  assumes inv: "ledgerInv db" and up: "UpdateK8sActionStatus ts i st actor result (rd_actions db) = (Inr b, t)"
    and pair: "\<And>x k r. actionAllowedFrom st x \<Longrightarrow> map_of (rd_rollouts db) k = Some r \<Longrightarrow> ro_ActionRequestID r = i \<Longrightarrow>
      pairStatus x (ro_Status r) \<Longrightarrow> pairStatus st (ro_Status r)"
  shows "goodStep db (db\<lparr>rd_actions := t\<rparr>)"
proof -
  let ?g = "\<lambda>a. actionAllowedFrom st (ac_Status a)"
  from UpdateStatus_ok [OF up] have t: "t = updateWhere i ?g (setActionStatus ts st actor result) (rd_actions db)" by blast
  have wf: "rollout_db_wf (db\<lparr>rd_actions := t\<rparr>)"
    using ledger_wf [OF inv] by (simp add: t rollout_db_wf_def keyedBy_updateWhere uniqueBy_updateWhere)
  show ?thesis unfolding t
  proof (rule good_action_update [OF inv wf [unfolded t]])
    fix a :: K8sActionRequest and k r
    assume "?g a" "map_of (rd_rollouts db) k = Some r" "ro_ActionRequestID r = i" "pairStatus (ac_Status a) (ro_Status r)"
    then show "pairStatus (ac_Status (setActionStatus ts st actor result a)) (ro_Status r)" using pair by simp
  qed simp
qed

lemma decision_pair:
  "st = ''approved'' \<or> st = ''rejected'' \<Longrightarrow> actionAllowedFrom st x \<Longrightarrow> pairStatus x y \<Longrightarrow> pairStatus st y"
proof -
  assume st: "st = ''approved'' \<or> st = ''rejected''" and "actionAllowedFrom st x" and p: "pairStatus x y"
  then have "awaitingDecision x" by (auto simp: actionAllowedFrom_def)
  from pairStatus_waiting [OF p this] st show ?thesis by (elim disjE) (simp_all add: pairStatus_def)
qed

text \<open>A request no rollout is linked to.\<close>

definition unlinked :: "rollout_db \<Rightarrow> string \<Rightarrow> bool" where
  "unlinked db i \<longleftrightarrow> map_of (rd_actions db) i \<noteq> None \<and> (\<forall>k r. map_of (rd_rollouts db) k = Some r \<longrightarrow> ro_ActionRequestID r \<noteq> i)"

lemma unlinked_mono: "goodStep db db' \<Longrightarrow> unlinked db i \<Longrightarrow> unlinked db' i"
  unfolding unlinked_def
proof (intro conjI allI impI)
  assume g: "goodStep db db'" and u: "map_of (rd_actions db) i \<noteq> None \<and> (\<forall>k r. map_of (rd_rollouts db) k = Some r \<longrightarrow> ro_ActionRequestID r \<noteq> i)"
  from goodStep_action [OF g] u show "map_of (rd_actions db') i \<noteq> None" by fastforce
  fix k r' assume r': "map_of (rd_rollouts db') k = Some r'"
  show "ro_ActionRequestID r' \<noteq> i"
  proof (cases "map_of (rd_rollouts db) k")
    case None
    from goodStep_new [OF g None r'] u show ?thesis by auto
  next
    case (Some r)
    from goodStep_row [OF g Some] r' have "linkOf r' = linkOf r" by (auto dest: rowMoves_link)
    from link_parts(2) [OF this] u Some show ?thesis by auto
  qed
qed

lemma unlinked_lookup:
  assumes inv: "ledgerInv db" and a: "map_of (rd_actions db) (ac_ID act) = Some a" "ac_Action a = ac_Action act" and none: "linkedRollout act db = None"
  shows "unlinked db (ac_ID act)"
  unfolding unlinked_def
proof (intro conjI allI impI notI)
  show "map_of (rd_actions db) (ac_ID act) = None \<Longrightarrow> False" using a by simp
  fix k r assume r: "map_of (rd_rollouts db) k = Some r" and i: "ro_ActionRequestID r = ac_ID act"
  from ledger_row [OF inv r] a i have "ac_Action act = ''rollout_restart''" by (auto simp: linkedOk_def)
  moreover have "equalFold ''rollout_restart'' ''rollout_restart''" by (simp add: equalFold_def)
  ultimately show False using none ledger_by_request [OF inv r] i by (simp add: linkedRollout_def)
qed

subsection \<open>Events, pods and leases\<close>

lemma logEvent_silent: "rd_actions (logEvent ts e db) = rd_actions db" "rd_rollouts (logEvent ts e db) = rd_rollouts db" "rd_leases (logEvent ts e db) = rd_leases db"
  by (simp_all add: logEvent_def dropErr_def appendK8sRolloutEvent_def Let_def insertRow_def)

lemma dropErr_wf: "keepsWf f \<Longrightarrow> rollout_db_wf db \<Longrightarrow> rollout_db_wf (dropErr f db)"
  unfolding dropErr_def keepsWf_def by (cases "f db") auto

lemma logEvent_good: "goodStep db0 db \<Longrightarrow> goodStep db0 (logEvent ts e db)"
proof -
  assume g: "goodStep db0 db"
  have "rollout_db_wf (logEvent ts e db)"
    unfolding logEvent_def using keepsWf_appendK8sRolloutEvent ledger_wf [OF goodStep_inv [OF g]] by (rule dropErr_wf)
  with g goodStep_inv [OF g] show ?thesis by (blast intro: goodStep_trans good_silent logEvent_silent)
qed

lemma pods_silent:
  "rd_actions (recordRolloutPods env ts roll t db) = rd_actions db \<and> rd_rollouts (recordRolloutPods env ts roll t db) = rd_rollouts db \<and>
   (rollout_db_wf db \<longrightarrow> rollout_db_wf (recordRolloutPods env ts roll t db)) \<and> rd_leases (recordRolloutPods env ts roll t db) = rd_leases db"
proof -
  have one: "rd_actions (dropErr (UpsertK8sRolloutPodTransition ts p) d) = rd_actions d \<and> rd_rollouts (dropErr (UpsertK8sRolloutPodTransition ts p) d) = rd_rollouts d \<and>
      rd_leases (dropErr (UpsertK8sRolloutPodTransition ts p) d) = rd_leases d"
    for p d by (simp add: dropErr_def UpsertK8sRolloutPodTransition_def Let_def insertRow_def split: option.split)
  have wf: "rollout_db_wf d \<Longrightarrow> rollout_db_wf (dropErr (UpsertK8sRolloutPodTransition ts p) d)" for p d
    by (rule dropErr_wf) auto
  have "rd_actions (fold (\<lambda>p. dropErr (UpsertK8sRolloutPodTransition ts (f p))) ps d) = rd_actions d \<and>
      rd_rollouts (fold (\<lambda>p. dropErr (UpsertK8sRolloutPodTransition ts (f p))) ps d) = rd_rollouts d \<and>
      (rollout_db_wf d \<longrightarrow> rollout_db_wf (fold (\<lambda>p. dropErr (UpsertK8sRolloutPodTransition ts (f p))) ps d)) \<and>
      rd_leases (fold (\<lambda>p. dropErr (UpsertK8sRolloutPodTransition ts (f p))) ps d) = rd_leases d" for f and ps :: "K8sInventoryItem list" and d
    by (induction ps arbitrary: d) (simp_all add: one wf)
  then show ?thesis unfolding recordRolloutPods_def by blast
qed

section \<open>The handlers keep the ledgers\<close>

text \<open>What a run draws is usable: the stamps and identifiers are not empty.\<close>

definition inputOk :: "pass_input \<Rightarrow> bool" where
  "inputOk inp \<longleftrightarrow> (\<forall>n. pi_stamp inp n \<noteq> []) \<and> (\<forall>n. pi_id inp n \<noteq> [])"

subsection \<open>Requests\<close>

lemma insertActionTx_ok:
  "insertActionTx ts a db = Inr db' \<Longrightarrow>
     map_of (rd_actions db) (ac_ID a) = None \<and> db' = db\<lparr>rd_actions := rd_actions db @ [(ac_ID a, actionDefaults ts a)]\<rparr>"
  using insertKeyed_cases [of ac_IdempotencyKey "ac_ID (actionDefaults ts a)" "actionDefaults ts a" "rd_actions db"]
  by (auto simp: insertActionTx_def insertK8sActionRequest_def Let_def actionDefaults_def)

lemma insertRolloutTx_ok:
  "insertK8sRolloutAction ts r db = Inr db' \<Longrightarrow>
     map_of (rd_rollouts db) (ro_ID r) = None \<and> db' = db\<lparr>rd_rollouts := rd_rollouts db @ [(ro_ID r, rolloutDefaults ts r)]\<rparr>"
  by (auto simp: insertK8sRolloutAction_def Let_def storeRollouts_ok insertRow_def rolloutDefaults_def split: if_splits)

lemma eventTx_silent: "appendK8sRolloutEvent ts e db = Inr db' \<Longrightarrow> rd_actions db' = rd_actions db \<and> rd_rollouts db' = rd_rollouts db"
  by (auto simp: appendK8sRolloutEvent_def Let_def insertRow_def split: if_splits)

lemma requestStatus_cases: "requestStatus who c i = ''approved'' \<or> requestStatus who c i = ''approval_required''"
  by (simp add: requestStatus_def)

lemma request_pair:
  assumes inv: "ledgerInv db" and ok: "InsertK8sRolloutRequest ts act roll event db = (Inr u, db')"
    and act: "ac_Action act = ''rollout_restart''" and st: "ac_Status act = ro_Status roll" "ro_Status roll = ''approved'' \<or> ro_Status roll = ''approval_required''"
    and roll: "ro_ActionRequestID roll = ac_ID act" "ac_ID act \<noteq> []" "ro_StartedAt roll = []" "ro_RollbackStatus roll = []"
  shows "goodStep db db' \<and> map_of (rd_rollouts db) (ro_ID roll) = None \<and> map_of (rd_rollouts db') (ro_ID roll) = Some (rolloutDefaults ts roll)"
proof -
  define ev where "ev = (if rv_ID event \<noteq> []
        then appendK8sRolloutEvent ts (event\<lparr>rv_ActionID := orElse (rv_ActionID event) (ro_ID roll)\<rparr>) else Inr)"
  have tx: "andThen (insertActionTx ts act) (andThen (insertK8sRolloutAction ts roll) ev) db = Inr db'"
    using ok unfolding InsertK8sRolloutRequest_def ev_def by (auto simp: commit_def split: sum.splits)
  have "keepsWf ev" unfolding ev_def keepsWf_def using keepsWf_appendK8sRolloutEvent by (auto simp: keepsWf_def)
  then have "keepsWf (andThen (insertActionTx ts act) (andThen (insertK8sRolloutAction ts roll) ev))" by blast
  then have wf: "rollout_db_wf db'" using inv tx by (rule commit_wf)
  from tx obtain d1 d2 where d: "insertActionTx ts act db = Inr d1" "insertK8sRolloutAction ts roll d1 = Inr d2" "ev d2 = Inr db'"
    by (auto simp: andThen_ok)
  from insertActionTx_ok [OF d(1)] have a: "map_of (rd_actions db) (ac_ID act) = None" "rd_actions d1 = rd_actions db @ [(ac_ID act, actionDefaults ts act)]"
    "rd_rollouts d1 = rd_rollouts db" by auto
  from insertRolloutTx_ok [OF d(2)] a have r: "map_of (rd_rollouts db) (ro_ID roll) = None" "rd_actions d2 = rd_actions d1"
    "rd_rollouts d2 = rd_rollouts db @ [(ro_ID roll, rolloutDefaults ts roll)]" by auto
  have same: "rd_actions db' = rd_actions d2" "rd_rollouts db' = rd_rollouts d2"
    using d(3) eventTx_silent by (auto simp: ev_def split: if_splits)
  have rows: "map_of (rd_rollouts db') k = (if k = ro_ID roll then Some (rolloutDefaults ts roll) else map_of (rd_rollouts db) k)" for k
    using r(1) by (auto simp: same r(3) map_add_def split: option.split)
  have acts: "map_of (rd_actions db') k = (if k = ac_ID act then Some (actionDefaults ts act) else map_of (rd_actions db) k)" for k
    using a(1) by (auto simp: same r(2) a(2) map_add_def split: option.split)
  have new: "ro_Status (rolloutDefaults ts roll) = ro_Status roll" "ac_Status (actionDefaults ts act) = ro_Status roll"
    using st by (auto simp: rolloutDefaults_def actionDefaults_def orElse_def)
  have rowok: "rolloutRowOk (rolloutDefaults ts roll)"
    using st(2) roll new(1) by (elim disjE) (simp_all add: rolloutRowOk_def rolloutDefaults_def orElse_def rolloutStatuses_def rollbackStatuses_def rollbackInFlight_def)
  have linked: "linkedOk (rd_actions db') (rolloutDefaults ts roll)"
    using st(2) act new roll(1) by (elim disjE) (simp_all add: linkedOk_def acts rolloutDefaults_def actionDefaults_def pairStatus_def)
  have old: "rolloutRowOk q \<and> linkedOk (rd_actions db') q" if "map_of (rd_rollouts db) k = Some q" for k q
    using ledger_row [OF inv that] a(1) by (auto simp: linkedOk_def acts)
  have "ro_ActionRequestID (rolloutDefaults ts roll) = ac_ID act" using roll(1) by (simp add: rolloutDefaults_def)
  then have "goodStep db db'"
    unfolding goodStep_def ledgerInv_def using wf rows acts old rowok linked a(1) r(1) by auto
  then show ?thesis using rows r(1) by simp
qed

lemma storeRolloutRequest_good:
  assumes inv: "ledgerInv (rw_db w)" and inp: "inputOk inp"
    and s: "storeRolloutRequest env inp who adminID key c target i w = (res, w')"
  shows "goodStep (rw_db w) (rw_db w')"
proof -
  define act where "act = rolloutAction env inp who adminID key c target i"
  define roll where "roll = rolloutRow env inp who adminID c target i"
  define event where "event = rolloutEvent (pi_id inp 2) (ro_ID roll) (ro_Status roll) ''requested'' (utf8 [0xB864, 0xC544, 0xC6C3, 0x20, 0xC694, 0xCCAD, 0x20, 0xC811, 0xC218])
            [(''precheck'', precheckValue c), (''requested_by'', GStr adminID)]"
  have shape: "ac_Action act = ''rollout_restart''" "ac_Status act = ro_Status roll" "ro_ActionRequestID roll = ac_ID act" "ac_ID act \<noteq> []"
    "ro_StartedAt roll = []" "ro_RollbackStatus roll = []" "ro_Status roll = ''approved'' \<or> ro_Status roll = ''approval_required''"
    using inp requestStatus_cases by (simp_all add: act_def roll_def rolloutAction_def rolloutRow_def Let_def inputOk_def)
  show ?thesis
  proof (cases "InsertK8sRolloutRequest (pi_stamp inp 0) act roll event (rw_db w)")
    case (Pair out db1)
    show ?thesis
    proof (cases out)
      case (Inl e)
      then have "w' = w" using s Pair unfolding storeRolloutRequest_def Let_def act_def [symmetric] roll_def [symmetric] event_def [symmetric]
        by (auto split: sum.splits if_splits)
      with inv show ?thesis by (simp add: goodStep_refl)
    next
      case (Inr u)
      then have "rw_db w' = db1" using s Pair unfolding storeRolloutRequest_def Let_def act_def [symmetric] roll_def [symmetric] event_def [symmetric]
        by (auto split: sum.splits)
      with request_pair [OF inv Pair [unfolded Inr] shape(1,2,7,3,4,5,6)] show ?thesis by simp
    qed
  qed
qed

lemma postWorkloadRollout_good:
  assumes inv: "ledgerInv (rw_db w)" and inp: "inputOk inp"
    and s: "postWorkloadRollout env inp authorized who adminID headerKey body w = (res, w')"
  shows "goodStep (rw_db w) (rw_db w')"
proof (cases "w' = w")
  case True
  with inv show ?thesis by (simp add: goodStep_refl)
next
  case False
  from s False obtain key c target i where "storeRolloutRequest env inp who adminID key c target i w = (res, w')"
    unfolding postWorkloadRollout_def Let_def by (auto split: if_split_asm option.split_asm sum.split_asm prod.split_asm)
  with inv inp show ?thesis by (rule storeRolloutRequest_good)
qed

subsection \<open>Decisions\<close>

lemma rw_db_withCenter [simp]: "rw_db (withCenter c w) = (rw_db w)\<lparr>rd_actions := aw_actions c\<rparr>"
  by (simp add: withCenter_def)

lemma withCenter_centerOf [simp]: "withCenter (centerOf w) w = w"
  by (simp add: withCenter_def centerOf_def)

lemma aw_actions_centerOf [simp]: "aw_actions (centerOf w) = rd_actions (rw_db w)"
  by (simp add: centerOf_def)

lemma decide_good:
  assumes inv: "ledgerInv (rw_db w)" and d: "decideK8sAction now adminID authorized i command result (centerOf w) = (res, c)"
  shows "goodStep (rw_db w) (rw_db (withCenter c w))"
proof -
  define st where "st = (if command = ''approve'' then ''approved'' else ''rejected'')"
  have st: "st = ''approved'' \<or> st = ''rejected''" by (simp add: st_def)
  consider "c = centerOf w" | b t where "UpdateK8sActionStatus now i st adminID result (rd_actions (rw_db w)) = (Inr b, t)" "aw_actions c = t"
    using d unfolding decideK8sAction_def Let_def st_def [symmetric] aw_actions_centerOf
    by (auto split: if_split_asm prod.split_asm sum.split_asm store_error.split_asm)
  then show ?thesis
  proof cases
    case 1
    with inv show ?thesis by (simp add: goodStep_refl)
  next
    case 2
    have "goodStep (rw_db w) ((rw_db w)\<lparr>rd_actions := t\<rparr>)" by (rule status_good [OF inv 2(1)]) (rule decision_pair [OF st])
    with 2(2) show ?thesis by simp
  qed
qed

lemma approve_good:
  assumes inv: "ledgerInv (rw_db w)" and a: "approveRollout inp who adminID roll w = (res, w')"
  shows "goodStep (rw_db w) (rw_db w') \<and> (\<forall>act. res = Inr act \<longrightarrow> map_of (rd_actions (rw_db w')) (ac_ID act) = Some act \<and> ac_Status act = ''approved'')"
proof (cases res)
  case (Inl e)
  then have "w' = w" using a by (auto simp: approveRollout_def split: if_split_asm prod.split_asm sum.split_asm)
  with inv Inl show ?thesis by (simp add: goodStep_refl)
next
  case (Inr act)
  then obtain t where up: "UpdateK8sActionStatus (pi_stamp inp 0) (ro_ActionRequestID roll) ''approved'' adminID ''rollout approved'' (rd_actions (rw_db w)) = (Inr act, t)"
    and w': "w' = w\<lparr>rw_db := (rw_db w)\<lparr>rd_actions := t\<rparr>\<rparr>"
    using a by (auto simp: approveRollout_def split: if_split_asm prod.split_asm sum.split_asm)
  have "goodStep (rw_db w) ((rw_db w)\<lparr>rd_actions := t\<rparr>)" by (rule status_good [OF inv up]) (rule decision_pair, simp)
  moreover have "map_of t (ac_ID act) = Some act" "ac_Status act = ''approved''"
  proof -
    from UpdateStatus_ok [OF up] obtain b where b: "map_of (rd_actions (rw_db w)) (ro_ActionRequestID roll) = Some b" "actionAllowedFrom ''approved'' (ac_Status b)"
      "act = setActionStatus (pi_stamp inp 0) ''approved'' adminID ''rollout approved'' b"
      "t = updateWhere (ro_ActionRequestID roll) (\<lambda>a. actionAllowedFrom ''approved'' (ac_Status a)) (setActionStatus (pi_stamp inp 0) ''approved'' adminID ''rollout approved'') (rd_actions (rw_db w))"
      by blast
    have "ac_ID b = ro_ActionRequestID roll" using keyedBy_key [OF _ b(1), of ac_ID] ledger_wf [OF inv] by (simp add: rollout_db_wf_def)
    then show "map_of t (ac_ID act) = Some act" "ac_Status act = ''approved''" using b by (simp_all add: map_of_updateWhere)
  qed
  ultimately show ?thesis using Inr w' by simp
qed

lemma reject_handler_good:
  assumes inv: "ledgerInv (rw_db w)" and snap: "snapshotOk (rw_db w) roll" and r: "rejectRolloutByID inp who roll w = (res, w')"
  shows "goodStep (rw_db w) (rw_db w')"
proof (cases "w' = w")
  case True
  with inv show ?thesis by (simp add: goodStep_refl)
next
  case False
  then obtain u db1 where rej: "RejectK8sRolloutWithAction (pi_stamp inp 0) (ro_ID roll) (ro_ActionRequestID roll) ''rollout rejected''
      (ro_Status roll) (ro_RollbackStatus roll) (ro_UpdatedAt roll) (rw_db w) = (Inr u, db1)" and w': "rw_db w' = db1"
    using r by (auto simp: rejectRolloutByID_def split: if_split_asm prod.split_asm sum.split_asm)
  have "ro_ActionRequestID c = ro_ActionRequestID roll" if "map_of (rd_rollouts (rw_db w)) (ro_ID roll) = Some c" for c
    by (rule link_parts [OF snapshot_link [OF snap that]])
  from reject_good [OF inv this rej] w' show ?thesis by simp
qed

lemma postAction_good:
  assumes inv: "ledgerInv (rw_db w)" and p: "postK8sAction aenv now freshID freshIdem adminID authorized headerKey body (centerOf w) = (res, c)"
  shows "goodStep (rw_db w) (rw_db (withCenter c w))"
proof (cases "c = centerOf w")
  case True
  with inv show ?thesis by (simp add: goodStep_refl)
next
  case False
  then obtain req u t where ins: "insertK8sActionRequest now req (rd_actions (rw_db w)) = (Inr u, t)" and c: "aw_actions c = t"
    using p unfolding postK8sAction_def Let_def aw_actions_centerOf
    by (auto split: if_split_asm option.split_asm sum.split_asm prod.split_asm)
  define db where "db = rw_db w"
  have tx: "insertActionTx now req db = Inr (db\<lparr>rd_actions := t\<rparr>)" using ins by (simp add: insertActionTx_def db_def)
  have wf: "rollout_db_wf (db\<lparr>rd_actions := t\<rparr>)" using keepsWf_insertActionTx inv [folded db_def] tx by (rule commit_wf)
  from insertActionTx_ok [OF tx] have new: "map_of (rd_actions db) (ac_ID req) = None" and t: "t = rd_actions db @ [(ac_ID req, actionDefaults now req)]"
    by (auto dest: arg_cong [where f = rd_actions])
  have keep: "map_of t i = Some a" if "map_of (rd_actions db) i = Some a" for i a using that new by (auto simp: t map_add_def split: option.split)
  have "rolloutRowOk r \<and> linkedOk t r" if "map_of (rd_rollouts db) k = Some r" for k r
    using ledger_row [OF inv [folded db_def] that] keep by (auto simp: linkedOk_def)
  then have "goodStep db (db\<lparr>rd_actions := t\<rparr>)" using wf keep by (auto simp: goodStep_def ledgerInv_def)
  with c show ?thesis by (simp add: db_def)
qed

subsection \<open>Execution\<close>

text \<open>A request a handler has read: its content never changes.\<close>

definition requestSeen :: "rollout_db \<Rightarrow> K8sActionRequest \<Rightarrow> bool" where
  "requestSeen db act \<longleftrightarrow> (\<exists>a. map_of (rd_actions db) (ac_ID act) = Some a \<and> ac_Action a = ac_Action act)"

lemma requestSeen_mono: "goodStep db db' \<Longrightarrow> requestSeen db act \<Longrightarrow> requestSeen db' act"
  unfolding requestSeen_def by (metis goodStep_action)

lemma Start_err: "StartK8sRolloutExecution ts i k actor db = (Inl e, db') \<Longrightarrow> db' = db"
  using commit_err [of "startTx ts i k actor" db e] by (simp add: Start_commit)

lemma Start_ok: "StartK8sRolloutExecution ts i k actor db = (Inr u, db') \<longleftrightarrow> startTx ts i k actor db = Inr db'"
  by (auto simp: Start_commit commit_def split: sum.splits)

lemma linkedRollout_row:
  assumes "ledgerInv db" and "linkedRollout act db = Some roll"
  shows "map_of (rd_rollouts db) (ro_ID roll) = Some roll \<and> ro_ActionRequestID roll = ac_ID act"
  using assms(2) by_request_row [OF assms(1)] by (auto simp: linkedRollout_def split: if_splits sum.splits)

lemma refuseDrifted_good:
  assumes inv: "ledgerInv (rw_db w)" and inp: "inputOk inp" and roll: "map_of (rd_rollouts (rw_db w)) (ro_ID roll) = Some roll"
    and r: "refuseDrifted inp actor act roll drift w = (e, w')"
  shows "goodStep (rw_db w) (rw_db w')"
proof (cases "StartK8sRolloutExecution (pi_stamp inp 0) (ac_ID act) (ro_ID roll) actor (rw_db w)")
  case (Pair out db1)
  show ?thesis
  proof (cases out)
    case (Inl e)
    with r Pair inv show ?thesis by (simp add: refuseDrifted_def goodStep_refl)
  next
    case (Inr u)
    have g1: "goodStep (rw_db w) db1"
      using startTx_good [OF inv, of "pi_stamp inp 0"] Pair Inr inp by (auto simp: Start_ok inputOk_def)
    from goodStep_row [OF g1 roll] obtain r1 where r1: "map_of (rd_rollouts db1) (ro_ID roll) = Some r1" "rowMove\<^sup>*\<^sup>* roll r1" by blast
    define fin where "fin = FinalizeK8sRolloutMutation (pi_stamp inp 1) (ac_ID act) (ro_ID roll) ''failed'' ''failed'' actor
      ((utf8 [0xC2E4, 0xD589, 0x20, 0xCC28, 0xB2E8] @ '': '') @ drift) (''execution blocked by target drift: '' @ drift) (if ro_AutoRollback roll then ''failed'' else [])
      (if ro_AutoRollback roll then ''rollout mutation was not applied; rollback was not required'' else []) db1"
    show ?thesis
    proof (cases fin)
      case out2: (Pair out2 db2)
      show ?thesis
      proof (cases out2)
        case (Inl e)
        with r Pair Inr out2 g1 show ?thesis by (auto simp: refuseDrifted_def fin_def Let_def)
      next
        case (Inr u2)
        have "goodStep db1 db2"
        proof (rule finalize_good [OF goodStep_inv [OF g1] out2 [unfolded fin_def Inr]])
          show "pairStatus ''failed'' ''failed''" by (simp add: pairStatus_def)
          fix r assume r: "map_of (rd_rollouts db1) (ro_ID roll) = Some r" and b: "(if ro_AutoRollback roll then ''failed'' else []) \<noteq> []"
          from r1 r have "linkOf r = linkOf roll" by (simp add: rowMoves_link)
          from link_parts(7) [OF this] b show "''failed'' = ''failed'' \<and> ro_AutoRollback r" by (simp split: if_splits)
        qed
        with g1 have "goodStep (rw_db w) db2" by (rule goodStep_trans)
        with r Pair \<open>out = Inr u\<close> out2 Inr show ?thesis by (auto simp: refuseDrifted_def fin_def Let_def logEvent_good)
      qed
    qed
  qed
qed

lemma claimRollout_good:
  assumes inv: "ledgerInv (rw_db w)" and inp: "inputOk inp" and c: "claimRollout inp actor act roll w = (res, w')"
  shows "goodStep (rw_db w) (rw_db w')"
    and "res = Inr cmd \<Longrightarrow> (\<exists>a r. map_of (rd_actions (rw_db w)) (ac_ID act) = Some a \<and> ac_Status a = ''approved'' \<and>
      map_of (rd_rollouts (rw_db w)) (ro_ID roll) = Some r \<and> ro_StartedAt r = [] \<and>
      (\<exists>r'. map_of (rd_rollouts (rw_db w')) (ro_ID roll) = Some r' \<and> ro_Status r' = ''running'' \<and> ro_StartedAt r' \<noteq> []) \<and>
      (\<exists>a'. map_of (rd_actions (rw_db w')) (ac_ID act) = Some a' \<and> ac_Status a' = ''running'')) \<and> cmd = dispatchAction act"
proof -
  consider "w' = w" "\<exists>e. res = Inl e" | u db1 ts' e' where "StartK8sRolloutExecution (pi_stamp inp 0) (ac_ID act) (ro_ID roll) actor (rw_db w) = (Inr u, db1)"
      "res = Inr (dispatchAction act)" "rw_db w' = logEvent ts' e' db1"
    using c by (auto simp: claimRollout_def split: option.split_asm if_split_asm prod.split_asm sum.split_asm store_error.split_asm)
  then have "goodStep (rw_db w) (rw_db w') \<and> (\<forall>cmd. res = Inr cmd \<longrightarrow> (\<exists>a r. map_of (rd_actions (rw_db w)) (ac_ID act) = Some a \<and> ac_Status a = ''approved'' \<and>
      map_of (rd_rollouts (rw_db w)) (ro_ID roll) = Some r \<and> ro_StartedAt r = [] \<and>
      (\<exists>r'. map_of (rd_rollouts (rw_db w')) (ro_ID roll) = Some r' \<and> ro_Status r' = ''running'' \<and> ro_StartedAt r' \<noteq> []) \<and>
      (\<exists>a'. map_of (rd_actions (rw_db w')) (ac_ID act) = Some a' \<and> ac_Status a' = ''running'')) \<and> cmd = dispatchAction act)"
  proof cases
    case 1
    with inv show ?thesis by (auto simp: goodStep_refl)
  next
    case 2
    have ts: "pi_stamp inp 0 \<noteq> []" using inp by (simp add: inputOk_def)
    from startTx_good [OF inv ts] 2(1) have g: "goodStep (rw_db w) db1" and f: "\<exists>a r. map_of (rd_actions (rw_db w)) (ac_ID act) = Some a \<and> ac_Status a = ''approved'' \<and>
        map_of (rd_rollouts (rw_db w)) (ro_ID roll) = Some r \<and> ro_ActionRequestID r = ac_ID act \<and> ro_StartedAt r = [] \<and>
        map_of (rd_rollouts db1) (ro_ID roll) = Some (startRollout (pi_stamp inp 0) actor r) \<and>
        map_of (rd_actions db1) (ac_ID act) = Some (startAction (pi_stamp inp 0) actor a)" by (auto simp: Start_ok)
    then show ?thesis using 2(2) ts
      by (auto simp: 2(3) logEvent_good logEvent_silent startRollout_def startAction_def orElse_def)
  qed
  then show "goodStep (rw_db w) (rw_db w')"
    and "res = Inr cmd \<Longrightarrow> (\<exists>a r. map_of (rd_actions (rw_db w)) (ac_ID act) = Some a \<and> ac_Status a = ''approved'' \<and>
      map_of (rd_rollouts (rw_db w)) (ro_ID roll) = Some r \<and> ro_StartedAt r = [] \<and>
      (\<exists>r'. map_of (rd_rollouts (rw_db w')) (ro_ID roll) = Some r' \<and> ro_Status r' = ''running'' \<and> ro_StartedAt r' \<noteq> []) \<and>
      (\<exists>a'. map_of (rd_actions (rw_db w')) (ac_ID act) = Some a' \<and> ac_Status a' = ''running'')) \<and> cmd = dispatchAction act" by blast+
qed

text \<open>The branch without a rollout only touches the action requests of unlinked actions.\<close>

lemma unlinked_status_good:
  assumes inv: "ledgerInv db" and un: "unlinked db i" and up: "UpdateK8sActionStatus ts i st actor result (rd_actions db) = (Inr b, t)"
  shows "goodStep db (db\<lparr>rd_actions := t\<rparr>)"
  by (rule status_good [OF inv up]) (use un in \<open>auto simp: unlinked_def\<close>)

lemma actionBegin_good:
  assumes inv: "ledgerInv (rw_db w)" and un: "unlinked (rw_db w) (ac_ID act)" and b: "actionBegin now actor client act (centerOf w) = (res, c)"
  shows "goodStep (rw_db w) (rw_db (withCenter c w))"
proof -
  consider "c = centerOf w" | x t where "UpdateK8sActionStatus now (ac_ID act) ''running'' actor (utf8 [0xC2E4, 0xD589, 0x20, 0xC911]) (rd_actions (rw_db w)) = (Inr x, t)" "aw_actions c = t"
    using b unfolding actionBegin_def aw_actions_centerOf
    by (auto split: if_split_asm option.split_asm prod.split_asm sum.split_asm store_error.split_asm)
  then show ?thesis
    by cases (use inv unlinked_status_good [OF inv un] in \<open>auto simp: goodStep_refl\<close>)
qed

lemma actionFinish_good:
  assumes inv: "ledgerInv (rw_db w)" and un: "unlinked (rw_db w) (ac_ID act)" and b: "actionFinish now actor err act (centerOf w) = (res, c)"
  shows "goodStep (rw_db w) (rw_db (withCenter c w))"
proof -
  consider "c = centerOf w" | st m x t where "UpdateK8sActionStatus now (ac_ID act) st actor m (rd_actions (rw_db w)) = (Inr x, t)" "aw_actions c = t"
    using b unfolding actionFinish_def aw_actions_centerOf Let_def
    by (auto split: if_split_asm option.split_asm prod.split_asm sum.split_asm store_error.split_asm)
  then show ?thesis
    by cases (use inv unlinked_status_good [OF inv un] in \<open>auto simp: goodStep_refl\<close>)
qed

lemma runBegin_good:
  assumes inv: "ledgerInv (rw_db w)" and inp: "inputOk inp" and seen: "requestSeen (rw_db w) act"
    and b: "runApprovedBegin env inp actor act w = (res, w')"
  shows "goodStep (rw_db w) (rw_db w')"
proof (cases "linkedRollout act (rw_db w)")
  case None
  have un: "unlinked (rw_db w) (ac_ID act)" using seen unlinked_lookup [OF inv _ _ None] by (auto simp: requestSeen_def)
  obtain out c where ab: "actionBegin (pi_stamp inp 0) actor (pi_client inp) act (centerOf w) = (out, c)" by (cases "actionBegin (pi_stamp inp 0) actor (pi_client inp) act (centerOf w)")
  have "w' = w \<or> w' = withCenter c w" using b None ab by (auto simp: runApprovedBegin_def split: if_split_asm sum.split_asm)
  with actionBegin_good [OF inv un ab] inv show ?thesis by (auto simp: goodStep_refl)
next
  case (Some roll)
  note row = linkedRollout_row [OF inv Some]
  consider "w' = w" | drift e where "refuseDrifted inp actor act roll drift w = (e, w')" | out where "claimRollout inp actor act roll w = (out, w')"
    using b Some by (auto simp: runApprovedBegin_def split: if_split_asm option.split_asm sum.split_asm prod.split_asm)
  then show ?thesis
    by cases (use inv inp row in \<open>auto simp: goodStep_refl intro: refuseDrifted_good claimRollout_good(1)\<close>)
qed

lemma runBegin_claimed:
  assumes inv: "ledgerInv (rw_db w)" and inp: "inputOk inp" and b: "runApprovedBegin env inp actor act w = (Inr (Some roll, cmd), w')"
  shows "claimRollout inp actor act roll w = (Inr cmd, w')" and "validateRolloutExecutionTarget env roll = None"
    and "linkedRollout act (rw_db w) = Some roll"
proof -
  have "linkedRollout act (rw_db w) \<noteq> None" using b by (auto simp: runApprovedBegin_def split: if_split_asm option.split_asm sum.split_asm prod.split_asm)
  then obtain r where r: "linkedRollout act (rw_db w) = Some r" by blast
  with b have "validateRolloutExecutionTarget env r = None \<and> claimRollout inp actor act r w = (Inr cmd, w') \<and> r = roll"
    by (auto simp: runApprovedBegin_def split: if_split_asm option.split_asm sum.split_asm prod.split_asm)
  with r show "claimRollout inp actor act roll w = (Inr cmd, w')" "validateRolloutExecutionTarget env roll = None" "linkedRollout act (rw_db w) = Some roll" by auto
qed

lemma runFinish_good:
  assumes inv: "ledgerInv (rw_db w)"
    and linked: "\<And>roll. linked = Some roll \<Longrightarrow> snapshotOk (rw_db w) roll" and un: "linked = None \<Longrightarrow> unlinked (rw_db w) (ac_ID act)"
    and f: "runApprovedFinish inp actor err act linked w = (res, w')"
  shows "goodStep (rw_db w) (rw_db w')"
proof (cases linked)
  case None
  obtain out c where af: "actionFinish (pi_stamp inp 2) actor err act (centerOf w) = (out, c)" by (cases "actionFinish (pi_stamp inp 2) actor err act (centerOf w)")
  have "w' = w \<or> w' = withCenter c w" using f None af by (auto simp: runApprovedFinish_def split: sum.split_asm)
  with actionFinish_good [OF inv un [OF None] af] inv show ?thesis by (auto simp: goodStep_refl)
next
  case (Some roll)
  have auto: "ro_AutoRollback c = ro_AutoRollback roll" if "map_of (rd_rollouts (rw_db w)) (ro_ID roll) = Some c" for c
    by (rule link_parts [OF snapshot_link [OF linked [OF Some] that]])
  show ?thesis
  proof (cases "w' = w")
    case True
    with inv show ?thesis by (simp add: goodStep_refl)
  next
    case False
    define plan where "plan = (case err of
               None \<Rightarrow> (''executed'', ''monitoring'', (utf8 [0xC2E4, 0xD589, 0x20, 0xC644, 0xB8CC]), [], [], [])
             | Some (e, interrupted) \<Rightarrow>
                 if interrupted
                 then (let m = (utf8 [0xC2E4, 0xD589, 0x20, 0xACB0, 0xACFC, 0x20, 0xBD88, 0xBA85, 0xD655] @ '': Kubernetes '' @ utf8 [0xC751, 0xB2F5, 0xC774, 0x20, 0xC911, 0xB2E8, 0xB418, 0xC5B4, 0x20, 0xC778, 0xBCA4, 0xD1A0, 0xB9AC, 0x20, 0xC99D, 0xAC70, 0xB85C, 0x20, 0xD655, 0xC778, 0x20, 0xC911]) in (''running'', ''monitoring'', m, m, [], []))
                 else (''failed'', ''failed'', (utf8 [0xC2E4, 0xD589, 0x20, 0xC2E4, 0xD328] @ '': '') @ e, e, if ro_AutoRollback roll then ''failed'' else [],
                       if ro_AutoRollback roll then ''rollout mutation was rejected; rollback was not required'' else []))"
    obtain ast rst msg fr bs br where plan: "plan = (ast, rst, msg, fr, bs, br)" by (cases plan)
    have kinds: "(ast, rst) \<in> {(''executed'', ''monitoring''), (''running'', ''monitoring''), (''failed'', ''failed'')}"
      and bs: "bs \<noteq> [] \<longrightarrow> rst = ''failed'' \<and> ro_AutoRollback roll"
      using plan unfolding plan_def Let_def by (auto split: option.split_asm prod.split_asm if_split_asm)
    obtain u db1 where fin: "FinalizeK8sRolloutMutation (pi_stamp inp 2) (ac_ID act) (ro_ID roll) ast rst actor msg fr bs br (rw_db w) = (Inr u, db1)"
      and w': "rw_db w' = db1"
      using f False unfolding Some runApprovedFinish_def option.case plan_def [symmetric] plan
      by (auto split: prod.split_asm sum.split_asm)
    from kinds have "pairStatus ast rst" by (auto simp: pairStatus_def)
    from finalize_good [OF inv fin this] bs auto w' show ?thesis by auto
  qed
qed

subsection \<open>Reconciliation\<close>

lemma due_started:
  assumes "rolloutRowOk r" and "rolloutReconcileDue r"
  shows "ro_StartedAt r \<noteq> []"
proof
  assume "ro_StartedAt r = []"
  with assms(1) have "ro_Status r \<in> set [''approval_required'', ''approved'', ''rejected'']" by (simp add: rowOk_started)
  then have "ro_Status r = ''approval_required'' \<or> ro_Status r = ''approved'' \<or> ro_Status r = ''rejected''" by simp
  then have "ro_RollbackStatus r = []" "\<not> rollbackOwed r"
    using rowOk_no_rollback [OF assms(1)] by (elim disjE; simp add: rollbackOwed_def)+
  with assms(2) \<open>ro_StartedAt r = []\<close> show False by (simp add: reconcileDue_iff rollbackInFlight_def)
qed

lemma logTransitions_good: "goodStep db0 db \<Longrightarrow> goodStep db0 (logTransitions env inp ob t b c db)"
  by (simp add: logTransitions_def Let_def logEvent_good)

lemma logTransitions_rows: "rd_rollouts (logTransitions env inp ob t b c db) = rd_rollouts db" "rd_actions (logTransitions env inp ob t b c db) = rd_actions db"
  by (simp_all add: logTransitions_def Let_def logEvent_silent)

lemma reconcile_cases:
  assumes "reconcileRolloutContext env inp roll initiate db = (res, db')"
  shows "db' = db \<and> (\<forall>x. res = Inr x \<longrightarrow> x = (roll, False)) \<or>
    (\<exists>r0 target db1. rolloutReconcileDue roll \<and> reopenClaim env (pi_now inp) roll = Some r0 \<and>
      rd_actions db1 = rd_actions db \<and> rd_rollouts db1 = rd_rollouts db \<and> (rollout_db_wf db \<longrightarrow> rollout_db_wf db1) \<and> rd_leases db1 = rd_leases db \<and>
      (let r = fst (advanceRollout env (pi_now inp) target r0) in
       (\<exists>out. persistRolloutCAS (pi_stamp inp 1) roll r db1 = (out, db1) \<and> out \<noteq> Inr True) \<and> db' = db1 \<and>
         (\<forall>cur p. res = Inr (cur, p) \<longrightarrow> GetK8sRolloutAction (ro_ID roll) db1 = Inr cur \<and> \<not> p) \<or>
       (\<exists>db2. persistRolloutCAS (pi_stamp inp 1) roll r db1 = (Inr True, db2) \<and>
         (db' = db2 \<and> (\<exists>e. res = Inl e) \<or>
          (\<exists>cur ob t. GetK8sRolloutAction (ro_ID roll) db2 = Inr cur \<and> db' = logTransitions env inp ob t roll cur db2 \<and>
            res = Inr (cur, initiate \<and> (ro_RollbackStatus r0 = [] \<and> ro_RollbackStatus r = ''requested'' \<or> ro_RollbackStatus cur = ''requested'')))))))"
proof (cases "rolloutReconcileDue roll \<and> reopenClaim env (pi_now inp) roll \<noteq> None")
  case False
  then show ?thesis using assms by (auto simp: reconcileRolloutContext_def split: if_splits option.splits)
next
  case True
  then obtain r0 where due: "rolloutReconcileDue roll" and r0: "reopenClaim env (pi_now inp) roll = Some r0" by auto
  define look where "look = (case en_item env (ro_ClusterID roll) (ro_ResourceKind roll) (ro_Namespace roll) (ro_ResourceName roll) of
                   Inr t \<Rightarrow> Inr (Some t) | Inl ErrNotFound \<Rightarrow> Inr None | Inl e \<Rightarrow> Inl e)"
  show ?thesis
  proof (cases look)
    case (Inl e)
    then have "db' = db" "res = Inl e" using assms due r0 by (auto simp: reconcileRolloutContext_def look_def [symmetric])
    then show ?thesis by simp
  next
    case (Inr target)
    define db1 where "db1 = (case target of None \<Rightarrow> db | Some t \<Rightarrow> recordRolloutPods env (pi_stamp inp 0) r0 t db)"
    have silent: "rd_actions db1 = rd_actions db" "rd_rollouts db1 = rd_rollouts db" "rollout_db_wf db \<longrightarrow> rollout_db_wf db1" "rd_leases db1 = rd_leases db"
      unfolding db1_def using pods_silent [of env "pi_stamp inp 0" r0 _ db] by (auto split: option.split)
    obtain r ob where adv: "advanceRollout env (pi_now inp) target r0 = (r, ob)" by (cases "advanceRollout env (pi_now inp) target r0")
    obtain out db2 where cas: "persistRolloutCAS (pi_stamp inp 1) roll r db1 = (out, db2)" by (cases "persistRolloutCAS (pi_stamp inp 1) roll r db1")
    have body: "(case (out, db2) of
                  (Inl e, _) \<Rightarrow> (Inl e, db1)
                | (Inr False, _) \<Rightarrow>
                    (case GetK8sRolloutAction (ro_ID roll) db1 of Inl e \<Rightarrow> (Inl e, db1) | Inr cur \<Rightarrow> (Inr (cur, False), db1))
                | (Inr True, db2) \<Rightarrow>
                    (case GetK8sRolloutAction (ro_ID roll) db2 of
                       Inl e \<Rightarrow> (Inl e, db2)
                     | Inr cur \<Rightarrow>
                         (Inr (cur, initiate \<and>
                            ((ro_RollbackStatus r0 = [] \<and> ro_RollbackStatus r = ''requested'') \<or> ro_RollbackStatus cur = ''requested'')),
                          logTransitions env inp ob (case target of None \<Rightarrow> emptyItem | Some t \<Rightarrow> t) roll cur db2))) = (res, db')"
      using assms due r0 Inr adv cas unfolding reconcileRolloutContext_def look_def [symmetric] Let_def db1_def by simp
    have stay: "(\<exists>out. persistRolloutCAS (pi_stamp inp 1) roll r db1 = (out, db1) \<and> out \<noteq> Inr True) \<and> db' = db1 \<and>
         (\<forall>cur p. res = Inr (cur, p) \<longrightarrow> GetK8sRolloutAction (ro_ID roll) db1 = Inr cur \<and> \<not> p)" if "out \<noteq> Inr True"
    proof -
      from persistCAS_unchanged [OF cas that] have "db2 = db1" .
      show ?thesis
      proof (cases out)
        case (Inl e)
        with body cas \<open>db2 = db1\<close> show ?thesis by auto
      next
        case (Inr b)
        with that have "out = Inr False" by simp
        with body cas \<open>db2 = db1\<close> show ?thesis by (cases "GetK8sRolloutAction (ro_ID roll) db1") auto
      qed
    qed
    have go: "db' = db2 \<and> (\<exists>e. res = Inl e) \<or>
          (\<exists>cur ob t. GetK8sRolloutAction (ro_ID roll) db2 = Inr cur \<and> db' = logTransitions env inp ob t roll cur db2 \<and>
            res = Inr (cur, initiate \<and> (ro_RollbackStatus r0 = [] \<and> ro_RollbackStatus r = ''requested'' \<or> ro_RollbackStatus cur = ''requested'')))"
      if "out = Inr True"
      using body that by (cases "GetK8sRolloutAction (ro_ID roll) db2") auto
    have "(\<exists>out. persistRolloutCAS (pi_stamp inp 1) roll r db1 = (out, db1) \<and> out \<noteq> Inr True) \<and> db' = db1 \<and>
         (\<forall>cur p. res = Inr (cur, p) \<longrightarrow> GetK8sRolloutAction (ro_ID roll) db1 = Inr cur \<and> \<not> p) \<or>
       (\<exists>db2. persistRolloutCAS (pi_stamp inp 1) roll r db1 = (Inr True, db2) \<and>
         (db' = db2 \<and> (\<exists>e. res = Inl e) \<or>
          (\<exists>cur ob t. GetK8sRolloutAction (ro_ID roll) db2 = Inr cur \<and> db' = logTransitions env inp ob t roll cur db2 \<and>
            res = Inr (cur, initiate \<and> (ro_RollbackStatus r0 = [] \<and> ro_RollbackStatus r = ''requested'' \<or> ro_RollbackStatus cur = ''requested'')))))"
    proof (cases "out = Inr True")
      case True
      with go [OF True] cas show ?thesis by blast
    next
      case False
      from stay [OF this] show ?thesis by blast
    qed
    then show ?thesis using due r0 silent adv
      by (intro disjI2 exI [of _ r0] exI [of _ target] exI [of _ db1] conjI) (simp_all add: Let_def)
  qed
qed

lemma reconcile_good:
  assumes inv: "ledgerInv db" and snap: "snapshotOk db roll" and r: "reconcileRolloutContext env inp roll initiate db = (res, db')"
  shows "goodStep db db'" and "res = Inr (cur, p) \<Longrightarrow> snapshotOk db' cur"
proof -
  have "goodStep db db' \<and> (\<forall>cur p. res = Inr (cur, p) \<longrightarrow> snapshotOk db' cur)"
    using reconcile_cases [OF r]
  proof (elim disjE exE conjE)
    assume "db' = db" "\<forall>x. res = Inr x \<longrightarrow> x = (roll, False)"
    with inv snap show ?thesis by (auto simp: goodStep_refl)
  next
    fix r0 target db1
    assume due: "rolloutReconcileDue roll" and r0: "reopenClaim env (pi_now inp) roll = Some r0"
      and same: "rd_actions db1 = rd_actions db" "rd_rollouts db1 = rd_rollouts db" and wf: "rollout_db_wf db \<longrightarrow> rollout_db_wf db1"
    define x where "x = fst (advanceRollout env (pi_now inp) target r0)"
    assume rest: "let r = fst (advanceRollout env (pi_now inp) target r0) in
       (\<exists>out. persistRolloutCAS (pi_stamp inp 1) roll r db1 = (out, db1) \<and> out \<noteq> Inr True) \<and> db' = db1 \<and>
         (\<forall>cur p. res = Inr (cur, p) \<longrightarrow> GetK8sRolloutAction (ro_ID roll) db1 = Inr cur \<and> \<not> p) \<or>
       (\<exists>db2. persistRolloutCAS (pi_stamp inp 1) roll r db1 = (Inr True, db2) \<and>
         (db' = db2 \<and> (\<exists>e. res = Inl e) \<or>
          (\<exists>cur ob t. GetK8sRolloutAction (ro_ID roll) db2 = Inr cur \<and> db' = logTransitions env inp ob t roll cur db2 \<and>
            res = Inr (cur, initiate \<and> (ro_RollbackStatus r0 = [] \<and> ro_RollbackStatus r = ''requested'' \<or> ro_RollbackStatus cur = ''requested'')))))"
    have g1: "goodStep db db1" by (rule good_silent [OF inv]) (use ledger_wf [OF inv] wf same in auto)
    have inv1: "ledgerInv db1" and snap1: "snapshotOk db1 roll" using goodStep_inv [OF g1] snapshot_mono [OF g1 snap] .
    have move: "progressMove roll x" unfolding x_def by (rule advance_moves [OF r0])
    note started = due_started [OF snapshot_ok [OF snap] due]
    have get: "snapshotOk d cur" if "ledgerInv d" "GetK8sRolloutAction (ro_ID roll) d = Inr cur" for d cur
      using that snapshot_current by (auto simp: GetK8sRolloutAction_def getRow_def split: option.splits)
    from rest consider (stay) "db' = db1" "\<forall>cur p. res = Inr (cur, p) \<longrightarrow> GetK8sRolloutAction (ro_ID roll) db1 = Inr cur"
      | (swap) db2 where "persistRolloutCAS (pi_stamp inp 1) roll x db1 = (Inr True, db2)"
          "db' = db2 \<and> (\<exists>e. res = Inl e) \<or> (\<exists>cur ob t p. GetK8sRolloutAction (ro_ID roll) db2 = Inr cur \<and> db' = logTransitions env inp ob t roll cur db2 \<and> res = Inr (cur, p))"
      unfolding Let_def x_def by blast
    then show ?thesis
    proof cases
      case stay
      with g1 inv1 get show ?thesis by simp
    next
      case (swap db2)
      have g2: "goodStep db db2" using g1 cas_good [OF inv1 snap1 started move swap(1)] by (blast intro: goodStep_trans)
      from swap(2) show ?thesis
      proof (elim disjE exE conjE)
        fix e assume "db' = db2" "res = Inl e"
        with g2 show ?thesis by simp
      next
        fix cur ob t p
        assume c: "GetK8sRolloutAction (ro_ID roll) db2 = Inr cur" "db' = logTransitions env inp ob t roll cur db2" "res = Inr (cur, p)"
        have g3: "goodStep db db'" "goodStep db2 db'"
          unfolding c(2) using logTransitions_good [OF g2] logTransitions_good [OF goodStep_refl [OF goodStep_inv [OF g2]]] by blast+
        from snapshot_mono [OF g3(2) get [OF goodStep_inv [OF g2] c(1)]] g3(1) c(3) show ?thesis by simp
      qed
    qed
  qed
  then show "goodStep db db'" and "res = Inr (cur, p) \<Longrightarrow> snapshotOk db' cur" by blast+
qed

text \<open>A rollback claim, as the row a claimer carries to the cluster and back.\<close>

definition rollbackClaimed :: "K8sRolloutAction \<Rightarrow> bool" where
  "rollbackClaimed r \<longleftrightarrow> ro_RollbackStatus r = ''running''"

lemma inflight_started: "rolloutRowOk r \<Longrightarrow> rollbackInFlight (ro_RollbackStatus r) \<Longrightarrow> ro_StartedAt r \<noteq> []"
  by (rule due_started) (simp_all add: reconcileDue_iff)

lemma claim_move: "ro_RollbackStatus r = ''requested'' \<Longrightarrow> progressMove r (r\<lparr>ro_RollbackStatus := ''running'', ro_RollbackCompletedAt := []\<rparr>)"
  by (simp add: progressMove_def rollbackEdge_def)

lemma claimRollback_good:
  assumes inv: "ledgerInv db" and snap: "snapshotOk db roll" and c: "claimRollback inp roll db = (res, db')"
  shows "goodStep db db'" and "res = Inr (cur, p) \<Longrightarrow> snapshotOk db' cur \<and> (p \<longrightarrow> rollbackClaimed cur \<and> ro_RollbackStatus roll = ''requested'' \<and> ro_ID cur = ro_ID roll)"
proof -
  let ?a = "roll\<lparr>ro_RollbackStatus := ''running'', ro_RollbackCompletedAt := []\<rparr>"
  have get: "snapshotOk d x \<and> ro_ID x = ro_ID roll" if "ledgerInv d" "GetK8sRolloutAction (ro_ID roll) d = Inr x" for d x
    using that snapshot_current ledger_row by (auto simp: GetK8sRolloutAction_def getRow_def split: option.splits)
  have "goodStep db db' \<and> (\<forall>cur p. res = Inr (cur, p) \<longrightarrow> snapshotOk db' cur \<and> (p \<longrightarrow> rollbackClaimed cur \<and> ro_RollbackStatus roll = ''requested'' \<and> ro_ID cur = ro_ID roll))"
  proof (cases "ro_RollbackStatus roll = ''requested''")
    case False
    with c have "db' = db" "res = Inr (roll, False)" by (simp_all add: claimRollback_def)
    with inv snap show ?thesis by (simp add: goodStep_refl)
  next
    case True
    have started: "ro_StartedAt roll \<noteq> []" using True inflight_started [OF snapshot_ok [OF snap]] by (simp add: rollbackInFlight_def)
    obtain out db1 where cas: "persistRolloutCAS (pi_stamp inp 3) roll ?a db = (out, db1)" by (cases "persistRolloutCAS (pi_stamp inp 3) roll ?a db")
    show ?thesis
    proof (cases "out = Inr True")
      case False
      then have "db' = db \<and> (\<forall>cur p. res = Inr (cur, p) \<longrightarrow> \<not> p \<and> GetK8sRolloutAction (ro_ID roll) db = Inr cur)"
      proof (cases out)
        case (Inl e)
        with c True cas show ?thesis by (auto simp: claimRollback_def)
      next
        case (Inr b)
        with False have "out = Inr False" by simp
        with c True cas show ?thesis by (cases "GetK8sRolloutAction (ro_ID roll) db") (auto simp: claimRollback_def)
      qed
      then show ?thesis using get [OF inv] goodStep_refl [OF inv] by blast
    next
      case swapped: True
      from cas_good [OF inv snap started claim_move [OF True] cas [unfolded swapped]] obtain q where g: "goodStep db db1"
        and q: "map_of (rd_rollouts db1) (ro_ID roll) = Some (setProgress (pi_stamp inp 3) ?a q)" by blast
      then have "GetK8sRolloutAction (ro_ID roll) db1 = Inr (setProgress (pi_stamp inp 3) ?a q)" by (simp add: GetK8sRolloutAction_def getRow_def)
      with c True cas swapped have db': "\<exists>ts e. db' = logEvent ts e db1" and res: "res = Inr (setProgress (pi_stamp inp 3) ?a q, True)"
        by (auto simp: claimRollback_def)
      then obtain ts e where "db' = logEvent ts e db1" by blast
      then have g2: "goodStep db db'" "goodStep db1 db'" using g goodStep_refl [OF goodStep_inv [OF g]] by (simp_all add: logEvent_good)
      have "rollbackClaimed (setProgress (pi_stamp inp 3) ?a q)" by (simp add: rollbackClaimed_def)
      moreover have "snapshotOk db1 (setProgress (pi_stamp inp 3) ?a q) \<and> ro_ID (setProgress (pi_stamp inp 3) ?a q) = ro_ID roll"
        using snapshot_current [OF goodStep_inv [OF g] q] ledger_row [OF goodStep_inv [OF g] q] by simp
      ultimately show ?thesis using g2 snapshot_mono [OF g2(2)] res True by simp
    qed
  qed
  then show "goodStep db db'" and "res = Inr (cur, p) \<Longrightarrow> snapshotOk db' cur \<and> (p \<longrightarrow> rollbackClaimed cur \<and> ro_RollbackStatus roll = ''requested'' \<and> ro_ID cur = ro_ID roll)" by blast+
qed

lemma result_move: "rollbackClaimed r \<Longrightarrow> progressMove r (rollbackResult env now err r)"
  by (auto simp: progressMove_def rollbackResult_def rollbackClaimed_def rollbackEdge_def split: option.split)

lemma finishRollback_good:
  assumes inv: "ledgerInv db" and snap: "snapshotOk db cur" and claimed: "rollbackClaimed cur" and f: "finishRollback env inp err cur db = (res, db')"
  shows "goodStep db db'" and "res = Inr fin \<Longrightarrow> snapshotOk db' fin"
proof -
  have started: "ro_StartedAt cur \<noteq> []" using claimed inflight_started [OF snapshot_ok [OF snap]] by (simp add: rollbackInFlight_def rollbackClaimed_def)
  have get: "snapshotOk d x" if "ledgerInv d" "GetK8sRolloutAction (ro_ID cur) d = Inr x" for d x
    using that snapshot_current by (auto simp: GetK8sRolloutAction_def getRow_def split: option.splits)
  obtain out db1 where cas: "persistRolloutCAS (pi_stamp inp 5) cur (rollbackResult env (pi_now inp) err cur) db = (out, db1)"
    by (cases "persistRolloutCAS (pi_stamp inp 5) cur (rollbackResult env (pi_now inp) err cur) db")
  have "goodStep db db' \<and> (\<forall>fin. res = Inr fin \<longrightarrow> snapshotOk db' fin)"
  proof (cases "out = Inr True")
    case False
    then have "db' = db \<and> (\<forall>fin. res = Inr fin \<longrightarrow> GetK8sRolloutAction (ro_ID cur) db = Inr fin)"
      using f cas by (cases out) (auto simp: finishRollback_def split: bool.split_asm)
    with inv get show ?thesis by (auto simp: goodStep_refl)
  next
    case True
    from cas_good [OF inv snap started result_move [OF claimed] cas [unfolded True]] have g: "goodStep db db1" by blast
    show ?thesis
    proof (cases "GetK8sRolloutAction (ro_ID cur) db1")
      case (Inl e)
      with f cas True g show ?thesis by (auto simp: finishRollback_def)
    next
      case (Inr x)
      with f cas True obtain ts e where 2: "res = Inr x" "db' = logEvent ts e db1" by (auto simp: finishRollback_def)
      have g2: "goodStep db db'" "goodStep db1 db'" using g goodStep_refl [OF goodStep_inv [OF g]] 2(2) by (simp_all add: logEvent_good)
      from snapshot_mono [OF g2(2) get [OF goodStep_inv [OF g] Inr]] g2(1) 2(1) show ?thesis by simp
    qed
  qed
  then show "goodStep db db'" and "res = Inr fin \<Longrightarrow> snapshotOk db' fin" by blast+
qed

lemma settle_cases:
  "settleAction ts roll i seen w = (e, w') \<Longrightarrow> w' = w \<or>
     (\<exists>st result b t. UpdateK8sActionStatus ts i st ''system:rollout-reconciler'' result (rd_actions (rw_db w)) = (Inr b, t) \<and>
        (st = ''executed'' \<or> st = ''failed'') \<and> rw_db w' = (rw_db w)\<lparr>rd_actions := t\<rparr>)"
proof -
  assume s: "settleAction ts roll i seen w = (e, w')"
  define st where "st = (if seen then ''executed'' else ''failed'')"
  define result where "result = (if seen then ''rollout mutation confirmed by inventory/controller evidence ('' @ ro_Status roll @ '')''
    else ''rollout mutation could not be confirmed: '' @ firstNonEmpty [ro_FailureReason roll, ro_Status roll])"
  obtain out t where up: "UpdateK8sActionStatus ts i st ''system:rollout-reconciler'' result (rd_actions (rw_db w)) = (out, t)" by force
  show ?thesis
  proof (cases out)
    case (Inl x)
    with s up show ?thesis unfolding settleAction_def Let_def st_def [symmetric] result_def [symmetric] by simp
  next
    case (Inr b)
    with s up have "rw_db w' = (rw_db w)\<lparr>rd_actions := t\<rparr>"
      unfolding settleAction_def Let_def st_def [symmetric] result_def [symmetric] by auto
    moreover have "st = ''executed'' \<or> st = ''failed''" by (simp add: st_def)
    ultimately show ?thesis using up Inr by blast
  qed
qed

lemma sync_good:
  assumes inv: "ledgerInv (rw_db w)" and snap: "snapshotOk (rw_db w) roll" and s: "syncRolloutActionRequest env ts roll w = (e, w')"
  shows "goodStep (rw_db w) (rw_db w')"
proof (cases "w' = w")
  case True
  with inv show ?thesis by (simp add: goodStep_refl)
next
  case False
  then obtain a seen where ended: "rolloutTerminal (ro_Status roll)" and a: "map_of (rd_actions (rw_db w)) (ro_ActionRequestID roll) = Some a"
      "ac_Status a = ''running''" and settle: "settleAction ts roll (ac_ID a) seen w = (e, w')"
    using s unfolding syncRolloutActionRequest_def GetK8sActionRequest_def getRow_def
    by (auto split: if_split_asm option.split_asm sum.split_asm)
  from settle_cases [OF settle] False obtain st result b t where
        up: "UpdateK8sActionStatus ts (ac_ID a) st ''system:rollout-reconciler'' result (rd_actions (rw_db w)) = (Inr b, t)"
    and st: "st = ''executed'' \<or> st = ''failed''" and w': "rw_db w' = (rw_db w)\<lparr>rd_actions := t\<rparr>"
    by blast
  have id: "ac_ID a = ro_ActionRequestID roll" using keyedBy_key [OF _ a(1), of ac_ID] ledger_wf [OF inv] by (simp add: rollout_db_wf_def)
  obtain c where c: "map_of (rd_rollouts (rw_db w)) (ro_ID roll) = Some c" using snap by (auto simp: snapshotOk_def)
  have voc: "ro_Status roll \<in> set rolloutStatuses" using snapshot_ok [OF snap] by (simp add: rolloutRowOk_def)
  with ended have closed: "rolloutClosed (ro_Status roll)" by (auto simp: rolloutStatuses_def rolloutTerminal_def rolloutClosed_def)
  note cst = snapshot_closed [OF snap closed c]
  have req: "ro_ActionRequestID c = ro_ActionRequestID roll" by (rule link_parts [OF snapshot_link [OF snap c]])
  have pair: "pairStatus ''running'' (ro_Status c)" using ledger_row [OF inv c] a req by (auto simp: linkedOk_def)
  have "\<not> pairStatus ''running'' ''rejected''" by (simp add: pairStatus_def)
  with pair have "ro_Status c \<noteq> ''rejected''" by metis
  then have "ro_Status c \<in> {''succeeded'', ''failed'', ''timed_out''}" using closed cst by (simp add: rolloutClosed_def)
  then have "ro_Status c = ''succeeded'' \<or> ro_Status c = ''failed'' \<or> ro_Status c = ''timed_out''" by simp
  then have new: "pairStatus st (ro_Status c)" using st by (elim disjE) (simp_all add: pairStatus_def)
  have "goodStep (rw_db w) ((rw_db w)\<lparr>rd_actions := t\<rparr>)"
  proof (rule status_good [OF inv up])
    fix x k r
    assume r: "map_of (rd_rollouts (rw_db w)) k = Some r" and "ro_ActionRequestID r = ac_ID a"
    with request_unique [OF inv c r] req id have "k = ro_ID roll" by simp
    with c r have "r = c" by simp
    then show "pairStatus st (ro_Status r)" using new by simp
  qed
  with w' show ?thesis by simp
qed

end
