(* ===== verification/Rollout_Safety.thy ===== *)
theory Rollout_Safety
  imports Rollout_Machine
begin

text \<open>
  The step relation of the rollout subsystem and what holds in every state it can reach. A step
  is a handler's run up to its next call into the cluster; the Action Center, the rollout pages
  and any number of workers interleave freely, and a claimed run whose answer never comes models
  a crash. The contract \<open>row_system\<close> gathers what the lifecycle of a row needs of such a
  relation.
\<close>

section \<open>Step systems over rows\<close>

locale row_system =
  fixes inv :: "'s \<Rightarrow> bool"
    and step :: "'s \<Rightarrow> 's \<Rightarrow> bool"
    and row :: "'s \<Rightarrow> string \<Rightarrow> 'r option"
    and moves :: "'r \<Rightarrow> 'r \<Rightarrow> bool"
  assumes inv_step: "inv s \<Longrightarrow> step s s' \<Longrightarrow> inv s'"
    and row_step: "inv s \<Longrightarrow> step s s' \<Longrightarrow> row s k = Some r \<Longrightarrow> \<exists>r'. row s' k = Some r' \<and> moves\<^sup>*\<^sup>* r r'"
begin

lemma inv_reach: "step\<^sup>*\<^sup>* s s' \<Longrightarrow> inv s \<Longrightarrow> inv s'"
  by (induction rule: rtranclp_induct) (auto intro: inv_step)

lemma row_reach:
  assumes "step\<^sup>*\<^sup>* s s'" and "inv s" and "row s k = Some r"
  shows "\<exists>r'. row s' k = Some r' \<and> moves\<^sup>*\<^sup>* r r'"
  using assms(1)
proof (induction rule: rtranclp_induct)
  case base
  with assms(3) show ?case by blast
next
  case (step b c)
  then obtain r' where r': "row b k = Some r'" "moves\<^sup>*\<^sup>* r r'" by blast
  from row_step [OF inv_reach [OF step.hyps(1) assms(2)] step.hyps(2) r'(1)] r'(2) show ?case by force
qed

lemma row_invariant:
  assumes "step\<^sup>*\<^sup>* s s'" and "inv s" and "row s k = Some r" and "I r" and "\<And>a b. I a \<Longrightarrow> moves a b \<Longrightarrow> I b"
  shows "\<exists>r'. row s' k = Some r' \<and> I r'"
proof -
  obtain r' where r': "row s' k = Some r'" "moves\<^sup>*\<^sup>* r r'" using row_reach [OF assms(1-3)] by blast
  from r'(2) assms(4,5) have "I r'" by (induction rule: rtranclp_induct) auto
  with r'(1) show ?thesis by blast
qed

end

section \<open>The rollout system\<close>

record flow =
  fl_w :: rollout_world
  fl_rolls :: "K8sRolloutAction list"
  fl_acts :: "K8sActionRequest list"
  fl_runs :: "(string \<times> K8sActionRequest \<times> K8sRolloutAction option) list"
  fl_claims :: "K8sRolloutAction list"
  fl_restarts :: "string list"
  fl_patches :: "rollback_patch list"

abbreviation dbOf :: "flow \<Rightarrow> rollout_db" where
  "dbOf s \<equiv> rw_db (fl_w s)"

definition withDb :: "rollout_db \<Rightarrow> rollout_world \<Rightarrow> rollout_world" where
  "withDb db w = w\<lparr>rw_db := db\<rparr>"

definition restartOf :: "K8sRolloutAction option \<times> (string + cluster_command) \<Rightarrow> string list" where
  "restartOf x = (case x of (Some r, Inr _) \<Rightarrow> [ro_ID r] | _ \<Rightarrow> [])"

inductive rollout_step :: "flow \<Rightarrow> flow \<Rightarrow> bool" where
  request: "inputOk inp \<Longrightarrow> postWorkloadRollout env inp authorized who adminID key body (fl_w s) = (res, w) \<Longrightarrow>
    rollout_step s (s\<lparr>fl_w := w\<rparr>)"
| post: "postK8sAction aenv now freshID freshIdem adminID authorized key body (centerOf (fl_w s)) = (res, c) \<Longrightarrow>
    rollout_step s (s\<lparr>fl_w := withCenter c (fl_w s)\<rparr>)"
| decide: "decideK8sAction now adminID authorized i command result (centerOf (fl_w s)) = (res, c) \<Longrightarrow>
    rollout_step s (s\<lparr>fl_w := withCenter c (fl_w s)\<rparr>)"
| read: "GetK8sRolloutAction i (dbOf s) = Inr r \<Longrightarrow> rollout_step s (s\<lparr>fl_rolls := r # fl_rolls s\<rparr>)"
| readAction: "GetK8sActionRequest i (rd_actions (dbOf s)) = Inr a \<Longrightarrow> rollout_step s (s\<lparr>fl_acts := a # fl_acts s\<rparr>)"
| approve: "roll \<in> set (fl_rolls s) \<Longrightarrow> approveRollout inp who adminID roll (fl_w s) = (res, w) \<Longrightarrow> rollout_step s (s\<lparr>fl_w := w\<rparr>)"
| reject: "roll \<in> set (fl_rolls s) \<Longrightarrow> rejectRolloutByID inp who roll (fl_w s) = (res, w) \<Longrightarrow> rollout_step s (s\<lparr>fl_w := w\<rparr>)"
| begin_run: "act \<in> set (fl_acts s) \<Longrightarrow> inputOk inp \<Longrightarrow> runApprovedBegin env inp actor act (fl_w s) = (Inr (linked, c), w) \<Longrightarrow>
    rollout_step s (s\<lparr>fl_w := w, fl_runs := (actor, act, linked) # fl_runs s, fl_restarts := fl_restarts s @ restartOf (linked, c)\<rparr>)"
| refuse_run: "act \<in> set (fl_acts s) \<Longrightarrow> inputOk inp \<Longrightarrow> runApprovedBegin env inp actor act (fl_w s) = (Inl e, w) \<Longrightarrow>
    rollout_step s (s\<lparr>fl_w := w\<rparr>)"
| finish_run: "(actor, act, linked) \<in> set (fl_runs s) \<Longrightarrow> runApprovedFinish inp actor err act linked (fl_w s) = (res, w) \<Longrightarrow>
    rollout_step s (s\<lparr>fl_w := w, fl_runs := remove1 (actor, act, linked) (fl_runs s)\<rparr>)"
| reconcile: "roll \<in> set (fl_rolls s) \<Longrightarrow> reconcileRolloutContext env inp roll initiate (dbOf s) = (Inr (cur, p), db) \<Longrightarrow>
    rollout_step s (s\<lparr>fl_w := withDb db (fl_w s), fl_rolls := cur # fl_rolls s\<rparr>)"
| reconcile_err: "roll \<in> set (fl_rolls s) \<Longrightarrow> reconcileRolloutContext env inp roll initiate (dbOf s) = (Inl e, db) \<Longrightarrow>
    rollout_step s (s\<lparr>fl_w := withDb db (fl_w s)\<rparr>)"
| claim: "roll \<in> set (fl_rolls s) \<Longrightarrow> claimRollback inp roll (dbOf s) = (Inr (cur, True), db) \<Longrightarrow>
    rollout_step s (s\<lparr>fl_w := withDb db (fl_w s), fl_claims := cur # fl_claims s\<rparr>)"
| claim_lost: "roll \<in> set (fl_rolls s) \<Longrightarrow> claimRollback inp roll (dbOf s) = (res, db) \<Longrightarrow> (\<And>cur. res \<noteq> Inr (cur, True)) \<Longrightarrow>
    rollout_step s (s\<lparr>fl_w := withDb db (fl_w s)\<rparr>)"
| patch: "cur \<in> set (fl_claims s) \<Longrightarrow> rollbackCommand acc actor cur = Inr p \<Longrightarrow> rollout_step s (s\<lparr>fl_patches := p # fl_patches s\<rparr>)"
| finish_rollback: "cur \<in> set (fl_claims s) \<Longrightarrow> finishRollback env inp err cur (dbOf s) = (res, db) \<Longrightarrow>
    rollout_step s (s\<lparr>fl_w := withDb db (fl_w s), fl_claims := remove1 cur (fl_claims s)\<rparr>)"
| sync: "roll \<in> set (fl_rolls s) \<Longrightarrow> syncRolloutActionRequest env ts roll (fl_w s) = (e, w) \<Longrightarrow> rollout_step s (s\<lparr>fl_w := w\<rparr>)"
| lease: "TryAcquireK8sRolloutReconcileLease i owner now ttl (rd_leases (dbOf s)) = (ok, t) \<Longrightarrow>
    rollout_step s (s\<lparr>fl_w := withDb ((dbOf s)\<lparr>rd_leases := t\<rparr>) (fl_w s)\<rparr>)"
| unlease: "rollout_step s (s\<lparr>fl_w := withDb ((dbOf s)\<lparr>rd_leases := ReleaseK8sRolloutReconcileLease i owner (rd_leases (dbOf s))\<rparr>) (fl_w s)\<rparr>)"

definition emptyDb :: rollout_db where
  "emptyDb = \<lparr>rd_actions = [], rd_rollouts = [], rd_events = [], rd_pods = [], rd_leases = []\<rparr>"

definition startFlow :: flow where
  "startFlow = \<lparr>fl_w = \<lparr>rw_db = emptyDb, rw_services = [], rw_audit = []\<rparr>, fl_rolls = [], fl_acts = [], fl_runs = [], fl_claims = [],
     fl_restarts = [], fl_patches = []\<rparr>"

definition runOk :: "rollout_db \<Rightarrow> string \<times> K8sActionRequest \<times> K8sRolloutAction option \<Rightarrow> bool" where
  "runOk db x = (case x of (_, act, None) \<Rightarrow> unlinked db (ac_ID act) | (_, act, Some r) \<Rightarrow> snapshotOk db r)"

definition patchOk :: "rollout_db \<Rightarrow> rollback_patch \<Rightarrow> bool" where
  "patchOk db p \<longleftrightarrow> (\<exists>r. map_of (rd_rollouts db) (rb_ActionID p) = Some r \<and> ro_Status r \<in> {''failed'', ''timed_out''} \<and> ro_AutoRollback r \<and>
     equalFold (ro_ResourceKind r) ''Deployment'' \<and> ro_PreviousTemplate r \<noteq> [] \<and> rb_Template p = ro_PreviousTemplate r \<and>
     rb_ClusterID p = ro_ClusterID r \<and> rb_Namespace p = ro_Namespace r \<and> rb_Name p = ro_ResourceName r)"

definition flowInv :: "flow \<Rightarrow> bool" where
  "flowInv s \<longleftrightarrow> ledgerInv (dbOf s) \<and> (\<forall>r \<in> set (fl_rolls s). snapshotOk (dbOf s) r) \<and> (\<forall>a \<in> set (fl_acts s). requestSeen (dbOf s) a) \<and>
     (\<forall>x \<in> set (fl_runs s). runOk (dbOf s) x) \<and> (\<forall>r \<in> set (fl_claims s). snapshotOk (dbOf s) r \<and> rollbackClaimed r) \<and>
     distinct (fl_restarts s) \<and> (\<forall>i \<in> set (fl_restarts s). \<exists>r. map_of (rd_rollouts (dbOf s)) i = Some r \<and> ro_StartedAt r \<noteq> []) \<and>
     (\<forall>p \<in> set (fl_patches s). patchOk (dbOf s) p)"

lemma runOk_mono: "goodStep db db' \<Longrightarrow> runOk db x \<Longrightarrow> runOk db' x"
  by (auto simp: runOk_def split: prod.splits option.splits dest: unlinked_mono snapshot_mono)

lemma patchOk_mono:
  assumes "goodStep db db'" and "patchOk db p"
  shows "patchOk db' p"
proof -
  from assms(2) obtain r where r: "map_of (rd_rollouts db) (rb_ActionID p) = Some r" "ro_Status r \<in> {''failed'', ''timed_out''}" "ro_AutoRollback r"
    "equalFold (ro_ResourceKind r) ''Deployment''" "ro_PreviousTemplate r \<noteq> []" "rb_Template p = ro_PreviousTemplate r"
    "rb_ClusterID p = ro_ClusterID r" "rb_Namespace p = ro_Namespace r" "rb_Name p = ro_ResourceName r" by (auto simp: patchOk_def)
  from goodStep_row [OF assms(1) r(1)] obtain r' where r': "map_of (rd_rollouts db') (rb_ActionID p) = Some r'" "rowMove\<^sup>*\<^sup>* r r'" by blast
  have "rolloutClosed (ro_Status r)" using r(2) by (auto simp: rolloutClosed_def)
  with r'(2) have "ro_Status r' = ro_Status r" by (rule rowMoves_closed)
  moreover have "linkOf r' = linkOf r" by (rule rowMoves_link [OF r'(2)])
  ultimately show ?thesis using r r'(1) by (simp add: patchOk_def linkOf_def)
qed

lemma flow_db_change:
  assumes inv: "flowInv s" and g: "goodStep (dbOf s) (rw_db w)"
  shows "flowInv (s\<lparr>fl_w := w\<rparr>)"
proof -
  have "\<exists>r. map_of (rd_rollouts (rw_db w)) i = Some r \<and> ro_StartedAt r \<noteq> []" if i: "i \<in> set (fl_restarts s)" for i
  proof -
    from inv i obtain r where r: "map_of (rd_rollouts (dbOf s)) i = Some r" "ro_StartedAt r \<noteq> []" by (auto simp: flowInv_def)
    from goodStep_row [OF g r(1)] r(2) show ?thesis by (auto dest: rowMoves_started)
  qed
  then show ?thesis
    using inv goodStep_inv [OF g] snapshot_mono [OF g] requestSeen_mono [OF g] runOk_mono [OF g] patchOk_mono [OF g] by (simp add: flowInv_def)
qed

lemma flow_ledger: "flowInv s \<Longrightarrow> ledgerInv (dbOf s)"
  by (simp add: flowInv_def)

lemma rw_db_withDb [simp]: "rw_db (withDb db w) = db"
  by (simp add: withDb_def)


section \<open>Every step keeps the invariant\<close>

lemma flow_read:
  assumes inv: "flowInv s" and g: "GetK8sRolloutAction i (dbOf s) = Inr r"
  shows "flowInv (s\<lparr>fl_rolls := r # fl_rolls s\<rparr>)"
proof -
  have "snapshotOk (dbOf s) r" using g snapshot_current [OF flow_ledger [OF inv]]
    by (auto simp: GetK8sRolloutAction_def getRow_def split: option.splits)
  with inv show ?thesis by (simp add: flowInv_def)
qed

lemma flow_readAction:
  assumes inv: "flowInv s" and g: "GetK8sActionRequest i (rd_actions (dbOf s)) = Inr a"
  shows "flowInv (s\<lparr>fl_acts := a # fl_acts s\<rparr>)"
proof -
  have "keyedBy ac_ID (rd_actions (dbOf s))" using flow_ledger [OF inv] by (simp add: ledgerInv_def rollout_db_wf_def)
  then have "requestSeen (dbOf s) a" using g keyedBy_key [of ac_ID "rd_actions (dbOf s)" i a]
    by (auto simp: GetK8sActionRequest_def getRow_def requestSeen_def split: option.splits)
  with inv show ?thesis by (simp add: flowInv_def)
qed

lemma flow_begin:
  assumes inv: "flowInv s" and act: "act \<in> set (fl_acts s)" and inp: "inputOk inp"
    and b: "runApprovedBegin env inp actor act (fl_w s) = (Inr (linked, c), w)"
  shows "flowInv (s\<lparr>fl_w := w, fl_runs := (actor, act, linked) # fl_runs s, fl_restarts := fl_restarts s @ restartOf (linked, c)\<rparr>)"
proof -
  have led: "ledgerInv (dbOf s)" using inv by (rule flow_ledger)
  have seen: "requestSeen (dbOf s) act" using inv act by (simp add: flowInv_def)
  have g: "goodStep (dbOf s) (rw_db w)" by (rule runBegin_good [OF led inp seen b])
  have new: "flowInv (s\<lparr>fl_w := w\<rparr>)" by (rule flow_db_change [OF inv g])
  show ?thesis
  proof (cases linked)
    case None
    then have "linkedRollout act (dbOf s) = None"
      using b by (auto simp: runApprovedBegin_def split: if_split_asm option.split_asm sum.split_asm prod.split_asm)
    then have "unlinked (dbOf s) (ac_ID act)" using seen unlinked_lookup [OF led] by (auto simp: requestSeen_def)
    then have "unlinked (rw_db w) (ac_ID act)" by (rule unlinked_mono [OF g])
    with new None show ?thesis by (simp add: flowInv_def runOk_def restartOf_def)
  next
    case (Some roll)
    note claimed = runBegin_claimed [OF led inp b [unfolded Some]]
    have row: "map_of (rd_rollouts (dbOf s)) (ro_ID roll) = Some roll" using linkedRollout_row [OF led claimed(3)] by simp
    from claimRollout_good(2) [OF led inp claimed(1) refl] obtain r r' where
      r: "map_of (rd_rollouts (dbOf s)) (ro_ID roll) = Some r" "ro_StartedAt r = []"
      and r': "map_of (rd_rollouts (rw_db w)) (ro_ID roll) = Some r'" "ro_StartedAt r' \<noteq> []" by blast
    have "ro_ID roll \<notin> set (fl_restarts s)" using inv r by (fastforce simp: flowInv_def)
    moreover have "snapshotOk (rw_db w) roll" by (rule snapshot_mono [OF g snapshot_current [OF led row]])
    ultimately show ?thesis using new Some r' by (auto simp: flowInv_def runOk_def restartOf_def split: sum.splits)
  qed
qed

lemma flow_patch:
  assumes inv: "flowInv s" and cur: "cur \<in> set (fl_claims s)" and p: "rollbackCommand acc actor cur = Inr p"
  shows "flowInv (s\<lparr>fl_patches := p # fl_patches s\<rparr>)"
proof -
  have snap: "snapshotOk (dbOf s) cur" and claimed: "ro_RollbackStatus cur = ''running''" using inv cur by (auto simp: flowInv_def rollbackClaimed_def)
  then have ok: "ro_Status cur \<in> {''failed'', ''timed_out''}" "ro_AutoRollback cur" "equalFold (ro_ResourceKind cur) ''Deployment''"
    "ro_PreviousTemplate cur \<noteq> []" using snapshot_ok [OF snap] by (simp_all add: rolloutRowOk_def rollbackInFlight_def)
  obtain c where c: "map_of (rd_rollouts (dbOf s)) (ro_ID cur) = Some c" using snap by (auto simp: snapshotOk_def)
  have "linkOf c = linkOf cur" by (rule snapshot_link [OF snap c])
  moreover have "ro_Status c = ro_Status cur" using snap ok(1) c by (intro snapshot_closed) (auto simp: rolloutClosed_def)
  moreover have "rb_ActionID p = ro_ID cur" "rb_Template p = ro_PreviousTemplate cur" "rb_ClusterID p = ro_ClusterID cur"
    "rb_Namespace p = ro_Namespace cur" "rb_Name p = ro_ResourceName cur"
    using p by (auto simp: rollbackCommand_def Let_def split: if_split_asm option.split_asm sum.split_asm)
  ultimately have "patchOk (dbOf s) p" using ok c by (auto simp: patchOk_def linkOf_def)
  with inv show ?thesis by (simp add: flowInv_def)
qed


lemma flow_snap: "flowInv s \<Longrightarrow> r \<in> set (fl_rolls s) \<Longrightarrow> snapshotOk (dbOf s) r"
  by (simp add: flowInv_def)

lemma flow_finish:
  assumes inv: "flowInv s" and run: "(actor, act, linked) \<in> set (fl_runs s)"
    and f: "runApprovedFinish inp actor err act linked (fl_w s) = (res, w)"
  shows "flowInv (s\<lparr>fl_w := w, fl_runs := remove1 (actor, act, linked) (fl_runs s)\<rparr>) \<and> goodStep (dbOf s) (rw_db w)"
proof -
  have "runOk (dbOf s) (actor, act, linked)" using inv run by (simp add: flowInv_def)
  then have g: "goodStep (dbOf s) (rw_db w)" using f by (intro runFinish_good [OF flow_ledger [OF inv]]) (auto simp: runOk_def)
  from flow_db_change [OF inv this] show ?thesis using g set_remove1_subset [of "(actor, act, linked)" "fl_runs s"]
    by (auto simp: flowInv_def)
qed

lemma flow_reconcile:
  assumes inv: "flowInv s" and roll: "roll \<in> set (fl_rolls s)" and r: "reconcileRolloutContext env inp roll initiate (dbOf s) = (Inr (cur, p), db)"
  shows "flowInv (s\<lparr>fl_w := withDb db (fl_w s), fl_rolls := cur # fl_rolls s\<rparr>) \<and> goodStep (dbOf s) db"
proof -
  note g = reconcile_good [OF flow_ledger [OF inv] flow_snap [OF inv roll] r]
  have "flowInv (s\<lparr>fl_w := withDb db (fl_w s)\<rparr>)" using g(1) by (intro flow_db_change [OF inv]) simp
  then show ?thesis using g(1) g(2) [OF refl] by (simp add: flowInv_def)
qed

lemma flow_claim:
  assumes inv: "flowInv s" and roll: "roll \<in> set (fl_rolls s)" and c: "claimRollback inp roll (dbOf s) = (Inr (cur, True), db)"
  shows "flowInv (s\<lparr>fl_w := withDb db (fl_w s), fl_claims := cur # fl_claims s\<rparr>) \<and> goodStep (dbOf s) db"
proof -
  note g = claimRollback_good [OF flow_ledger [OF inv] flow_snap [OF inv roll] c]
  have "flowInv (s\<lparr>fl_w := withDb db (fl_w s)\<rparr>)" using g(1) by (intro flow_db_change [OF inv]) simp
  then show ?thesis using g(1) g(2) [OF refl] by (simp add: flowInv_def)
qed

lemma flow_finish_rollback:
  assumes inv: "flowInv s" and cur: "cur \<in> set (fl_claims s)" and f: "finishRollback env inp err cur (dbOf s) = (res, db)"
  shows "flowInv (s\<lparr>fl_w := withDb db (fl_w s), fl_claims := remove1 cur (fl_claims s)\<rparr>) \<and> goodStep (dbOf s) db"
proof -
  have "snapshotOk (dbOf s) cur" "rollbackClaimed cur" using inv cur by (auto simp: flowInv_def)
  from finishRollback_good(1) [OF flow_ledger [OF inv] this f] have g: "goodStep (dbOf s) db" .
  then have "flowInv (s\<lparr>fl_w := withDb db (fl_w s)\<rparr>)" by (intro flow_db_change [OF inv]) simp
  then show ?thesis using g set_remove1_subset [of cur "fl_claims s"] by (auto simp: flowInv_def)
qed

lemma flow_lease:
  assumes inv: "flowInv s" and t: "distinct (map fst t)"
  shows "flowInv (s\<lparr>fl_w := withDb ((dbOf s)\<lparr>rd_leases := t\<rparr>) (fl_w s)\<rparr>) \<and> goodStep (dbOf s) ((dbOf s)\<lparr>rd_leases := t\<rparr>)"
proof -
  have "goodStep (dbOf s) ((dbOf s)\<lparr>rd_leases := t\<rparr>)"
    by (rule good_silent [OF flow_ledger [OF inv]]) (use inv t in \<open>simp_all add: flowInv_def ledgerInv_def rollout_db_wf_def\<close>)
  then show ?thesis using flow_db_change [OF inv] by simp
qed

lemma flow_step:
  assumes inv: "flowInv s" and step: "rollout_step s s'"
  shows "flowInv s' \<and> goodStep (dbOf s) (dbOf s')"
proof -
  note led = flow_ledger [OF inv]
  note change = flow_db_change [OF inv]
  note still = goodStep_refl [OF led]
  have leases: "distinct (map fst (rd_leases (dbOf s)))" using led by (simp add: ledgerInv_def rollout_db_wf_def)
  have seen: "requestSeen (dbOf s) act" if "act \<in> set (fl_acts s)" for act using inv that by (simp add: flowInv_def)
  from step show ?thesis
  proof cases
    case (approve roll inp who adminID res w)
    then show ?thesis using approve_good [OF led] change by simp
  next
    case (begin_run act inp env actor linked c w)
    then show ?thesis using flow_begin [OF inv] runBegin_good [OF led _ seen] by simp
  next
    case (refuse_run act inp env actor e w)
    then show ?thesis using change runBegin_good [OF led _ seen] by simp
  next
    case (lease i owner now ttl ok t)
    then show ?thesis using flow_lease [OF inv] lease.valid_acquire [OF leases, of i owner now ttl] by simp
  qed (use still change postWorkloadRollout_good [OF led] postAction_good [OF led] decide_good [OF led] flow_read [OF inv]
      flow_readAction [OF inv] reject_handler_good [OF led flow_snap [OF inv]] flow_finish [OF inv] flow_reconcile [OF inv]
      reconcile_good(1) [OF led flow_snap [OF inv]] flow_claim [OF inv] claimRollback_good(1) [OF led flow_snap [OF inv]]
      flow_patch [OF inv] flow_finish_rollback [OF inv] sync_good [OF led flow_snap [OF inv]]
      flow_lease [OF inv] lease.valid_release [OF leases] in simp_all)
qed

lemma flow_start: "flowInv startFlow"
  by (simp add: flowInv_def startFlow_def emptyDb_def ledgerInv_def rollout_db_wf_def keyedBy_def uniqueBy_def rolloutIndexes_def
      oneActivePerTarget_def numberedEvents_def podsDistinct_def)

interpretation rollouts: row_system flowInv rollout_step "\<lambda>s. map_of (rd_rollouts (dbOf s))" rowMove
  by unfold_locales (auto dest: flow_step intro: goodStep_row)

lemma flow_reach: "rollout_step\<^sup>*\<^sup>* startFlow s \<Longrightarrow> flowInv s"
  using rollouts.inv_reach flow_start by blast

end
