(* ===== verification/Rollout_Scenario.thy ===== *)
theory Rollout_Scenario
  imports Rollout_Safety
begin

text \<open>
  One concrete run of the rollout subsystem, evaluated step by step: a request for a Deployment
  that needs no approval, its execution, a controller that never answers, the timeout, and the
  automatic rollback. The properties of the next theory are instantiated on its states. Times are
  written in unary, one character a second.
\<close>

definition sceneTarget :: K8sInventoryItem where
  "sceneTarget = emptyItem\<lparr>iv_ClusterID := ''c1'', iv_Kind := ''Deployment'', iv_Namespace := ''shop'', iv_Name := ''web'', iv_UID := ''u-1'',
     iv_Spec := [(''replicas'', GInt 2), (''template'', GMap [(''spec'', GMap [(''restartPolicy'', GStr ''Always'')])])],
     iv_StatusObject := Some [(''readyReplicas'', GInt 2), (''availableReplicas'', GInt 2), (''updatedReplicas'', GInt 2)],
     iv_ObservedAt := ''t''\<rparr>"

definition sceneEnv :: rollout_env where
  "sceneEnv = \<lparr>en_parse = (\<lambda>s. Some (int (length s) * secondNs)), en_format = (\<lambda>n. replicate (nat (n div secondNs)) (CHR ''t'')),
     en_hash = (\<lambda>m. concat (map fst m)), en_commandHash = (\<lambda>c n k m a p. n @ ''/'' @ m), en_sprint = asString,
     en_item = (\<lambda>c k n m. if m = ''web'' then Inr sceneTarget else Inl ErrNotFound), en_inventory = (\<lambda>c. Inr [sceneTarget]),
     en_pods = (\<lambda>c n. []), en_lifecycle = (\<lambda>p. ([], [], []))\<rparr>"

definition sceneBody :: rolloutRequestInput where
  "sceneBody = \<lparr>ri_ClusterID = ''c1'', ri_Namespace = ''shop'', ri_Kind = ''deployments'', ri_Name = ''web'', ri_Reason = ''new secret'',
     ri_TicketNo = [], ri_ExecutionMode = [], ri_AutoRollback = True, ri_TimeoutSeconds = 5\<rparr>"

definition sceneAccess :: cluster_access where
  "sceneAccess = \<lparr>ca_cluster = None, ca_client = None, ca_canReadLive = True,
     ca_live = Inr [(''metadata'', GMap [(''uid'', GStr ''u-1'')])], ca_canRollback = True\<rparr>"

text \<open>The pass that starts in second \<open>n\<close>; its identifiers carry the letter \<open>c\<close>.\<close>

definition scenePass :: "nat \<Rightarrow> char \<Rightarrow> pass_input" where
  "scenePass n c = \<lparr>pi_now = int n * secondNs, pi_stamp = (\<lambda>_. replicate n (CHR ''t'')), pi_id = (\<lambda>k. c # replicate k (CHR ''i'')),
     pi_client = None, pi_exec = (\<lambda>_. None), pi_access = sceneAccess, pi_patch = (\<lambda>_. None)\<rparr>"

definition sceneOperator :: rollout_identity where
  "sceneOperator = \<lparr>id_mcp = None, id_claims = Some (''operator'', [''rollout:request'', ''rollout:execute'', ''rollout:approve'']), id_open = False\<rparr>"

section \<open>The run\<close>

text \<open>The handlers' results in their order, each computed from the one before it: the request, the
  claim of the restart, its answer, the pass that notices the timeout, and the claim of the rollback.\<close>

definition ranRequest :: "(http_error + rollout_reply) \<times> rollout_world" where
  "ranRequest = postWorkloadRollout sceneEnv (scenePass 1 (CHR ''a'')) True sceneOperator ''ann'' ''k1'' (Some sceneBody) (fl_w startFlow)"

definition actionIn :: "rollout_world \<Rightarrow> K8sActionRequest" where
  "actionIn w = projr (GetK8sActionRequest ''a'' (rd_actions (rw_db w)))"

definition rolloutIn :: "rollout_world \<Rightarrow> K8sRolloutAction" where
  "rolloutIn w = projr (GetK8sRolloutAction ''ai'' (rw_db w))"

definition ranBegin :: "(http_error + K8sRolloutAction option \<times> (string + cluster_command)) \<times> K8sActionRequest \<times> rollout_world" where
  "ranBegin = (let w = snd ranRequest; a = actionIn w; (res, w') = runApprovedBegin sceneEnv (scenePass 2 (CHR ''b'')) ''ann'' a w in (res, a, w'))"

definition ranFinish :: "(http_error + string \<times> string \<times> string option) \<times> rollout_world" where
  "ranFinish = (let (res, a, w) = ranBegin in runApprovedFinish (scenePass 3 (CHR ''d'')) ''ann'' None a (fst (projr res)) w)"

definition ranReconcile :: "(store_error + K8sRolloutAction \<times> bool) \<times> rollout_db" where
  "ranReconcile = (let w = snd ranFinish in reconcileRolloutContext sceneEnv (scenePass 9 (CHR ''e'')) (rolloutIn w) True (rw_db w))"

definition ranClaim :: "(store_error + K8sRolloutAction \<times> bool) \<times> rollout_db" where
  "ranClaim = (let (res, db) = ranReconcile in claimRollback (scenePass 10 (CHR ''f'')) (fst (projr res)) db)"

text \<open>The states of the run.\<close>

definition sceneRequested :: flow where
  "sceneRequested = startFlow\<lparr>fl_w := snd ranRequest\<rparr>"

definition sceneAction :: K8sActionRequest where
  "sceneAction = actionIn (snd ranRequest)"

definition sceneRead :: flow where
  "sceneRead = sceneRequested\<lparr>fl_acts := sceneAction # fl_acts sceneRequested\<rparr>"

definition sceneLinked :: "K8sRolloutAction option" where
  "sceneLinked = fst (projr (fst ranBegin))"

definition sceneCommand :: "string + cluster_command" where
  "sceneCommand = snd (projr (fst ranBegin))"

definition sceneRunning :: flow where
  "sceneRunning = sceneRead\<lparr>fl_w := snd (snd ranBegin), fl_runs := (''ann'', sceneAction, sceneLinked) # fl_runs sceneRead,
     fl_restarts := fl_restarts sceneRead @ restartOf (sceneLinked, sceneCommand)\<rparr>"

definition sceneMonitored :: flow where
  "sceneMonitored = sceneRunning\<lparr>fl_w := snd ranFinish, fl_runs := remove1 (''ann'', sceneAction, sceneLinked) (fl_runs sceneRunning)\<rparr>"

definition sceneRollout :: K8sRolloutAction where
  "sceneRollout = rolloutIn (snd ranFinish)"

definition sceneSeen :: flow where
  "sceneSeen = sceneMonitored\<lparr>fl_rolls := sceneRollout # fl_rolls sceneMonitored\<rparr>"

definition sceneOverdue :: K8sRolloutAction where
  "sceneOverdue = fst (projr (fst ranReconcile))"

definition sceneTimedOut :: flow where
  "sceneTimedOut = sceneSeen\<lparr>fl_w := withDb (snd ranReconcile) (fl_w sceneSeen), fl_rolls := sceneOverdue # fl_rolls sceneSeen\<rparr>"

definition sceneClaim :: K8sRolloutAction where
  "sceneClaim = fst (projr (fst ranClaim))"

definition sceneClaimed :: flow where
  "sceneClaimed = sceneTimedOut\<lparr>fl_w := withDb (snd ranClaim) (fl_w sceneTimedOut), fl_claims := sceneClaim # fl_claims sceneTimedOut\<rparr>"

definition scenePatch :: rollback_patch where
  "scenePatch = projr (rollbackCommand sceneAccess ''system:w'' sceneClaim)"

definition scenePatched :: flow where
  "scenePatched = sceneClaimed\<lparr>fl_patches := scenePatch # fl_patches sceneClaimed\<rparr>"

section \<open>Its states are reachable\<close>

lemma inr_projr: "\<not> isl x \<Longrightarrow> x = Inr (projr x)"
  by (cases x) simp_all

lemma inr_pair: "\<not> isl (fst p) \<Longrightarrow> p = (Inr (fst (projr (fst p)), snd (projr (fst p))), snd p)"
  by (cases p) (auto simp: inr_projr [symmetric])

lemma scene_input: "inputOk (scenePass (Suc n) c)"
  by (simp add: inputOk_def scenePass_def)

lemma scene_requested: "rollout_step startFlow sceneRequested"
proof -
  have "inputOk (scenePass 1 (CHR ''a''))" using scene_input [of 0 "CHR ''a''"] by simp
  then show ?thesis unfolding sceneRequested_def ranRequest_def by (rule rollout_step.request [OF _ surjective_pairing])
qed

lemma scene_read: "rollout_step sceneRequested sceneRead"
proof -
  have "\<not> isl (GetK8sActionRequest ''a'' (rd_actions (rw_db (snd ranRequest))))" by code_simp
  then show ?thesis unfolding sceneRead_def sceneAction_def actionIn_def
    by (intro rollout_step.readAction) (simp add: sceneRequested_def inr_projr [symmetric])
qed

lemma scene_begin:
  "runApprovedBegin sceneEnv (scenePass 2 (CHR ''b'')) ''ann'' sceneAction (fl_w sceneRead) = (Inr (sceneLinked, sceneCommand), snd (snd ranBegin))"
proof -
  let ?b = "runApprovedBegin sceneEnv (scenePass 2 (CHR ''b'')) ''ann'' sceneAction (fl_w sceneRead)"
  have split: "ranBegin = (fst ?b, sceneAction, snd ?b)"
    by (simp add: ranBegin_def Let_def sceneAction_def sceneRead_def sceneRequested_def split: prod.split)
  have "\<not> isl (fst ranBegin)" by code_simp
  then show ?thesis unfolding sceneLinked_def sceneCommand_def using inr_pair [of ?b] by (simp add: split)
qed

lemma scene_running: "rollout_step sceneRead sceneRunning"
  unfolding sceneRunning_def using scene_input [of 1 "CHR ''b''"]
  by (intro rollout_step.begin_run [OF _ _ scene_begin]) (simp_all add: sceneRead_def numeral_2_eq_2)

lemma scene_monitored: "rollout_step sceneRunning sceneMonitored"
proof -
  have "fst (snd ranBegin) = sceneAction" by (simp add: ranBegin_def Let_def sceneAction_def split: prod.split)
  then have "runApprovedFinish (scenePass 3 (CHR ''d'')) ''ann'' None sceneAction sceneLinked (fl_w sceneRunning) = (fst ranFinish, snd ranFinish)"
    by (simp add: ranFinish_def sceneRunning_def sceneLinked_def case_prod_unfold)
  then show ?thesis unfolding sceneMonitored_def by (rule rollout_step.finish_run [rotated]) (simp add: sceneRunning_def)
qed

lemma scene_seen: "rollout_step sceneMonitored sceneSeen"
proof -
  have "\<not> isl (GetK8sRolloutAction ''ai'' (rw_db (snd ranFinish)))" by code_simp
  then show ?thesis unfolding sceneSeen_def sceneRollout_def rolloutIn_def
    by (intro rollout_step.read) (simp add: sceneMonitored_def inr_projr [symmetric])
qed

lemma scene_timed_out: "rollout_step sceneSeen sceneTimedOut"
proof -
  have "\<not> isl (fst ranReconcile)" by code_simp
  then have "ranReconcile = (Inr (sceneOverdue, snd (projr (fst ranReconcile))), snd ranReconcile)"
    unfolding sceneOverdue_def by (rule inr_pair)
  moreover have "reconcileRolloutContext sceneEnv (scenePass 9 (CHR ''e'')) sceneRollout True (dbOf sceneSeen) = ranReconcile"
    by (simp add: ranReconcile_def Let_def sceneSeen_def sceneMonitored_def sceneRollout_def)
  ultimately have "reconcileRolloutContext sceneEnv (scenePass 9 (CHR ''e'')) sceneRollout True (dbOf sceneSeen) =
      (Inr (sceneOverdue, snd (projr (fst ranReconcile))), snd ranReconcile)" by simp
  then show ?thesis unfolding sceneTimedOut_def by (rule rollout_step.reconcile [rotated]) (simp add: sceneSeen_def)
qed

lemma scene_claimed: "rollout_step sceneTimedOut sceneClaimed"
proof -
  have "\<not> isl (fst ranClaim)" "snd (projr (fst ranClaim))" by code_simp+
  then have "ranClaim = (Inr (sceneClaim, True), snd ranClaim)" using inr_pair [of ranClaim] by (simp add: sceneClaim_def)
  moreover have "claimRollback (scenePass 10 (CHR ''f'')) sceneOverdue (dbOf sceneTimedOut) = ranClaim"
    by (simp add: ranClaim_def sceneTimedOut_def sceneOverdue_def case_prod_unfold)
  ultimately have "claimRollback (scenePass 10 (CHR ''f'')) sceneOverdue (dbOf sceneTimedOut) = (Inr (sceneClaim, True), snd ranClaim)" by simp
  then show ?thesis unfolding sceneClaimed_def by (rule rollout_step.claim [rotated]) (simp add: sceneTimedOut_def)
qed

lemma scene_patch: "rollbackCommand sceneAccess ''system:w'' sceneClaim = Inr scenePatch"
proof -
  have "\<not> isl (rollbackCommand sceneAccess ''system:w'' sceneClaim)" by code_simp
  then show ?thesis unfolding scenePatch_def by (rule inr_projr)
qed

lemma scene_patched: "rollout_step sceneClaimed scenePatched"
  unfolding scenePatched_def by (rule rollout_step.patch [OF _ scene_patch]) (simp add: sceneClaimed_def)

lemmas scene_steps = scene_requested scene_read scene_running scene_monitored scene_seen scene_timed_out scene_claimed scene_patched

lemma scene_reach_read: "rollout_step\<^sup>*\<^sup>* startFlow sceneRequested" "rollout_step\<^sup>*\<^sup>* startFlow sceneRead"
  by (meson scene_steps rtranclp.rtrancl_into_rtrancl rtranclp.rtrancl_refl)+

lemma scene_reach_claimed: "rollout_step\<^sup>*\<^sup>* sceneRequested sceneClaimed" "rollout_step\<^sup>*\<^sup>* startFlow sceneClaimed"
  "rollout_step\<^sup>*\<^sup>* startFlow scenePatched"
proof -
  show "rollout_step\<^sup>*\<^sup>* sceneRequested sceneClaimed"
    by (meson scene_steps rtranclp.rtrancl_into_rtrancl rtranclp.rtrancl_refl)
  with scene_reach_read(1) show "rollout_step\<^sup>*\<^sup>* startFlow sceneClaimed" by (rule rtranclp_trans)
  then show "rollout_step\<^sup>*\<^sup>* startFlow scenePatched" using scene_patched by (rule rtranclp.rtrancl_into_rtrancl)
qed

lemma scene_rows:
  "map (\<lambda>(k, r). (k, ro_Status r, ro_RollbackStatus r)) (rd_rollouts (rw_db (snd ranRequest))) = [(''ai'', ''approved'', [])]"
  "map (\<lambda>(k, r). (k, ro_Status r, ro_RollbackStatus r)) (rd_rollouts (snd ranClaim)) = [(''ai'', ''timed_out'', ''running'')]"
  "restartOf (projr (fst ranBegin)) = [''ai'']"
  by code_simp+

end
