(* ===== verification/Rollout_Worker.thy ===== *)
theory Rollout_Worker
  imports Rollout_Scenario
begin

text \<open>
  One pass of the reconcile worker over a row it has just read and that nobody else changes
  meanwhile: its conditional writes succeed, an overdue rollout is closed, a rollback it owes is
  claimed, sent and recorded, and the action request of a finished rollout is settled.
\<close>

section \<open>Conditional writes of a fresh row\<close>

lemma shrink_active:
  assumes "list_all2 (\<lambda>x y. key y = key x \<and> (act y \<longrightarrow> act x)) xs ys"
  shows "set (map key (filter act ys)) \<subseteq> set (map key (filter act xs)) \<and> (distinct (map key (filter act xs)) \<longrightarrow> distinct (map key (filter act ys)))"
  using assms by (induction rule: list_all2_induct) auto

lemma updateWhere_rows:
  "(\<And>r. (k, r) \<in> set t \<Longrightarrow> guard r \<Longrightarrow> R r (f r)) \<Longrightarrow> (\<And>r. R r r) \<Longrightarrow> list_all2 R (map snd t) (map snd (updateWhere k guard f t))"
  by (induction k guard f t rule: updateWhere.induct) auto

lemma update_keeps_lock:
  assumes "keyedBy ro_ID t" and "oneActivePerTarget t" and "map_of t k = Some r"
    and "targetKey (f r) = targetKey r" and "k8sRolloutActiveTargetPredicate (f r) \<Longrightarrow> k8sRolloutActiveTargetPredicate r"
  shows "oneActivePerTarget (updateWhere k guard f t)"
proof -
  let ?R = "\<lambda>x y. targetKey y = targetKey x \<and> (k8sRolloutActiveTargetPredicate y \<longrightarrow> k8sRolloutActiveTargetPredicate x)"
  have "q = r" if "(k, q) \<in> set t" for q using assms(1,3) that by (simp add: keyedBy_def)
  then have "list_all2 ?R (map snd t) (map snd (updateWhere k guard f t))" using assms(4,5) by (intro updateWhere_rows) auto
  from shrink_active [OF this] assms(2) show ?thesis unfolding oneActivePerTarget_def by blast
qed

definition holdsLock :: "K8sRolloutAction \<Rightarrow> bool" where
  "holdsLock b \<longleftrightarrow> (ro_ResourceUID b \<noteq> [] \<longrightarrow> k8sRolloutActiveTargetPredicate b)"

lemma lock_progress: "holdsLock b \<Longrightarrow> k8sRolloutActiveTargetPredicate (setProgress ts a b) \<Longrightarrow> k8sRolloutActiveTargetPredicate b"
  by (simp add: holdsLock_def k8sRolloutActiveTargetPredicate_def setProgress_def)

lemma persist_fresh:
  assumes inv: "ledgerInv db" and b: "map_of (rd_rollouts db) (ro_ID b) = Some b" and started: "ro_StartedAt b \<noteq> []"
    and move: "progressMove b a" and lock: "holdsLock b" and guard: "rolloutClosed (ro_Status b) \<Longrightarrow> ro_Status a = ro_Status b"
  obtains db' where "persistRolloutCAS ts b a db = (Inr True, db')" and "ledgerInv db'"
    and "map_of (rd_rollouts db') (ro_ID b) = Some (setProgress ts a b)" and "rd_actions db' = rd_actions db" and "rd_leases db' = rd_leases db"
proof -
  have id: "ro_ID a = ro_ID b" using move by (simp add: progressMove_def identityOf_def)
  let ?g = "casGuard a (ro_Status b) (ro_RollbackStatus b) (ro_UpdatedAt b)"
  let ?t = "updateWhere (ro_ID b) ?g (setProgress ts a) (rd_rollouts db)"
  have g: "?g b" using guard by (auto simp: casGuard_def)
  have "oneActivePerTarget ?t"
    by (rule update_keeps_lock [OF _ _ b]) (use inv lock_progress [OF lock] in
      \<open>auto simp: ledgerInv_def rollout_db_wf_def rolloutIndexes_def targetKey_def setProgress_def\<close>)
  moreover have "uniqueBy ro_ActionRequestID ?t" using inv
    by (simp add: uniqueBy_updateWhere ledgerInv_def rollout_db_wf_def rolloutIndexes_def)
  ultimately have "UpdateK8sRolloutProgressCAS ts a (ro_Status b) (ro_RollbackStatus b) (ro_UpdatedAt b) db = (Inr True, db\<lparr>rd_rollouts := ?t\<rparr>)"
    using b g by (simp add: UpdateK8sRolloutProgressCAS_def Let_def id affected_iff storeRollouts_def rolloutIndexes_def)
  then have cas: "persistRolloutCAS ts b a db = (Inr True, db\<lparr>rd_rollouts := ?t\<rparr>)"
    using b by (cases "ro_UpdatedAt b = []") (simp_all add: persistRolloutCAS_def GetK8sRolloutAction_def getRow_def)
  from cas_good [OF inv snapshot_current [OF inv b] started move cas] b
  have "ledgerInv (db\<lparr>rd_rollouts := ?t\<rparr>)" "map_of (rd_rollouts (db\<lparr>rd_rollouts := ?t\<rparr>)) (ro_ID b) = Some (setProgress ts a b)"
    by (auto dest: goodStep_inv)
  with cas that [of "db\<lparr>rd_rollouts := ?t\<rparr>"] show thesis by simp
qed

section \<open>The timeout\<close>

lemma wrap64_small: "0 \<le> x \<Longrightarrow> x < 2 ^ 63 \<Longrightarrow> wrap64 x = x"
  by (simp add: wrap64_def)

lemma overdue_duration:
  assumes "parseRolloutTime env (ro_StartedAt r) = Some start" and "0 < ro_TimeoutSeconds r" and "ro_TimeoutSeconds r * 1000 < 2 ^ 63"
    and "now - start \<ge> (ro_TimeoutSeconds r * 1000 + 1) * 1000000"
  shows "rolloutTimedOut (measureDuration env now r)"
proof -
  have "(now - start) div 1000000 \<ge> ro_TimeoutSeconds r * 1000 + 1" using zdiv_mono1 [OF assms(4), of 1000000] by simp
  moreover have "now - start > 0" using assms(2,4) by simp
  ultimately show ?thesis using assms(1-3) by (simp add: measureDuration_def rolloutTimedOut_def wrap64_small)
qed

lemma close_overdue:
  assumes "\<not> rolloutTerminal (ro_Status r)" and "parseRolloutTime env (ro_StartedAt r) \<noteq> None" and "rolloutTimedOut r"
  shows "ro_Status (closeRollout env now target ob r) \<in> {''failed'', ''timed_out''}"
  using assms by (simp add: closeRollout_def Let_def)

lemma advance_overdue:
  assumes "\<not> rolloutTerminal (ro_Status r)" and "parseRolloutTime env (ro_StartedAt r) = Some start" and "0 < ro_TimeoutSeconds r"
    and "ro_TimeoutSeconds r * 1000 < 2 ^ 63" and "now - start \<ge> (ro_TimeoutSeconds r * 1000 + 1) * 1000000"
  shows "ro_Status (fst (advanceRollout env now target r)) \<in> {''failed'', ''timed_out''}"
proof -
  obtain r1 ob where r1: "(case target of None \<Rightarrow> (r, noObservation) | Some t \<Rightarrow> measureTarget env t r) = (r1, ob)"
    by (cases "case target of None \<Rightarrow> (r, noObservation) | Some t \<Rightarrow> measureTarget env t r")
  then have "r1 = r \<or> (\<exists>t. r1 = fst (measureTarget env t r))" by (cases target) (auto simp: eq_fst_iff)
  then have same: "identityOf r1 = identityOf r" "ro_Status r1 = ro_Status r" using measureTarget_facts [of env _ r] by auto
  then have "rolloutTimedOut (measureDuration env now r1)" using assms(2-5) by (intro overdue_duration) (auto simp: identityOf_def)
  moreover have "ro_StartedAt (measureDuration env now r1) = ro_StartedAt r" using same measureDuration_facts(1) [of env now r1] by (simp add: identityOf_def)
  ultimately have "ro_Status (closeRollout env now target ob (measureDuration env now r1)) \<in> {''failed'', ''timed_out''}"
    using assms(1,2) same by (intro close_overdue) (simp_all add: measureDuration_facts)
  then show ?thesis using r1 by (simp add: advanceRollout_def planRollback_facts watchRollback_facts)
qed

section \<open>One pass\<close>

text \<open>The inventory answers, or knows that the target is gone.\<close>

definition targetReadable :: "rollout_env \<Rightarrow> K8sRolloutAction \<Rightarrow> bool" where
  "targetReadable env r \<longleftrightarrow>
     (case en_item env (ro_ClusterID r) (ro_ResourceKind r) (ro_Namespace r) (ro_ResourceName r) of Inl e \<Rightarrow> e = ErrNotFound | Inr _ \<Rightarrow> True)"

text \<open>A finished row as the pass left it.\<close>

definition closedRow :: "rollout_db \<Rightarrow> K8sRolloutAction \<Rightarrow> K8sRolloutAction \<Rightarrow> bool" where
  "closedRow db r c \<longleftrightarrow> ledgerInv db \<and> map_of (rd_rollouts db) (ro_ID r) = Some c \<and> linkOf c = linkOf r \<and> ro_Status c \<in> {''failed'', ''timed_out''}"

lemma linkOf_ID: "linkOf c = linkOf r \<Longrightarrow> ro_ID c = ro_ID r"
  by (simp add: linkOf_def)

lemma reconcile_overdue:
  assumes inv: "ledgerInv db" and r: "map_of (rd_rollouts db) (ro_ID r) = Some r" "ro_Status r \<in> {''running'', ''monitoring''}"
    and start: "parseRolloutTime env (ro_StartedAt r) = Some start" and limit: "0 < ro_TimeoutSeconds r" "ro_TimeoutSeconds r * 1000 < 2 ^ 63"
    and late: "pi_now inp - start \<ge> (ro_TimeoutSeconds r * 1000 + 1) * 1000000" and item: "targetReadable env r"
  obtains c due db' where "reconcileRolloutContext env inp r initiate db = (Inr (c, due), db')" and "closedRow db' r c"
    and "rd_actions db' = rd_actions db" and "due \<longrightarrow> ro_RollbackStatus c = ''requested''"
proof -
  have ok: "rolloutRowOk r" using ledger_row [OF inv r(1)] by simp
  have opn: "\<not> rolloutTerminal (ro_Status r)" "\<not> rolloutClosed (ro_Status r)" using r(2) by (auto simp: rolloutTerminal_def rolloutClosed_def)
  have started: "ro_StartedAt r \<noteq> []" using start by (auto simp: parseRolloutTime_def trimSpace_def)
  have rb: "ro_RollbackStatus r = []" using r(2) by (intro rowOk_no_rollback [OF ok]) auto
  have due: "rolloutReconcileDue r" using started opn by (simp add: reconcileDue_iff)
  have claim: "reopenClaim env (pi_now inp) r = Some r" using rb by (simp add: reopenClaim_def)
  obtain target where target: "(case en_item env (ro_ClusterID r) (ro_ResourceKind r) (ro_Namespace r) (ro_ResourceName r) of
      Inr t \<Rightarrow> Inr (Some t) | Inl ErrNotFound \<Rightarrow> Inr None | Inl e \<Rightarrow> Inl e) = Inr target"
    using item by (auto simp: targetReadable_def split: sum.splits)
  define db1 where "db1 = (case target of None \<Rightarrow> db | Some t \<Rightarrow> recordRolloutPods env (pi_stamp inp 0) r t db)"
  have db1: "rd_actions db1 = rd_actions db" "rd_rollouts db1 = rd_rollouts db" "rd_leases db1 = rd_leases db" "ledgerInv db1"
    using pods_silent [of env "pi_stamp inp 0" r _ db] inv by (auto simp: db1_def ledgerInv_def split: option.split)
  obtain a ob where a: "advanceRollout env (pi_now inp) target r = (a, ob)" by (cases "advanceRollout env (pi_now inp) target r")
  have move: "progressMove r a" using advance_moves [OF claim, of target] a by simp
  have lock: "holdsLock r" using r(2) by (auto simp: holdsLock_def k8sRolloutActiveTargetPredicate_def primaryInFlight_def)
  have st: "ro_Status a \<in> {''failed'', ''timed_out''}" using advance_overdue [OF opn(1) start limit late, of target] a by simp
  obtain db2 where db2: "persistRolloutCAS (pi_stamp inp 1) r a db1 = (Inr True, db2)" "ledgerInv db2"
    "map_of (rd_rollouts db2) (ro_ID r) = Some (setProgress (pi_stamp inp 1) a r)" "rd_actions db2 = rd_actions db1" "rd_leases db2 = rd_leases db1"
    by (rule persist_fresh [OF db1(4) _ started move lock]) (use r(1) db1(2) opn(2) in auto)
  define c where "c = setProgress (pi_stamp inp 1) a r"
  define db3 where "db3 = logTransitions env inp ob (case target of None \<Rightarrow> emptyItem | Some t \<Rightarrow> t) r c db2"
  have rec: "reconcileRolloutContext env inp r initiate db = (Inr (c, initiate \<and> ((ro_RollbackStatus r = [] \<and> ro_RollbackStatus a = ''requested'') \<or>
      ro_RollbackStatus c = ''requested'')), db3)"
    unfolding reconcileRolloutContext_def using due claim target a db2 unfolding db1_def [symmetric]
    by (simp add: Let_def db1_def [symmetric] GetK8sRolloutAction_def getRow_def c_def db3_def)
  have "goodStep db2 db3" unfolding db3_def by (rule logTransitions_good [OF goodStep_refl [OF db2(2)]])
  then have "closedRow db3 r c" using db2(3) st goodStep_inv
    by (auto simp: closedRow_def db3_def logTransitions_rows c_def)
  then show thesis by (rule that [OF rec]) (use db2 db1 in \<open>auto simp: db3_def logTransitions_rows c_def\<close>)
qed

lemma event_ledger: "ledgerInv db \<Longrightarrow> ledgerInv (logEvent ts e db)"
  by (rule goodStep_inv [OF logEvent_good [OF goodStep_refl]])

text \<open>A write of a finished row with a rollback in flight, as both halves of the rollback do it.\<close>

lemma rollback_write:
  assumes c: "closedRow db r c" and fly: "rollbackInFlight (ro_RollbackStatus c)" and move: "progressMove c a" and same: "ro_Status a = ro_Status c"
  obtains db' where "persistRolloutCAS ts c a db = (Inr True, db')" and "closedRow db' r (setProgress ts a c)" and "rd_actions db' = rd_actions db"
    and "GetK8sRolloutAction (ro_ID c) db' = Inr (setProgress ts a c)"
proof -
  have inv: "ledgerInv db" and row: "map_of (rd_rollouts db) (ro_ID c) = Some c" and id: "ro_ID c = ro_ID r" and link: "linkOf c = linkOf r"
    and st: "ro_Status c \<in> {''failed'', ''timed_out''}" using c linkOf_ID [of c r] by (auto simp: closedRow_def)
  have started: "ro_StartedAt c \<noteq> []" using ledger_row [OF inv row] fly by (intro inflight_started) auto
  have lock: "holdsLock c" using fly by (simp add: holdsLock_def k8sRolloutActiveTargetPredicate_def)
  obtain db' where db': "persistRolloutCAS ts c a db = (Inr True, db')" "ledgerInv db'"
    "map_of (rd_rollouts db') (ro_ID c) = Some (setProgress ts a c)" "rd_actions db' = rd_actions db"
    by (rule persist_fresh [OF inv row started move lock]) (use same in auto)
  with link st same id show thesis by (intro that [OF db'(1)]) (simp_all add: closedRow_def GetK8sRolloutAction_def getRow_def)
qed

lemma closedRow_event: "closedRow db r c \<Longrightarrow> closedRow (logEvent ts e db) r c"
  by (simp add: closedRow_def event_ledger logEvent_silent)

lemma rollback_pass:
  assumes c: "closedRow db r c" and req: "ro_RollbackStatus c = ''requested''"
  obtains fin db' where "requestAutoRollback env inp actor c db = (Inr fin, db')" and "closedRow db' r fin" and "rd_actions db' = rd_actions db"
proof -
  let ?a = "c\<lparr>ro_RollbackStatus := ''running'', ro_RollbackCompletedAt := []\<rparr>"
  obtain db1 where db1: "persistRolloutCAS (pi_stamp inp 3) c ?a db = (Inr True, db1)" "closedRow db1 r (setProgress (pi_stamp inp 3) ?a c)"
    "rd_actions db1 = rd_actions db" "GetK8sRolloutAction (ro_ID c) db1 = Inr (setProgress (pi_stamp inp 3) ?a c)"
    by (rule rollback_write [OF c _ claim_move [OF req]]) (simp_all add: req rollbackInFlight_def)
  define c1 where "c1 = setProgress (pi_stamp inp 3) ?a c"
  obtain ts e where claim: "claimRollback inp c db = (Inr (c1, True), logEvent ts e db1)"
    using db1 req by (simp add: claimRollback_def c1_def)
  define db2 where "db2 = logEvent ts e db1"
  have c1: "closedRow db2 r c1" "rd_actions db2 = rd_actions db" unfolding db2_def c1_def using closedRow_event [OF db1(2)] db1(3)
    by (simp_all add: logEvent_silent)
  have claimed: "rollbackClaimed c1" by (simp add: rollbackClaimed_def c1_def)
  define err where "err = (case rollbackCommand (pi_access inp) actor c1 of Inl e \<Rightarrow> Some e | Inr p \<Rightarrow> pi_patch inp p)"
  obtain db3 where db3: "persistRolloutCAS (pi_stamp inp 5) c1 (rollbackResult env (pi_now inp) err c1) db2 = (Inr True, db3)"
    "closedRow db3 r (setProgress (pi_stamp inp 5) (rollbackResult env (pi_now inp) err c1) c1)" "rd_actions db3 = rd_actions db2"
    "GetK8sRolloutAction (ro_ID c1) db3 = Inr (setProgress (pi_stamp inp 5) (rollbackResult env (pi_now inp) err c1) c1)"
    by (rule rollback_write [OF c1(1) _ result_move [OF claimed]])
      (use claimed in \<open>simp_all add: rollbackClaimed_def rollbackInFlight_def rollbackResult_def split: option.split\<close>)
  obtain ts' e' where "finishRollback env inp err c1 db2 =
      (Inr (setProgress (pi_stamp inp 5) (rollbackResult env (pi_now inp) err c1) c1), logEvent ts' e' db3)"
    using db3 by (simp add: finishRollback_def)
  then have "requestAutoRollback env inp actor c db =
      (Inr (setProgress (pi_stamp inp 5) (rollbackResult env (pi_now inp) err c1) c1), logEvent ts' e' db3)"
    unfolding requestAutoRollback_def claim db2_def err_def by simp
  then show thesis by (rule that) (use closedRow_event [OF db3(2)] db3(3) c1(2) in \<open>simp_all add: logEvent_silent\<close>)
qed

text \<open>The request of a finished rollout leaves the running state.\<close>

definition settled :: "rollout_db \<Rightarrow> K8sRolloutAction \<Rightarrow> bool" where
  "settled db r \<longleftrightarrow> (\<exists>c a. map_of (rd_rollouts db) (ro_ID r) = Some c \<and> ro_Status c \<in> {''failed'', ''timed_out''} \<and>
     map_of (rd_actions db) (ro_ActionRequestID r) = Some a \<and> ac_Status a \<in> {''executed'', ''failed''})"

lemma confirm_readable:
  assumes "targetReadable env r"
  obtains seen where "mutationConfirmed env r = Inr seen"
  using assms by (cases "en_item env (ro_ClusterID r) (ro_ResourceKind r) (ro_Namespace r) (ro_ResourceName r)")
    (auto simp: targetReadable_def mutationConfirmed_def Let_def)

lemma settle_running:
  assumes "map_of (rd_actions (rw_db w)) i = Some a" and "ac_Status a = ''running''"
  obtains w' b where "settleAction ts roll i seen w = (None, w')" and "rd_rollouts (rw_db w') = rd_rollouts (rw_db w)"
    and "map_of (rd_actions (rw_db w')) i = Some b" and "ac_Status b \<in> {''executed'', ''failed''}"
proof -
  define st where "st = (if seen then ''executed'' else ''failed'')"
  define result where "result = (if seen then ''rollout mutation confirmed by inventory/controller evidence ('' @ ro_Status roll @ '')''
    else ''rollout mutation could not be confirmed: '' @ firstNonEmpty [ro_FailureReason roll, ro_Status roll])"
  have st: "st \<in> {''executed'', ''failed''}" by (simp add: st_def)
  let ?f = "setActionStatus ts st ''system:rollout-reconciler'' result"
  let ?u = "guardedUpdate i (\<lambda>a. actionAllowedFrom st (ac_Status a)) ?f (rd_actions (rw_db w))"
  have allowed: "actionAllowedFrom st (ac_Status a)" using st assms(2) by (auto simp: actionAllowedFrom_def)
  have ok: "fst ?u = Inr (?f a)" using assms(1) allowed by (auto simp: guardedUpdate_ok)
  have row: "map_of (snd ?u) i = Some (?f a)" using assms(1) allowed by (simp add: guardedUpdate_table)
  have up: "UpdateK8sActionStatus ts i st ''system:rollout-reconciler'' result (rd_actions (rw_db w)) = (Inr (?f a), snd ?u)"
    using ok st by (auto simp: UpdateK8sActionStatus_def actionStatuses_def prod_eq_iff)
  have "settleAction ts roll i seen w = (None, w\<lparr>rw_db := (rw_db w)\<lparr>rd_actions := snd ?u\<rparr>,
      rw_services := UpdateK8sServiceOperationsByRequestID ts i st result (rw_services w)\<rparr>)"
    unfolding settleAction_def Let_def st_def [symmetric] result_def [symmetric] up by simp
  then show thesis by (rule that) (use row st in \<open>auto simp: setActionStatus_def Let_def\<close>)
qed

lemma sync_settles:
  assumes c: "closedRow (rw_db w) r c" and item: "targetReadable env r"
  obtains w' where "syncRolloutActionRequest env ts c w = (None, w')" and "settled (rw_db w') r"
proof -
  have inv: "ledgerInv (rw_db w)" and row: "map_of (rd_rollouts (rw_db w)) (ro_ID r) = Some c" and link: "linkOf c = linkOf r"
    and st: "ro_Status c \<in> {''failed'', ''timed_out''}" using c by (auto simp: closedRow_def)
  have req: "ro_ActionRequestID c = ro_ActionRequestID r" "targetReadable env c" using link item by (simp_all add: linkOf_def targetReadable_def)
  from ledger_row [OF inv row] obtain a where a: "map_of (rd_actions (rw_db w)) (ro_ActionRequestID r) = Some a" "pairStatus (ac_Status a) (ro_Status c)"
    and ok: "rolloutRowOk c" by (auto simp: linkedOk_def req)
  have key: "ac_ID a = ro_ActionRequestID r" using inv a(1) keyedBy_key by (fastforce simp: ledgerInv_def rollout_db_wf_def)
  have ended: "rolloutTerminal (ro_Status c)" "ro_ActionRequestID c \<noteq> []" using st rowOk_request [OF ok] by (auto simp: rolloutTerminal_def)
  obtain seen where seen: "mutationConfirmed env c = Inr seen" by (rule confirm_readable [OF req(2)])
  show thesis
  proof (cases "ac_Status a = ''running''")
    case True
    obtain w' b where w': "settleAction ts c (ro_ActionRequestID r) seen w = (None, w')" "rd_rollouts (rw_db w') = rd_rollouts (rw_db w)"
      "map_of (rd_actions (rw_db w')) (ro_ActionRequestID r) = Some b" "ac_Status b \<in> {''executed'', ''failed''}"
      by (rule settle_running [OF a(1) True])
    then have "settled (rw_db w') r" using row st by (auto simp: settled_def)
    moreover have "syncRolloutActionRequest env ts c w = (None, w')"
      using w'(1) seen ended a(1) True key req(1) by (simp add: syncRolloutActionRequest_def GetK8sActionRequest_def getRow_def)
    ultimately show thesis by (intro that)
  next
    case False
    then have "ac_Status a \<in> {''executed'', ''failed''}" using a(2) st by (auto simp: pairStatus_def)
    then have "settled (rw_db w) r" using row st a(1) by (auto simp: settled_def)
    moreover have "syncRolloutActionRequest env ts c w = (None, w)"
      using ended a(1) False req(1) by (simp add: syncRolloutActionRequest_def GetK8sActionRequest_def getRow_def)
    ultimately show thesis by (intro that)
  qed
qed

lemma leased_overdue:
  assumes inv: "ledgerInv (rw_db w)" and r: "map_of (rd_rollouts (rw_db w)) (ro_ID r) = Some r" "ro_Status r \<in> {''running'', ''monitoring''}"
    and start: "parseRolloutTime env (ro_StartedAt r) = Some start" and limit: "0 < ro_TimeoutSeconds r" "ro_TimeoutSeconds r * 1000 < 2 ^ 63"
    and late: "pi_now inp - start \<ge> (ro_TimeoutSeconds r * 1000 + 1) * 1000000" and item: "targetReadable env r"
  obtains w' where "reconcileLeased env inp owner (ro_ID r) w = (None, w')" and "settled (rw_db w') r"
proof -
  obtain c due db1 where rec: "reconcileRolloutContext env inp r True (rw_db w) = (Inr (c, due), db1)" and c: "closedRow db1 r c"
    and req: "due \<longrightarrow> ro_RollbackStatus c = ''requested''"
    by (rule reconcile_overdue [OF inv r start limit late item])
  obtain fin db2 where fin: "(if due then requestAutoRollback env inp (''system:'' @ owner) c db1 else (Inr c, db1)) = (Inr fin, db2)" "closedRow db2 r fin"
  proof (cases due)
    case True
    with req rollback_pass [OF c, of env inp "''system:'' @ owner"] that show thesis by (metis (full_types))
  next
    case False
    with c that show thesis by simp
  qed
  obtain w' where w': "syncRolloutActionRequest env (pi_stamp inp 7) fin (w\<lparr>rw_db := db2\<rparr>) = (None, w')" "settled (rw_db w') r"
    by (rule sync_settles [of "w\<lparr>rw_db := db2\<rparr>" r fin env]) (use fin(2) item in simp_all)
  have "rolloutNeedsReconcile r" "\<not> awaitingStart r" using r(2) by (auto simp: rolloutNeedsReconcile_def rolloutActive_def awaitingStart_def)
  then have "reconcileLeased env inp owner (ro_ID r) w = (None, w')"
    using r(1) rec fin(1) w'(1) by (cases due) (simp_all add: reconcileLeased_def GetK8sRolloutAction_def getRow_def Let_def)
  then show thesis using w'(2) by (rule that)
qed

text \<open>C33. A worker pass ends every overdue rollout: when a rollout has been running or monitored for longer than its
  timeout (and the timeout in milliseconds fits 63 bits), the inventory can be read, and the lease is free, the pass
  succeeds and leaves the rollout failed or timed out and its action request executed or failed, whatever the cluster
  answers to the rollback it may owe.\<close>

theorem overdue_rollout_is_closed:
  assumes inv: "ledgerInv (rw_db w)" and r: "map_of (rd_rollouts (rw_db w)) k = Some r" "ro_Status r \<in> {''running'', ''monitoring''}"
    and start: "parseRolloutTime env (ro_StartedAt r) = Some start" and limit: "0 < ro_TimeoutSeconds r" "ro_TimeoutSeconds r * 1000 < 2 ^ 63"
    and late: "pi_now inp - start \<ge> (ro_TimeoutSeconds r * 1000 + 1) * 1000000" and item: "targetReadable env r"
    and lease: "fst (TryAcquireK8sRolloutReconcileLease k owner (pi_now inp) ttl (rd_leases (rw_db w)))"
  shows "\<exists>w' c a. reconcileOne env inp owner ttl k w = (None, w') \<and> map_of (rd_rollouts (rw_db w')) k = Some c \<and> ro_Status c \<in> {''failed'', ''timed_out''} \<and>
     map_of (rd_actions (rw_db w')) (ro_ActionRequestID r) = Some a \<and> ac_Status a \<in> {''executed'', ''failed''}"
proof -
  let ?t = "snd (TryAcquireK8sRolloutReconcileLease k owner (pi_now inp) ttl (rd_leases (rw_db w)))"
  let ?w = "w\<lparr>rw_db := (rw_db w)\<lparr>rd_leases := ?t\<rparr>\<rparr>"
  have k: "ro_ID r = k" using ledger_row [OF inv r(1)] by simp
  have "distinct (map fst ?t)" using inv by (intro lease.valid_acquire) (simp add: ledgerInv_def rollout_db_wf_def)
  then have "goodStep (rw_db w) (rw_db ?w)" using inv by (intro good_silent) (simp_all add: ledgerInv_def rollout_db_wf_def)
  then have inv': "ledgerInv (rw_db ?w)" by (rule goodStep_inv)
  have row: "map_of (rd_rollouts (rw_db ?w)) (ro_ID r) = Some r" using r(1) k by simp
  obtain w' where w': "reconcileLeased env inp owner (ro_ID r) ?w = (None, w')" "settled (rw_db w') r"
    by (rule leased_overdue [OF inv' row r(2) start limit late item])
  have "reconcileOne env inp owner ttl k w =
      (None, w'\<lparr>rw_db := (rw_db w')\<lparr>rd_leases := ReleaseK8sRolloutReconcileLease k owner (rd_leases (rw_db w'))\<rparr>\<rparr>)"
    using lease w'(1) k by (simp add: reconcileOne_def case_prod_unfold)
  then show ?thesis using w'(2) k by (auto simp: settled_def)
qed

lemma scene_rollout:
  "isl (GetK8sRolloutAction ''ai'' (rw_db (snd ranFinish))) = False" "ro_Status sceneRollout = ''monitoring''"
  "parseRolloutTime sceneEnv (ro_StartedAt sceneRollout) = Some 2000000000" "ro_TimeoutSeconds sceneRollout = 5" "targetReadable sceneEnv sceneRollout"
  "rd_leases (rw_db (snd ranFinish)) = []"
proof -
  have "(let w = snd ranFinish; r = rolloutIn w in
      (isl (GetK8sRolloutAction ''ai'' (rw_db w)), ro_Status r, parseRolloutTime sceneEnv (ro_StartedAt r), ro_TimeoutSeconds r,
       targetReadable sceneEnv r, rd_leases (rw_db w))) = (False, ''monitoring'', Some 2000000000, 5, True, [])" by code_simp
  then show "isl (GetK8sRolloutAction ''ai'' (rw_db (snd ranFinish))) = False" "ro_Status sceneRollout = ''monitoring''"
    "parseRolloutTime sceneEnv (ro_StartedAt sceneRollout) = Some 2000000000" "ro_TimeoutSeconds sceneRollout = 5" "targetReadable sceneEnv sceneRollout"
    "rd_leases (rw_db (snd ranFinish)) = []" by (simp_all add: Let_def sceneRollout_def)
qed

theorem overdue_rollout_is_closed_witness:
  "\<exists>w' c. reconcileOne sceneEnv (scenePass 9 (CHR ''e'')) ''w1'' 60 ''ai'' (snd ranFinish) = (None, w') \<and>
     map_of (rd_rollouts (rw_db w')) ''ai'' = Some c \<and> ro_Status c \<in> {''failed'', ''timed_out''}"
proof -
  have "rollout_step\<^sup>*\<^sup>* startFlow sceneMonitored" by (meson scene_steps rtranclp.rtrancl_into_rtrancl rtranclp.rtrancl_refl)
  from flow_ledger [OF flow_reach [OF this]] have inv: "ledgerInv (rw_db (snd ranFinish))" by (simp add: sceneMonitored_def)
  have row: "map_of (rd_rollouts (rw_db (snd ranFinish))) ''ai'' = Some sceneRollout"
    using scene_rollout(1) by (auto simp: sceneRollout_def rolloutIn_def GetK8sRolloutAction_def getRow_def split: option.splits)
  have free: "fst (TryAcquireK8sRolloutReconcileLease ''ai'' ''w1'' (pi_now (scenePass 9 (CHR ''e''))) 60 (rd_leases (rw_db (snd ranFinish))))"
    unfolding scene_rollout(6) by code_simp
  have late: "(ro_TimeoutSeconds sceneRollout * 1000 + 1) * 1000000 \<le> pi_now (scenePass 9 (CHR ''e'')) - 2000000000"
    unfolding scene_rollout(4) by code_simp
  show ?thesis
    using overdue_rollout_is_closed [OF inv row _ scene_rollout(3) _ _ late scene_rollout(5) free] scene_rollout(2,4) by auto
qed

end
