(* ===== verification/Rollout_Guarantees.thy ===== *)
theory Rollout_Guarantees
  imports Rollout_Worker
begin

text \<open>
  What the rollout subsystem guarantees in every state it can reach, over the interpretations
  \<open>rollouts\<close> (the step system) and \<open>lease\<close> (the reconcile lease), with the lemmas on one worker
  pass that these need.
\<close>

section \<open>Reachable states\<close>

lemma reach_ledger: "rollout_step\<^sup>*\<^sup>* startFlow s \<Longrightarrow> ledgerInv (dbOf s)"
  by (rule flow_ledger [OF flow_reach])

text \<open>C7. In every reachable state the rollout ledger is well typed: every table is keyed by its
  identifiers, the events of a rollout are numbered from 1 without a gap, there is at most one active
  rollout per target and one per action request, and in every rollout row the two status columns hold a
  known status, the row is started exactly when its status says so, a rollback belongs to a failed or
  timed-out rollout that asked for it, and a rollback in flight has a Deployment and a stored template.\<close>

theorem rollout_ledger_typed:
  assumes "rollout_step\<^sup>*\<^sup>* startFlow s"
  shows "rollout_db_wf (dbOf s) \<and> (\<forall>k r. map_of (rd_rollouts (dbOf s)) k = Some r \<longrightarrow> rolloutRowOk r)"
  using reach_ledger [OF assms] by (auto dest: ledger_wf ledger_row)

theorem rollout_ledger_typed_witness:
  "map (\<lambda>(k, r). (k, ro_Status r, ro_RollbackStatus r)) (rd_rollouts (dbOf scenePatched)) = [(''ai'', ''timed_out'', ''running'')] \<and>
   rollout_db_wf (dbOf scenePatched)"
  using rollout_ledger_typed [OF scene_reach_claimed(3)] scene_rows(2) by (simp add: scenePatched_def sceneClaimed_def)

text \<open>C10. The two ledgers agree: in every reachable state every rollout has exactly one action
  request of kind rollout_restart, no other rollout shares it, and the two statuses fit: an unstarted rollout
  has a waiting, approved or rejected request, a running rollout a running one, a monitored rollout a
  running or executed one, a rejected rollout a rejected one, and a finished rollout one that was started.\<close>

theorem rollout_ledgers_agree:
  assumes "rollout_step\<^sup>*\<^sup>* startFlow s" and "map_of (rd_rollouts (dbOf s)) k = Some r"
  shows "(\<exists>a. map_of (rd_actions (dbOf s)) (ro_ActionRequestID r) = Some a \<and> ac_Action a = ''rollout_restart'' \<and>
       pairStatus (ac_Status a) (ro_Status r)) \<and>
     (\<forall>j q. map_of (rd_rollouts (dbOf s)) j = Some q \<longrightarrow> ro_ActionRequestID q = ro_ActionRequestID r \<longrightarrow> j = k)"
  using ledger_row [OF reach_ledger [OF assms(1)] assms(2)] request_unique [OF reach_ledger [OF assms(1)] assms(2)]
  by (auto simp: linkedOk_def)

lemma scene_row: "\<exists>r. map_of (rd_rollouts (snd ranClaim)) ''ai'' = Some r"
  using scene_rows(2) by (auto simp: map_eq_Cons_conv)

theorem rollout_ledgers_agree_witness:
  "\<exists>r a. map_of (rd_rollouts (dbOf sceneClaimed)) ''ai'' = Some r \<and> map_of (rd_actions (dbOf sceneClaimed)) (ro_ActionRequestID r) = Some a \<and>
     pairStatus (ac_Status a) (ro_Status r)"
proof -
  obtain r where r: "map_of (rd_rollouts (dbOf sceneClaimed)) ''ai'' = Some r" using scene_row by (auto simp: sceneClaimed_def)
  from rollout_ledgers_agree [OF scene_reach_claimed(2) r] r show ?thesis by blast
qed

text \<open>C15. A restart leaves for the cluster at most once per rollout, whatever interleaving of handlers, pages
  and workers runs: the sequence of restarts has no repetition, and every rollout in it is marked as started
  with a request that left the waiting and the approved state for good.\<close>

theorem restart_sent_at_most_once:
  assumes "rollout_step\<^sup>*\<^sup>* startFlow s"
  shows "distinct (fl_restarts s) \<and> (\<forall>i \<in> set (fl_restarts s). \<exists>r a. map_of (rd_rollouts (dbOf s)) i = Some r \<and> ro_StartedAt r \<noteq> [] \<and>
     map_of (rd_actions (dbOf s)) (ro_ActionRequestID r) = Some a \<and> ac_Status a \<in> {''running'', ''executed'', ''failed''})"
proof -
  have inv: "flowInv s" by (rule flow_reach [OF assms])
  have "\<exists>r a. map_of (rd_rollouts (dbOf s)) i = Some r \<and> ro_StartedAt r \<noteq> [] \<and> map_of (rd_actions (dbOf s)) (ro_ActionRequestID r) = Some a \<and>
      ac_Status a \<in> {''running'', ''executed'', ''failed''}" if "i \<in> set (fl_restarts s)" for i
  proof -
    from inv that obtain r where r: "map_of (rd_rollouts (dbOf s)) i = Some r" "ro_StartedAt r \<noteq> []" by (auto simp: flowInv_def)
    from ledger_row [OF flow_ledger [OF inv] r(1)] obtain a where a: "map_of (rd_actions (dbOf s)) (ro_ActionRequestID r) = Some a"
      "pairStatus (ac_Status a) (ro_Status r)" and ok: "rolloutRowOk r" by (auto simp: linkedOk_def)
    have "ro_Status r \<notin> set [''approval_required'', ''approved'', ''rejected'']" using rowOk_started [OF ok] r(2) by blast
    with a r show ?thesis by (auto simp: pairStatus_def split: if_splits)
  qed
  with inv show ?thesis by (simp add: flowInv_def)
qed


theorem restart_sent_at_most_once_witness:
  "fl_restarts sceneClaimed = [''ai''] \<and> distinct (fl_restarts sceneClaimed)"
proof -
  have "fl_restarts sceneClaimed = [''ai'']"
    using scene_rows(3) by (simp add: sceneClaimed_def sceneTimedOut_def sceneSeen_def sceneMonitored_def sceneRunning_def sceneLinked_def
        sceneCommand_def sceneRead_def sceneRequested_def startFlow_def)
  with restart_sent_at_most_once [OF scene_reach_claimed(2)] show ?thesis by simp
qed

lemma rowMoves_status: "rowMove\<^sup>*\<^sup>* r r' \<Longrightarrow> statusEdge\<^sup>*\<^sup>* (ro_Status r) (ro_Status r')"
proof (induction rule: rtranclp_induct)
  case (step b c)
  then have "ro_Status c = ro_Status b \<or> statusEdge (ro_Status b) (ro_Status c)" by (auto simp: rowMove_def)
  with step.IH show ?case by auto
qed simp

lemma rowMoves_rollback: "rowMove\<^sup>*\<^sup>* r r' \<Longrightarrow> rollbackEdge\<^sup>*\<^sup>* (ro_RollbackStatus r) (ro_RollbackStatus r')"
proof (induction rule: rtranclp_induct)
  case (step b c)
  then have "ro_RollbackStatus c = ro_RollbackStatus b \<or> rollbackEdge (ro_RollbackStatus b) (ro_RollbackStatus c)" by (auto simp: rowMove_def)
  with step.IH show ?case by auto
qed simp



text \<open>C23. A restart is sent only past the execution guard: when the claim of a rollout succeeds, its
  request is approved at that moment and the rollout not yet started, and the inventory shows the target
  with the recorded UID and the recorded spec, not being deleted, without a template rollout in flight, and with no
  matching disruption budget that refuses; the command sent is that of the request, and both ledgers say running.\<close>

theorem restart_respects_guard:
  assumes reach: "rollout_step\<^sup>*\<^sup>* startFlow s" and act: "act \<in> set (fl_acts s)" and inp: "inputOk inp"
    and b: "runApprovedBegin env inp actor act (fl_w s) = (Inr (Some roll, cmd), w)"
  shows "(\<exists>a. map_of (rd_actions (dbOf s)) (ac_ID act) = Some a \<and> ac_Status a = ''approved'') \<and>
     map_of (rd_rollouts (dbOf s)) (ro_ID roll) = Some roll \<and> ro_StartedAt roll = [] \<and> ro_ActionRequestID roll = ac_ID act \<and>
     (\<exists>target xs. en_item env (ro_ClusterID roll) (ro_ResourceKind roll) (ro_Namespace roll) (ro_ResourceName roll) = Inr target \<and>
        (ro_ResourceUID roll = [] \<or> iv_UID target = ro_ResourceUID roll) \<and>
        (ro_PreviousSpecHash roll = [] \<or> en_hash env (iv_Spec target) = ro_PreviousSpecHash roll) \<and>
        iv_DeletionTimestamp target = [] \<and> \<not> rolloutTemplateRolloutInFlight target \<and>
        en_inventory env (ro_ClusterID roll) = Inr xs \<and> \<not> (\<exists>it \<in> set xs. pdbMatches env target it \<and> pdbRefusal it \<noteq> None)) \<and>
     cmd = dispatchAction act \<and>
     (\<exists>r' a'. map_of (rd_rollouts (rw_db w)) (ro_ID roll) = Some r' \<and> ro_Status r' = ''running'' \<and>
        map_of (rd_actions (rw_db w)) (ac_ID act) = Some a' \<and> ac_Status a' = ''running'')"
proof -
  have led: "ledgerInv (dbOf s)" by (rule reach_ledger [OF reach])
  note claimed = runBegin_claimed [OF led inp b]
  have row: "map_of (rd_rollouts (dbOf s)) (ro_ID roll) = Some roll \<and> ro_ActionRequestID roll = ac_ID act"
    by (rule linkedRollout_row [OF led claimed(3)])
  show ?thesis using claimRollout_good(2) [OF led inp claimed(1) refl] row claimed(2) unfolding validate_none hazard_none by auto
qed

theorem restart_respects_guard_witness:
  "\<exists>roll. sceneLinked = Some roll \<and> ro_StartedAt roll = [] \<and> sceneCommand = dispatchAction sceneAction"
proof -
  have "sceneLinked \<noteq> None" using scene_rows(3) by (auto simp: sceneLinked_def restartOf_def split: prod.splits option.splits)
  then obtain roll where "sceneLinked = Some roll" by blast
  moreover have "sceneAction \<in> set (fl_acts sceneRead)" "inputOk (scenePass 2 (CHR ''b''))"
    using scene_input [of 1 "CHR ''b''"] by (simp_all add: sceneRead_def numeral_2_eq_2)
  ultimately show ?thesis using restart_respects_guard [OF scene_reach_read(2) _ _ scene_begin [unfolded \<open>sceneLinked = Some roll\<close>]] by blast
qed

text \<open>C25. A rollback patch is sent only for a failed or timed-out rollout that asked for it, of a Deployment
  whose template was stored, it restores exactly that template at exactly that target, and the live object
  carried the recorded UID when it was last read.\<close>

theorem rollback_patch_guarded:
  assumes reach: "rollout_step\<^sup>*\<^sup>* startFlow s" and cur: "cur \<in> set (fl_claims s)" and p: "rollbackCommand acc actor cur = Inr p"
  shows "\<exists>r live. map_of (rd_rollouts (dbOf s)) (rb_ActionID p) = Some r \<and> ro_Status r \<in> {''failed'', ''timed_out''} \<and> ro_AutoRollback r \<and>
     equalFold (ro_ResourceKind r) ''Deployment'' \<and> ro_PreviousTemplate r \<noteq> [] \<and> rb_Template p = ro_PreviousTemplate r \<and>
     rb_ClusterID p = ro_ClusterID r \<and> rb_Namespace p = ro_Namespace r \<and> rb_Name p = ro_ResourceName r \<and>
     ca_live acc = Inr live \<and> (ro_ResourceUID r = [] \<or> textMap (asAnyMap (gget live ''metadata'')) ''uid'' = ro_ResourceUID r)"
proof -
  have inv: "flowInv s" by (rule flow_reach [OF reach])
  have "patchOk (dbOf s) p" using flow_patch [OF inv cur p] by (simp add: flowInv_def)
  then obtain r where r: "map_of (rd_rollouts (dbOf s)) (rb_ActionID p) = Some r" "ro_Status r \<in> {''failed'', ''timed_out''}" "ro_AutoRollback r"
    "equalFold (ro_ResourceKind r) ''Deployment''" "ro_PreviousTemplate r \<noteq> []" "rb_Template p = ro_PreviousTemplate r"
    "rb_ClusterID p = ro_ClusterID r" "rb_Namespace p = ro_Namespace r" "rb_Name p = ro_ResourceName r" by (auto simp: patchOk_def)
  obtain live where live: "ca_live acc = Inr live" "ro_ResourceUID cur = [] \<or> textMap (asAnyMap (gget live ''metadata'')) ''uid'' = ro_ResourceUID cur"
    and i: "rb_ActionID p = ro_ID cur"
    using p by (auto simp: rollbackCommand_def Let_def split: if_split_asm option.split_asm sum.split_asm)
  have "snapshotOk (dbOf s) cur" using inv cur by (simp add: flowInv_def)
  from snapshot_link [OF this r(1) [unfolded i]] have "ro_ResourceUID r = ro_ResourceUID cur" by (simp add: linkOf_def)
  with r live show ?thesis by auto
qed

theorem rollback_patch_guarded_witness:
  "\<exists>r. map_of (rd_rollouts (dbOf sceneClaimed)) (rb_ActionID scenePatch) = Some r \<and> rb_Template scenePatch = ro_PreviousTemplate r"
  using rollback_patch_guarded [OF scene_reach_claimed(2) _ scene_patch] by (auto simp: sceneClaimed_def)

section \<open>The reconcile lease\<close>

fun leaseExec :: "lease_op \<Rightarrow> rollout_lease table \<Rightarrow> rollout_lease table" where
  "leaseExec (LAcquire k u now ttl) t = snd (TryAcquireK8sRolloutReconcileLease k u now ttl t)"
| "leaseExec (LRelease k u) t = ReleaseK8sRolloutReconcileLease k u t"

lemma leaseExec_eq: "leaseExec = lease.lease_exec"
proof (intro ext)
  fix op t show "leaseExec op t = lease.lease_exec op t" by (cases op) simp_all
qed

text \<open>C28. The reconcile lease excludes: after a worker acquired the lease of a rollout, and whatever other
  workers acquire and release meanwhile by clocks that are not past its expiry, an attempt of another worker
  succeeds exactly when its clock is past the expiry of the first.\<close>

theorem reconcile_lease_excludes:
  assumes "distinct (map fst t)" and "fst (TryAcquireK8sRolloutReconcileLease k u t0 ttl0 t)"
    and "e = t0 + (if ttl0 \<le> 0 then minuteNs else ttl0)"
    and "\<forall>op \<in> set ops. leaseOwner op \<noteq> u \<and> (\<forall>now. leaseClock op = Some now \<longrightarrow> now \<le> e)" and "v \<noteq> u"
  shows "fst (TryAcquireK8sRolloutReconcileLease k v now ttl (fold leaseExec ops (snd (TryAcquireK8sRolloutReconcileLease k u t0 ttl0 t))))
    \<longleftrightarrow> e < now"
  unfolding leaseExec_eq using assms by (intro lease.exclusive) auto

theorem reconcile_lease_excludes_witness:
  "\<not> fst (TryAcquireK8sRolloutReconcileLease ''ai'' ''w2'' 70 10 (fold leaseExec [LAcquire ''ai'' ''w3'' 20 10, LRelease ''ai'' ''w3'']
       (snd (TryAcquireK8sRolloutReconcileLease ''ai'' ''w1'' 10 60 []))))"
proof -
  have "fst (TryAcquireK8sRolloutReconcileLease ''ai'' ''w1'' 10 60 [])" by code_simp
  from reconcile_lease_excludes [OF _ this refl, of "[LAcquire ''ai'' ''w3'' 20 10, LRelease ''ai'' ''w3'']" "''w2''" 70 10]
  show ?thesis by simp
qed

section \<open>The migration of the target lock\<close>

lemma supersede_ID [simp]: "ro_ID (supersedeRollout now r) = ro_ID r"
  by (simp add: supersedeRollout_def)

lemma keyedBy_updateAll: "(\<And>r. key (f r) = key r) \<Longrightarrow> keyedBy key t \<Longrightarrow> keyedBy key (updateAll g f t)"
  by (auto simp: keyedBy_def updateAll_def comp_def case_prod_unfold)

lemma keyedBy_row: "keyedBy ro_ID t \<Longrightarrow> map_of t k = Some r \<Longrightarrow> r \<in> set (map snd t) \<and> ro_ID r = k"
  using keyedBy_key [of ro_ID t k r] map_of_SomeD [of t k r] by force

lemma keyedBy_find: "keyedBy ro_ID t \<Longrightarrow> r \<in> set (map snd t) \<Longrightarrow> map_of t (ro_ID r) = Some r"
  by (force simp: keyedBy_def)

lemma one_active_unique:
  assumes "oneActivePerTarget t" and "q \<in> set (map snd t)" and "r \<in> set (map snd t)" and "k8sRolloutActiveTargetPredicate q"
    and "k8sRolloutActiveTargetPredicate r" and "targetKey q = targetKey r"
  shows "q = r"
  using assms unfolding oneActivePerTarget_def distinct_map inj_on_def set_filter by simp

lemma victim_row: "keyedBy ro_ID t \<Longrightarrow> map_of t k = Some r \<Longrightarrow>
    ro_ID r \<in> set (map ro_ID (rankedVictims t)) \<longleftrightarrow> k8sRolloutActiveTargetPredicate r \<and> \<not> lockSurvivor t r"
proof
  assume t: "keyedBy ro_ID t" "map_of t k = Some r" and "ro_ID r \<in> set (map ro_ID (rankedVictims t))"
  then obtain v where v: "v \<in> set (rankedVictims t)" "ro_ID v = ro_ID r" by auto
  then have "v \<in> set (map snd t)" by (simp only: victim_iff)
  from keyedBy_find [OF t(1) this] v(2) t(2) keyedBy_row [OF t] have "v = r" by simp
  with v(1) show "k8sRolloutActiveTargetPredicate r \<and> \<not> lockSurvivor t r" by (simp add: victim_iff)
qed (auto simp: victim_iff dest: keyedBy_row)

lemma migrated_rows:
  assumes t: "keyedBy ro_ID t" and r: "map_of t k = Some r"
  shows "map_of (updateAll (\<lambda>r. ro_ID r \<in> set (map ro_ID (rankedVictims t))) (supersedeRollout now) t) k =
    Some (if k8sRolloutActiveTargetPredicate r \<and> \<not> lockSurvivor t r then supersedeRollout now r else r)"
  unfolding map_of_updateAll r option.map victim_row [OF t r] ..

text \<open>C29. The migration to one active rollout per target succeeds as soon as one of its five attempts meets no error
  of the database and the earlier ones met only errors it retries: afterwards every target that had active
  rollouts has exactly one, the one with a rollback in flight or else the oldest; that one and every inactive
  row are untouched and the others are closed as superseded; a second migration changes nothing.\<close>

theorem rollout_lock_migration_installs:
  assumes key: "keyedBy ro_ID (rd_rollouts db)" and n: "n < 5" "fault n = None"
    and retry: "\<forall>i < n. \<exists>e. fault i = Some e \<and> retryableLockMigrationError e \<and> \<not> cancelled i"
  shows "\<exists>db'. migrateK8sRolloutTargetLock now fault cancelled db = Inr db' \<and> oneActivePerTarget (rd_rollouts db') \<and>
     (\<forall>k r. map_of (rd_rollouts db) k = Some r \<longrightarrow> map_of (rd_rollouts db') k =
        Some (if k8sRolloutActiveTargetPredicate r \<and> \<not> lockSurvivor (rd_rollouts db) r then supersedeRollout now r else r)) \<and>
     (\<forall>r \<in> set (map snd (rd_rollouts db)). k8sRolloutActiveTargetPredicate r \<longrightarrow>
        (\<exists>!q. q \<in> set (map snd (rd_rollouts db')) \<and> k8sRolloutActiveTargetPredicate q \<and> targetKey q = targetKey r)) \<and>
     (\<forall>later. migrateK8sRolloutTargetLockAttempt later db' = Inr db')"
proof -
  have "\<exists>db'. migrateK8sRolloutTargetLockAttempt now db = Inr db' \<and> migrateLoop 5 0 now fault cancelled db = Inr db'"
    by (rule migrateLoop_first_success [of n]) (use assms in auto)
  then obtain db' where db': "migrateK8sRolloutTargetLockAttempt now db = Inr db'" "migrateK8sRolloutTargetLock now fault cancelled db = Inr db'"
    by (auto simp: migrateK8sRolloutTargetLock_def)
  have t': "rd_rollouts db' = updateAll (\<lambda>r. ro_ID r \<in> set (map ro_ID (rankedVictims (rd_rollouts db)))) (supersedeRollout now) (rd_rollouts db)"
    and one: "oneActivePerTarget (rd_rollouts db')" using migrate_attempt [OF key, of now] db'(1) by force+
  have key': "keyedBy ro_ID (rd_rollouts db')" unfolding t' by (rule keyedBy_updateAll [OF _ key]) simp
  have rows: "map_of (rd_rollouts db') k =
      Some (if k8sRolloutActiveTargetPredicate r \<and> \<not> lockSurvivor (rd_rollouts db) r then supersedeRollout now r else r)"
    if "map_of (rd_rollouts db) k = Some r" for k r unfolding t' by (rule migrated_rows [OF key that])
  have "\<exists>!q. q \<in> set (map snd (rd_rollouts db')) \<and> k8sRolloutActiveTargetPredicate q \<and> targetKey q = targetKey r"
    if r: "r \<in> set (map snd (rd_rollouts db))" "k8sRolloutActiveTargetPredicate r" for r
  proof -
    from survivor_exists [OF r] obtain q where q: "q \<in> set (map snd (rd_rollouts db))" "lockSurvivor (rd_rollouts db) q" "targetKey q = targetKey r" by blast
    from rows [OF keyedBy_find [OF key q(1)]] q(2) have "map_of (rd_rollouts db') (ro_ID q) = Some q" by simp
    from keyedBy_row [OF key' this] have mem: "q \<in> set (map snd (rd_rollouts db'))" by blast
    have act: "k8sRolloutActiveTargetPredicate q" using q(2) by (simp only: lockSurvivor_def)
    show ?thesis
    proof (intro ex1I conjI)
      show "q \<in> set (map snd (rd_rollouts db'))" "k8sRolloutActiveTargetPredicate q" "targetKey q = targetKey r" by fact+
      fix p assume "p \<in> set (map snd (rd_rollouts db')) \<and> k8sRolloutActiveTargetPredicate p \<and> targetKey p = targetKey r"
      then show "p = q" using one_active_unique [OF one _ mem _ act] q(3) by metis
    qed
  qed
  with db'(2) one rows migrate_idle [OF key' one] show ?thesis by (intro exI [of _ db'] conjI) (assumption | simp)+
qed

definition waitingRollout :: "string \<Rightarrow> string \<Rightarrow> K8sRolloutAction" where
  "waitingRollout i requestedAt =
     \<lparr>ro_ID = i, ro_ActionRequestID = ''req-'' @ i, ro_ClusterID = ''c1'', ro_Namespace = ''shop'', ro_ResourceKind = ''Deployment'',
      ro_ResourceName = ''web'', ro_ResourceUID = ''u-1'', ro_RequestedBy = ''ann'', ro_RequestedAt = requestedAt, ro_ApprovedBy = [], ro_ApprovedAt = [],
      ro_StartedAt = [], ro_CompletedAt = [], ro_Reason = ''new secret'', ro_TicketNo = [], ro_ExecutionMode = ''IMMEDIATE'',
      ro_Status = ''approval_required'', ro_RiskLevel = ''medium'', ro_PreviousRevision = [], ro_TargetRevision = [], ro_PreviousSpecHash = [],
      ro_TargetSpecHash = [], ro_AutoRollback = False, ro_TimeoutSeconds = 600, ro_FailureReason = [], ro_DurationMS = 0, ro_DesiredReplicas = 2,
      ro_UpdatedReplicas = 2, ro_ReadyReplicas = 2, ro_AvailableReplicas = 2, ro_UnavailableReplicas = 0, ro_Precheck = [],
      ro_PreviousTemplate = [], ro_RollbackStatus = [], ro_RollbackStartedAt = [], ro_RollbackCompletedAt = [], ro_RollbackFailureReason = [],
      ro_CreatedAt = requestedAt, ro_UpdatedAt = requestedAt\<rparr>"

theorem rollout_lock_migration_installs_witness:
  "\<exists>db'. migrateK8sRolloutTargetLock ''t9'' (\<lambda>i. if i = 0 then Some ''database is locked'' else None) (\<lambda>_. False)
       (emptyDb\<lparr>rd_rollouts := [(''x'', waitingRollout ''x'' ''t2''), (''y'', waitingRollout ''y'' ''t1'')]\<rparr>) = Inr db' \<and>
     map_of (rd_rollouts db') ''x'' = Some (supersedeRollout ''t9'' (waitingRollout ''x'' ''t2'')) \<and>
     map_of (rd_rollouts db') ''y'' = Some (waitingRollout ''y'' ''t1'')"
proof -
  let ?db = "emptyDb\<lparr>rd_rollouts := [(''x'', waitingRollout ''x'' ''t2''), (''y'', waitingRollout ''y'' ''t1'')]\<rparr>"
  let ?x = "waitingRollout ''x'' ''t2''" and ?y = "waitingRollout ''y'' ''t1''"
  have active: "k8sRolloutActiveTargetPredicate ?x" "k8sRolloutActiveTargetPredicate ?y" by code_simp+
  have keep: "\<not> lockSurvivor (rd_rollouts ?db) ?x" "lockSurvivor (rd_rollouts ?db) ?y" unfolding lockSurvivor_def by code_simp+
  have "keyedBy ro_ID (rd_rollouts ?db)" by (simp add: keyedBy_def waitingRollout_def)
  moreover have "retryableLockMigrationError ''database is locked''" by code_simp
  ultimately obtain db' where
    "migrateK8sRolloutTargetLock ''t9'' (\<lambda>i. if i = 0 then Some ''database is locked'' else None) (\<lambda>_. False) ?db = Inr db'"
    and rows: "\<forall>k r. map_of (rd_rollouts ?db) k = Some r \<longrightarrow> map_of (rd_rollouts db') k =
        Some (if k8sRolloutActiveTargetPredicate r \<and> \<not> lockSurvivor (rd_rollouts ?db) r then supersedeRollout ''t9'' r else r)"
    using rollout_lock_migration_installs [of ?db 1 "\<lambda>i. if i = 0 then Some ''database is locked'' else None" "\<lambda>_. False" "''t9''"] by auto
  moreover from rows [rule_format, of "''x''" ?x] rows [rule_format, of "''y''" ?y] active keep
  have "map_of (rd_rollouts db') ''x'' = Some (supersedeRollout ''t9'' ?x)" "map_of (rd_rollouts db') ''y'' = Some ?y" by simp_all
  ultimately show ?thesis by blast
qed

section \<open>A rejection in the Action Center\<close>

lemma active_waiting: "ro_Status r = ''approval_required'' \<Longrightarrow> ro_ResourceUID r \<noteq> [] \<Longrightarrow> k8sRolloutActiveTargetPredicate r"
  by (simp add: k8sRolloutActiveTargetPredicate_def primaryInFlight_def)

text \<open>A row that waits while its request is rejected: nothing the rollout pages and the workers do moves it.\<close>

definition stranded :: "rollout_world \<Rightarrow> string \<Rightarrow> bool" where
  "stranded w k \<longleftrightarrow> (case map_of (rd_rollouts (rw_db w)) k of None \<Rightarrow> False | Some r \<Rightarrow>
     ro_ID r = k \<and> ro_Status r = ''approval_required'' \<and> ro_StartedAt r = [] \<and> ro_RollbackStatus r = [] \<and>
     (case map_of (rd_actions (rw_db w)) (ro_ActionRequestID r) of None \<Rightarrow> False | Some a \<Rightarrow> ac_Status a = ''rejected''))"

lemma strandedD:
  assumes "stranded w k"
  obtains r a where "map_of (rd_rollouts (rw_db w)) k = Some r" "ro_ID r = k" "ro_Status r = ''approval_required''" "ro_StartedAt r = []"
    "ro_RollbackStatus r = []" "map_of (rd_actions (rw_db w)) (ro_ActionRequestID r) = Some a" "ac_Status a = ''rejected''"
  using assms by (auto simp: stranded_def split: option.splits)

lemma rejected_status_fails:
  assumes "map_of t i = Some a" and "ac_Status a = ''rejected''" and "st \<in> {''approved'', ''rejected'', ''running''}"
  shows "UpdateK8sActionStatus ts i st actor result t = (Inl ErrInvalidTransition, t)"
proof -
  have "\<not> actionAllowedFrom st (ac_Status a)" using assms(2,3) by (auto simp: actionAllowedFrom_def awaitingDecision_def)
  with assms(1) have "fst (guardedUpdate i (\<lambda>a. actionAllowedFrom st (ac_Status a)) (setActionStatus ts st actor result) t) = Inl ErrInvalidTransition"
    by (simp add: guardedUpdate_err)
  moreover from guardedUpdate_unchanged [OF this]
  have "snd (guardedUpdate i (\<lambda>a. actionAllowedFrom st (ac_Status a)) (setActionStatus ts st actor result) t) = t" .
  ultimately show ?thesis using assms(3) by (auto simp: UpdateK8sActionStatus_def actionStatuses_def prod_eq_iff)
qed

lemma stranded_approve:
  assumes "stranded w k" and "map_of (rd_rollouts (rw_db w)) k = Some r"
  shows "\<exists>e. approveRollout inp who adminID r w = (Inl e, w)"
proof -
  obtain a where "map_of (rd_actions (rw_db w)) (ro_ActionRequestID r) = Some a" "ac_Status a = ''rejected''"
    using strandedD [OF assms(1)] assms(2) by (metis option.inject)
  from rejected_status_fails [OF this] show ?thesis by (simp add: approveRollout_def)
qed

lemma stranded_reject:
  assumes "stranded w k" and "map_of (rd_rollouts (rw_db w)) k = Some r"
  shows "\<exists>e. rejectRolloutByID inp who r w = (Inl e, w)"
proof -
  obtain a where "map_of (rd_actions (rw_db w)) (ro_ActionRequestID r) = Some a" "ac_Status a = ''rejected''"
    using strandedD [OF assms(1)] assms(2) by (metis option.inject)
  then have "\<not> affected (ro_ActionRequestID r) (\<lambda>a. awaitingDecision (ac_Status a)) (rd_actions (rw_db w))"
    by (auto simp: affected_iff awaitingDecision_def)
  then show ?thesis by (simp add: rejectRolloutByID_def RejectK8sRolloutWithAction_def commit_def andThen_def updateActionRow_def)
qed

lemma stranded_worker:
  assumes "stranded w k"
  shows "reconcileLeased env inp ownerID k w = (None, w)"
proof (rule strandedD [OF assms])
  fix r a assume r: "map_of (rd_rollouts (rw_db w)) k = Some r" "ro_ID r = k" "ro_Status r = ''approval_required''" "ro_StartedAt r = []"
    "ro_RollbackStatus r = []" and a: "map_of (rd_actions (rw_db w)) (ro_ActionRequestID r) = Some a" "ac_Status a = ''rejected''"
  have due: "\<not> rolloutReconcileDue r" using r by (simp add: rolloutReconcileDue_def)
  have needs: "rolloutNeedsReconcile r" using r by (simp add: rolloutNeedsReconcile_def rolloutActive_def)
  have open_row: "\<not> rolloutTerminal (ro_Status r)" using r(3) by (simp add: rolloutTerminal_def)
  show ?thesis using r(1) a due needs open_row
    by (simp add: reconcileLeased_def GetK8sRolloutAction_def GetK8sActionRequest_def getRow_def reconcileRolloutContext_def
        syncRolloutActionRequest_def Let_def)
qed

lemma stranded_not_due:
  assumes "stranded w k" and "map_of (rd_rollouts (rw_db w)) k = Some r"
  shows "r \<notin> set (ListK8sRolloutActionsDue n (rw_db w))"
proof (rule strandedD [OF assms(1)])
  fix q a assume "map_of (rd_rollouts (rw_db w)) k = Some q" and q: "ro_Status q = ''approval_required''" "ro_StartedAt q = []"
    "ro_RollbackStatus q = []" and a: "map_of (rd_actions (rw_db w)) (ro_ActionRequestID q) = Some a" "ac_Status a = ''rejected''"
  with assms(2) have "\<not> dueRow (rd_actions (rw_db w)) r"
    by (simp add: dueRow_def rollbackInFlight_def rollbackOwed_def actionInStatus_def affected_iff)
  then show ?thesis unfolding ListK8sRolloutActionsDue_def by (auto dest!: in_set_takeD)
qed

lemma locked_target:
  assumes "map_of (rd_rollouts db) k = Some r" and "k8sRolloutActiveTargetPredicate r" and "targetKey roll = targetKey r"
    and "ro_Status roll \<in> {''approval_required'', ''approved''}"
  shows "\<exists>e. InsertK8sRolloutRequest ts act roll event db = (Inl e, db)"
proof -
  let ?a = "rolloutDefaults ts roll"
  have uid: "ro_ResourceUID roll \<noteq> []" using assms(2,3) by (simp add: k8sRolloutActiveTargetPredicate_def targetKey_def)
  have active: "k8sRolloutActiveTargetPredicate ?a" "targetKey ?a = targetKey r"
    using assms(3,4) uid by (auto simp: k8sRolloutActiveTargetPredicate_def primaryInFlight_def rolloutDefaults_def orElse_def targetKey_def)
  have mem: "r \<in> set (map snd (rd_rollouts db))" using map_of_SomeD [OF assms(1)] by force
  have dup: "\<not> rolloutIndexes (rd_rollouts db @ [(ro_ID ?a, ?a)])"
    using active mem assms(2) by (auto simp: rolloutIndexes_def oneActivePerTarget_def)
  have "insertActionTx ts act db = Inr db1 \<Longrightarrow> \<exists>e. insertK8sRolloutAction ts roll db1 = Inl e" for db1
    using dup by (auto simp: insertActionTx_def insertK8sRolloutAction_def insertRow_def storeRollouts_def Let_def split: prod.splits sum.splits)
  then have "\<exists>e. andThen (insertActionTx ts act) (andThen (insertK8sRolloutAction ts roll) f) db = Inl e" for f
    by (cases "insertActionTx ts act db") (auto simp: andThen_def)
  then obtain e where "andThen (insertActionTx ts act) (andThen (insertK8sRolloutAction ts roll) (if rv_ID event \<noteq> []
        then appendK8sRolloutEvent ts (event\<lparr>rv_ActionID := orElse (rv_ActionID event) (ro_ID roll)\<rparr>) else Inr)) db = Inl e" by blast
  then show ?thesis unfolding InsertK8sRolloutRequest_def commit_def by simp
qed

lemma decide_rejects:
  assumes "map_of (rd_actions (rw_db w)) i = Some a" and "awaitingDecision (ac_Status a)" and "i \<noteq> []"
  shows "\<exists>c. decideK8sAction now adminID True i ''reject'' result (centerOf w) = (Inr ''rejected'', c) \<and>
     rd_rollouts (rw_db (withCenter c w)) = rd_rollouts (rw_db w) \<and>
     (\<exists>b. map_of (rd_actions (rw_db (withCenter c w))) i = Some b \<and> ac_Status b = ''rejected'')"
proof -
  have ok: "actionAllowedFrom ''rejected'' (ac_Status a)" using assms(2) by (simp add: actionAllowedFrom_def)
  obtain t where up: "UpdateK8sActionStatus now i ''rejected'' adminID result (rd_actions (rw_db w)) =
      (Inr (setActionStatus now ''rejected'' adminID result a), t)"
    and row: "map_of t i = Some (setActionStatus now ''rejected'' adminID result a)"
  proof -
    let ?u = "guardedUpdate i (\<lambda>a. actionAllowedFrom ''rejected'' (ac_Status a)) (setActionStatus now ''rejected'' adminID result) (rd_actions (rw_db w))"
    have "fst ?u = Inr (setActionStatus now ''rejected'' adminID result a)" using assms(1) ok by (auto simp: guardedUpdate_ok)
    moreover have "map_of (snd ?u) i = Some (setActionStatus now ''rejected'' adminID result a)" using assms(1) ok by (simp add: guardedUpdate_table)
    ultimately show thesis using that [of "snd ?u"] by (simp add: UpdateK8sActionStatus_def actionStatuses_def prod_eq_iff)
  qed
  have "ac_Status (setActionStatus now ''rejected'' adminID result a) = ''rejected''" by (simp add: setActionStatus_def Let_def)
  then show ?thesis using up row assms(3) by (simp add: decideK8sAction_def centerOf_def withCenter_def Let_def)
qed

text \<open>C32. Rejecting the request of a waiting rollout in the Action Center strands the rollout: the request is rejected,
  the rollout keeps waiting and keeps the lock of its target; afterwards the rollout can be neither approved nor
  rejected, no worker lists it or moves it, and every new rollout of the target is refused.\<close>

theorem action_reject_strands_rollout:
  assumes inv: "ledgerInv (rw_db w)" and r: "map_of (rd_rollouts (rw_db w)) k = Some r" "ro_Status r = ''approval_required''" "ro_ResourceUID r \<noteq> []"
    and a: "map_of (rd_actions (rw_db w)) (ro_ActionRequestID r) = Some a" "awaitingDecision (ac_Status a)"
  shows "\<exists>c. decideK8sAction now adminID True (ro_ActionRequestID r) ''reject'' result (centerOf w) = (Inr ''rejected'', c) \<and>
     (let w' = withCenter c w in map_of (rd_rollouts (rw_db w')) k = Some r \<and>
       (\<exists>e. approveRollout inp who approver r w' = (Inl e, w')) \<and> (\<exists>e. rejectRolloutByID inp who r w' = (Inl e, w')) \<and>
       r \<notin> set (ListK8sRolloutActionsDue n (rw_db w')) \<and> reconcileLeased env inp worker k w' = (None, w') \<and>
       (targetKey roll = targetKey r \<and> ro_Status roll \<in> {''approval_required'', ''approved''} \<longrightarrow>
          (\<exists>e. InsertK8sRolloutRequest ts act roll event (rw_db w') = (Inl e, rw_db w'))))"
proof -
  note ok = ledger_row [OF inv r(1)]
  from decide_rejects [OF a rowOk_request, of now adminID result] ok obtain c b where
    c: "decideK8sAction now adminID True (ro_ActionRequestID r) ''reject'' result (centerOf w) = (Inr ''rejected'', c)"
    "rd_rollouts (rw_db (withCenter c w)) = rd_rollouts (rw_db w)"
    "map_of (rd_actions (rw_db (withCenter c w))) (ro_ActionRequestID r) = Some b" "ac_Status b = ''rejected''" by blast
  have row: "map_of (rd_rollouts (rw_db (withCenter c w))) k = Some r" using c(2) r(1) by simp
  have "ro_StartedAt r = []" "ro_RollbackStatus r = []" using ok r(2) rowOk_started rowOk_no_rollback by auto
  then have st: "stranded (withCenter c w) k" using row c(3,4) ok r(2) by (simp add: stranded_def)
  from stranded_approve [OF st row] stranded_reject [OF st row] stranded_not_due [OF st row] stranded_worker [OF st]
    locked_target [OF row active_waiting [OF r(2,3)]] c(1) row
  show ?thesis by (intro exI [of _ c]) (simp add: Let_def)
qed

definition waitingRequest :: "string \<Rightarrow> string \<Rightarrow> K8sActionRequest" where
  "waitingRequest i st =
     \<lparr>ac_ID = i, ac_ClusterID = ''c1'', ac_Namespace = ''shop'', ac_ResourceKind = ''Deployment'', ac_ResourceName = ''web'',
      ac_Action = ''rollout_restart'', ac_Parameters = [], ac_RiskLevel = ''medium'', ac_Status = st, ac_RequestedBy = ''ann'',
      ac_ApprovedBy = [], ac_ExecutedBy = [], ac_Result = [], ac_DryRunDiff = [], ac_IdempotencyKey = ''k-'' @ i, ac_TargetUID = ''u-1'',
      ac_TargetResourceVersion = [], ac_CommandHash = [], ac_CreatedAt = ''t1'', ac_UpdatedAt = ''t1'', ac_ApprovedAt = [], ac_ExecutedAt = []\<rparr>"

definition waitingWorld :: rollout_world where
  "waitingWorld = \<lparr>rw_db = emptyDb\<lparr>rd_actions := [(''req-x'', waitingRequest ''req-x'' ''approval_required'')],
     rd_rollouts := [(''x'', waitingRollout ''x'' ''t1'')]\<rparr>, rw_services = [], rw_audit = []\<rparr>"

lemma single_ledger:
  assumes "rolloutRowOk r" and "ro_ID r = k" and "ro_ActionRequestID r = i" and "ac_ID a = i" and "ac_Action a = ''rollout_restart''"
    and "pairStatus (ac_Status a) (ro_Status r)"
  shows "ledgerInv (emptyDb\<lparr>rd_actions := [(i, a)], rd_rollouts := [(k, r)]\<rparr>)"
proof -
  have "linkedOk [(i, a)] r" using assms by (simp add: linkedOk_def)
  with assms show ?thesis
    by (auto simp: ledgerInv_def rollout_db_wf_def emptyDb_def keyedBy_def uniqueBy_def rolloutIndexes_def oneActivePerTarget_def
        numberedEvents_def podsDistinct_def)
qed

theorem action_reject_strands_rollout_witness:
  "\<exists>c. decideK8sAction ''t5'' ''bob'' True ''req-x'' ''reject'' [] (centerOf waitingWorld) = (Inr ''rejected'', c) \<and>
     (\<exists>e. rejectRolloutByID (scenePass 9 (CHR ''g'')) sceneOperator (waitingRollout ''x'' ''t1'') (withCenter c waitingWorld) =
        (Inl e, withCenter c waitingWorld)) \<and>
     (\<exists>e. InsertK8sRolloutRequest ''t9'' (waitingRequest ''req-y'' ''approval_required'') (waitingRollout ''y'' ''t9'')
            (rolloutEvent [] ''y'' [] [] [] []) (rw_db (withCenter c waitingWorld)) = (Inl e, rw_db (withCenter c waitingWorld)))"
proof -
  let ?x = "waitingRollout ''x'' ''t1''" and ?a = "waitingRequest ''req-x'' ''approval_required''"
  have ok: "rolloutRowOk ?x" "pairStatus ''approval_required'' ''approval_required''" by code_simp+
  have inv: "ledgerInv (rw_db waitingWorld)" unfolding waitingWorld_def rollout_world.select_convs
    by (rule single_ledger) (use ok in \<open>simp_all add: waitingRollout_def waitingRequest_def\<close>)
  have x: "map_of (rd_rollouts (rw_db waitingWorld)) ''x'' = Some ?x" "ro_Status ?x = ''approval_required''" "ro_ResourceUID ?x \<noteq> []"
    "ro_ActionRequestID ?x = ''req-x''" "targetKey (waitingRollout ''y'' ''t9'') = targetKey ?x"
    "ro_Status (waitingRollout ''y'' ''t9'') = ''approval_required''"
    by (simp_all add: waitingWorld_def waitingRollout_def targetKey_def)
  have a: "map_of (rd_actions (rw_db waitingWorld)) (ro_ActionRequestID ?x) = Some ?a" "awaitingDecision (ac_Status ?a)"
    by (simp_all add: waitingWorld_def waitingRollout_def waitingRequest_def awaitingDecision_def)
  show ?thesis
    using action_reject_strands_rollout [OF inv x(1-3) a, of "''t5''" "''bob''" "[]" "scenePass 9 (CHR ''g'')" sceneOperator "''bob''" 10 sceneEnv "''w''"
        "waitingRollout ''y'' ''t9''" "''t9''" "waitingRequest ''req-y'' ''approval_required''" "rolloutEvent [] ''y'' [] [] [] []"]
    unfolding Let_def x(4-6) by blast
qed

section \<open>Gaps of the checks\<close>

text \<open>The precheck takes a crashing pod of another namespace for one of the workload when the labels agree: ownership is
  decided by the labels alone.\<close>

definition crashingPod :: "string \<Rightarrow> K8sInventoryItem" where
  "crashingPod ns = emptyItem\<lparr>iv_Kind := ''Pod'', iv_Namespace := ns, iv_Name := ''web-1'', iv_Labels := [(''app'', ''web'')],
     iv_StatusObject := Some [(''containerStatuses'', GList [GMap [(''state'', GMap [(''waiting'', GMap [(''reason'', GStr ''CrashLoopBackOff'')])])]])]\<rparr>"

lemma foreign_pod_blocks:
  "hasBadOwnedPod sceneEnv (sceneTarget\<lparr>iv_Spec := [(''selector'', GMap [(''matchLabels'', GMap [(''app'', GStr ''web'')])])]\<rparr>) [crashingPod ''other'']"
  by code_simp

text \<open>A budget that selects the pods by a label of the pod template which the workload's own selector does not
  name is not seen, although it covers the pods and allows no disruption.\<close>

lemma template_label_budget_ignored:
  "\<not> pv_Found (pdbSafety sceneEnv
     (sceneTarget\<lparr>iv_Spec := [(''selector'', GMap [(''matchLabels'', GMap [(''app'', GStr ''web'')])]),
        (''template'', GMap [(''metadata'', GMap [(''labels'', GMap [(''app'', GStr ''web''), (''tier'', GStr ''front'')])])])]\<rparr>)
     [emptyItem\<lparr>iv_Kind := ''PodDisruptionBudget'', iv_Namespace := ''shop'', iv_Name := ''front'',
        iv_Spec := [(''selector'', GMap [(''matchLabels'', GMap [(''tier'', GStr ''front'')])])],
        iv_StatusObject := Some [(''disruptionsAllowed'', GInt 0)]\<rparr>])"
  by code_simp

text \<open>A timeout whose milliseconds pass 63 bits wraps to a negative number: the rollout times out in its first pass.\<close>

lemma huge_timeout_expires_at_once:
  assumes "ro_TimeoutSeconds r = 9223372036854776" and "0 \<le> ro_DurationMS r"
  shows "rolloutTimedOut r"
  using assms by (simp add: rolloutTimedOut_def wrap64_def)

end
